(* ===== verification/Js_Prelude.thy ===== *)
theory Js_Prelude
  imports Complex_Main
begin

section \<open>JavaScript values, strings and effects shared by the components\<close>

text \<open>
  What every component of the model uses of the language and its standard library:
  \<^item> JSON values (\<open>json\<close>), thrown values (\<open>js_err\<close>) and the expressions by which the
    sources read a message out of one;
  \<^item> the string methods the sources call. A \<open>string\<close> is a sequence of code units below
    256, one \<open>char\<close> each, so \<open>length\<close> and \<open>slice\<close> count what JavaScript counts;
  \<^item> \<open>||\<close>, \<open>??\<close> and truthiness on optional strings (\<open>undefined\<close> and \<open>null\<close> are both
    \<open>None\<close> where the source does not tell them apart);
  \<^item> effects. An async operation is a function from a state to either a thrown value or a
    result, and the state after it. The state of a component holds the log of the calls it
    made to code outside the repository; what such a call answers is a function of the log,
    so the answers may depend on everything that happened before.
\<close>

subsection \<open>Values and thrown errors\<close>

datatype json =
    JNull
  | JBool bool
  | JNum rat
  | JStr string
  | JArr "json list"
  | JObj "(string \<times> json) list"

text \<open>
  What a \<open>catch\<close> clause can bind: an \<open>Error\<close> with its message, an axios error with
  \<open>error.response?.data?.detail\<close> (\<open>None\<close> when one of the links is missing) and its
  message, or some other value, of which the sources use \<open>String(value)\<close> only.
\<close>

datatype js_err =
    ErrorObj string
  | AxiosErr "json option" string
  | ThrownValue string

definition is_axios_error :: "js_err \<Rightarrow> bool" where
  "is_axios_error e = (case e of AxiosErr _ _ \<Rightarrow> True | _ \<Rightarrow> False)"

text \<open>\<open>e instanceof Error ? e.message : fallback\<close>\<close>

definition error_message_or :: "js_err \<Rightarrow> string \<Rightarrow> string" where
  "error_message_or e fallback =
     (case e of ErrorObj m \<Rightarrow> m | AxiosErr _ m \<Rightarrow> m | ThrownValue _ \<Rightarrow> fallback)"

text \<open>\<open>err.message || fallback\<close> on a value of type \<open>any\<close>\<close>

definition any_message_or :: "js_err \<Rightarrow> string \<Rightarrow> string" where
  "any_message_or e fallback =
     (case e of ErrorObj m \<Rightarrow> (if m = [] then fallback else m)
      | AxiosErr _ m \<Rightarrow> (if m = [] then fallback else m)
      | ThrownValue _ \<Rightarrow> fallback)"

lemma any_message_nonempty: "fallback \<noteq> [] \<Longrightarrow> any_message_or e fallback \<noteq> []"
  by (cases e) (auto simp: any_message_or_def)

subsection \<open>Truthiness and defaults\<close>

definition truthy :: "string option \<Rightarrow> bool" where
  "truthy x = (case x of None \<Rightarrow> False | Some s \<Rightarrow> s \<noteq> [])"

definition js_or :: "string option \<Rightarrow> string \<Rightarrow> string" where
  "js_or x d = (case x of None \<Rightarrow> d | Some s \<Rightarrow> if s = [] then d else s)"

definition js_or_opt :: "string option \<Rightarrow> string option \<Rightarrow> string option" where
  "js_or_opt x y = (if truthy x then x else y)"

definition nullish :: "'a option \<Rightarrow> 'a \<Rightarrow> 'a" where
  "nullish x d = (case x of None \<Rightarrow> d | Some v \<Rightarrow> v)"

definition nullish_opt :: "'a option \<Rightarrow> 'a option \<Rightarrow> 'a option" where
  "nullish_opt x y = (case x of None \<Rightarrow> y | Some v \<Rightarrow> Some v)"

subsection \<open>Strings\<close>

definition starts_with :: "string \<Rightarrow> string \<Rightarrow> bool" where
  "starts_with s p = (take (length p) s = p)"

fun str_includes :: "string \<Rightarrow> string \<Rightarrow> bool" where
  "str_includes [] p = (p = [])"
| "str_includes (c # s) p = (starts_with (c # s) p \<or> str_includes s p)"

definition js_slice :: "nat \<Rightarrow> nat \<Rightarrow> 'a list \<Rightarrow> 'a list" where
  "js_slice a b s = take (b - a) (drop a s)"

definition lower_char :: "char \<Rightarrow> char" where
  "lower_char c =
     (let n = (of_char c :: nat) in
      if (65 \<le> n \<and> n \<le> 90) \<or> (192 \<le> n \<and> n \<le> 222 \<and> n \<noteq> 215) then char_of (n + 32) else c)"

definition to_lower :: "string \<Rightarrow> string" where
  "to_lower s = map lower_char s"

definition is_space :: "char \<Rightarrow> bool" where
  "is_space c = ((of_char c :: nat) \<in> {9, 10, 11, 12, 13, 32, 160})"

definition trim :: "string \<Rightarrow> string" where
  "trim s = rev (dropWhile is_space (rev (dropWhile is_space s)))"

definition pad_start :: "nat \<Rightarrow> char \<Rightarrow> string \<Rightarrow> string" where
  "pad_start n c s = replicate (n - length s) c @ s"

text \<open>\<open>s.replace(/\\/$/, '')\<close>\<close>

definition strip_slash :: "string \<Rightarrow> string" where
  "strip_slash s = (if s \<noteq> [] \<and> last s = CHR ''/'' then butlast s else s)"

text \<open>\<open>s.replace(p, r)\<close> for a string \<open>p\<close>: the first occurrence only\<close>

fun replace_first :: "string \<Rightarrow> string \<Rightarrow> string \<Rightarrow> string" where
  "replace_first p r [] = (if p = [] then r else [])"
| "replace_first p r (c # s) =
     (if starts_with (c # s) p then r @ drop (length p) (c # s)
      else c # replace_first p r s)"

fun join :: "string \<Rightarrow> string list \<Rightarrow> string" where
  "join sep [] = []"
| "join sep [x] = x"
| "join sep (x # y # ys) = x @ sep @ join sep (y # ys)"

text \<open>\<open>s.split(sep)\<close> for a separator that is not empty: \<open>cur\<close> is the piece read so far, reversed\<close>

function split_from :: "string \<Rightarrow> string \<Rightarrow> string \<Rightarrow> string list" where
  "split_from sep cur [] = [rev cur]"
| "split_from sep cur (c # cs) =
     (if sep \<noteq> [] \<and> starts_with (c # cs) sep then rev cur # split_from sep [] (drop (length sep) (c # cs))
      else split_from sep (c # cur) cs)"
  by pat_completeness auto
termination
proof (relation "measure (\<lambda>(_, _, s). length s)")
  fix sep cur :: string and c cs
  assume "sep \<noteq> [] \<and> starts_with (c # cs) sep"
  then have "0 < length sep" by simp
  then show "((sep, [], drop (length sep) (c # cs)), (sep, cur, c # cs)) \<in> measure (\<lambda>(_, _, s). length s)" by simp
qed simp_all

definition str_split :: "string \<Rightarrow> string \<Rightarrow> string list" where
  "str_split sep s = split_from sep [] s"

definition digit_char :: "nat \<Rightarrow> char" where
  "digit_char d = (if d < 10 then char_of (48 + d) else char_of (87 + d))"

text \<open>\<open>n.toString(base)\<close> for a natural number and a base from 2 to 36\<close>

function nat_to_string :: "nat \<Rightarrow> nat \<Rightarrow> string" where
  "nat_to_string b n =
     (if n < b \<or> b < 2 then [digit_char n] else nat_to_string b (n div b) @ [digit_char (n mod b)])"
  by pat_completeness auto
termination by (relation "measure snd") auto

declare nat_to_string.simps [simp del]

definition int_to_string :: "nat \<Rightarrow> int \<Rightarrow> string" where
  "int_to_string b i = (if i < 0 then CHR ''-'' # nat_to_string b (nat (- i)) else nat_to_string b (nat i))"

subsection \<open>Effects\<close>

type_synonym ('s, 'a) eff = "'s \<Rightarrow> (js_err + 'a) \<times> 's"

definition ret :: "'a \<Rightarrow> ('s, 'a) eff" where
  "ret x = (\<lambda>s. (Inr x, s))"

definition throw :: "js_err \<Rightarrow> ('s, 'a) eff" where
  "throw e = (\<lambda>s. (Inl e, s))"

definition bindE :: "('s, 'a) eff \<Rightarrow> ('a \<Rightarrow> ('s, 'b) eff) \<Rightarrow> ('s, 'b) eff" where
  "bindE m k = (\<lambda>s. case m s of (Inl e, s') \<Rightarrow> (Inl e, s') | (Inr x, s') \<Rightarrow> k x s')"

definition thenE :: "('s, 'a) eff \<Rightarrow> ('s, 'b) eff \<Rightarrow> ('s, 'b) eff" where
  "thenE m k = bindE m (\<lambda>_. k)"

definition lift :: "js_err + 'a \<Rightarrow> ('s, 'a) eff" where
  "lift r = (\<lambda>s. (r, s))"

definition modify :: "('s \<Rightarrow> 's) \<Rightarrow> ('s, unit) eff" where
  "modify f = (\<lambda>s. (Inr (), f s))"

definition gets :: "('s \<Rightarrow> 'a) \<Rightarrow> ('s, 'a) eff" where
  "gets f = (\<lambda>s. (Inr (f s), s))"

text \<open>\<open>try { m } catch (e) { h }\<close> and \<open>try { m } finally { f }\<close> (no \<open>finally\<close> of the sources throws)\<close>

definition catchE :: "('s, 'a) eff \<Rightarrow> (js_err \<Rightarrow> ('s, 'a) eff) \<Rightarrow> ('s, 'a) eff" where
  "catchE m h = (\<lambda>s. case m s of (Inl e, s') \<Rightarrow> h e s' | (Inr x, s') \<Rightarrow> (Inr x, s'))"

definition finallyE :: "('s, 'a) eff \<Rightarrow> ('s \<Rightarrow> 's) \<Rightarrow> ('s, 'a) eff" where
  "finallyE m f = (\<lambda>s. case m s of (r, s') \<Rightarrow> (r, f s'))"

lemma ret_apply [simp]: "ret x s = (Inr x, s)"
  by (simp add: ret_def)

lemma throw_apply [simp]: "throw e s = (Inl e, s)"
  by (simp add: throw_def)

lemma lift_apply [simp]: "lift r s = (r, s)"
  by (simp add: lift_def)

lemma modify_apply [simp]: "modify f s = (Inr (), f s)"
  by (simp add: modify_def)

lemma gets_apply [simp]: "gets f s = (Inr (f s), s)"
  by (simp add: gets_def)

lemma bindE_apply:
  "bindE m k s = (case m s of (Inl e, s') \<Rightarrow> (Inl e, s') | (Inr x, s') \<Rightarrow> k x s')"
  by (simp add: bindE_def)

lemma bindE_Inr [simp]: "m s = (Inr x, s') \<Longrightarrow> bindE m k s = k x s'"
  by (simp add: bindE_def)

lemma bindE_Inl [simp]: "m s = (Inl e, s') \<Longrightarrow> bindE m k s = (Inl e, s')"
  by (simp add: bindE_def)

lemma thenE_Inr [simp]: "m s = (Inr x, s') \<Longrightarrow> thenE m k s = k s'"
  by (simp add: thenE_def)

lemma thenE_Inl [simp]: "m s = (Inl e, s') \<Longrightarrow> thenE m k s = (Inl e, s')"
  by (simp add: thenE_def)

lemma catchE_Inr [simp]: "m s = (Inr x, s') \<Longrightarrow> catchE m h s = (Inr x, s')"
  by (simp add: catchE_def)

lemma catchE_Inl [simp]: "m s = (Inl e, s') \<Longrightarrow> catchE m h s = h e s'"
  by (simp add: catchE_def)

lemma finallyE_apply [simp]: "m s = (r, s') \<Longrightarrow> finallyE m f s = (r, f s')"
  by (simp add: finallyE_def)

lemma bindE_assoc: "bindE (bindE m f) g = bindE m (\<lambda>x. bindE (f x) g)"
  by (auto simp: bindE_def fun_eq_iff split: prod.splits sum.splits)

lemma bindE_EqInr:
  "bindE m k s = (Inr y, s'') \<longleftrightarrow> (\<exists>x s'. m s = (Inr x, s') \<and> k x s' = (Inr y, s''))"
  by (auto simp: bindE_def split: prod.splits sum.splits)

subsection \<open>Lemmas on strings\<close>

lemma starts_with_append [simp]: "starts_with (p @ s) p"
  by (simp add: starts_with_def)

lemma starts_withE: "starts_with s p \<Longrightarrow> (\<And>t. s = p @ t \<Longrightarrow> P) \<Longrightarrow> P"
  unfolding starts_with_def by (metis append_take_drop_id)

lemma starts_with_iff: "starts_with s p \<longleftrightarrow> (\<exists>t. s = p @ t)"
  by (auto elim: starts_withE)

lemma split_from_piece:
  "hd sep \<notin> set a \<Longrightarrow> sep \<noteq> [] \<Longrightarrow> split_from sep cur (a @ s) = split_from sep (rev a @ cur) s"
proof (induction a arbitrary: cur)
  case (Cons c a)
  then have "\<not> starts_with (c # (a @ s)) sep" by (auto simp: starts_with_iff Cons_eq_append_conv)
  with Cons show ?case by simp
qed simp

lemma split_from_sep: "sep \<noteq> [] \<Longrightarrow> split_from sep cur (sep @ s) = rev cur # split_from sep [] s"
proof (cases sep)
  case (Cons c cs)
  have "starts_with (c # cs @ s) (c # cs)" using starts_with_append [of "c # cs" s] by simp
  with Cons show ?thesis by simp
qed simp

text \<open>Splitting undoes joining when no piece holds the separator's first character.\<close>

lemma split_join:
  assumes "sep \<noteq> []" "list_all (\<lambda>x. hd sep \<notin> set x) xs" "xs \<noteq> []"
  shows "str_split sep (join sep xs) = xs"
  using assms(2,3) unfolding str_split_def
proof (induction xs rule: induct_list012)
  case (2 x)
  then show ?case using split_from_piece [of sep x "[]" "[]"] assms(1) by simp
next
  case (3 x y ys)
  then show ?case using split_from_piece [of sep x "[]" "sep @ join sep (y # ys)"] assms(1) by (simp add: split_from_sep)
qed simp

lemma split_from_ne [simp]: "split_from sep cur s \<noteq> []"
  by (induction sep cur s rule: split_from.induct) simp_all

lemma join_Cons: "ys \<noteq> [] \<Longrightarrow> join sep (x # ys) = x @ sep @ join sep ys"
  by (cases ys) simp_all

lemma join_split_from: "join sep (split_from sep cur s) = rev cur @ s"
proof (induction sep cur s rule: split_from.induct)
  case (2 sep cur c cs)
  show ?case
  proof (cases "sep \<noteq> [] \<and> starts_with (c # cs) sep")
    case True
    then obtain t where "c # cs = sep @ t" by (auto simp: starts_with_iff)
    with True 2 show ?thesis by (simp add: join_Cons split_from_sep)
  next
    case False
    then have "split_from sep cur (c # cs) = split_from sep (c # cur) cs" by auto
    with False 2 show ?thesis by simp
  qed
qed simp

lemma join_split: "join sep (str_split sep s) = s"
  by (simp add: str_split_def join_split_from)

lemma length_pad_start: "length (pad_start n c s) = max n (length s)"
  by (simp add: pad_start_def max_def)

lemma strip_slash_length: "length (strip_slash s) \<le> length s"
  by (simp add: strip_slash_def)

lemma length_to_lower [simp]: "length (to_lower s) = length s"
  by (simp add: to_lower_def)

lemma lower_char_idem [simp]: "lower_char (lower_char c) = lower_char c"
proof -
  define n where "n = (of_char c :: nat)"
  have n: "n < 256" by (simp add: n_def)
  show ?thesis
  proof (cases "(65 \<le> n \<and> n \<le> 90) \<or> (192 \<le> n \<and> n \<le> 222 \<and> n \<noteq> 215)")
    case True
    then have low: "lower_char c = char_of (n + 32)"
      by (auto simp: lower_char_def Let_def n_def)
    from True n have "(of_char (char_of (n + 32) :: char) :: nat) = n + 32"
      by (auto simp: of_char_of)
    with True low show ?thesis
      by (auto simp: lower_char_def [of "char_of (n + 32)"] Let_def)
  next
    case False
    then have "lower_char c = c" by (auto simp: lower_char_def Let_def n_def)
    then show ?thesis by simp
  qed
qed

lemma to_lower_idem [simp]: "to_lower (to_lower s) = to_lower s"
  by (simp add: to_lower_def)

lemma js_or_nonempty: "d \<noteq> [] \<Longrightarrow> js_or x d \<noteq> []"
  by (simp add: js_or_def split: option.splits)

lemma truthy_iff: "truthy x \<longleftrightarrow> (\<exists>c s. x = Some (c # s))"
  by (cases x) (auto simp: truthy_def neq_Nil_conv)

lemma replace_first_other:
  "p \<noteq> [] \<Longrightarrow> \<not> str_includes s p \<Longrightarrow> replace_first p r s = s"
  by (induction s) auto

end
