(* ===== verification/Js_BigInt.thy ===== *)
theory Js_BigInt
  imports Js_Prelude
begin

section \<open>BigInt: parsing and printing\<close>

text \<open>
  \<open>BigInt(s)\<close> on strings, \<open>n.toString(16)\<close> and \<open>n.toString()\<close>, and the division
  of bigints, which truncates towards zero. The sources convert ciphertext handles and keys
  between bigints and strings with these, so their round trip is proved here once.
\<close>

definition digit_val :: "nat \<Rightarrow> char \<Rightarrow> nat option" where
  "digit_val b c =
     (let n = (of_char c :: nat);
          d = (if 48 \<le> n \<and> n \<le> 57 then n - 48
               else if 97 \<le> n \<and> n \<le> 122 then n - 87
               else if 65 \<le> n \<and> n \<le> 90 then n - 55 else 99)
      in if d < b then Some d else None)"

fun parse_digits :: "nat \<Rightarrow> nat \<Rightarrow> string \<Rightarrow> nat option" where
  "parse_digits b acc [] = Some acc"
| "parse_digits b acc (c # s) =
     (case digit_val b c of None \<Rightarrow> None | Some d \<Rightarrow> parse_digits b (acc * b + d) s)"

definition parse_nat :: "nat \<Rightarrow> string \<Rightarrow> nat option" where
  "parse_nat b s = (if s = [] then None else parse_digits b 0 s)"

text \<open>\<open>StringToBigInt\<close> of the language: white space is trimmed, the empty string is 0, a
  \<open>0x\<close>, \<open>0o\<close> or \<open>0b\<close> prefix takes no sign.\<close>

definition parse_bigint :: "string \<Rightarrow> int option" where
  "parse_bigint s =
     (let t = trim s; p = take 2 t in
      if t = [] then Some 0
      else if p = ''0x'' \<or> p = ''0X'' then map_option int (parse_nat 16 (drop 2 t))
      else if p = ''0o'' \<or> p = ''0O'' then map_option int (parse_nat 8 (drop 2 t))
      else if p = ''0b'' \<or> p = ''0B'' then map_option int (parse_nat 2 (drop 2 t))
      else if hd t = CHR ''-'' then map_option (\<lambda>n. - int n) (parse_nat 10 (tl t))
      else if hd t = CHR ''+'' then map_option int (parse_nat 10 (tl t))
      else map_option int (parse_nat 10 t))"

definition js_BigInt :: "string \<Rightarrow> js_err + int" where
  "js_BigInt s = (case parse_bigint s of
      None \<Rightarrow> Inl (ErrorObj (''Cannot convert '' @ s @ '' to a BigInt''))
    | Some i \<Rightarrow> Inr i)"

text \<open>\<open>a / b\<close> on bigints: a RangeError for a zero divisor, truncation towards zero otherwise\<close>

definition bigint_div :: "int \<Rightarrow> int \<Rightarrow> js_err + int" where
  "bigint_div a b = (if b = 0 then Inl (ErrorObj ''Division by zero'')
                     else Inr (sgn a * sgn b * (\<bar>a\<bar> div \<bar>b\<bar>)))"

definition int_str :: "int \<Rightarrow> string" where
  "int_str i = int_to_string 10 i"

definition nat_str :: "nat \<Rightarrow> string" where
  "nat_str n = nat_to_string 10 n"

subsection \<open>Digits of a fixed width\<close>

fun fixed_digits :: "nat \<Rightarrow> nat \<Rightarrow> nat \<Rightarrow> string" where
  "fixed_digits b 0 n = []"
| "fixed_digits b (Suc k) n = fixed_digits b k (n div b) @ [digit_char (n mod b)]"

lemma length_fixed_digits [simp]: "length (fixed_digits b k n) = k"
  by (induction k arbitrary: n) auto

lemma of_digit_char: "d < 36 \<Longrightarrow> (of_char (digit_char d) :: nat) = (if d < 10 then 48 + d else 87 + d)"
  by (simp add: digit_char_def of_char_of)

lemma digit_val_digit_char [simp]:
  assumes "d < b" "b \<le> 36" shows "digit_val b (digit_char d) = Some d"
proof -
  from assms have "d < 36" by simp
  from of_digit_char [OF this] assms show ?thesis
    by (simp add: digit_val_def)
qed

lemma parse_digits_append:
  "parse_digits b acc (xs @ ys) =
     (case parse_digits b acc xs of None \<Rightarrow> None | Some a \<Rightarrow> parse_digits b a ys)"
  by (induction xs arbitrary: acc) (auto split: option.splits)

lemma parse_fixed_digits:
  assumes b: "0 < b" "b \<le> 36"
  shows "n < b ^ k \<Longrightarrow> parse_digits b acc (fixed_digits b k n) = Some (acc * b ^ k + n)"
proof (induction k arbitrary: n)
  case 0
  then show ?case by simp
next
  case (Suc k)
  from Suc.prems have "n div b < b ^ k"
    using b by (simp add: less_mult_imp_div_less mult.commute)
  then have "parse_digits b acc (fixed_digits b k (n div b)) = Some (acc * b ^ k + n div b)"
    by (rule Suc.IH)
  with b show ?case
    by (simp add: parse_digits_append algebra_simps)
qed

lemma nat_to_string_small: "n < b \<Longrightarrow> nat_to_string b n = [digit_char n]"
  by (subst nat_to_string.simps) simp

lemma nat_to_string_step:
  "2 \<le> b \<Longrightarrow> b \<le> n \<Longrightarrow> nat_to_string b n = nat_to_string b (n div b) @ [digit_char (n mod b)]"
  by (subst nat_to_string.simps) simp

lemma nat_to_string_not_Nil [simp]: "nat_to_string b n \<noteq> []"
  by (subst nat_to_string.simps) simp

text \<open>Padding to \<open>k\<close> places gives exactly the \<open>k\<close>-digit representation.\<close>

lemma length_nat_to_string:
  assumes "2 \<le> b" shows "0 < k \<Longrightarrow> n < b ^ k \<Longrightarrow> length (nat_to_string b n) \<le> k"
proof (induction k arbitrary: n)
  case 0
  then show ?case by simp
next
  case (Suc k)
  show ?case
  proof (cases "n < b")
    case True
    then show ?thesis by (simp add: nat_to_string_small)
  next
    case False
    with Suc.prems assms have k: "0 < k" by (cases k) auto
    from Suc.prems assms have "n div b < b ^ k"
      by (simp add: less_mult_imp_div_less mult.commute)
    with Suc.IH k have "length (nat_to_string b (n div b)) \<le> k" by simp
    with False assms show ?thesis by (simp add: nat_to_string_step)
  qed
qed

lemma fixed_digits_0: "fixed_digits b k 0 = replicate k (digit_char 0)"
  by (induction k) (auto simp: replicate_append_same)

lemma pad_nat_to_string:
  assumes "2 \<le> b" shows "0 < k \<Longrightarrow> n < b ^ k \<Longrightarrow> pad_start k (CHR ''0'') (nat_to_string b n) = fixed_digits b k n"
proof (induction k arbitrary: n)
  case 0
  then show ?case by simp
next
  case (Suc k)
  have zero: "digit_char 0 = CHR ''0''" by code_simp
  show ?case
  proof (cases "n < b")
    case True
    with assms have "fixed_digits b (Suc k) n = fixed_digits b k 0 @ [digit_char n]" by simp
    with True show ?thesis
      by (simp add: nat_to_string_small pad_start_def fixed_digits_0 zero)
  next
    case False
    with Suc.prems assms have k: "0 < k" by (cases k) auto
    from Suc.prems assms have div: "n div b < b ^ k"
      by (simp add: less_mult_imp_div_less mult.commute)
    from Suc.IH [OF k div] have "pad_start k (CHR ''0'') (nat_to_string b (n div b)) = fixed_digits b k (n div b)" .
    with False assms show ?thesis
      by (simp add: nat_to_string_step pad_start_def)
  qed
qed

lemma nat_to_string_fixed:
  assumes "2 \<le> b" shows "\<exists>k > 0. n < b ^ k \<and> nat_to_string b n = fixed_digits b k n"
proof (induction n rule: less_induct)
  case (less n)
  show ?case
  proof (cases "n < b")
    case True
    then show ?thesis by (intro exI [of _ 1]) (simp add: nat_to_string_small)
  next
    case False
    with assms have "n div b < n" by simp
    from less.IH [OF this] obtain k where k: "k > 0" "n div b < b ^ k"
      "nat_to_string b (n div b) = fixed_digits b k (n div b)" by blast
    from k(2) assms have "n < b ^ Suc k"
      by (simp add: div_less_iff_less_mult mult.commute)
    with k False assms show ?thesis
      by (intro exI [of _ "Suc k"]) (simp add: nat_to_string_step)
  qed
qed

theorem parse_nat_to_string:
  assumes "2 \<le> b" "b \<le> 36" shows "parse_nat b (nat_to_string b n) = Some n"
proof -
  from nat_to_string_fixed [OF assms(1)] obtain k where k: "n < b ^ k" "nat_to_string b n = fixed_digits b k n"
    by blast
  from parse_fixed_digits [of b n k 0] k assms have "parse_digits b 0 (nat_to_string b n) = Some n"
    by simp
  then show ?thesis by (simp add: parse_nat_def)
qed

subsection \<open>The decimal round trip\<close>

lemma set_fixed_digits: "0 < b \<Longrightarrow> set (fixed_digits b k n) \<subseteq> digit_char ` {..<b}"
  by (induction k arbitrary: n) auto

lemma set_nat_to_string: "2 \<le> b \<Longrightarrow> set (nat_to_string b n) \<subseteq> digit_char ` {..<b}"
  using nat_to_string_fixed [of b n] set_fixed_digits [of b _ n] by fastforce

lemma decimal_char: "c \<in> digit_char ` {..<10} \<Longrightarrow> 48 \<le> (of_char c :: nat) \<and> (of_char c :: nat) \<le> 57"
  by (auto simp: of_digit_char)

lemma trim_id: "\<forall>c \<in> set s. \<not> is_space c \<Longrightarrow> trim s = s"
proof -
  assume *: "\<forall>c \<in> set s. \<not> is_space c"
  have keep: "\<forall>c \<in> set xs. \<not> is_space c \<Longrightarrow> dropWhile is_space xs = xs" for xs
    by (cases xs) auto
  from * show ?thesis by (simp add: trim_def keep)
qed

lemma parse_bigint_decimal:
  assumes "s \<noteq> []" "\<forall>c \<in> set s. 48 \<le> (of_char c :: nat) \<and> (of_char c :: nat) \<le> 57"
  shows "parse_bigint s = map_option int (parse_nat 10 s)"
proof -
  have "\<forall>c \<in> set s. \<not> is_space c" using assms(2) by (force simp: is_space_def)
  then have trim: "trim s = s" by (rule trim_id)
  obtain c t where s: "s = c # t" using assms(1) by (cases s) auto
  have c: "48 \<le> (of_char c :: nat) \<and> (of_char c :: nat) \<le> 57" using assms(2) s by simp
  then have hd: "c \<noteq> CHR ''-''" "c \<noteq> CHR ''+''" by auto
  have second: "t = d # u \<Longrightarrow> d \<notin> {CHR ''x'', CHR ''X'', CHR ''o'', CHR ''O'', CHR ''b'', CHR ''B''}" for d u
    using assms(2) s by force
  have "take 2 s \<notin> {''0x'', ''0X'', ''0o'', ''0O'', ''0b'', ''0B''}"
    using second s by (cases t) auto
  with trim s hd show ?thesis by (auto simp: parse_bigint_def Let_def)
qed

theorem bigint_of_nat_str: "js_BigInt (nat_str n) = Inr (int n)"
proof -
  have "set (nat_to_string 10 n) \<subseteq> digit_char ` {..<10}"
    by (rule set_nat_to_string) simp
  then have "\<forall>c \<in> set (nat_to_string 10 n). 48 \<le> (of_char c :: nat) \<and> (of_char c :: nat) \<le> 57"
    by (meson decimal_char subsetD)
  then have "parse_bigint (nat_str n) = Some (int n)"
    by (simp add: nat_str_def parse_bigint_decimal parse_nat_to_string)
  then show ?thesis by (simp add: js_BigInt_def)
qed

theorem bigint_of_int_str: "0 \<le> i \<Longrightarrow> js_BigInt (int_str i) = Inr i"
  using bigint_of_nat_str [of "nat i"] by (simp add: int_str_def int_to_string_def nat_str_def)

end
