(* ===== verification/Js_World.thy ===== *)
theory Js_World
  imports Js_BigInt
begin

section \<open>Calls to the outside, and JSON from it\<close>

text \<open>
  An operation runs in a state \<open>(lg, x)\<close>: the log \<open>lg\<close> lists the calls made so far to code outside
  the repository (HTTP, chain, CoFHE, wallet), in order, and \<open>x\<close> is the component's own state.
  \<open>call ask c\<close> records \<open>c\<close> and answers \<open>ask lg\<close>: the environment may answer differently
  each time. Theorems quantify over the environment.
\<close>

type_synonym ('c, 'x, 'a) io = "('c list \<times> 'x, 'a) eff"

definition call :: "('c list \<Rightarrow> js_err + 'a) \<Rightarrow> 'c \<Rightarrow> ('c, 'x, 'a) io" where
  "call ask c = (\<lambda>s. (ask (fst s), (fst s @ [c], snd s)))"

definition update :: "('x \<Rightarrow> 'x) \<Rightarrow> ('c, 'x, unit) io" where
  "update f = (\<lambda>s. (Inr (), (fst s, f (snd s))))"

definition getting :: "('x \<Rightarrow> 'a) \<Rightarrow> ('c, 'x, 'a) io" where
  "getting f = (\<lambda>s. (Inr (f (snd s)), s))"

lemma call_apply [simp]: "call ask c (lg, x) = (ask lg, (lg @ [c], x))"
  by (simp add: call_def)

lemma update_apply [simp]: "update f (lg, x) = (Inr (), (lg, f x))"
  by (simp add: update_def)

lemma getting_apply [simp]: "getting f (lg, x) = (Inr (f x), (lg, x))"
  by (simp add: getting_def)

lemma bindE_call:
  "bindE (call ask c) k (lg, x) =
     (case ask lg of Inl e \<Rightarrow> (Inl e, (lg @ [c], x)) | Inr r \<Rightarrow> k r (lg @ [c], x))"
  by (auto simp: bindE_def split: sum.splits)

lemma thenE_call:
  "thenE (call ask c) k (lg, x) =
     (case ask lg of Inl e \<Rightarrow> (Inl e, (lg @ [c], x)) | Inr r \<Rightarrow> k (lg @ [c], x))"
  by (auto simp: thenE_def bindE_def split: sum.splits)

lemma bindE_update [simp]: "bindE (update f) k (lg, x) = k () (lg, f x)"
  by (simp add: bindE_def)

lemma thenE_update [simp]: "thenE (update f) k (lg, x) = k (lg, f x)"
  by (simp add: thenE_def)

lemma bindE_getting [simp]: "bindE (getting f) k (lg, x) = k (f x) (lg, x)"
  by (simp add: bindE_def)

lemma bindE_ret [simp]: "bindE (ret v) k s = k v s"
  by (simp add: bindE_def)

lemma bindE_lift [simp]: "bindE (lift r) k s = (case r of Inl e \<Rightarrow> (Inl e, s) | Inr v \<Rightarrow> k v s)"
  by (simp add: bindE_def split: sum.splits)

lemma bindE_throw [simp]: "bindE (throw e) k s = (Inl e, s)"
  by (simp add: bindE_def)

lemma catchE_apply:
  "catchE m h s = (case m s of (Inl e, s') \<Rightarrow> h e s' | (Inr x, s') \<Rightarrow> (Inr x, s'))"
  by (simp add: catchE_def)

lemma bindE_lift_Inr: "bindE (lift r) k s = (Inr y, s') \<longleftrightarrow> (\<exists>v. r = Inr v \<and> k v s = (Inr y, s'))"
  by (auto simp: bindE_def split: sum.splits)

lemma bindE_call_Inr:
  "bindE (call ask c) k (lg, x) = (Inr y, s') \<longleftrightarrow> (\<exists>v. ask lg = Inr v \<and> k v (lg @ [c], x) = (Inr y, s'))"
  by (auto simp: bindE_call split: sum.splits)

lemma thenE_call_Inr:
  "thenE (call ask c) k (lg, x) = (Inr y, s') \<longleftrightarrow> (\<exists>v. ask lg = Inr v \<and> k (lg @ [c], x) = (Inr y, s'))"
  by (auto simp: thenE_call split: sum.splits)

lemma bindE_thenE: "bindE (thenE m k) f = thenE m (bindE k f)"
  by (simp add: thenE_def bindE_assoc)

lemma thenE_throw [simp]: "thenE m (throw e) s \<noteq> (Inr y, s')"
  by (auto simp: thenE_def bindE_def split: prod.splits sum.splits)

text \<open>What a successful run went through, call by call (with \<open>bindE_lift\<close> deleted from the simp set)\<close>

lemmas run_Inr = bindE_lift_Inr bindE_call_Inr thenE_call_Inr bindE_assoc bindE_thenE

subsection \<open>What an operation adds to the log\<close>

text \<open>\<open>adds P m\<close>: \<open>m\<close> keeps the log and appends only calls that satisfy \<open>P\<close>. The rules follow
  the structure of the operations and are collected in \<open>adds_rules\<close>.\<close>

named_theorems adds_rules

definition adds :: "('c \<Rightarrow> bool) \<Rightarrow> ('c, 'x, 'a) io \<Rightarrow> bool" where
  "adds P m = (\<forall>lg x. \<exists>new. fst (snd (m (lg, x))) = lg @ new \<and> list_all P new)"

lemma addsI: "(\<And>lg x. \<exists>new. fst (snd (m (lg, x))) = lg @ new \<and> list_all P new) \<Longrightarrow> adds P m"
  by (simp add: adds_def)

lemma addsD: "adds P m \<Longrightarrow> \<exists>new. fst (snd (m (lg, x))) = lg @ new \<and> list_all P new"
  by (simp add: adds_def)

lemma addsE:
  assumes "adds P m" "m (lg, x) = (r, (lg', x'))"
  obtains new where "lg' = lg @ new" "list_all P new"
  using addsD [OF assms(1), of lg x] assms(2) by auto

lemma adds_base [adds_rules]: "adds P (ret v)" "adds P (throw e)" "adds P (lift r)" "adds P (update f)" "adds P (getting g)"
  by (simp_all add: adds_def)

lemma adds_call [adds_rules]: "P c \<Longrightarrow> adds P (call ask c)"
  by (simp add: adds_def)

lemma adds_bind [adds_rules]:
  assumes "adds P m" "\<And>v. adds P (k v)" shows "adds P (bindE m k)"
proof (rule addsI)
  fix lg x
  obtain r lg' x' where m: "m (lg, x) = (r, (lg', x'))" by (metis surj_pair)
  then obtain new where new: "lg' = lg @ new" "list_all P new" using addsD [OF assms(1), of lg x] by auto
  show "\<exists>new. fst (snd (bindE m k (lg, x))) = lg @ new \<and> list_all P new"
  proof (cases r)
    case (Inr v)
    then obtain more where "fst (snd (k v (lg', x'))) = lg' @ more" "list_all P more"
      using addsD [OF assms(2) [of v], of lg' x'] by blast
    with m new Inr show ?thesis by (simp add: bindE_def)
  next
    case (Inl v)
    with m new show ?thesis by (simp add: bindE_def)
  qed
qed

lemma adds_then [adds_rules]: "adds P m \<Longrightarrow> adds P k \<Longrightarrow> adds P (thenE m k)"
  by (simp add: thenE_def adds_bind)

lemma adds_catch [adds_rules]:
  assumes "adds P m" "\<And>e. adds P (h e)" shows "adds P (catchE m h)"
proof (rule addsI)
  fix lg x
  obtain r lg' x' where m: "m (lg, x) = (r, (lg', x'))" by (metis surj_pair)
  then obtain new where new: "lg' = lg @ new" "list_all P new" using addsD [OF assms(1), of lg x] by auto
  show "\<exists>new. fst (snd (catchE m h (lg, x))) = lg @ new \<and> list_all P new"
  proof (cases r)
    case (Inl v)
    then obtain more where "fst (snd (h v (lg', x'))) = lg' @ more" "list_all P more"
      using addsD [OF assms(2) [of v], of lg' x'] by blast
    with m new Inl show ?thesis by (simp add: catchE_def)
  next
    case (Inr v)
    with m new show ?thesis by (simp add: catchE_def)
  qed
qed

lemma adds_cases [adds_rules]:
  "(b \<Longrightarrow> adds P m) \<Longrightarrow> (\<not> b \<Longrightarrow> adds P m') \<Longrightarrow> adds P (if b then m else m')"
  "(opt = None \<Longrightarrow> adds P m) \<Longrightarrow> (\<And>v. opt = Some v \<Longrightarrow> adds P (k v)) \<Longrightarrow> adds P (case opt of None \<Rightarrow> m | Some v \<Rightarrow> k v)"
  "(\<And>y z. pr = (y, z) \<Longrightarrow> adds P (k2 y z)) \<Longrightarrow> adds P (case pr of (y, z) \<Rightarrow> k2 y z)"
  by (auto split: option.splits prod.splits)

lemma adds_mono: "adds P m \<Longrightarrow> (\<And>c. P c \<Longrightarrow> Q c) \<Longrightarrow> adds Q m"
  unfolding adds_def by (metis list_all_iff)

subsection \<open>Parts of a state, and \<open>finally\<close>\<close>

text \<open>An operation of a component inside a larger state, and \<open>try { m } finally { f }\<close> on the state\<close>

definition zoom :: "('y \<Rightarrow> 'x) \<Rightarrow> ('x \<Rightarrow> 'y \<Rightarrow> 'y) \<Rightarrow> ('c, 'x, 'a) io \<Rightarrow> ('c, 'y, 'a) io" where
  "zoom g p m = (\<lambda>s. case m (fst s, g (snd s)) of (r, s') \<Rightarrow> (r, (fst s', p (snd s') (snd s))))"

definition finally_do :: "('x \<Rightarrow> 'x) \<Rightarrow> ('c, 'x, 'a) io \<Rightarrow> ('c, 'x, 'a) io" where
  "finally_do f m = finallyE m (\<lambda>s. (fst s, f (snd s)))"

lemma zoom_apply: "m (lg, g y) = (r, (lg', x')) \<Longrightarrow> zoom g p m (lg, y) = (r, (lg', p x' y))"
  by (simp add: zoom_def)

lemma finally_do_apply: "m (lg, x) = (r, (lg', x')) \<Longrightarrow> finally_do f m (lg, x) = (r, (lg', f x'))"
  by (simp add: finally_do_def finallyE_def)

lemma adds_zoom [adds_rules]: "adds P m \<Longrightarrow> adds P (zoom g p m)"
  by (rule addsI) (auto simp: zoom_def split: prod.splits elim: addsE)

lemma adds_finally_do [adds_rules]: "adds P m \<Longrightarrow> adds P (finally_do f m)"
  by (rule addsI) (auto simp: finally_do_def finallyE_def split: prod.splits elim: addsE)

subsection \<open>Weakest preconditions\<close>

text \<open>\<open>wp m Q E lg x\<close>: run from \<open>(lg, x)\<close>, \<open>m\<close> returns with \<open>Q\<close> or throws with \<open>E\<close>. The rules in
  \<open>wp_simps\<close> push it through the operators, call by call; \<open>wp_conseq\<close> uses what is known of a part.\<close>

named_theorems wp_simps

definition wp :: "('c, 'x, 'a) io \<Rightarrow> ('a \<Rightarrow> 'c list \<Rightarrow> 'x \<Rightarrow> bool) \<Rightarrow> (js_err \<Rightarrow> 'c list \<Rightarrow> 'x \<Rightarrow> bool)
    \<Rightarrow> 'c list \<Rightarrow> 'x \<Rightarrow> bool" where
  "wp m Q E lg x = (case m (lg, x) of (Inl e, (lg', x')) \<Rightarrow> E e lg' x' | (Inr v, (lg', x')) \<Rightarrow> Q v lg' x')"

lemma wp_ret [wp_simps]: "wp (ret v) Q E = (\<lambda>lg x. Q v lg x)"
  by (simp add: fun_eq_iff wp_def)

lemma wp_throw [wp_simps]: "wp (throw e) Q E = (\<lambda>lg x. E e lg x)"
  by (simp add: fun_eq_iff wp_def)

lemma wp_update [wp_simps]: "wp (update f) Q E = (\<lambda>lg x. Q () lg (f x))"
  by (simp add: fun_eq_iff wp_def)

lemma wp_getting [wp_simps]: "wp (getting g) Q E = (\<lambda>lg x. Q (g x) lg x)"
  by (simp add: fun_eq_iff wp_def)

lemmas wp_basic = wp_ret wp_throw wp_update wp_getting

lemma wp_lift [wp_simps]: "wp (lift r) Q E = (\<lambda>lg x. (case r of Inl e \<Rightarrow> E e lg x | Inr v \<Rightarrow> Q v lg x))"
  by (simp add: fun_eq_iff wp_def split: sum.splits)

lemma wp_call [wp_simps]:
  "wp (call ask c) Q E = (\<lambda>lg x. (case ask lg of Inl e \<Rightarrow> E e (lg @ [c]) x | Inr v \<Rightarrow> Q v (lg @ [c]) x))"
  by (simp add: fun_eq_iff wp_def split: sum.splits)

lemma wp_bind [wp_simps]: "wp (bindE m k) Q E = (\<lambda>lg x. wp m (\<lambda>v. wp (k v) Q E) E lg x)"
  by (simp add: fun_eq_iff wp_def bindE_def split: prod.splits sum.splits)

lemma wp_then [wp_simps]: "wp (thenE m k) Q E = (\<lambda>lg x. wp m (\<lambda>v. wp k Q E) E lg x)"
  by (simp add: thenE_def wp_bind)

lemma wp_catch [wp_simps]: "wp (catchE m h) Q E = (\<lambda>lg x. wp m Q (\<lambda>e. wp (h e) Q E) lg x)"
  by (simp add: fun_eq_iff wp_def catchE_def split: prod.splits sum.splits)

lemma wp_finally [wp_simps]:
  "wp (finally_do f m) Q E = (\<lambda>lg x. wp m (\<lambda>v lg x. Q v lg (f x)) (\<lambda>e lg x. E e lg (f x)) lg x)"
  by (simp add: fun_eq_iff wp_def finally_do_def finallyE_def split: prod.splits sum.splits)

lemma wp_zoom [wp_simps]:
  "wp (zoom g p m) Q E = (\<lambda>lg y. wp m (\<lambda>v lg x. Q v lg (p x y)) (\<lambda>e lg x. E e lg (p x y)) lg (g y))"
  by (simp add: fun_eq_iff wp_def zoom_def split: prod.splits sum.splits)

lemma wp_if [wp_simps]: "wp (if b then m else m') Q E = (\<lambda>lg x. (if b then wp m Q E lg x else wp m' Q E lg x))"
  by (simp add: fun_eq_iff)

lemma wp_case_option [wp_simps]:
  "wp (case v of None \<Rightarrow> m | Some a \<Rightarrow> k a) Q E = (\<lambda>lg x. (case v of None \<Rightarrow> wp m Q E lg x | Some a \<Rightarrow> wp (k a) Q E lg x))"
  by (simp add: fun_eq_iff split: option.splits)

lemma wp_case_prod [wp_simps]: "wp (case pr of (a, b) \<Rightarrow> k2 a b) Q E = (\<lambda>lg x. (case pr of (a, b) \<Rightarrow> wp (k2 a b) Q E lg x))"
  by (simp add: fun_eq_iff split: prod.splits)

lemma ifI: "(b \<Longrightarrow> A) \<Longrightarrow> (\<not> b \<Longrightarrow> B) \<Longrightarrow> if b then A else B"
  by simp

lemma wp_conseq:
  assumes "wp m Q E lg x" "\<And>v lg' x'. Q v lg' x' \<Longrightarrow> Q' v lg' x'" "\<And>e lg' x'. E e lg' x' \<Longrightarrow> E' e lg' x'"
  shows "wp m Q' E' lg x"
  using assms by (auto simp: wp_def split: prod.splits sum.splits)

lemma wp_Inr: "wp m Q E lg x \<Longrightarrow> m (lg, x) = (Inr v, (lg', x')) \<Longrightarrow> Q v lg' x'"
  by (simp add: wp_def)

lemma wp_Inl: "wp m Q E lg x \<Longrightarrow> m (lg, x) = (Inl e, (lg', x')) \<Longrightarrow> E e lg' x'"
  by (simp add: wp_def)

lemma wp_conj: "wp m Q E lg x \<Longrightarrow> wp m Q' E' lg x \<Longrightarrow> wp m (\<lambda>v lg x. Q v lg x \<and> Q' v lg x) (\<lambda>e lg x. E e lg x \<and> E' e lg x) lg x"
  by (auto simp: wp_def split: prod.splits sum.splits)

text \<open>What \<open>adds\<close> says, as a precondition\<close>

lemma wp_adds:
  assumes "adds P m"
  shows "wp m (\<lambda>v lg' x'. \<exists>new. lg' = lg @ new \<and> list_all P new) (\<lambda>e lg' x'. \<exists>new. lg' = lg @ new \<and> list_all P new) lg x"
  using addsD [OF assms, of lg x] by (auto simp: wp_def split: prod.splits sum.splits)

lemma wp_bindI:
  "wp m R E lg x \<Longrightarrow> (\<And>v lg' x'. R v lg' x' \<Longrightarrow> wp (k v) Q E lg' x') \<Longrightarrow> wp (bindE m k) Q E lg x"
  unfolding wp_bind by (rule wp_conseq)

lemma wp_thenI:
  "wp m R E lg x \<Longrightarrow> (\<And>v lg' x'. R v lg' x' \<Longrightarrow> wp k Q E lg' x') \<Longrightarrow> wp (thenE m k) Q E lg x"
  unfolding wp_then by (rule wp_conseq)

subsection \<open>Operations that only call\<close>

text \<open>\<open>keeps m\<close>: \<open>m\<close> leaves the component's state alone\<close>

named_theorems keeps_rules

definition keeps :: "('c, 'x, 'a) io \<Rightarrow> bool" where
  "keeps m = (\<forall>lg x. snd (snd (m (lg, x))) = x)"

lemma keepsD: "keeps m \<Longrightarrow> m (lg, x) = (r, (lg', x')) \<Longrightarrow> x' = x"
  unfolding keeps_def by (metis snd_conv)

lemma keepsI: "(\<And>lg x r lg' x'. m (lg, x) = (r, (lg', x')) \<Longrightarrow> x' = x) \<Longrightarrow> keeps m"
  unfolding keeps_def by (metis prod.collapse)

lemma keeps_base [keeps_rules]: "keeps (ret v)" "keeps (throw e)" "keeps (lift r)" "keeps (getting g)" "keeps (call ask c)"
  by (simp_all add: keeps_def)

lemma keeps_bind [keeps_rules]: "keeps m \<Longrightarrow> (\<And>v. keeps (k v)) \<Longrightarrow> keeps (bindE m k)"
  by (rule keepsI) (auto simp: bindE_def split: prod.splits sum.splits dest: keepsD)

lemma keeps_then [keeps_rules]: "keeps m \<Longrightarrow> keeps k \<Longrightarrow> keeps (thenE m k)"
  by (simp add: thenE_def keeps_bind)

lemma keeps_catch [keeps_rules]: "keeps m \<Longrightarrow> (\<And>e. keeps (h e)) \<Longrightarrow> keeps (catchE m h)"
  by (rule keepsI) (auto simp: catchE_def split: prod.splits sum.splits dest: keepsD)

lemma keeps_cases [keeps_rules]:
  "(b \<Longrightarrow> keeps m) \<Longrightarrow> (\<not> b \<Longrightarrow> keeps m') \<Longrightarrow> keeps (if b then m else m')"
  "(opt = None \<Longrightarrow> keeps m) \<Longrightarrow> (\<And>v. opt = Some v \<Longrightarrow> keeps (k v)) \<Longrightarrow> keeps (case opt of None \<Rightarrow> m | Some v \<Rightarrow> k v)"
  "(\<And>y z. pr = (y, z) \<Longrightarrow> keeps (k2 y z)) \<Longrightarrow> keeps (case pr of (y, z) \<Rightarrow> k2 y z)"
  "(vs = [] \<Longrightarrow> keeps m) \<Longrightarrow> (\<And>a as. vs = a # as \<Longrightarrow> keeps (k3 a as)) \<Longrightarrow> keeps (case vs of [] \<Rightarrow> m | a # as \<Rightarrow> k3 a as)"
  by (auto split: option.splits prod.splits list.splits)

lemma adds_case_list [adds_rules]:
  "(vs = [] \<Longrightarrow> adds P m) \<Longrightarrow> (\<And>a as. vs = a # as \<Longrightarrow> adds P (k3 a as)) \<Longrightarrow> adds P (case vs of [] \<Rightarrow> m | a # as \<Rightarrow> k3 a as)"
  by (auto split: list.splits)

text \<open>What is known after an operation that only calls: the log has grown by some calls of the kind\<close>

lemma wp_external:
  assumes "adds P m" "keeps m"
    and "\<And>v new. list_all P new \<Longrightarrow> Q v (lg @ new) x" "\<And>e new. list_all P new \<Longrightarrow> E e (lg @ new) x"
  shows "wp m Q E lg x"
proof (cases "m (lg, x)")
  case (fields r lg' x')
  with assms(2) have "x' = x" unfolding keeps_def by (metis snd_conv)
  moreover from addsD [OF assms(1), of lg x] fields obtain new where "lg' = lg @ new" "list_all P new" by auto
  ultimately show ?thesis using fields assms(3,4) by (auto simp: wp_def split: sum.splits)
qed

lemma wp_any: "(\<And>v lg x. Q v lg x) \<Longrightarrow> (\<And>e lg x. E e lg x) \<Longrightarrow> wp m Q E lg x"
  by (auto simp: wp_def split: prod.splits sum.splits)

lemma wp_keeps:
  assumes "keeps m" "\<And>v lg'. Q v lg' x" "\<And>e lg'. E e lg' x" shows "wp m Q E lg x"
  using assms(2,3) by (auto simp: wp_def split: prod.splits sum.splits dest!: keepsD [OF assms(1)])

subsection \<open>How many calls\<close>

text \<open>\<open>bounded n m\<close>: however it is answered, \<open>m\<close> returns after at most \<open>n\<close> calls. The rules compute the bound.\<close>

named_theorems bounded_rules

definition bounded :: "nat \<Rightarrow> ('c, 'x, 'a) io \<Rightarrow> bool" where
  "bounded n m = (\<forall>lg x. length (fst (snd (m (lg, x)))) \<le> length lg + n)"

lemma boundedI: "(\<And>lg x r lg' x'. m (lg, x) = (r, (lg', x')) \<Longrightarrow> length lg' \<le> length lg + n) \<Longrightarrow> bounded n m"
  unfolding bounded_def by (metis prod.collapse)

lemma boundedD: "bounded n m \<Longrightarrow> m (lg, x) = (r, (lg', x')) \<Longrightarrow> length lg' \<le> length lg + n"
  unfolding bounded_def by (metis fst_conv snd_conv)

lemma bounded_mono: "bounded k m \<Longrightarrow> k \<le> n \<Longrightarrow> bounded n m"
  unfolding bounded_def by (meson add_left_mono le_trans)

lemma bounded_base [bounded_rules]: "bounded 0 (ret v)" "bounded 0 (throw e)" "bounded 0 (lift r)" "bounded 0 (getting g)"
  "bounded 0 (update f)" "bounded 1 (call ask c)"
  by (simp_all add: bounded_def)

lemma bounded_bind [bounded_rules]: "bounded n m \<Longrightarrow> (\<And>v. bounded k (f v)) \<Longrightarrow> bounded (n + k) (bindE m f)"
  by (rule boundedI) (fastforce simp: bindE_def split: prod.splits sum.splits dest: boundedD)

lemma bounded_then [bounded_rules]: "bounded n m \<Longrightarrow> bounded k m' \<Longrightarrow> bounded (n + k) (thenE m m')"
  by (simp add: thenE_def bounded_bind)

lemma bounded_catch [bounded_rules]: "bounded n m \<Longrightarrow> (\<And>e. bounded k (h e)) \<Longrightarrow> bounded (n + k) (catchE m h)"
  by (rule boundedI) (fastforce simp: catchE_def split: prod.splits sum.splits dest: boundedD)

lemma bounded_finally [bounded_rules]: "bounded n m \<Longrightarrow> bounded n (finally_do f m)"
  by (rule boundedI) (auto simp: finally_do_def finallyE_def split: prod.splits dest: boundedD)

lemma bounded_zoom [bounded_rules]: "bounded n m \<Longrightarrow> bounded n (zoom g p m)"
  by (rule boundedI) (auto simp: zoom_def split: prod.splits dest: boundedD)

lemma bounded_cases [bounded_rules]:
  "bounded n m \<Longrightarrow> bounded k m' \<Longrightarrow> bounded (max n k) (if b then m else m')"
  "bounded n m \<Longrightarrow> (\<And>v. bounded k (f v)) \<Longrightarrow> bounded (max n k) (case opt of None \<Rightarrow> m | Some v \<Rightarrow> f v)"
  "(\<And>y z. bounded n (g y z)) \<Longrightarrow> bounded n (case pr of (y, z) \<Rightarrow> g y z)"
  "bounded n m \<Longrightarrow> (\<And>a as. bounded k (l a as)) \<Longrightarrow> bounded (max n k) (case vs of [] \<Rightarrow> m | a # as \<Rightarrow> l a as)"
  "(\<And>a. bounded n (s1 a)) \<Longrightarrow> (\<And>a. bounded k (s2 a)) \<Longrightarrow> bounded (max n k) (case sm of Inl a \<Rightarrow> s1 a | Inr a \<Rightarrow> s2 a)"
  by (auto split: option.splits prod.splits list.splits sum.splits
      intro: bounded_mono [OF _ max.cobounded1] bounded_mono [OF _ max.cobounded2])

subsection \<open>Reading JSON\<close>

text \<open>\<open>j.k\<close> (a TypeError on \<open>null\<close>), \<open>j?.k\<close>, and truthiness of a value or \<open>undefined\<close>\<close>

definition obj_get :: "string \<Rightarrow> json \<Rightarrow> json option" where
  "obj_get k j = (case j of JObj kvs \<Rightarrow> map_of kvs k | _ \<Rightarrow> None)"

definition json_prop :: "string \<Rightarrow> json \<Rightarrow> js_err + json option" where
  "json_prop k j = (if j = JNull then Inl (ErrorObj (''Cannot read properties of null (reading '' @ [CHR 0x27] @ k @ [CHR 0x27] @ '')''))
               else Inr (obj_get k j))"

definition opt_prop :: "string \<Rightarrow> json option \<Rightarrow> json option" where
  "opt_prop k j = (case j of None \<Rightarrow> None | Some v \<Rightarrow> obj_get k v)"

definition json_truthy :: "json option \<Rightarrow> bool" where
  "json_truthy j = (case j of
      None \<Rightarrow> False
    | Some JNull \<Rightarrow> False
    | Some (JBool b) \<Rightarrow> b
    | Some (JNum n) \<Rightarrow> n \<noteq> 0
    | Some (JStr s) \<Rightarrow> s \<noteq> []
    | Some (JArr _) \<Rightarrow> True
    | Some (JObj _) \<Rightarrow> True)"

definition json_nullish :: "json option \<Rightarrow> bool" where
  "json_nullish j = (case j of None \<Rightarrow> True | Some v \<Rightarrow> v = JNull)"

definition json_string :: "json option \<Rightarrow> string option" where
  "json_string j = (case j of Some (JStr s) \<Rightarrow> Some s | _ \<Rightarrow> None)"

text \<open>\<open>String(e)\<close> of a thrown value, and \<open>e.message || String(e)\<close>\<close>

definition string_of_err :: "js_err \<Rightarrow> string" where
  "string_of_err e = (case e of
      ErrorObj m \<Rightarrow> (if m = [] then ''Error'' else ''Error: '' @ m)
    | AxiosErr _ m \<Rightarrow> (if m = [] then ''AxiosError'' else ''AxiosError: '' @ m)
    | ThrownValue s \<Rightarrow> s)"

definition message_or_string :: "js_err \<Rightarrow> string" where
  "message_or_string e = any_message_or e (string_of_err e)"

subsection \<open>\<open>JSON.stringify\<close>\<close>

text \<open>Numbers print in plain decimal notation; exponents are not modelled.\<close>

fun decimals :: "nat \<Rightarrow> nat \<Rightarrow> nat \<Rightarrow> string" where
  "decimals 0 r d = []"
| "decimals (Suc n) r d = (if r = 0 then [] else digit_char (r * 10 div d) # decimals n (r * 10 mod d) d)"

definition number_str :: "rat \<Rightarrow> string" where
  "number_str q = (case quotient_of q of (a, b) \<Rightarrow>
     (let n = nat \<bar>a\<bar>; d = nat b; sign = (if a < 0 then ''-'' else []) in
      if d = 1 then sign @ nat_str n
      else sign @ nat_str (n div d) @ ''.'' @ decimals 20 (n mod d) d))"

definition escape_char :: "char \<Rightarrow> string" where
  "escape_char c =
     (let n = (of_char c :: nat); bs = CHR 0x5C in
      if c = CHR 0x22 \<or> c = bs then [bs, c]
      else if n = 8 then [bs, CHR ''b'']
      else if n = 9 then [bs, CHR ''t'']
      else if n = 10 then [bs, CHR ''n'']
      else if n = 12 then [bs, CHR ''f'']
      else if n = 13 then [bs, CHR ''r'']
      else if n < 32 then bs # CHR ''u'' # fixed_digits 16 4 n
      else [c])"

definition json_quote :: "string \<Rightarrow> string" where
  "json_quote s = [CHR 0x22] @ concat (map escape_char s) @ [CHR 0x22]"

fun json_stringify :: "json \<Rightarrow> string" where
  "json_stringify JNull = ''null''"
| "json_stringify (JBool b) = (if b then ''true'' else ''false'')"
| "json_stringify (JNum q) = number_str q"
| "json_stringify (JStr s) = json_quote s"
| "json_stringify (JArr xs) = ''['' @ join '','' (map json_stringify xs) @ '']''"
| "json_stringify (JObj kvs) =
     ''{'' @ join '','' (map (\<lambda>kv. json_quote (fst kv) @ '':'' @ json_stringify (snd kv)) kvs) @ ''}''"

subsection \<open>\<open>fetch\<close>\<close>

text \<open>A response: reading its body as JSON, as text or as bytes may fail. \<open>resp.ok\<close> is a status
  from 200 to 299.\<close>

record 'b fetch_response =
  status_code :: nat
  status_text :: string
  body_json :: "js_err + json"
  body_text :: "js_err + string"
  body_bytes :: "js_err + 'b list"

definition resp_ok :: "'b fetch_response \<Rightarrow> bool" where
  "resp_ok r = (200 \<le> status_code r \<and> status_code r \<le> 299)"

definition status_line :: "'b fetch_response \<Rightarrow> string" where
  "status_line r = nat_str (status_code r) @ '' '' @ status_text r"

end
