(* ===== verification/Utf8.thy ===== *)
theory Utf8
  imports Js_Prelude "HOL-Library.Word"
begin

section \<open>Text as code points, and its UTF-8 encoding\<close>

text \<open>
  Prompts and model outputs are arbitrary Unicode: here a \<open>utext\<close> is the list of its scalar
  values. \<open>utf8_encode\<close> is \<open>cipher.update(s, 'utf8')\<close> and \<open>TextEncoder.encode\<close>;
  \<open>utf8_decode\<close> is \<open>Buffer.toString('utf8')\<close>, where every ill-formed sequence becomes
  U+FFFD (one per maximal subpart); \<open>text_decoder\<close> is \<open>new TextDecoder().decode\<close>, which
  also drops a leading byte order mark.
\<close>

type_synonym byte = "8 word"
type_synonym utext = "nat list"

definition scalar :: "nat \<Rightarrow> bool" where
  "scalar c = (c < 55296 \<or> (57343 < c \<and> c < 1114112))"

definition well_formed :: "utext \<Rightarrow> bool" where
  "well_formed t = list_all scalar t"

text \<open>\<open>s.length\<close>: UTF-16 code units\<close>

definition text_length :: "utext \<Rightarrow> nat" where
  "text_length t = sum_list (map (\<lambda>c. if c < 65536 then 1 else 2) t)"

definition text_of_string :: "string \<Rightarrow> utext" where
  "text_of_string s = map of_char s"

definition utf8_point :: "nat \<Rightarrow> nat list" where
  "utf8_point c =
     (if c < 128 then [c]
      else if c < 2048 then [192 + c div 64, 128 + c mod 64]
      else if c < 65536 then [224 + c div 4096, 128 + c div 64 mod 64, 128 + c mod 64]
      else [240 + c div 262144, 128 + c div 4096 mod 64, 128 + c div 64 mod 64, 128 + c mod 64])"

definition utf8_encode :: "utext \<Rightarrow> byte list" where
  "utf8_encode t = map of_nat (concat (map utf8_point t))"

definition cont_in :: "nat \<Rightarrow> nat \<Rightarrow> nat \<Rightarrow> bool" where
  "cont_in lo hi b = (lo \<le> b \<and> b \<le> hi)"

definition lo3 :: "nat \<Rightarrow> nat" where "lo3 b = (if b = 224 then 160 else 128)"
definition hi3 :: "nat \<Rightarrow> nat" where "hi3 b = (if b = 237 then 159 else 191)"
definition lo4 :: "nat \<Rightarrow> nat" where "lo4 b = (if b = 240 then 144 else 128)"
definition hi4 :: "nat \<Rightarrow> nat" where "hi4 b = (if b = 244 then 143 else 191)"

definition decode2 :: "nat \<Rightarrow> nat list \<Rightarrow> nat \<times> nat list" where
  "decode2 b bs = (case bs of
      c # r \<Rightarrow> if cont_in 128 191 c then ((b - 192) * 64 + (c - 128), r) else (65533, bs)
    | [] \<Rightarrow> (65533, bs))"

definition decode3 :: "nat \<Rightarrow> nat list \<Rightarrow> nat \<times> nat list" where
  "decode3 b bs = (case bs of
      c # r \<Rightarrow> if cont_in (lo3 b) (hi3 b) c then
        (case r of
           d # r' \<Rightarrow> if cont_in 128 191 d
             then ((b - 224) * 4096 + (c - 128) * 64 + (d - 128), r') else (65533, r)
         | [] \<Rightarrow> (65533, r))
        else (65533, bs)
    | [] \<Rightarrow> (65533, bs))"

definition decode4 :: "nat \<Rightarrow> nat list \<Rightarrow> nat \<times> nat list" where
  "decode4 b bs = (case bs of
      c # r \<Rightarrow> if cont_in (lo4 b) (hi4 b) c then
        (case r of
           d # r' \<Rightarrow> if cont_in 128 191 d then
             (case r' of
                e # r'' \<Rightarrow> if cont_in 128 191 e
                  then ((b - 240) * 262144 + (c - 128) * 4096 + (d - 128) * 64 + (e - 128), r'')
                  else (65533, r')
              | [] \<Rightarrow> (65533, r'))
             else (65533, r)
         | [] \<Rightarrow> (65533, r))
        else (65533, bs)
    | [] \<Rightarrow> (65533, bs))"

definition decode_lead :: "nat \<Rightarrow> nat list \<Rightarrow> nat \<times> nat list" where
  "decode_lead b bs =
     (if b < 128 then (b, bs)
      else if cont_in 194 223 b then decode2 b bs
      else if cont_in 224 239 b then decode3 b bs
      else if cont_in 240 244 b then decode4 b bs
      else (65533, bs))"

lemma decode2_shrinks: "length (snd (decode2 b bs)) \<le> length bs"
  by (auto simp: decode2_def split: list.splits)

lemma decode3_shrinks: "length (snd (decode3 b bs)) \<le> length bs"
  by (auto simp: decode3_def split: list.splits)

lemma decode4_shrinks: "length (snd (decode4 b bs)) \<le> length bs"
  by (auto simp: decode4_def split: list.splits)

lemma decode_lead_shrinks: "length (snd (decode_lead b bs)) \<le> length bs"
  by (simp add: decode_lead_def decode2_shrinks decode3_shrinks decode4_shrinks)

lemma decode_lead_rest: "(c, r) = decode_lead b bs \<Longrightarrow> length r \<le> length bs"
  using decode_lead_shrinks [of b bs] by (metis snd_conv)

function decode_points :: "nat list \<Rightarrow> utext" where
  "decode_points [] = []"
| "decode_points (b # bs) = (case decode_lead b bs of (c, r) \<Rightarrow> c # decode_points r)"
  by pat_completeness auto
termination
  by (relation "measure length") (auto simp: less_Suc_eq_le dest: decode_lead_rest)

definition utf8_decode :: "byte list \<Rightarrow> utext" where
  "utf8_decode bs = decode_points (map unat bs)"

definition text_decoder :: "byte list \<Rightarrow> utext" where
  "text_decoder bs = (if take 3 (map unat bs) = [239, 187, 191] then utf8_decode (drop 3 bs) else utf8_decode bs)"

subsection \<open>The round trip\<close>

lemma utf8_point_bytes: "scalar c \<Longrightarrow> \<forall>b \<in> set (utf8_point c). b < 256"
  by (auto simp: utf8_point_def scalar_def)

lemma div64_split: "(c::nat) div 64 = c div 4096 * 64 + c div 64 mod 64"
  using div_mult2_eq [of c 64 64] by simp

lemma div4096_split: "(c::nat) div 4096 = c div 262144 * 64 + c div 4096 mod 64"
  using div_mult2_eq [of c 4096 64] by simp

lemma mod64_le: "(n::nat) mod 64 \<le> 63"
  using mod_less_divisor [of 64 n] by linarith

lemma decode2_bytes:
  "2 \<le> a \<Longrightarrow> a \<le> 31 \<Longrightarrow> b \<le> 63 \<Longrightarrow>
   decode_points ((192 + a) # (128 + b) # bs) = (a * 64 + b) # decode_points bs"
  by (simp add: decode_lead_def cont_in_def decode2_def)

lemma decode3_bytes:
  "a \<le> 15 \<Longrightarrow> b \<le> 63 \<Longrightarrow> d \<le> 63 \<Longrightarrow> (a = 0 \<Longrightarrow> 32 \<le> b) \<Longrightarrow> (a = 13 \<Longrightarrow> b \<le> 31) \<Longrightarrow>
   decode_points ((224 + a) # (128 + b) # (128 + d) # bs) = (a * 4096 + b * 64 + d) # decode_points bs"
  by (simp add: decode_lead_def cont_in_def decode3_def lo3_def hi3_def)

lemma decode4_bytes:
  "a \<le> 4 \<Longrightarrow> b \<le> 63 \<Longrightarrow> d \<le> 63 \<Longrightarrow> e \<le> 63 \<Longrightarrow> (a = 0 \<Longrightarrow> 16 \<le> b) \<Longrightarrow> (a = 4 \<Longrightarrow> b \<le> 15) \<Longrightarrow>
   decode_points ((240 + a) # (128 + b) # (128 + d) # (128 + e) # bs)
     = (a * 262144 + b * 4096 + d * 64 + e) # decode_points bs"
  by (simp add: decode_lead_def cont_in_def decode4_def lo4_def hi4_def)

lemma decode2_point:
  assumes "128 \<le> c" "c < 2048"
  shows "decode_points (utf8_point c @ bs) = c # decode_points bs"
proof -
  have "2 \<le> c div 64" "c div 64 \<le> 31" using assms by auto
  from decode2_bytes [OF this mod64_le [of c]] assms show ?thesis
    by (simp add: utf8_point_def div_mult_mod_eq)
qed

lemma decode3_point:
  assumes "2048 \<le> c" "c < 65536" "scalar c"
  shows "decode_points (utf8_point c @ bs) = c # decode_points bs"
proof -
  have lead: "c div 4096 \<le> 15" using assms by auto
  have lo: "c div 4096 = 0 \<Longrightarrow> 32 \<le> c div 64 mod 64" using assms(1) by auto
  have hi: "c div 64 mod 64 \<le> 31" if d: "c div 4096 = 13"
  proof -
    have "c < 57344" using d by linarith
    with assms(3) have "c < 55296" unfolding scalar_def by linarith
    then have "c div 64 < 864" by simp
    with d div64_split [of c] show ?thesis by linarith
  qed
  have sum: "c div 4096 * 4096 + c div 64 mod 64 * 64 + c mod 64 = c"
    using div64_split [of c] div_mult_mod_eq [of c 64] by linarith
  from decode3_bytes [OF lead mod64_le mod64_le lo hi] assms sum show ?thesis
    by (simp add: utf8_point_def)
qed

lemma decode4_point:
  assumes "65536 \<le> c" "c < 1114112"
  shows "decode_points (utf8_point c @ bs) = c # decode_points bs"
proof -
  have lead: "c div 262144 \<le> 4" using assms by auto
  have lo: "c div 262144 = 0 \<Longrightarrow> 16 \<le> c div 4096 mod 64" using assms(1) by auto
  have hi: "c div 4096 mod 64 \<le> 15" if d: "c div 262144 = 4"
  proof -
    from assms(2) have "c div 4096 < 272" by simp
    with d div4096_split [of c] show ?thesis by linarith
  qed
  have sum: "c div 262144 * 262144 + c div 4096 mod 64 * 4096 + c div 64 mod 64 * 64 + c mod 64 = c"
    using div64_split [of c] div4096_split [of c] div_mult_mod_eq [of c 64] by linarith
  from decode4_bytes [OF lead mod64_le mod64_le mod64_le lo hi] assms sum show ?thesis
    by (simp add: utf8_point_def)
qed

lemma decode_point: "scalar c \<Longrightarrow> decode_points (utf8_point c @ bs) = c # decode_points bs"
proof -
  assume s: "scalar c"
  consider "c < 128" | "128 \<le> c \<and> c < 2048" | "2048 \<le> c \<and> c < 65536" | "65536 \<le> c \<and> c < 1114112"
    using s unfolding scalar_def by linarith
  then show ?thesis
  proof cases
    case 1
    then show ?thesis by (simp add: utf8_point_def decode_lead_def)
  next
    case 2
    then show ?thesis by (simp add: decode2_point)
  next
    case 3
    with s show ?thesis by (simp add: decode3_point)
  next
    case 4
    then show ?thesis by (simp add: decode4_point)
  qed
qed

lemma decode_points_encode: "well_formed t \<Longrightarrow> decode_points (concat (map utf8_point t)) = t"
  by (induction t) (auto simp: well_formed_def decode_point)

lemma unat_utf8_encode:
  assumes "well_formed t" shows "map unat (utf8_encode t) = concat (map utf8_point t)"
proof -
  have bytes: "\<forall>b \<in> set (concat (map utf8_point t)). b < 256"
    using assms utf8_point_bytes by (auto simp: well_formed_def list_all_iff)
  have "map (unat \<circ> (of_nat :: nat \<Rightarrow> byte)) xs = xs" if "\<forall>b \<in> set xs. b < 256" for xs
    using that by (induction xs) (auto simp: unat_of_nat)
  with bytes show ?thesis by (simp add: utf8_encode_def)
qed

theorem utf8_roundtrip: "well_formed t \<Longrightarrow> utf8_decode (utf8_encode t) = t"
  by (simp add: utf8_decode_def unat_utf8_encode decode_points_encode)

lemma text_decoder_no_bom:
  assumes "well_formed t" "t = [] \<or> hd t \<noteq> 65279"
  shows "text_decoder (utf8_encode t) = t"
proof -
  have "take 3 (concat (map utf8_point t)) \<noteq> [239, 187, 191]"
  proof
    assume bom: "take 3 (concat (map utf8_point t)) = [239, 187, 191]"
    then obtain r where r: "concat (map utf8_point t) = [239, 187, 191] @ r"
      by (metis append_take_drop_id)
    with assms(1) have "t = decode_points ([239, 187, 191] @ r)"
      by (metis decode_points_encode)
    then have "hd t = 65279" and "t \<noteq> []"
      by (simp_all add: decode_lead_def cont_in_def decode3_def lo3_def hi3_def)
    with assms(2) show False by simp
  qed
  with assms(1) show ?thesis
    by (simp add: text_decoder_def unat_utf8_encode utf8_roundtrip)
qed

end
