(* ===== verification/External.thy ===== *)
theory External
  imports Js_World Utf8
begin

section \<open>The world outside the repository\<close>

text \<open>
  The calls the sources make to code outside the repository, as the entries of the log, and
  the environment (\<open>world\<close>) that answers them. An answer is a function of the log so far and
  of the call's arguments: either a thrown error or the value the source reads.
  \<^item> \<open>Fetch\<close>: the global \<open>fetch\<close>; \<open>Axios\<close>: a call of an axios client, which answers with
    \<open>response.data\<close> and throws an axios error for a status outside 200 to 299;
  \<^item> \<open>GetBlock\<close> .. \<open>ReadContract\<close>: viem's public and wallet clients;
  \<^item> \<open>CofheConnect\<close> .. \<open>CofheDecrypt\<close>: the CoFHE SDK;
  \<^item> \<open>SdkInit\<close> .. \<open>SdkCall\<close>: the Reineira SDK;
  \<^item> \<open>Sleep\<close>: a timer awaited; \<open>Clock\<close>: \<open>Date.now()\<close>, in milliseconds.
\<close>

datatype form_value = TextField string | FileField "byte list" string

datatype http_req =
    Get string
  | Post string "(string \<times> string) list" "(string \<times> form_value) list"
  | PostJson string json

text \<open>A request's body. A chat's job is \<open>JobBody\<close>: the object, and apart from it the turns of its
  \<open>metadata.conversation_history\<close> (role and content), whose text is not limited to the code units
  below 256 of a JSON string of the model.\<close>

datatype axios_body =
    NoBody
  | JsonBody json
  | FormBody "byte list" string
  | JobBody json "(string \<times> utext) list"

datatype abi_value =
    ABool bool
  | AInt int
  | AStr string
  | ATuple "abi_value list"
  | AList "abi_value list"

text \<open>The fee fields spread into a transaction\<close>

datatype fee_params =
    Eip1559 int int
  | GasPrice int
  | NoFees

record contract_tx =
  tx_account :: string
  tx_address :: string
  tx_function :: string
  tx_args :: "abi_value list"
  tx_fees :: fee_params

text \<open>\<open>Encryptable.uint128(v)\<close> and its siblings\<close>

datatype encryptable = Uint8 int | Uint32 int | Uint64 int | Uint128 int

record encrypted_input =
  ctHash :: int
  securityZone :: "int option"
  utype :: int
  signature :: string

text \<open>An escrow to build with the Reineira SDK, on behalf of a wallet; the condition is a resolver
  and the bytes32 it is given\<close>

record escrow_spec =
  es_wallet :: string
  es_amount :: int
  es_owner :: string
  es_condition :: "(string \<times> string) option"

text \<open>A log of a receipt, undecoded\<close>

record raw_log =
  log_address :: string
  log_data :: string
  log_topics :: "string list"

datatype ext =
    Fetch http_req
  | Axios string string string axios_body
  | GetBlock
  | EstimatePriorityFee
  | GetGasPrice
  | WriteContract contract_tx
  | WaitReceipt string
  | ReadContract string string "abi_value list"
  | CofheConnect
  | CofheEncrypt "encryptable list"
  | CofhePermit
  | CofheRemovePermit
  | CofheDecrypt int
  | SimulateContract contract_tx
  | CofheSharing string string string nat
  | SdkInit string
  | EscrowCreate escrow_spec
  | EscrowFund string int int
  | EscrowRedeem string int
  | SdkBalances string string
  | SdkCall string string "abi_value list"
  | EthersBlock
  | EthersFeeData
  | EthersSend "(string \<times> json) list"
  | Sleep nat
  | Clock

record world =
  on_fetch :: "ext list \<Rightarrow> http_req \<Rightarrow> js_err + byte fetch_response"
  on_axios :: "ext list \<Rightarrow> ext \<Rightarrow> js_err + json"
  on_block :: "ext list \<Rightarrow> js_err + int option"
  on_priority_fee :: "ext list \<Rightarrow> js_err + int"
  on_gas_price :: "ext list \<Rightarrow> js_err + int"
  on_write :: "ext list \<Rightarrow> contract_tx \<Rightarrow> js_err + string"
  on_receipt :: "ext list \<Rightarrow> string \<Rightarrow> js_err + string"
  on_read :: "ext list \<Rightarrow> ext \<Rightarrow> js_err + abi_value list"
  on_cofhe_connect :: "ext list \<Rightarrow> js_err + unit"
  on_cofhe_encrypt :: "ext list \<Rightarrow> encryptable list \<Rightarrow> js_err + encrypted_input list"
  on_permit :: "ext list \<Rightarrow> js_err + nat"
  on_remove_permit :: "ext list \<Rightarrow> js_err + unit"
  on_cofhe_decrypt :: "ext list \<Rightarrow> int \<Rightarrow> js_err + int"
  on_simulate :: "ext list \<Rightarrow> contract_tx \<Rightarrow> js_err + unit"
  on_receipt_logs :: "ext list \<Rightarrow> string \<Rightarrow> js_err + raw_log list"
  on_sharing :: "ext list \<Rightarrow> ext \<Rightarrow> js_err + string"
  on_sdk_init :: "ext list \<Rightarrow> string \<Rightarrow> js_err + unit"
  on_escrow_create :: "ext list \<Rightarrow> escrow_spec \<Rightarrow> js_err + int \<times> string option"
  on_escrow_fund :: "ext list \<Rightarrow> int \<Rightarrow> int \<Rightarrow> js_err + string"
  on_escrow_redeem :: "ext list \<Rightarrow> int \<Rightarrow> js_err + string option"
  on_sdk_balances :: "ext list \<Rightarrow> string \<Rightarrow> js_err + string option \<times> string option \<times> string option"
  on_sdk_call :: "ext list \<Rightarrow> ext \<Rightarrow> js_err + abi_value"
  on_timeout :: "ext list \<Rightarrow> string \<Rightarrow> bool"
  on_ethers_block :: "ext list \<Rightarrow> js_err + int option"
  on_fee_data :: "ext list \<Rightarrow> js_err + int option"
  on_ethers_send :: "ext list \<Rightarrow> (string \<times> json) list \<Rightarrow> js_err + string"
  on_clock :: "ext list \<Rightarrow> nat"

subsection \<open>The calls\<close>

definition axios_get :: "world \<Rightarrow> string \<Rightarrow> string \<Rightarrow> (ext, 'x, json) io" where
  "axios_get w base path =
     (let c = Axios ''GET'' base path NoBody in call (\<lambda>lg. on_axios w lg c) c)"

definition axios_post :: "world \<Rightarrow> string \<Rightarrow> string \<Rightarrow> axios_body \<Rightarrow> (ext, 'x, json) io" where
  "axios_post w base path body =
     (let c = Axios ''POST'' base path body in call (\<lambda>lg. on_axios w lg c) c)"

definition get_block :: "world \<Rightarrow> (ext, 'x, int option) io" where
  "get_block w = call (on_block w) GetBlock"

definition estimate_priority_fee :: "world \<Rightarrow> (ext, 'x, int) io" where
  "estimate_priority_fee w = call (on_priority_fee w) EstimatePriorityFee"

definition get_gas_price :: "world \<Rightarrow> (ext, 'x, int) io" where
  "get_gas_price w = call (on_gas_price w) GetGasPrice"

definition write_contract :: "world \<Rightarrow> contract_tx \<Rightarrow> (ext, 'x, string) io" where
  "write_contract w tx = call (\<lambda>lg. on_write w lg tx) (WriteContract tx)"

definition wait_receipt :: "world \<Rightarrow> string \<Rightarrow> (ext, 'x, string) io" where
  "wait_receipt w h = call (\<lambda>lg. on_receipt w lg h) (WaitReceipt h)"

definition read_contract :: "world \<Rightarrow> string \<Rightarrow> string \<Rightarrow> abi_value list \<Rightarrow> (ext, 'x, abi_value list) io" where
  "read_contract w addr f as = (let c = ReadContract addr f as in call (\<lambda>lg. on_read w lg c) c)"

definition cofhe_connect :: "world \<Rightarrow> (ext, 'x, unit) io" where
  "cofhe_connect w = call (on_cofhe_connect w) CofheConnect"

definition cofhe_encrypt :: "world \<Rightarrow> encryptable list \<Rightarrow> (ext, 'x, encrypted_input list) io" where
  "cofhe_encrypt w items = call (\<lambda>lg. on_cofhe_encrypt w lg items) (CofheEncrypt items)"

text \<open>\<open>simulateContract\<close> fails or returns the request it was given; \<open>receipt.logs\<close> of a transaction
  waited for\<close>

definition simulate_contract :: "world \<Rightarrow> contract_tx \<Rightarrow> (ext, 'x, unit) io" where
  "simulate_contract w tx = call (\<lambda>lg. on_simulate w lg tx) (SimulateContract tx)"

definition wait_receipt_logs :: "world \<Rightarrow> string \<Rightarrow> (ext, 'x, raw_log list) io" where
  "wait_receipt_logs w h = call (\<lambda>lg. on_receipt_logs w lg h) (WaitReceipt h)"

text \<open>A permit is its expiration time, in seconds.\<close>

definition get_permit :: "world \<Rightarrow> (ext, 'x, nat) io" where
  "get_permit w = call (on_permit w) CofhePermit"

definition remove_permit :: "world \<Rightarrow> (ext, 'x, unit) io" where
  "remove_permit w = call (on_remove_permit w) CofheRemovePermit"

definition cofhe_decrypt :: "world \<Rightarrow> int \<Rightarrow> (ext, 'x, int) io" where
  "cofhe_decrypt w h = call (\<lambda>lg. on_cofhe_decrypt w lg h) (CofheDecrypt h)"

text \<open>A sharing permit for a recipient, exported; the Reineira SDK on a wallet's signer: its
  initialisation, an escrow's id and creation hash, the hash of its funding and of its redemption,
  and the balances (USDC, confidential USDC, ETH)\<close>

definition create_sharing :: "world \<Rightarrow> string \<Rightarrow> string \<Rightarrow> string \<Rightarrow> nat \<Rightarrow> (ext, 'x, string) io" where
  "create_sharing w issuer recipient label expiration =
     (let c = CofheSharing issuer recipient label expiration in call (\<lambda>lg. on_sharing w lg c) c)"

definition sdk_init :: "world \<Rightarrow> string \<Rightarrow> (ext, 'x, unit) io" where
  "sdk_init w wallet = call (\<lambda>lg. on_sdk_init w lg wallet) (SdkInit wallet)"

definition escrow_create :: "world \<Rightarrow> escrow_spec \<Rightarrow> (ext, 'x, int \<times> string option) io" where
  "escrow_create w spec = call (\<lambda>lg. on_escrow_create w lg spec) (EscrowCreate spec)"

definition escrow_fund :: "world \<Rightarrow> string \<Rightarrow> int \<Rightarrow> int \<Rightarrow> (ext, 'x, string) io" where
  "escrow_fund w wallet escrow amount = call (\<lambda>lg. on_escrow_fund w lg escrow amount) (EscrowFund wallet escrow amount)"

definition escrow_redeem :: "world \<Rightarrow> string \<Rightarrow> int \<Rightarrow> (ext, 'x, string option) io" where
  "escrow_redeem w wallet escrow = call (\<lambda>lg. on_escrow_redeem w lg escrow) (EscrowRedeem wallet escrow)"

definition sdk_balances ::
  "world \<Rightarrow> string \<Rightarrow> string \<Rightarrow> (ext, 'x, string option \<times> string option \<times> string option) io" where
  "sdk_balances w wallet who = call (\<lambda>lg. on_sdk_balances w lg who) (SdkBalances wallet who)"

text \<open>Another method of the Reineira SDK on a wallet's signer, by its name\<close>

definition sdk_call :: "world \<Rightarrow> string \<Rightarrow> string \<Rightarrow> abi_value list \<Rightarrow> (ext, 'x, abi_value) io" where
  "sdk_call w wallet method as = (let c = SdkCall wallet method as in call (\<lambda>lg. on_sdk_call w lg c) c)"

text \<open>A promise raced against a timer of \<open>Number(ms)\<close> milliseconds: when the timer is first, the
  promise's answer is dropped, its call made all the same\<close>

definition with_timeout :: "world \<Rightarrow> string \<Rightarrow> string \<Rightarrow> (ext, 'x, 'a) io \<Rightarrow> (ext, 'x, 'a) io" where
  "with_timeout w ms message m = (\<lambda>s. case m s of (r, s') \<Rightarrow>
     if on_timeout w (fst s') ms then (Inl (ErrorObj message), s') else (r, s'))"

text \<open>An ethers provider and signer: the latest block's base fee (\<open>None\<close> for a missing block
  or field), the suggested priority fee, and a transaction's hash\<close>

definition ethers_block :: "world \<Rightarrow> (ext, 'x, int option) io" where
  "ethers_block w = call (on_ethers_block w) EthersBlock"

definition ethers_fee_data :: "world \<Rightarrow> (ext, 'x, int option) io" where
  "ethers_fee_data w = call (on_fee_data w) EthersFeeData"

definition ethers_send :: "world \<Rightarrow> (string \<times> json) list \<Rightarrow> (ext, 'x, string) io" where
  "ethers_send w tx = call (\<lambda>lg. on_ethers_send w lg tx) (EthersSend tx)"

definition sleep :: "nat \<Rightarrow> (ext, 'x, unit) io" where
  "sleep ms = call (\<lambda>_. Inr ()) (Sleep ms)"

definition clock :: "world \<Rightarrow> (ext, 'x, nat) io" where
  "clock w = call (\<lambda>lg. Inr (on_clock w lg)) Clock"

lemmas call_defs = axios_get_def axios_post_def get_block_def estimate_priority_fee_def
  get_gas_price_def write_contract_def wait_receipt_def read_contract_def simulate_contract_def
  wait_receipt_logs_def create_sharing_def sdk_init_def escrow_create_def escrow_fund_def
  escrow_redeem_def sdk_balances_def sdk_call_def cofhe_connect_def
  cofhe_encrypt_def get_permit_def remove_permit_def cofhe_decrypt_def ethers_block_def
  ethers_fee_data_def ethers_send_def sleep_def clock_def Let_def

subsection \<open>Values in templates and spreads\<close>

text \<open>\<open>`${v}`\<close> for a JSON value\<close>

fun json_display :: "json \<Rightarrow> string" where
  "json_display JNull = ''null''"
| "json_display (JBool b) = (if b then ''true'' else ''false'')"
| "json_display (JNum q) = number_str q"
| "json_display (JStr s) = s"
| "json_display (JArr xs) = join '','' (map (\<lambda>x. if x = JNull then [] else json_display x) xs)"
| "json_display (JObj kvs) = ''[object Object]''"

text \<open>\<open>{ ...base, ...kvs }\<close>: the later entries win\<close>

definition obj_spread :: "(string \<times> json) list \<Rightarrow> (string \<times> json) list \<Rightarrow> (string \<times> json) list" where
  "obj_spread base kvs =
     map (\<lambda>(k, v). (k, case map_of kvs k of Some v' \<Rightarrow> v' | None \<Rightarrow> v)) base
     @ filter (\<lambda>(k, v). k \<notin> fst ` set base) kvs"

lemma map_of_obj_spread:
  "map_of (obj_spread base kvs) k = (case map_of kvs k of Some v \<Rightarrow> Some v | None \<Rightarrow> map_of base k)"
proof -
  have left: "map_of (map (\<lambda>(k, v). (k, case map_of kvs k of Some v' \<Rightarrow> v' | None \<Rightarrow> v)) base) k
      = map_option (\<lambda>v. case map_of kvs k of Some v' \<Rightarrow> v' | None \<Rightarrow> v) (map_of base k)"
    by (induction base) (auto split: option.splits)
  have restrict: "map_of (filter (\<lambda>(k, v). k \<notin> A) kvs) k = (if k \<in> A then None else map_of kvs k)" for A
    by (induction kvs) auto
  note right = restrict [of "fst ` set base"]
  show ?thesis
    using map_of_eq_None_iff [of base k]
    by (auto simp: obj_spread_def map_add_def left right split: option.splits)
qed

lemma wp_with_timeout [wp_simps]:
  "wp (with_timeout w ms message m) Q E = (\<lambda>lg x. wp m (\<lambda>v lg x. if on_timeout w lg ms then E (ErrorObj message) lg x else Q v lg x)
          (\<lambda>e lg x. E (if on_timeout w lg ms then ErrorObj message else e) lg x) lg x)"
  by (auto simp: fun_eq_iff wp_def with_timeout_def split: prod.splits sum.splits)

lemma keeps_with_timeout [keeps_rules]: "keeps m \<Longrightarrow> keeps (with_timeout w ms message m)"
  by (rule keepsI) (auto simp: with_timeout_def split: prod.splits if_splits dest: keepsD)

lemma adds_with_timeout [adds_rules]: "adds P m \<Longrightarrow> adds P (with_timeout w ms message m)"
  by (rule addsI) (auto simp: with_timeout_def split: prod.splits elim: addsE)

definition js_num :: "nat \<Rightarrow> json" where
  "js_num n = JNum (of_nat n)"

definition opt_field :: "string \<Rightarrow> json option \<Rightarrow> (string \<times> json) list" where
  "opt_field k v = (case v of None \<Rightarrow> [] | Some j \<Rightarrow> [(k, j)])"

text \<open>A world in which every call fails, to be updated where a witness needs an answer\<close>

definition unreachable :: js_err where
  "unreachable = ErrorObj ''offline''"

definition offline :: world where
  "offline = \<lparr>on_fetch = (\<lambda>_ _. Inl unreachable), on_axios = (\<lambda>_ _. Inl unreachable),
     on_block = (\<lambda>_. Inl unreachable), on_priority_fee = (\<lambda>_. Inl unreachable),
     on_gas_price = (\<lambda>_. Inl unreachable), on_write = (\<lambda>_ _. Inl unreachable),
     on_receipt = (\<lambda>_ _. Inl unreachable), on_read = (\<lambda>_ _. Inl unreachable),
     on_cofhe_connect = (\<lambda>_. Inl unreachable), on_cofhe_encrypt = (\<lambda>_ _. Inl unreachable),
     on_permit = (\<lambda>_. Inl unreachable), on_remove_permit = (\<lambda>_. Inl unreachable),
     on_cofhe_decrypt = (\<lambda>_ _. Inl unreachable), on_simulate = (\<lambda>_ _. Inl unreachable), on_receipt_logs = (\<lambda>_ _. Inl unreachable),
     on_sharing = (\<lambda>_ _. Inl unreachable), on_sdk_init = (\<lambda>_ _. Inl unreachable),
     on_escrow_create = (\<lambda>_ _. Inl unreachable), on_escrow_fund = (\<lambda>_ _ _. Inl unreachable),
     on_escrow_redeem = (\<lambda>_ _. Inl unreachable), on_sdk_balances = (\<lambda>_ _. Inl unreachable),
     on_sdk_call = (\<lambda>_ _. Inl unreachable), on_timeout = (\<lambda>_ _. False),
     on_ethers_block = (\<lambda>_. Inl unreachable),
     on_fee_data = (\<lambda>_. Inl unreachable), on_ethers_send = (\<lambda>_ _. Inl unreachable),
     on_clock = (\<lambda>_. 0)\<rparr>"

end
