(* ===== verification/Polling.thy ===== *)
theory Polling
  imports External
begin

section \<open>Bounded polling\<close>

text \<open>
  The SDK's two polls (\<open>_pollUntilComplete\<close> of \<open>client.ts\<close>, \<open>_pollJobStatus\<close> of
  \<open>agent.ts\<close>) are one loop: wait three seconds, ask, stop when the answer decides, throw after
  the last attempt. The locale \<open>poller\<close> states this loop and proves once what it returns;
  it is interpreted on both.
\<close>

definition rounds :: "ext \<Rightarrow> nat \<Rightarrow> ext list" where
  "rounds ask k = concat (replicate k [Sleep 3000, ask])"

lemma rounds_0 [simp]: "rounds ask 0 = []"
  by (simp add: rounds_def)

lemma rounds_Suc: "rounds ask (Suc k) = [Sleep 3000, ask] @ rounds ask k"
  by (simp add: rounds_def)

lemma rounds_snoc: "rounds ask (Suc k) = rounds ask k @ [Sleep 3000, ask]"
  by (induction k) (simp_all add: rounds_Suc)

lemma count_rounds: "length (filter (\<lambda>c. c = ask) (rounds ask k)) = (if ask = Sleep 3000 then 2 * k else k)"
  by (induction k) (auto simp: rounds_Suc)

text \<open>What one attempt decides: an error, a result, or nothing yet\<close>

definition attempt :: "(ext list \<Rightarrow> js_err + json) \<Rightarrow> (json \<Rightarrow> js_err + 'r option) \<Rightarrow> ext list \<Rightarrow> js_err + 'r option" where
  "attempt answer verdict lg = (case answer (lg @ [Sleep 3000]) of Inl e \<Rightarrow> Inl e | Inr d \<Rightarrow> verdict d)"

definition undecided :: "ext \<Rightarrow> (ext list \<Rightarrow> js_err + json) \<Rightarrow> (json \<Rightarrow> js_err + 'r option) \<Rightarrow> ext list \<Rightarrow> nat \<Rightarrow> bool" where
  "undecided ask answer verdict lg k =
     (\<forall>i<k. attempt answer verdict (lg @ rounds ask i) = Inr None)"

lemma undecided_0 [simp]: "undecided ask answer verdict lg 0"
  by (simp add: undecided_def)

lemma undecided_Suc:
  "undecided ask answer verdict lg (Suc k) \<longleftrightarrow>
     attempt answer verdict lg = Inr None \<and> undecided ask answer verdict (lg @ [Sleep 3000, ask]) k"
  by (auto simp: undecided_def less_Suc_eq_0_disj rounds_Suc)

definition decides :: "js_err + 'r option \<Rightarrow> js_err + 'r \<Rightarrow> bool" where
  "decides a r = (case a of Inl e \<Rightarrow> r = Inl e | Inr None \<Rightarrow> False | Inr (Some v) \<Rightarrow> r = Inr v)"

definition poll_spec ::
  "ext \<Rightarrow> (ext list \<Rightarrow> js_err + json) \<Rightarrow> (json \<Rightarrow> js_err + 'r option) \<Rightarrow> js_err \<Rightarrow> nat \<Rightarrow>
   ext list \<Rightarrow> 'x \<Rightarrow> (js_err + 'r) \<times> (ext list \<times> 'x) \<Rightarrow> bool" where
  "poll_spec ask answer verdict timeout n lg x out =
     ((\<exists>k r. k < n \<and> undecided ask answer verdict lg k
          \<and> decides (attempt answer verdict (lg @ rounds ask k)) r
          \<and> out = (r, (lg @ rounds ask (Suc k), x)))
      \<or> (undecided ask answer verdict lg n \<and> out = (Inl timeout, (lg @ rounds ask n, x))))"

locale poller =
  fixes poll :: "nat \<Rightarrow> (ext, 'x, 'r) io"
    and ask :: ext
    and answer :: "ext list \<Rightarrow> js_err + json"
    and verdict :: "json \<Rightarrow> js_err + 'r option"
    and timeout :: js_err
  assumes poll_0: "poll 0 (lg, x) = (Inl timeout, (lg, x))"
    and poll_Suc: "poll (Suc n) (lg, x) =
      (case attempt answer verdict lg of
         Inl e \<Rightarrow> (Inl e, (lg @ [Sleep 3000, ask], x))
       | Inr (Some r) \<Rightarrow> (Inr r, (lg @ [Sleep 3000, ask], x))
       | Inr None \<Rightarrow> poll n (lg @ [Sleep 3000, ask], x))"
begin

lemma poll_result: "poll_spec ask answer verdict timeout n lg x (poll n (lg, x))"
proof (induction n arbitrary: lg)
  case 0
  then show ?case by (simp add: poll_spec_def poll_0)
next
  case (Suc n)
  let ?lg = "lg @ [Sleep 3000, ask]"
  show ?case
  proof (cases "attempt answer verdict lg = Inr None")
    case True
    then have step: "poll (Suc n) (lg, x) = poll n (?lg, x)" by (simp add: poll_Suc)
    from Suc [of ?lg] consider
      (stops) k r where "k < n" "undecided ask answer verdict ?lg k"
        "decides (attempt answer verdict (?lg @ rounds ask k)) r"
        "poll n (?lg, x) = (r, (?lg @ rounds ask (Suc k), x))"
      | (never) "undecided ask answer verdict ?lg n" "poll n (?lg, x) = (Inl timeout, (?lg @ rounds ask n, x))"
      unfolding poll_spec_def by blast
    then show ?thesis
    proof cases
      case (stops k r)
      with True step show ?thesis
        unfolding poll_spec_def
        by (intro disjI1 exI [of _ "Suc k"] exI [of _ r]) (simp add: undecided_Suc rounds_Suc)
    next
      case never
      with True step show ?thesis
        unfolding poll_spec_def by (intro disjI2) (simp add: undecided_Suc rounds_Suc)
    qed
  next
    case False
    then obtain r where "decides (attempt answer verdict lg) r"
      "poll (Suc n) (lg, x) = (r, (?lg, x))"
      by (cases "attempt answer verdict lg") (auto simp: poll_Suc decides_def split: option.splits)
    then show ?thesis
      unfolding poll_spec_def by (intro disjI1 exI [of _ 0] exI [of _ r]) (simp add: rounds_Suc)
  qed
qed

lemma poll_decided:
  "k < n \<Longrightarrow> undecided ask answer verdict lg k \<Longrightarrow> attempt answer verdict (lg @ rounds ask k) = Inr (Some r) \<Longrightarrow>
   poll n (lg, x) = (Inr r, (lg @ rounds ask (Suc k), x))"
proof (induction k arbitrary: n lg)
  case 0
  then show ?case by (cases n) (simp_all add: poll_Suc rounds_Suc)
next
  case (Suc k)
  then obtain m where m: "n = Suc m" "k < m" by (cases n) auto
  from Suc.prems(2,3) Suc.IH [OF m(2), of "lg @ [Sleep 3000, ask]"] m(1) show ?case
    by (simp add: undecided_Suc poll_Suc rounds_Suc)
qed

lemma poll_bounded: "\<exists>k \<le> n. snd (poll n (lg, x)) = (lg @ rounds ask k, x)"
  using poll_result [of n lg x] unfolding poll_spec_def
  by (elim disjE exE conjE) (metis Suc_leI snd_conv, metis order_refl snd_conv)

end

text \<open>Reading the specification at a result\<close>

lemma decides_Inr: "decides a (Inr v) \<longleftrightarrow> a = Inr (Some v)"
  by (auto simp: decides_def split: sum.splits option.splits)

lemma attempt_Inr: "attempt answer verdict lg = Inr v \<longleftrightarrow> (\<exists>d. answer (lg @ [Sleep 3000]) = Inr d \<and> verdict d = Inr v)"
  by (auto simp: attempt_def split: sum.splits)

lemma poll_spec_result:
  assumes "poll_spec ask answer verdict timeout n lg x (Inr r, (lg', x'))"
  obtains k d where "k < n" "undecided ask answer verdict lg k"
    "answer (lg @ rounds ask k @ [Sleep 3000]) = Inr d" "verdict d = Inr (Some r)"
    "lg' = lg @ rounds ask (Suc k)" "x' = x"
  using assms unfolding poll_spec_def by (auto simp: decides_Inr attempt_Inr)

lemma poll_spec_error:
  assumes "poll_spec ask answer verdict timeout n lg x (Inl e, (lg', x'))"
  obtains k where "k \<le> n" "lg' = lg @ rounds ask k"
  using assms unfolding poll_spec_def by (auto dest: Suc_leI)

lemma length_rounds [simp]: "length (rounds ask k) = 2 * k"
  by (induction k) (simp_all add: rounds_Suc)

end
