(* ===== verification/Agent_Client.thy ===== *)
theory Agent_Client
  imports Polling
begin

section \<open>\<open>InferenceClient\<close>: the pre-encrypted flow of the SDK\<close>

text \<open>
  \<open>agent-sdk/src/client.ts\<close>. The object is the resolved configuration and the wallet's
  address; it never changes, so the operations take it as an argument. What axios answers is
  unchecked JSON (the casts of the source check nothing): a field that is missing is
  \<open>None\<close>, and reading a field of \<open>null\<close> throws.
\<close>

subsection \<open>Configuration\<close>

record inference_client_config =
  cfg_privateKey :: string
  cfg_iclBaseUrl :: "string option"
  cfg_paymentBaseUrl :: "string option"
  cfg_rpcUrl :: "string option"
  cfg_chainId :: "nat option"
  cfg_pinataJwt :: "string option"

record inference_client =
  iclBaseUrl :: string
  paymentBaseUrl :: string
  rpcUrl :: string
  chainId :: nat
  pinataJwt :: string
  client_address :: string

text \<open>\<open>privateKeyToAccount\<close> (viem) is a parameter. A key given as \<open>undefined\<close> is taken as absent.\<close>

definition new_InferenceClient :: "(string \<Rightarrow> string) \<Rightarrow> inference_client_config \<Rightarrow> inference_client" where
  "new_InferenceClient privateKeyToAccount config =
     \<lparr>iclBaseUrl = nullish (cfg_iclBaseUrl config) ''http://127.0.0.1:8000'',
      paymentBaseUrl = nullish (cfg_paymentBaseUrl config) ''http://127.0.0.1:8001'',
      rpcUrl = nullish (cfg_rpcUrl config) ''https://sepolia-rollup.arbitrum.io/rpc'',
      chainId = nullish (cfg_chainId config) 421614,
      pinataJwt = nullish (cfg_pinataJwt config) [],
      client_address = privateKeyToAccount (cfg_privateKey config)\<rparr>"

subsection \<open>Credits\<close>

definition client_getBalance :: "world \<Rightarrow> inference_client \<Rightarrow> string option \<Rightarrow> (ext, 'x, json) io" where
  "client_getBalance w c addr = axios_get w (paymentBaseUrl c) (''/v1/balance/'' @ js_or addr (client_address c))"

definition client_getPackages :: "world \<Rightarrow> inference_client \<Rightarrow> (ext, 'x, json option) io" where
  "client_getPackages w c =
     bindE (axios_get w (paymentBaseUrl c) ''/v1/credits/packages'') (\<lambda>d. lift (json_prop ''packages'' d))"

definition client_getPaymentWalletAddress :: "world \<Rightarrow> inference_client \<Rightarrow> (ext, 'x, string) io" where
  "client_getPaymentWalletAddress w c =
     thenE (axios_get w (paymentBaseUrl c) ''/health'') (ret ''0x7F9B413Da50e72415b16Eb9df6e5E59774a338dc'')"

definition client_getBlindTokenAddress :: "(ext, 'x, string) io" where
  "client_getBlindTokenAddress = ret ''0x232D5470DaaC7AD552a42d876aDEF1f778033cE0''"

definition depositBLIND :: "world \<Rightarrow> inference_client \<Rightarrow> int \<Rightarrow> (ext, 'x, string) io" where
  "depositBLIND w c amountWei =
     bindE (client_getPaymentWalletAddress w c) (\<lambda>paymentWalletAddress.
     bindE client_getBlindTokenAddress (\<lambda>blindTokenAddress.
     bindE (write_contract w \<lparr>tx_account = client_address c, tx_address = blindTokenAddress,
              tx_function = ''transfer'', tx_args = [AStr paymentWalletAddress, AInt amountWei], tx_fees = NoFees\<rparr>)
       (\<lambda>txHash. thenE (wait_receipt w txHash) (ret txHash))))"

text \<open>\<open>packages.find((p) => p.id === packageId)\<close>\<close>

fun find_package :: "string \<Rightarrow> json list \<Rightarrow> js_err + json option" where
  "find_package packageId [] = Inr None"
| "find_package packageId (p # ps) =
     (case json_prop ''id'' p of
        Inl e \<Rightarrow> Inl e
      | Inr i \<Rightarrow> if i = Some (JStr packageId) then Inr (Some p) else find_package packageId ps)"

definition packages_find :: "string \<Rightarrow> json option \<Rightarrow> js_err + json option" where
  "packages_find packageId packages = (case packages of
      Some (JArr ps) \<Rightarrow> find_package packageId ps
    | _ \<Rightarrow> Inl (ErrorObj ''packages.find is not a function''))"

text \<open>\<open>BigInt(v)\<close> on JSON: a number must be an integer\<close>

definition BigInt_json :: "json option \<Rightarrow> js_err + int" where
  "BigInt_json v = (case v of
      Some (JNum q) \<Rightarrow> (case quotient_of q of (a, b) \<Rightarrow>
         if b = 1 then Inr a else Inl (ErrorObj ''The number cannot be converted to a BigInt because it is not an integer''))
    | Some (JStr s) \<Rightarrow> js_BigInt s
    | Some (JBool b) \<Rightarrow> Inr (if b then 1 else 0)
    | Some JNull \<Rightarrow> Inl (ErrorObj ''Cannot convert null to a BigInt'')
    | Some j \<Rightarrow> js_BigInt (json_display j)
    | None \<Rightarrow> Inl (ErrorObj ''Cannot convert undefined to a BigInt''))"

definition client_purchasePackage :: "world \<Rightarrow> inference_client \<Rightarrow> string \<Rightarrow> (ext, 'x, json \<times> string) io" where
  "client_purchasePackage w c packageId =
     bindE (client_getPackages w c) (\<lambda>packages.
     bindE (lift (packages_find packageId packages)) (\<lambda>found.
     case found of
       None \<Rightarrow> throw (ErrorObj (''Package '' @ packageId @ '' not found''))
     | Some pkg \<Rightarrow>
        bindE (lift (json_prop ''price_blind_wei'' pkg)) (\<lambda>price.
        bindE (lift (BigInt_json price)) (\<lambda>amountWei.
        bindE (depositBLIND w c amountWei) (\<lambda>txHash.
        bindE (axios_post w (paymentBaseUrl c) ''/v1/credits/purchase-package''
                 (JsonBody (JObj [(''package_id'', JStr packageId), (''tx_hash'', JStr txHash)]))) (\<lambda>balance.
        ret (balance, txHash)))))))"

subsection \<open>Inference\<close>

definition client_submitInference :: "(ext, 'x, 'r) io" where
  "client_submitInference = throw (ErrorObj
     (''Full end-to-end inference with CoFHE encryption is not yet implemented. ''
      @ ''Use submitEncryptedInference() with a pre-encrypted payload instead.''))"

record client_result =
  res_requestId :: json
  res_taskId :: "json option"
  res_status :: string
  res_outputCid :: "json option"
  res_commitmentHash :: "json option"

definition json_or :: "json option \<Rightarrow> json option \<Rightarrow> json option" where
  "json_or a b = (if json_truthy a then a else b)"

definition is_str :: "json option \<Rightarrow> string \<Rightarrow> bool" where
  "is_str v s = (v = Some (JStr s))"

text \<open>One answer of the status endpoint: a result, or keep polling\<close>

definition client_verdict :: "json \<Rightarrow> json \<Rightarrow> js_err + client_result option" where
  "client_verdict requestId data =
     (case json_prop ''status'' data of
        Inl e \<Rightarrow> Inl e
      | Inr status \<Rightarrow>
         let taskId = json_or (obj_get ''task_id'' data) (obj_get ''job_id'' data) in
         if is_str status ''ACCEPTED'' \<or> is_str status ''accepted'' then
           Inr (Some \<lparr>res_requestId = requestId, res_taskId = taskId, res_status = ''COMPLETED'',
                      res_outputCid = obj_get ''output_cid'' data,
                      res_commitmentHash = obj_get ''commitment_hash'' data\<rparr>)
         else if is_str status ''REJECTED'' \<or> is_str status ''rejected'' then
           Inr (Some \<lparr>res_requestId = requestId, res_taskId = taskId, res_status = ''REJECTED'',
                      res_outputCid = None, res_commitmentHash = None\<rparr>)
         else if is_str status ''FAILED'' \<or> is_str status ''failed'' then
           Inr (Some \<lparr>res_requestId = requestId, res_taskId = taskId, res_status = ''FAILED'',
                      res_outputCid = None, res_commitmentHash = None\<rparr>)
         else Inr None)"

text \<open>The loop; the last argument counts the attempts left\<close>

fun pollUntilComplete :: "world \<Rightarrow> inference_client \<Rightarrow> json \<Rightarrow> nat \<Rightarrow> nat \<Rightarrow> (ext, 'x, client_result) io" where
  "pollUntilComplete w c requestId maxAttempts 0 =
     throw (ErrorObj (''Polling timed out after '' @ nat_str maxAttempts @ '' attempts''))"
| "pollUntilComplete w c requestId maxAttempts (Suc n) =
     thenE (sleep 3000)
     (bindE (axios_get w (iclBaseUrl c) (''/v1/inference/'' @ json_display requestId @ ''/status'')) (\<lambda>data.
      bindE (lift (client_verdict requestId data)) (\<lambda>v. case v of
        Some r \<Rightarrow> ret r
      | None \<Rightarrow> pollUntilComplete w c requestId maxAttempts n)))"

record encrypted_payload =
  pl_taskId :: string
  pl_promptCid :: string
  pl_keyHigh :: string
  pl_keyLow :: string
  pl_modelId :: "string option"
  pl_paymentMode :: "string option"
  pl_paymentCurrency :: "string option"
  pl_source :: "string option"

definition quorum_request :: "string \<Rightarrow> json" where
  "quorum_request modelId = JObj [(''model_id'', JStr modelId), (''min_tier'', JNum 0),
     (''verifier_count'', JNum 2), (''zdr_required'', JBool False)]"

definition client_request_body :: "inference_client \<Rightarrow> encrypted_payload \<Rightarrow> bool \<Rightarrow> json option \<Rightarrow> json option \<Rightarrow> json" where
  "client_request_body c payload insurance leader verifiers =
     (let modelId = js_or (pl_modelId payload) ''groq:llama-3.3-70b-versatile'' in
      JObj ([(''developer_address'', JStr (client_address c)), (''task_id'', JStr (pl_taskId payload)),
             (''mode'', JStr ''text''), (''model_id'', JStr modelId),
             (''text_request'', JObj [(''prompt_cid'', JStr (pl_promptCid payload)),
                (''encrypted_prompt_key'', JObj [(''high'', JStr (pl_keyHigh payload)), (''low'', JStr (pl_keyLow payload))]),
                (''model_id'', JStr modelId), (''coverage_enabled'', JBool insurance)])]
            @ opt_field ''leader_address'' leader @ opt_field ''verifier_addresses'' verifiers
            @ [(''min_tier'', JNum 0), (''zdr_required'', JBool False), (''verifier_count'', JNum 2),
               (''payment_mode'', JStr (js_or (pl_paymentMode payload) ''credits'')),
               (''payment_currency'', JStr (js_or (pl_paymentCurrency payload) ''blind'')),
               (''metadata'', JObj [(''source'', JStr (js_or (pl_source payload) ''sdk''))])]))"

definition submitEncryptedInference ::
  "world \<Rightarrow> inference_client \<Rightarrow> encrypted_payload \<Rightarrow> bool \<Rightarrow> (ext, 'x, client_result) io" where
  "submitEncryptedInference w c payload insurance =
     (let modelId = js_or (pl_modelId payload) ''groq:llama-3.3-70b-versatile'' in
      bindE (axios_post w (iclBaseUrl c) ''/v1/inference/quorum-preview'' (JsonBody (quorum_request modelId))) (\<lambda>preview.
      bindE (lift (json_prop ''leader'' preview)) (\<lambda>leader.
      bindE (axios_post w (iclBaseUrl c) ''/v1/inference/requests''
               (JsonBody (client_request_body c payload insurance leader (obj_get ''verifiers'' preview)))) (\<lambda>data.
      bindE (lift (json_prop ''request_id'' data)) (\<lambda>rid.
      let requestId = json_or rid (obj_get ''job_id'' data) in
      if \<not> json_truthy requestId then throw (ErrorObj ''ICL response did not include a request identifier'')
      else pollUntilComplete w c (the requestId) 60 60)))))"

subsection \<open>The poll\<close>

definition status_call :: "inference_client \<Rightarrow> json \<Rightarrow> ext" where
  "status_call c requestId = Axios ''GET'' (iclBaseUrl c) (''/v1/inference/'' @ json_display requestId @ ''/status'') NoBody"

interpretation client_poll: poller "pollUntilComplete w c requestId m" "status_call c requestId"
    "\<lambda>lg. on_axios w lg (status_call c requestId)" "client_verdict requestId"
    "ErrorObj (''Polling timed out after '' @ nat_str m @ '' attempts'')" for w c requestId m
  by unfold_locales
    (auto simp: call_defs thenE_call bindE_call attempt_def status_call_def split: sum.splits option.splits)

lemma client_verdict_status:
  "client_verdict requestId data = Inr (Some r) \<Longrightarrow>
   res_requestId r = requestId \<and> res_status r \<in> {''COMPLETED'', ''REJECTED'', ''FAILED''}"
  by (auto simp: client_verdict_def Let_def split: sum.splits if_splits)

lemma submit_steps:
  obtains (early) e new where "submitEncryptedInference w c payload insurance (lg, x) = (Inl e, (lg @ new, x))" "length new \<le> 2"
  | (polls) a b requestId where "submitEncryptedInference w c payload insurance (lg, x)
      = pollUntilComplete w c requestId 60 60 (lg @ [a, b], x)"
proof -
  let ?a = "Axios ''POST'' (iclBaseUrl c) ''/v1/inference/quorum-preview''
    (JsonBody (quorum_request (js_or (pl_modelId payload) ''groq:llama-3.3-70b-versatile'')))"
  show thesis
  proof (cases "\<exists>preview leader. on_axios w lg ?a = Inr preview \<and> json_prop ''leader'' preview = Inr leader")
    case False
    then have "\<exists>e. submitEncryptedInference w c payload insurance (lg, x) = (Inl e, (lg @ [?a], x))"
      by (auto simp: submitEncryptedInference_def call_defs bindE_call split: sum.splits)
    then show thesis using early [of _ "[?a]"] by auto
  next
    case True
    then obtain preview leader where ok: "on_axios w lg ?a = Inr preview" "json_prop ''leader'' preview = Inr leader" by blast
    let ?b = "Axios ''POST'' (iclBaseUrl c) ''/v1/inference/requests''
      (JsonBody (client_request_body c payload insurance leader (obj_get ''verifiers'' preview)))"
    from ok have "submitEncryptedInference w c payload insurance (lg, x) =
      (case on_axios w (lg @ [?a]) ?b of Inl e \<Rightarrow> (Inl e, (lg @ [?a, ?b], x))
       | Inr data \<Rightarrow> (case json_prop ''request_id'' data of Inl e \<Rightarrow> (Inl e, (lg @ [?a, ?b], x))
          | Inr rid \<Rightarrow> (let requestId = json_or rid (obj_get ''job_id'' data) in
              if \<not> json_truthy requestId then (Inl (ErrorObj ''ICL response did not include a request identifier''), (lg @ [?a, ?b], x))
              else pollUntilComplete w c (the requestId) 60 60 (lg @ [?a, ?b], x))))"
      by (simp add: submitEncryptedInference_def axios_post_def Let_def bindE_call split: sum.splits)
    then show thesis
      using early [of _ "[?a, ?b]"] polls by (auto simp: Let_def split: sum.splits if_splits)
  qed
qed

text \<open>\<open>submitEncryptedInference\<close> makes two calls and then polls at most 60 times. A result it
  returns is the verdict on the last answer, no earlier answer was decisive, and its status
  is COMPLETED, REJECTED or FAILED; when it throws, it has asked no more often than that.\<close>

lemma submit_and_poll:
  shows "case submitEncryptedInference w c payload insurance (lg, x) of
      (Inl e, (lg', x')) \<Rightarrow> \<exists>new. lg' = lg @ new \<and> length new \<le> 2 + 2 * 60
    | (Inr r, (lg', x')) \<Rightarrow> \<exists>a b k data. k < 60
        \<and> lg' = lg @ [a, b] @ rounds (status_call c (res_requestId r)) (Suc k)
        \<and> on_axios w (lg @ [a, b] @ rounds (status_call c (res_requestId r)) k @ [Sleep 3000])
             (status_call c (res_requestId r)) = Inr data
        \<and> client_verdict (res_requestId r) data = Inr (Some r)
        \<and> undecided (status_call c (res_requestId r)) (\<lambda>lg. on_axios w lg (status_call c (res_requestId r)))
             (client_verdict (res_requestId r)) (lg @ [a, b]) k
        \<and> res_status r \<in> {''COMPLETED'', ''REJECTED'', ''FAILED''}"
proof (rule submit_steps [of w c payload insurance lg x])
  fix e new
  assume "submitEncryptedInference w c payload insurance (lg, x) = (Inl e, (lg @ new, x))" "length new \<le> 2"
  then show ?thesis by simp
next
  fix a b requestId
  assume run: "submitEncryptedInference w c payload insurance (lg, x) = pollUntilComplete w c requestId 60 60 (lg @ [a, b], x)"
  let ?ask = "status_call c requestId"
  obtain r lg' x' where out: "pollUntilComplete w c requestId 60 60 (lg @ [a, b], x) = (r, (lg', x'))" by (metis surj_pair)
  note spec = client_poll.poll_result [where w = w and c = c and requestId = requestId and m = 60 and n = 60
      and lg = "lg @ [a, b]" and x = x, unfolded out]
  show ?thesis
  proof (cases r)
    case (Inl e)
    with spec obtain k where "k \<le> 60" "lg' = (lg @ [a, b]) @ rounds ?ask k" using poll_spec_error by metis
    with run out Inl show ?thesis by simp
  next
    case (Inr v)
    with spec obtain k d where k: "k < 60"
      "undecided ?ask (\<lambda>lg. on_axios w lg ?ask) (client_verdict requestId) (lg @ [a, b]) k"
      "on_axios w ((lg @ [a, b]) @ rounds ?ask k @ [Sleep 3000]) ?ask = Inr d"
      "client_verdict requestId d = Inr (Some v)" "lg' = (lg @ [a, b]) @ rounds ?ask (Suc k)"
      using poll_spec_result by metis
    with client_verdict_status [OF k(4)] run out Inr show ?thesis by (auto intro!: exI [of _ a] exI [of _ b] exI [of _ k])
  qed
qed

end
