(* ===== verification/Chain_Tx.thy ===== *)
theory Chain_Tx
  imports External
begin

section \<open>Fees and the two on-chain stores\<close>

text \<open>
  The EIP-1559 fee computation, which the sources repeat before every contract write
  (\<open>chain_fee_params\<close>), the signer patch of \<open>lib/reineiraSdk.ts\<close>, and the operations of
  \<open>lib/promptKeyStore.ts\<close> and \<open>lib/inputVault.ts\<close>. \<open>walletClient.account\<close> is an
  optional address.
\<close>

subsection \<open>Fees\<close>

definition priority_fee :: "int \<Rightarrow> int" where
  "priority_fee maxPriorityFeePerGas =
     (let fallbackPriorityFeePerGas = 2000000 in
      if maxPriorityFeePerGas > 0 then maxPriorityFeePerGas else fallbackPriorityFeePerGas)"

definition chain_fee_params :: "world \<Rightarrow> (ext, 'x, fee_params) io" where
  "chain_fee_params w =
     bindE (get_block w) (\<lambda>baseFeePerGas.
     bindE (catchE (estimate_priority_fee w) (\<lambda>_. ret 2000000)) (\<lambda>maxPriorityFeePerGas.
     let priorityFeePerGas = priority_fee maxPriorityFeePerGas in
     case baseFeePerGas of
       Some base \<Rightarrow> ret (Eip1559 priorityFeePerGas (base * 2 + priorityFeePerGas + 1000000))
     | None \<Rightarrow> bindE (get_gas_price w) (\<lambda>p. ret (GasPrice p))))"

text \<open>\<open>getFeeParams\<close> of \<open>reineiraSdk.ts\<close>: \<open>(maxFeePerGas, maxPriorityFeePerGas)\<close>. It never throws.\<close>

definition default_fees :: "int \<times> int" where
  "default_fees = (1000000000, 2000000)"

definition getFeeParams :: "world \<Rightarrow> bool \<Rightarrow> (ext, 'x, int \<times> int) io" where
  "getFeeParams w has_provider =
     catchE
       (if \<not> has_provider then ret default_fees
        else bindE (ethers_block w) (\<lambda>blk.
          let baseFee = nullish blk 0 in
          bindE (catchE
                   (bindE (ethers_fee_data w) (\<lambda>fee.
                      ret (case fee of Some p \<Rightarrow> if p > 0 then p else 2000000 | None \<Rightarrow> 2000000)))
                   (\<lambda>_. ret 2000000)) (\<lambda>priorityFee.
          if baseFee > 0 then ret (baseFee * 10 + priorityFee + 1000000, priorityFee)
          else ret default_fees)))
       (\<lambda>e. ret default_fees)"

text \<open>\<open>patchSigner\<close>: the patched \<open>sendTransaction\<close>\<close>

definition patched_send :: "world \<Rightarrow> bool \<Rightarrow> (string \<times> json) list \<Rightarrow> (ext, 'x, string) io" where
  "patched_send w has_provider tx =
     bindE (getFeeParams w has_provider) (\<lambda>(maxFee, maxPriority).
     ethers_send w (obj_spread tx
       [(''maxFeePerGas'', JNum (of_int maxFee)),
        (''maxPriorityFeePerGas'', JNum (of_int maxPriority)),
        (''type'', JNum 2)]))"

subsection \<open>Prompt key store and input vault\<close>

definition toContractInput :: "encrypted_input \<Rightarrow> abi_value" where
  "toContractInput item =
     ATuple [AInt (ctHash item), AInt (nullish (securityZone item) 0), AInt (utype item), AStr (signature item)]"

definition storePromptKeyForTextRequest ::
  "world \<Rightarrow> string option \<Rightarrow> string \<Rightarrow> string \<Rightarrow> encrypted_input \<Rightarrow> encrypted_input \<Rightarrow> string list
   \<Rightarrow> (ext, 'x, string) io" where
  "storePromptKeyForTextRequest w account taskId store high low allowedNodes =
     (case account of
        None \<Rightarrow> throw (ErrorObj ''Wallet client is missing the active account.'')
      | Some me \<Rightarrow>
         let safeAllowedNodes = (if 0 < length allowedNodes then allowedNodes else [me]) in
         bindE (chain_fee_params w) (\<lambda>feeParams.
         bindE (write_contract w \<lparr>tx_account = me, tx_address = store, tx_function = ''storeKey'',
                  tx_args = [AStr taskId, toContractInput high, toContractInput low,
                             AList (map AStr safeAllowedNodes)],
                  tx_fees = feeParams\<rparr>) (\<lambda>hash.
         bindE (wait_receipt w hash) (\<lambda>status.
         if status \<noteq> ''success'' then throw (ErrorObj (''PromptKeyStore transaction failed for task '' @ taskId @ ''.''))
         else ret hash))))"

definition storeEncryptedRiskInputsInVault ::
  "world \<Rightarrow> string option \<Rightarrow> encrypted_input list \<Rightarrow> string \<Rightarrow> string \<Rightarrow> (ext, 'x, string) io" where
  "storeEncryptedRiskInputsInVault w account encryptedInputs loanId vaultAddress =
     (case account of
        None \<Rightarrow> throw (ErrorObj ''Wallet client is missing the active account.'')
      | Some me \<Rightarrow>
        if length encryptedInputs \<noteq> 4 then
          throw (ErrorObj (''BlindferenceInputVault expects exactly 4 encrypted features, got ''
                           @ nat_str (length encryptedInputs) @ ''.''))
        else
         bindE (chain_fee_params w) (\<lambda>feeParams.
         bindE (write_contract w \<lparr>tx_account = me, tx_address = vaultAddress, tx_function = ''storeEncryptedInputs'',
                  tx_args = AStr loanId # map toContractInput encryptedInputs,
                  tx_fees = feeParams\<rparr>) (\<lambda>hash.
         bindE (wait_receipt w hash) (\<lambda>status.
         if status \<noteq> ''success'' then throw (ErrorObj (''Input vault transaction failed for loan '' @ loanId @ ''.''))
         else ret hash))))"

text \<open>\<open>[owner, storedAt, ...handles] = storedInputs\<close>; viem decodes exactly the six outputs of the
  ABI, another shape stands for a malformed answer\<close>

record stored_vault_inputs =
  vault_owner :: string
  vault_storedAt :: int
  vault_handles :: "int \<times> int \<times> int \<times> int"

definition readStoredRiskInputHandles :: "world \<Rightarrow> string \<Rightarrow> string \<Rightarrow> (ext, 'x, stored_vault_inputs) io" where
  "readStoredRiskInputHandles w loanId vaultAddress =
     bindE (read_contract w vaultAddress ''storedInputHandles'' [AStr loanId]) (\<lambda>storedInputs.
     case storedInputs of
       [AStr own, AInt stored, AInt c, AInt l, AInt a, AInt p] \<Rightarrow>
         ret \<lparr>vault_owner = own, vault_storedAt = stored, vault_handles = (c, l, a, p)\<rparr>
     | _ \<Rightarrow> throw (ErrorObj ''storedInputs is not iterable''))"

subsection \<open>Fee bounds\<close>

lemma priority_fee_pos: "0 < priority_fee p"
  by (simp add: priority_fee_def Let_def)

text \<open>What the fee computation asks, and what it answers\<close>

definition estimated :: "world \<Rightarrow> ext list \<Rightarrow> int" where
  "estimated w lg = (case on_priority_fee w lg of Inl _ \<Rightarrow> 2000000 | Inr p \<Rightarrow> p)"

lemma chain_fee_params_apply:
  "chain_fee_params w (lg, x) =
     (case on_block w lg of
        Inl e \<Rightarrow> (Inl e, (lg @ [GetBlock], x))
      | Inr (Some base) \<Rightarrow>
          (let p = priority_fee (estimated w (lg @ [GetBlock])) in
           (Inr (Eip1559 p (base * 2 + p + 1000000)), (lg @ [GetBlock, EstimatePriorityFee], x)))
      | Inr None \<Rightarrow>
          (map_sum id GasPrice (on_gas_price w (lg @ [GetBlock, EstimatePriorityFee])),
           (lg @ [GetBlock, EstimatePriorityFee, GetGasPrice], x)))"
  by (auto simp: chain_fee_params_def call_defs bindE_call estimated_def bindE_def catchE_def
      split: sum.splits option.splits)

lemma getFeeParams_never_throws: "\<exists>v s'. getFeeParams w p s = (Inr v, s')"
  by (cases s) (auto simp: getFeeParams_def call_defs bindE_def catchE_def split: sum.splits option.splits prod.splits)

text \<open>Whatever the node answers, the priority fee sent is positive, and the fee cap covers
  twice the latest base fee plus the priority fee.\<close>

lemma fees_cover_base:
  assumes "chain_fee_params w (lg, x) = (Inr (Eip1559 prio cap), s)" "on_block w lg = Inr (Some base)" "0 \<le> base"
  shows "0 < prio \<and> prio \<le> cap \<and> 2 * base + prio < cap"
  using assms by (auto simp: chain_fee_params_apply Let_def priority_fee_pos)

text \<open>The patched signer's fees: always an answer, the priority fee positive and under the
  cap, and a cap above ten times the base fee when the provider reports a positive one.\<close>

lemma sdk_fees_bounded:
  shows "\<exists>cap prio s'. getFeeParams w has_provider (lg, x) = (Inr (cap, prio), s') \<and> 0 < prio \<and> prio < cap
    \<and> (case on_ethers_block w lg of
         Inr (Some base) \<Rightarrow> (if has_provider \<and> 0 < base then 10 * base + prio < cap else (cap, prio) = default_fees)
       | _ \<Rightarrow> (cap, prio) = default_fees)"
  by (auto simp: getFeeParams_def default_fees_def call_defs bindE_def catchE_def nullish_def
      split: sum.splits option.splits prod.splits)

subsection \<open>A store returns only confirmed transactions\<close>

text \<open>What the writes of the repository share: fees, one write, its receipt, and an error unless
  the receipt says \<open>success\<close>.\<close>

definition confirmed ::
  "world \<Rightarrow> (fee_params \<Rightarrow> contract_tx) \<Rightarrow> ext list \<Rightarrow> string \<Rightarrow> ext list \<Rightarrow> bool" where
  "confirmed w tx lg h lg' =
     (\<exists>fees pre. on_write w pre (tx fees) = Inr h
        \<and> on_receipt w (pre @ [WriteContract (tx fees)]) h = Inr ''success''
        \<and> lg' = pre @ [WriteContract (tx fees), WaitReceipt h]
        \<and> (pre = lg @ [GetBlock, EstimatePriorityFee] \<or> pre = lg @ [GetBlock, EstimatePriorityFee, GetGasPrice]))"

lemma chain_fee_params_log:
  "chain_fee_params w (lg, x) = (Inr f, s) \<Longrightarrow>
   s = (lg @ [GetBlock, EstimatePriorityFee], x) \<or> s = (lg @ [GetBlock, EstimatePriorityFee, GetGasPrice], x)"
  by (auto simp: chain_fee_params_apply Let_def split: sum.splits option.splits)

lemma send_confirmed:
  assumes "bindE (chain_fee_params w) (\<lambda>f. bindE (write_contract w (tx f)) (\<lambda>hash.
      bindE (wait_receipt w hash) (\<lambda>status. if status \<noteq> ''success'' then throw e else ret hash))) (lg, x)
      = (Inr h, (lg', x'))"
  shows "confirmed w tx lg h lg' \<and> x' = x"
proof -
  from assms obtain f s where fee: "chain_fee_params w (lg, x) = (Inr f, s)"
    and rest: "bindE (write_contract w (tx f)) (\<lambda>hash.
      bindE (wait_receipt w hash) (\<lambda>status. if status \<noteq> ''success'' then throw e else ret hash)) s = (Inr h, (lg', x'))"
    by (auto simp: bindE_EqInr)
  from chain_fee_params_log [OF fee] obtain pre where s: "s = (pre, x)"
    and pre: "pre = lg @ [GetBlock, EstimatePriorityFee] \<or> pre = lg @ [GetBlock, EstimatePriorityFee, GetGasPrice]"
    by blast
  from rest s have "on_write w pre (tx f) = Inr h \<and> on_receipt w (pre @ [WriteContract (tx f)]) h = Inr ''success''
      \<and> lg' = pre @ [WriteContract (tx f), WaitReceipt h] \<and> x' = x"
    by (auto simp: call_defs bindE_call split: sum.splits if_splits)
  with pre show ?thesis unfolding confirmed_def by blast
qed

text \<open>\<open>storePromptKeyForTextRequest\<close> returns a hash only for a wallet with an account, after one \<open>storeKey\<close> transaction
  for this task whose receipt says \<open>success\<close>; the nodes it allows are the caller's, or the wallet itself when that
  is empty: never none.\<close>

lemma store_confirmed:
  assumes "storePromptKeyForTextRequest w account taskId store high low allowedNodes (lg, x) = (Inr h, (lg', x'))"
  shows "\<exists>me nodes. account = Some me \<and> nodes = (if allowedNodes = [] then [me] else allowedNodes) \<and> nodes \<noteq> []
    \<and> confirmed w (\<lambda>fees. \<lparr>tx_account = me, tx_address = store, tx_function = ''storeKey'',
         tx_args = [AStr taskId, toContractInput high, toContractInput low, AList (map AStr nodes)],
         tx_fees = fees\<rparr>) lg h lg' \<and> x' = x"
proof (cases account)
  case None
  with assms show ?thesis by (simp add: storePromptKeyForTextRequest_def)
next
  case (Some me)
  let ?nodes = "if allowedNodes = [] then [me] else allowedNodes"
  have nodes: "(if 0 < length allowedNodes then allowedNodes else [me]) = ?nodes" by simp
  from assms have "confirmed w (\<lambda>fees. \<lparr>tx_account = me, tx_address = store, tx_function = ''storeKey'',
         tx_args = [AStr taskId, toContractInput high, toContractInput low, AList (map AStr ?nodes)],
         tx_fees = fees\<rparr>) lg h lg' \<and> x' = x"
    unfolding storePromptKeyForTextRequest_def Some option.case Let_def nodes by (rule send_confirmed)
  with Some show ?thesis by (intro exI [of _ me] exI [of _ ?nodes]) simp
qed

definition one_write_world :: "string \<Rightarrow> world" where
  "one_write_world st = offline\<lparr>on_block := (\<lambda>_. Inr (Some 5)), on_write := (\<lambda>_ _. Inr ''0xabc''),
     on_receipt := (\<lambda>_ _. Inr st)\<rparr>"

lemma one_write_fees: "chain_fee_params (one_write_world st) (lg, x)
    = (Inr (Eip1559 2000000 3000010), (lg @ [GetBlock, EstimatePriorityFee], x))"
  by (simp add: chain_fee_params_apply one_write_world_def offline_def estimated_def priority_fee_def Let_def)

definition toy_input :: encrypted_input where
  "toy_input = \<lparr>ctHash = 7, securityZone = None, utype = 6, signature = ''0x''\<rparr>"


lemma vault_confirmed:
  assumes "storeEncryptedRiskInputsInVault w account inputs loanId vault (lg, x) = (Inr h, (lg', x'))"
  shows "\<exists>me. account = Some me \<and> length inputs = 4 \<and> confirmed w (\<lambda>fees. \<lparr>tx_account = me, tx_address = vault,
            tx_function = ''storeEncryptedInputs'', tx_args = AStr loanId # map toContractInput inputs,
            tx_fees = fees\<rparr>) lg h lg' \<and> x' = x"
proof -
  from assms obtain me where me: "account = Some me" "length inputs = 4"
    by (auto simp: storeEncryptedRiskInputsInVault_def split: option.splits if_splits)
  have "confirmed w (\<lambda>fees. \<lparr>tx_account = me, tx_address = vault,
            tx_function = ''storeEncryptedInputs'', tx_args = AStr loanId # map toContractInput inputs,
            tx_fees = fees\<rparr>) lg h lg' \<and> x' = x"
    using assms [unfolded storeEncryptedRiskInputsInVault_def me(1) option.case] me(2)
    by (simp del: list.map) (erule send_confirmed)
  with me show ?thesis by blast
qed

text \<open>The input vault's store keeps the same promise, and refuses, before any call, any number
  of encrypted features other than four and a wallet without an account.\<close>

lemma store_vault_confirmed:
  shows "case storeEncryptedRiskInputsInVault w account inputs loanId vault (lg, x) of
      (Inr h, (lg', x')) \<Rightarrow>
        (\<exists>me. account = Some me \<and> length inputs = 4 \<and> confirmed w (\<lambda>fees. \<lparr>tx_account = me, tx_address = vault,
            tx_function = ''storeEncryptedInputs'', tx_args = AStr loanId # map toContractInput inputs,
            tx_fees = fees\<rparr>) lg h lg') \<and> x' = x
    | (Inl e, (lg', x')) \<Rightarrow> (account \<noteq> None \<and> length inputs = 4) \<or> lg' = lg"
proof (cases "account = None \<or> length inputs \<noteq> 4")
  case True
  then show ?thesis by (auto simp: storeEncryptedRiskInputsInVault_def split: option.splits)
next
  case False
  then obtain me where me: "account = Some me" "length inputs = 4" by auto
  obtain r lg' x' where run: "storeEncryptedRiskInputsInVault w account inputs loanId vault (lg, x) = (r, (lg', x'))"
    by (metis surj_pair)
  show ?thesis
  proof (cases r)
    case (Inl e)
    with run me show ?thesis by simp
  next
    case (Inr h)
    from vault_confirmed [OF run [unfolded Inr]] run Inr show ?thesis by auto
  qed
qed

end
