(* ===== verification/Key_Codec.thy ===== *)
theory Key_Codec
  imports Js_BigInt Utf8
begin

section \<open>AES keys as pairs of 128-bit integers\<close>

text \<open>
  CoFHE encrypts 128-bit integers, so a 32-byte AES key travels as two halves. The repository
  splits and joins keys in three places, each with its own code: hex strings and
  \<open>Buffer.write\<close> in the agent SDK (\<open>agent-sdk/src/encryption.ts\<close>), hex strings and
  \<open>Buffer.from\<close> in the shared package (\<open>shared/src/encryption/aes.ts\<close>), shifts and
  masks in the browser (\<open>frontend/src/utils/textPromptKey.ts\<close>). The locale
  \<open>key_codec\<close> is what the three promise; it is interpreted on each of them.
\<close>

subsection \<open>Big-endian bytes\<close>

definition be_val :: "byte list \<Rightarrow> nat" where
  "be_val bs = foldl (\<lambda>a b. a * 256 + unat b) 0 bs"

fun be_bytes :: "nat \<Rightarrow> nat \<Rightarrow> byte list" where
  "be_bytes 0 n = []"
| "be_bytes (Suc k) n = be_bytes k (n div 256) @ [of_nat (n mod 256)]"

lemma length_be_bytes [simp]: "length (be_bytes k n) = k"
  by (induction k arbitrary: n) auto

lemma be_val_Nil [simp]: "be_val [] = 0"
  by (simp add: be_val_def)

lemma be_val_snoc [simp]: "be_val (bs @ [b]) = be_val bs * 256 + unat b"
  by (simp add: be_val_def)

lemma byte_unat_less [simp]: "unat (b :: byte) < 256"
  using unsigned_less [of b, where 'a = nat] by simp

lemma be_val_less: "be_val bs < 256 ^ length bs"
proof (induction bs rule: rev_induct)
  case Nil
  then show ?case by simp
next
  case (snoc b bs)
  have "unat b < 256" by simp
  moreover have "be_val bs * 256 + 256 \<le> 256 ^ length bs * 256"
    using snoc by simp
  ultimately have "be_val bs * 256 + unat b < 256 ^ length bs * 256" by linarith
  then show ?case by (simp add: mult.commute)
qed

lemma be_bytes_val: "be_bytes (length bs) (be_val bs) = bs"
proof (induction bs rule: rev_induct)
  case Nil
  then show ?case by simp
next
  case (snoc b bs)
  have "unat b < 256" by simp
  then have "(be_val bs * 256 + unat b) div 256 = be_val bs" "(be_val bs * 256 + unat b) mod 256 = unat b"
    by simp_all
  with snoc show ?case by simp
qed

lemma be_val_bytes: "n < 256 ^ k \<Longrightarrow> be_val (be_bytes k n) = n"
proof (induction k arbitrary: n)
  case 0
  then show ?case by simp
next
  case (Suc k)
  from Suc.prems have "n div 256 < 256 ^ k" by (simp add: less_mult_imp_div_less mult.commute)
  from Suc.IH [OF this] show ?case by (simp add: unat_of_nat)
qed

subsection \<open>Hex strings and \<open>Buffer\<close>\<close>

text \<open>
  \<open>buf.toString('hex')\<close>. Decoding (\<open>Buffer.from(s, 'hex')\<close>, \<open>buf.write(s, .., 'hex')\<close>)
  stops at the first pair that is not two hex digits.
\<close>

definition hex_of_bytes :: "byte list \<Rightarrow> string" where
  "hex_of_bytes bs = concat (map (\<lambda>b. fixed_digits 16 2 (unat b)) bs)"

fun hex_decode :: "string \<Rightarrow> byte list" where
  "hex_decode (c # d # s) =
     (case (digit_val 16 c, digit_val 16 d) of
        (Some h, Some l) \<Rightarrow> of_nat (h * 16 + l) # hex_decode s
      | _ \<Rightarrow> [])"
| "hex_decode _ = []"

definition buffer_write :: "byte list \<Rightarrow> nat \<Rightarrow> nat \<Rightarrow> byte list \<Rightarrow> byte list" where
  "buffer_write buf off n bs =
     (let w = take (min n (length buf - off)) bs in take off buf @ w @ drop (off + length w) buf)"

lemma fixed_digits_add:
  "fixed_digits b (m + k) n = fixed_digits b m (n div b ^ k) @ fixed_digits b k n"
  by (induction k arbitrary: n) (auto simp: div_mult2_eq mult.commute [of _ b])

lemma fixed_digits_mod: "0 < b \<Longrightarrow> fixed_digits b k (n mod b ^ k) = fixed_digits b k n"
proof (induction k arbitrary: n)
  case 0
  then show ?case by simp
next
  case (Suc k)
  have div: "n mod b ^ Suc k div b = n div b mod b ^ k"
    using mod_mult2_eq [of n b "b ^ k"] Suc.prems by simp
  have "n mod b ^ Suc k mod b = n mod b"
    by (simp add: mod_mod_cancel)
  with div Suc show ?case by simp
qed

lemma hex_of_be_bytes: "hex_of_bytes (be_bytes k n) = fixed_digits 16 (2 * k) n"
proof (induction k arbitrary: n)
  case 0
  then show ?case by (simp add: hex_of_bytes_def)
next
  case (Suc k)
  have "hex_of_bytes (be_bytes (Suc k) n) = fixed_digits 16 (2 * k) (n div 256) @ fixed_digits 16 2 (n mod 256)"
    using Suc [of "n div 256"] by (simp add: hex_of_bytes_def unat_of_nat)
  also have "fixed_digits 16 2 (n mod 256) = fixed_digits 16 2 n"
    using fixed_digits_mod [of 16 2 n] by simp
  also have "fixed_digits 16 (2 * k) (n div 256) @ fixed_digits 16 2 n = fixed_digits 16 (2 * k + 2) n"
    using fixed_digits_add [of 16 "2 * k" 2 n] by simp
  finally show ?case by simp
qed

lemma hex_decode_pair:
  assumes "n < 256" shows "hex_decode (fixed_digits 16 2 n @ s) = of_nat n # hex_decode s"
proof -
  have n: "n div 16 < 16" "n div 16 * 16 + n mod 16 = n" using assms by (auto simp: div_mult_mod_eq)
  then have "n div 16 mod 16 = n div 16" by simp
  with n show ?thesis by (simp add: numeral_2_eq_2)
qed

lemma hex_decode_bytes: "hex_decode (hex_of_bytes bs @ s) = bs @ hex_decode s"
  by (induction bs) (auto simp: hex_of_bytes_def hex_decode_pair)

lemma hex_decode_of_bytes [simp]: "hex_decode (hex_of_bytes bs) = bs"
  using hex_decode_bytes [of bs "[]"] by simp

lemma hex_decode_fixed: "hex_decode (fixed_digits 16 (2 * k) n) = be_bytes k n"
  by (metis hex_of_be_bytes hex_decode_of_bytes)

lemma hex_bytes_val:
  "hex_of_bytes bs = fixed_digits 16 (2 * length bs) (be_val bs)"
  by (metis be_bytes_val hex_of_be_bytes)

subsection \<open>Agent SDK: \<open>encryption.ts\<close>\<close>

definition splitKeyForCofhe :: "byte list \<Rightarrow> js_err + (int \<times> int)" where
  "splitKeyForCofhe key =
     (if length key \<noteq> 32 then Inl (ErrorObj (''Key must be 32 bytes, got '' @ nat_str (length key)))
      else case js_BigInt (''0x'' @ hex_of_bytes (js_slice 0 16 key)) of
          Inl e \<Rightarrow> Inl e
        | Inr high \<Rightarrow> (case js_BigInt (''0x'' @ hex_of_bytes (js_slice 16 32 key)) of
              Inl e \<Rightarrow> Inl e
            | Inr low \<Rightarrow> Inr (high, low)))"

definition combineKeyHalves :: "int \<Rightarrow> int \<Rightarrow> byte list" where
  "combineKeyHalves high low =
     (let key = replicate 32 0;
          key = buffer_write key 0 16 (hex_decode (pad_start 32 (CHR ''0'') (int_to_string 16 high)));
          key = buffer_write key 16 16 (hex_decode (pad_start 32 (CHR ''0'') (int_to_string 16 low)))
      in key)"

subsection \<open>Shared package: \<open>encryption/aes.ts\<close>\<close>

definition splitKeyForFHE :: "byte list \<Rightarrow> js_err + (int \<times> int)" where
  "splitKeyForFHE key =
     (if length key \<noteq> 32 then Inl (ErrorObj ''Key must be 32 bytes'')
      else case js_BigInt (''0x'' @ hex_of_bytes (js_slice 0 16 key)) of
          Inl e \<Rightarrow> Inl e
        | Inr high \<Rightarrow> (case js_BigInt (''0x'' @ hex_of_bytes (js_slice 16 32 key)) of
              Inl e \<Rightarrow> Inl e
            | Inr low \<Rightarrow> Inr (high, low)))"

definition combineKeyFromFHE :: "int \<Rightarrow> int \<Rightarrow> byte list" where
  "combineKeyFromFHE high low =
     (let highHex = pad_start 32 (CHR ''0'') (int_to_string 16 high);
          lowHex = pad_start 32 (CHR ''0'') (int_to_string 16 low)
      in hex_decode (highHex @ lowHex))"

subsection \<open>Browser: \<open>textPromptKey.ts\<close>\<close>

text \<open>\<open>value << 8n | BigInt(byte)\<close>, \<open>remaining & 0xffn\<close> and \<open>remaining >>= 8n\<close> on
  bigints, which are two's complement of unbounded width\<close>

unbundle bit_operations_syntax

fun bigintFromBytes_loop :: "int \<Rightarrow> byte list \<Rightarrow> int" where
  "bigintFromBytes_loop v [] = v"
| "bigintFromBytes_loop v (b # bs) = bigintFromBytes_loop (push_bit 8 v OR uint b) bs"

definition bigintFromBytes :: "byte list \<Rightarrow> int" where
  "bigintFromBytes bytes = bigintFromBytes_loop 0 bytes"

text \<open>\<open>for (let index = 15; index >= 0; index -= 1)\<close>: the first argument is \<open>index + 1\<close>\<close>

fun write_loop :: "nat \<Rightarrow> int \<Rightarrow> byte list \<Rightarrow> nat \<Rightarrow> byte list" where
  "write_loop 0 remaining out off = out"
| "write_loop (Suc index) remaining out off =
     write_loop index (drop_bit 8 remaining) (out[off + index := word_of_int (remaining AND 255)]) off"

definition writeBigIntToBytes :: "int \<Rightarrow> byte list \<Rightarrow> nat \<Rightarrow> byte list" where
  "writeBigIntToBytes value out off = write_loop 16 value out off"

definition combineKeyHalves_browser :: "int \<Rightarrow> int \<Rightarrow> byte list" where
  "combineKeyHalves_browser high low =
     (let out = replicate 32 0;
          out = writeBigIntToBytes high out 0;
          out = writeBigIntToBytes low out 16
      in out)"

text \<open>The guard and the two halves of \<open>encryptPromptKeyForTextRequest\<close>\<close>

definition prompt_key_halves :: "byte list \<Rightarrow> js_err + (int \<times> int)" where
  "prompt_key_halves promptKey =
     (if length promptKey \<noteq> 32
      then Inl (ErrorObj (''Prompt key must be 32 bytes, received '' @ nat_str (length promptKey)))
      else Inr (bigintFromBytes (js_slice 0 16 promptKey), bigintFromBytes (js_slice 16 32 promptKey)))"

subsection \<open>The contract of a key codec\<close>

text \<open>
  Halves are the big-endian values of the first and the last 16 bytes, and joining two halves
  below \<open>2 ^ 128\<close> writes each of them as 16 big-endian bytes.
\<close>

locale key_codec =
  fixes split :: "byte list \<Rightarrow> js_err + (int \<times> int)"
    and combine :: "int \<Rightarrow> int \<Rightarrow> byte list"
  assumes split_ok: "length key = 32 \<Longrightarrow>
      split key = Inr (int (be_val (take 16 key)), int (be_val (drop 16 key)))"
    and split_err: "length key \<noteq> 32 \<Longrightarrow> \<exists>m. split key = Inl (ErrorObj m)"
    and combine_ok: "h < 2 ^ 128 \<Longrightarrow> l < 2 ^ 128 \<Longrightarrow>
      combine (int h) (int l) = be_bytes 16 h @ be_bytes 16 l"
begin

lemma half_less: "length bs = 16 \<Longrightarrow> be_val bs < 2 ^ 128"
  using be_val_less [of bs] by simp

lemma split_combine:
  assumes "length key = 32"
  shows "\<exists>h l. split key = Inr (h, l) \<and> 0 \<le> h \<and> h < 2 ^ 128 \<and> 0 \<le> l \<and> l < 2 ^ 128 \<and> combine h l = key"
proof -
  from assms have len: "length (take 16 key) = 16" "length (drop 16 key) = 16" by simp_all
  note less = half_less [OF len(1)] half_less [OF len(2)]
  then have "combine (int (be_val (take 16 key))) (int (be_val (drop 16 key))) = key"
    using be_bytes_val [of "take 16 key"] be_bytes_val [of "drop 16 key"] len by (simp add: combine_ok)
  moreover have "int (be_val (take 16 key)) < 2 ^ 128" "int (be_val (drop 16 key)) < 2 ^ 128"
    using less by (simp_all add: zless_nat_eq_int_zless [symmetric])
  ultimately show ?thesis using split_ok [OF assms] by simp
qed

lemma combine_split:
  assumes "0 \<le> h" "h < 2 ^ 128" "0 \<le> l" "l < 2 ^ 128"
  shows "length (combine h l) = 32 \<and> split (combine h l) = Inr (h, l)"
proof -
  from assms have less: "nat h < 2 ^ 128" "nat l < 2 ^ 128" by (simp_all add: nat_less_iff)
  then have c: "combine h l = be_bytes 16 (nat h) @ be_bytes 16 (nat l)"
    using combine_ok [of "nat h" "nat l"] assms by simp
  with less assms show ?thesis
    using split_ok [of "combine h l"] by (simp add: be_val_bytes)
qed

end

subsection \<open>The agent SDK and the shared package keep the contract\<close>

lemma hex_char: "c \<in> digit_char ` {..<16} \<Longrightarrow> \<not> is_space c"
  by (auto simp: is_space_def of_digit_char split: if_splits)

lemma js_BigInt_hex:
  assumes "n < 16 ^ k" "0 < k" shows "js_BigInt (''0x'' @ fixed_digits 16 k n) = Inr (int n)"
proof -
  have "\<forall>c \<in> set (fixed_digits 16 k n). \<not> is_space c"
    using set_fixed_digits [of 16 k n] hex_char by auto
  then have "\<forall>c \<in> set (''0x'' @ fixed_digits 16 k n). \<not> is_space c"
    by (auto simp: is_space_def)
  then have trim: "trim (''0x'' @ fixed_digits 16 k n) = ''0x'' @ fixed_digits 16 k n"
    by (rule trim_id)
  have "fixed_digits 16 k n \<noteq> []"
    using assms(2) length_fixed_digits [of 16 k n] by force
  with parse_fixed_digits [of 16 n k 0] assms(1) have "parse_nat 16 (fixed_digits 16 k n) = Some n"
    by (simp add: parse_nat_def)
  with trim show ?thesis by (simp add: js_BigInt_def parse_bigint_def Let_def)
qed

lemma js_BigInt_hex_half:
  assumes "length bs = 16" shows "js_BigInt (''0x'' @ hex_of_bytes bs) = Inr (int (be_val bs))"
proof -
  from be_val_less [of bs] assms have "be_val bs < 16 ^ 32" by simp
  from js_BigInt_hex [OF this] assms show ?thesis by (simp add: hex_bytes_val)
qed

lemma hex_decode_half:
  assumes "h < 2 ^ 128"
  shows "hex_decode (pad_start 32 (CHR ''0'') (int_to_string 16 (int h)) @ s) = be_bytes 16 h @ hex_decode s"
proof -
  have "int_to_string 16 (int h) = nat_to_string 16 h" by (simp add: int_to_string_def)
  with assms pad_nat_to_string [of 16 32 h]
  have "pad_start 32 (CHR ''0'') (int_to_string 16 (int h)) = hex_of_bytes (be_bytes 16 h)"
    by (simp add: hex_of_be_bytes)
  then show ?thesis by (simp only: hex_decode_bytes)
qed

lemma hex_decode_half_alone:
  "h < 2 ^ 128 \<Longrightarrow> hex_decode (pad_start 32 (CHR ''0'') (int_to_string 16 (int h))) = be_bytes 16 h"
  using hex_decode_half [of h "[]"] by simp

interpretation agent_codec: key_codec splitKeyForCofhe combineKeyHalves
proof unfold_locales
  fix key :: "byte list"
  show "splitKeyForCofhe key = Inr (int (be_val (take 16 key)), int (be_val (drop 16 key)))"
    if "length key = 32"
    using that by (simp add: splitKeyForCofhe_def js_slice_def js_BigInt_hex_half del: append.simps)
  show "\<exists>m. splitKeyForCofhe key = Inl (ErrorObj m)" if "length key \<noteq> 32"
    using that by (simp add: splitKeyForCofhe_def)
next
  fix h l :: nat
  assume "h < 2 ^ 128" "l < 2 ^ 128"
  then show "combineKeyHalves (int h) (int l) = be_bytes 16 h @ be_bytes 16 l"
    by (simp add: combineKeyHalves_def hex_decode_half_alone buffer_write_def)
qed

interpretation shared_codec: key_codec splitKeyForFHE combineKeyFromFHE
proof unfold_locales
  fix key :: "byte list"
  show "splitKeyForFHE key = Inr (int (be_val (take 16 key)), int (be_val (drop 16 key)))"
    if "length key = 32"
    using that by (simp add: splitKeyForFHE_def js_slice_def js_BigInt_hex_half del: append.simps)
  show "\<exists>m. splitKeyForFHE key = Inl (ErrorObj m)" if "length key \<noteq> 32"
    using that by (simp add: splitKeyForFHE_def)
next
  fix h l :: nat
  assume "h < 2 ^ 128" "l < 2 ^ 128"
  then show "combineKeyFromFHE (int h) (int l) = be_bytes 16 h @ be_bytes 16 l"
    by (simp add: combineKeyFromFHE_def hex_decode_half_alone hex_decode_half)
qed

subsection \<open>The browser keeps the contract\<close>

lemma shift_or_byte: "push_bit 8 v OR uint (b :: byte) = v * 256 + uint b"
proof -
  have "push_bit 8 v AND uint b = 0"
    by (rule bit_eqI) (auto simp: bit_simps dest: bit_imp_le_length)
  then have "push_bit 8 v OR uint b = push_bit 8 v + uint b"
    by (simp add: disjunctive_add_eq_or)
  then show ?thesis by (simp add: push_bit_eq_mult)
qed

lemma bigintFromBytes_loop_val:
  "bigintFromBytes_loop v bs = v * 256 ^ length bs + int (be_val bs)"
proof (induction bs rule: rev_induct)
  case Nil
  then show ?case by simp
next
  case (snoc b bs)
  have app: "bigintFromBytes_loop v (xs @ ys) = bigintFromBytes_loop (bigintFromBytes_loop v xs) ys" for v xs ys
    by (induction xs arbitrary: v) simp_all
  show ?case by (simp add: app snoc shift_or_byte algebra_simps)
qed

lemma bigintFromBytes_val: "bigintFromBytes bs = int (be_val bs)"
  by (simp add: bigintFromBytes_def bigintFromBytes_loop_val)

text \<open>The loop writes the low \<open>8 * n\<close> bits of any bigint, negative ones included.\<close>

lemma word_and_255: "(word_of_int (v AND 255) :: byte) = of_nat (nat (v mod 256))"
proof -
  have "v AND 255 = v mod 256"
    using take_bit_eq_mask [of 8 v] by (simp add: take_bit_eq_mod mask_eq_exp_minus_1)
  then show ?thesis by simp
qed

lemma mod_256_split:
  fixes v :: int
  shows "nat (v mod 256 ^ Suc n) div 256 = nat (v div 256 mod 256 ^ n)"
    and "nat (v mod 256 ^ Suc n) mod 256 = nat (v mod 256)"
proof -
  have split: "v mod 256 ^ Suc n = 256 * (v div 256 mod 256 ^ n) + v mod 256"
    by (simp add: zmod_zmult2_eq)
  have "0 \<le> v div 256 mod 256 ^ n" "0 \<le> v mod 256" by simp_all
  then have nat: "nat (v mod 256 ^ Suc n) = 256 * nat (v div 256 mod 256 ^ n) + nat (v mod 256)"
    by (simp only: split)
  have "nat (v mod 256) < 256" by (simp add: nat_less_iff)
  with nat show "nat (v mod 256 ^ Suc n) div 256 = nat (v div 256 mod 256 ^ n)"
    and "nat (v mod 256 ^ Suc n) mod 256 = nat (v mod 256)"
    by simp_all
qed

lemma write_loop_bytes:
  "off + n \<le> length out \<Longrightarrow>
   write_loop n v out off = take off out @ be_bytes n (nat (v mod 256 ^ n)) @ drop (off + n) out"
proof (induction n arbitrary: v out)
  case 0
  then show ?case by simp
next
  case (Suc n)
  let ?b = "word_of_int (v AND 255) :: byte"
  have "write_loop (Suc n) v out off
      = take off out @ be_bytes n (nat (v div 256 mod 256 ^ n)) @ drop (off + n) (out[off + n := ?b])"
    using Suc.IH [of "out[off + n := ?b]" "drop_bit 8 v"] Suc.prems
    by (simp add: drop_bit_eq_div)
  also have "drop (off + n) (out[off + n := ?b]) = ?b # drop (off + Suc n) out"
    using Suc.prems by (simp add: drop_update_swap Cons_nth_drop_Suc [symmetric])
  also have "?b = of_nat (nat (v mod 256 ^ Suc n) mod 256)"
    by (simp only: word_and_255 mod_256_split)
  finally show ?case by (simp only: be_bytes.simps mod_256_split append.assoc append.simps)
qed

theorem combineKeyHalves_browser_bytes:
  "combineKeyHalves_browser high low =
     be_bytes 16 (nat (high mod 2 ^ 128)) @ be_bytes 16 (nat (low mod 2 ^ 128))"
proof -
  have pow: "(256 :: int) ^ 16 = 2 ^ 128" by simp
  show ?thesis
    by (simp only: combineKeyHalves_browser_def Let_def writeBigIntToBytes_def)
      (simp add: write_loop_bytes pow)
qed

interpretation browser_codec: key_codec prompt_key_halves combineKeyHalves_browser
proof unfold_locales
  fix key :: "byte list"
  show "prompt_key_halves key = Inr (int (be_val (take 16 key)), int (be_val (drop 16 key)))"
    if "length key = 32"
    using that by (simp add: prompt_key_halves_def js_slice_def bigintFromBytes_val)
  show "\<exists>m. prompt_key_halves key = Inl (ErrorObj m)" if "length key \<noteq> 32"
    using that by (simp add: prompt_key_halves_def)
next
  fix h l :: nat
  assume "h < 2 ^ 128" "l < 2 ^ 128"
  then have "int h mod 2 ^ 128 = int h" "int l mod 2 ^ 128 = int l"
    by (simp_all add: zless_nat_eq_int_zless)
  then show "combineKeyHalves_browser (int h) (int l) = be_bytes 16 h @ be_bytes 16 l"
    by (simp only: combineKeyHalves_browser_bytes nat_int)
qed

subsection \<open>The three implementations are interchangeable\<close>

text \<open>C4: every implementation splits a 32-byte key into the same two halves, both in the
  range of a \<open>uint128\<close>, and every implementation joins these halves into the key again: a key
  split in the browser, the SDK or the shared package can be joined in any of them.\<close>

theorem key_split_combine:
  assumes "length key = 32"
  shows "\<exists>h l. splitKeyForCofhe key = Inr (h, l) \<and> splitKeyForFHE key = Inr (h, l)
      \<and> prompt_key_halves key = Inr (h, l)
      \<and> 0 \<le> h \<and> h < 2 ^ 128 \<and> 0 \<le> l \<and> l < 2 ^ 128
      \<and> combineKeyHalves h l = key \<and> combineKeyFromFHE h l = key \<and> combineKeyHalves_browser h l = key"
proof -
  obtain h l where agent: "splitKeyForCofhe key = Inr (h, l)" "0 \<le> h" "h < 2 ^ 128" "0 \<le> l" "l < 2 ^ 128"
      "combineKeyHalves h l = key"
    using agent_codec.split_combine [OF assms] by blast
  moreover have "splitKeyForFHE key = Inr (h, l)" "prompt_key_halves key = Inr (h, l)"
    using agent(1) agent_codec.split_ok [OF assms] shared_codec.split_ok [OF assms]
      browser_codec.split_ok [OF assms] by simp_all
  moreover from this have "combineKeyFromFHE h l = key" "combineKeyHalves_browser h l = key"
    using shared_codec.split_combine [OF assms] browser_codec.split_combine [OF assms] by auto
  ultimately show ?thesis by blast
qed

theorem key_split_combine_witness:
  "\<exists>h l. splitKeyForCofhe (replicate 31 0 @ [7]) = Inr (h, l) \<and> combineKeyFromFHE h l = replicate 31 0 @ [7]"
  using key_split_combine [of "replicate 31 0 @ [7]"] by auto

text \<open>For any two halves in the range of a \<open>uint128\<close>, which is what CoFHE decrypts to, the
  three \<open>combine\<close> functions give the same 32 bytes, and splitting these gives the halves.\<close>

lemma key_combine_split:
  assumes "0 \<le> h" "h < 2 ^ 128" "0 \<le> l" "l < 2 ^ 128"
  shows "combineKeyHalves h l = combineKeyHalves_browser h l
      \<and> combineKeyFromFHE h l = combineKeyHalves_browser h l
      \<and> length (combineKeyHalves_browser h l) = 32
      \<and> splitKeyForCofhe (combineKeyHalves_browser h l) = Inr (h, l)"
proof -
  have less: "nat h < 2 ^ 128" "nat l < 2 ^ 128" "int (nat h) = h" "int (nat l) = l"
    using assms by (simp_all add: nat_less_iff)
  then have "combineKeyHalves h l = combineKeyHalves_browser h l"
      "combineKeyFromFHE h l = combineKeyHalves_browser h l"
    using agent_codec.combine_ok [OF less(1,2)] shared_codec.combine_ok [OF less(1,2)]
      browser_codec.combine_ok [OF less(1,2)] by simp_all
  with agent_codec.combine_split [OF assms] show ?thesis by simp
qed

end
