(* ===== verification/Aes_Payload.thy ===== *)
theory Aes_Payload
  imports Key_Codec
begin

section \<open>AES-GCM payloads\<close>

text \<open>
  A prompt or an output is stored as one blob: IV, authentication tag, ciphertext. The agent
  SDK and the browser's chat page write a 12-byte IV, the shared package and the text wizard a
  16-byte one. AES-GCM itself is code outside the repository (Node's and the browser's
  crypto), a parameter here:
  \<^item> \<open>gcm\<close> is Node's: \<open>createCipheriv\<close>, \<open>update\<close>, \<open>final\<close>, \<open>getAuthTag\<close>, and the
    matching decipher calls;
  \<^item> \<open>web_crypto\<close> is \<open>crypto.subtle\<close>, whose ciphertext ends with the tag;
  \<^item> \<open>rng n\<close> is what the random source returns when asked for \<open>n\<close> bytes.
\<close>

record gcm =
  gcm_seal :: "byte list \<Rightarrow> byte list \<Rightarrow> byte list \<Rightarrow> js_err + (byte list \<times> byte list)"
  gcm_open :: "byte list \<Rightarrow> byte list \<Rightarrow> byte list \<Rightarrow> byte list \<Rightarrow> js_err + byte list"

record web_crypto =
  subtle_encrypt :: "byte list \<Rightarrow> byte list \<Rightarrow> byte list \<Rightarrow> js_err + byte list"
  subtle_decrypt :: "byte list \<Rightarrow> byte list \<Rightarrow> byte list \<Rightarrow> js_err + byte list"

text \<open>The documented behaviour of AES-256-GCM: with a 32-byte key and a non-empty IV it seals,
  the tag has 16 bytes, and opening what was sealed gives the plaintext.\<close>

definition gcm_ok :: "gcm \<Rightarrow> bool" where
  "gcm_ok g = (\<forall>key iv pt. length key = 32 \<longrightarrow> iv \<noteq> [] \<longrightarrow>
     (\<exists>ct tag. gcm_seal g key iv pt = Inr (ct, tag) \<and> length tag = 16 \<and> gcm_open g key iv tag ct = Inr pt))"

text \<open>Both crypto libraries implement the same algorithm: \<open>crypto.subtle.encrypt\<close> with
  \<open>tagLength: 128\<close> returns Node's ciphertext followed by Node's tag, and \<open>decrypt\<close> takes them
  in this form.\<close>

definition web_ok :: "gcm \<Rightarrow> web_crypto \<Rightarrow> bool" where
  "web_ok g w = (\<forall>key iv pt. length key = 32 \<longrightarrow> iv \<noteq> [] \<longrightarrow>
     (\<forall>ct tag. gcm_seal g key iv pt = Inr (ct, tag) \<longrightarrow>
        subtle_encrypt w key iv pt = Inr (ct @ tag) \<and> subtle_decrypt w key iv (ct @ tag) = Inr pt))"

definition rng_ok :: "(nat \<Rightarrow> byte list) \<Rightarrow> bool" where
  "rng_ok rng = (\<forall>n. length (rng n) = n)"

record aes_payload =
  iv :: "byte list"
  authTag :: "byte list"
  ciphertext :: "byte list"

definition payload :: "byte list \<Rightarrow> byte list \<Rightarrow> byte list \<Rightarrow> aes_payload" where
  "payload i t c = \<lparr>iv = i, authTag = t, ciphertext = c\<rparr>"

subsection \<open>Agent SDK: \<open>encryption.ts\<close>\<close>

definition generateAesKey :: "(nat \<Rightarrow> byte list) \<Rightarrow> byte list" where
  "generateAesKey rng = rng 32"

definition encryptAesGcm :: "gcm \<Rightarrow> (nat \<Rightarrow> byte list) \<Rightarrow> utext \<Rightarrow> byte list \<Rightarrow> js_err + aes_payload" where
  "encryptAesGcm g rng plaintext key =
     (let i = rng 12 in
      case gcm_seal g key i (utf8_encode plaintext) of
        Inl e \<Rightarrow> Inl e
      | Inr (ct, tag) \<Rightarrow> Inr (payload i tag ct))"

definition decryptAesGcm :: "gcm \<Rightarrow> byte list \<Rightarrow> byte list \<Rightarrow> byte list \<Rightarrow> byte list \<Rightarrow> js_err + utext" where
  "decryptAesGcm g ct key i tag =
     (case gcm_open g key i tag ct of
        Inl e \<Rightarrow> Inl e
      | Inr plaintext \<Rightarrow> Inr (utf8_decode plaintext))"

definition packAesPayload :: "byte list \<Rightarrow> byte list \<Rightarrow> byte list \<Rightarrow> byte list" where
  "packAesPayload i tag ct = i @ tag @ ct"

definition unpackAesPayload :: "byte list \<Rightarrow> js_err + aes_payload" where
  "unpackAesPayload packed =
     (if length packed < 28 then Inl (ErrorObj ''Packed payload too short (must be at least 28 bytes)'')
      else Inr (payload (js_slice 0 12 packed) (js_slice 12 28 packed) (drop 28 packed)))"

subsection \<open>Shared package: \<open>encryption/aes.ts\<close>\<close>

definition generateKey_shared :: "(nat \<Rightarrow> byte list) \<Rightarrow> byte list" where
  "generateKey_shared rng = rng 32"

definition encryptText_shared :: "gcm \<Rightarrow> (nat \<Rightarrow> byte list) \<Rightarrow> utext \<Rightarrow> byte list \<Rightarrow> js_err + aes_payload" where
  "encryptText_shared g rng txt key =
     (if length key \<noteq> 32 then Inl (ErrorObj ''Key must be 32 bytes'')
      else let i = rng 16 in
      case gcm_seal g key i (utf8_encode txt) of
        Inl e \<Rightarrow> Inl e
      | Inr (ct, tag) \<Rightarrow> Inr (payload i tag ct))"

definition packPayload_shared :: "aes_payload \<Rightarrow> js_err + byte list" where
  "packPayload_shared p =
     (if length (iv p) \<noteq> 16 then Inl (ErrorObj ''IV must be 16 bytes'')
      else if length (authTag p) \<noteq> 16 then Inl (ErrorObj ''Auth tag must be 16 bytes'')
      else Inr (iv p @ authTag p @ ciphertext p))"

definition unpackPayload :: "byte list \<Rightarrow> js_err + aes_payload" where
  "unpackPayload packed =
     (if length packed < 32 then Inl (ErrorObj ''Packed data too short'')
      else Inr (payload (js_slice 0 16 packed) (js_slice 16 32 packed) (drop 32 packed)))"

definition decryptBlob :: "gcm \<Rightarrow> byte list \<Rightarrow> byte list \<Rightarrow> js_err + utext" where
  "decryptBlob g packed key =
     (if length key \<noteq> 32 then Inl (ErrorObj ''Key must be 32 bytes'')
      else case unpackPayload packed of
          Inl e \<Rightarrow> Inl e
        | Inr p \<Rightarrow> (case gcm_open g key (iv p) (authTag p) (ciphertext p) of
              Inl e \<Rightarrow> Inl e
            | Inr decrypted \<Rightarrow> Inr (utf8_decode decrypted)))"

subsection \<open>Browser: \<open>InferenceNewPage.tsx\<close>, \<open>TextInferenceWizard.tsx\<close>, \<open>textPromptKey.ts\<close>\<close>

text \<open>\<open>subtle_encrypt\<close> is \<open>importKey\<close> followed by \<open>encrypt\<close>, so it also throws for a
  key of a wrong length. \<open>subarray(0, n - 16)\<close> with a negative end counts from the end.\<close>

definition tag_start :: "byte list \<Rightarrow> nat" where
  "tag_start bs = (if 16 \<le> length bs then length bs - 16 else 2 * length bs - 16)"

definition split_sealed :: "byte list \<Rightarrow> byte list \<Rightarrow> aes_payload" where
  "split_sealed i encryptedBytes =
     payload i (drop (tag_start encryptedBytes) encryptedBytes) (js_slice 0 (tag_start encryptedBytes) encryptedBytes)"

definition encryptText_chat :: "web_crypto \<Rightarrow> (nat \<Rightarrow> byte list) \<Rightarrow> utext \<Rightarrow> byte list \<Rightarrow> js_err + aes_payload" where
  "encryptText_chat w rng txt key =
     (let i = rng 12 in
      case subtle_encrypt w key i (utf8_encode txt) of
        Inl e \<Rightarrow> Inl e
      | Inr encryptedBytes \<Rightarrow> Inr (split_sealed i encryptedBytes))"

definition encryptText_wizard :: "web_crypto \<Rightarrow> (nat \<Rightarrow> byte list) \<Rightarrow> utext \<Rightarrow> byte list \<Rightarrow> js_err + aes_payload" where
  "encryptText_wizard w rng txt key =
     (if length key \<noteq> 32 then Inl (ErrorObj ''Key must be 32 bytes'')
      else let i = rng 16 in
      case subtle_encrypt w key i (utf8_encode txt) of
        Inl e \<Rightarrow> Inl e
      | Inr encryptedBytes \<Rightarrow> Inr (split_sealed i encryptedBytes))"

text \<open>\<open>packed.set(bytes, offset)\<close>\<close>

definition set_at :: "byte list \<Rightarrow> byte list \<Rightarrow> nat \<Rightarrow> byte list" where
  "set_at packed bs off = take off packed @ bs @ drop (off + length bs) packed"

definition packPayload_chat :: "aes_payload \<Rightarrow> byte list" where
  "packPayload_chat p =
     (let packed = replicate (length (iv p) + length (authTag p) + length (ciphertext p)) 0;
          packed = set_at packed (iv p) 0;
          packed = set_at packed (authTag p) (length (iv p));
          packed = set_at packed (ciphertext p) (length (iv p) + length (authTag p))
      in packed)"

definition packPayload_wizard :: "aes_payload \<Rightarrow> byte list" where
  "packPayload_wizard p =
     (let packed = replicate (length (iv p) + length (authTag p) + length (ciphertext p)) 0;
          packed = set_at packed (iv p) 0;
          packed = set_at packed (authTag p) (length (iv p));
          packed = set_at packed (ciphertext p) (length (iv p) + length (authTag p))
      in packed)"

text \<open>\<open>downloadAndDecryptTextOutput\<close> after the download: the parts of the blob, then
  ciphertext and tag put together again for \<open>crypto.subtle.decrypt\<close>\<close>

definition output_parts :: "byte list \<Rightarrow> js_err + aes_payload" where
  "output_parts packed =
     (if length packed < 28 then Inl (ErrorObj ''Encrypted output payload is too short'')
      else Inr (payload (js_slice 0 12 packed) (js_slice 12 28 packed) (drop 28 packed)))"

definition decrypt_output_blob :: "web_crypto \<Rightarrow> byte list \<Rightarrow> byte list \<Rightarrow> js_err + utext" where
  "decrypt_output_blob w packed key =
     (case output_parts packed of
        Inl e \<Rightarrow> Inl e
      | Inr p \<Rightarrow>
         (let cipherWithTag = replicate (length (ciphertext p) + length (authTag p)) 0;
              cipherWithTag = set_at cipherWithTag (ciphertext p) 0;
              cipherWithTag = set_at cipherWithTag (authTag p) (length (ciphertext p))
          in case subtle_decrypt w key (iv p) cipherWithTag of
               Inl e \<Rightarrow> Inl e
             | Inr plaintext \<Rightarrow> Inr (text_decoder plaintext)))"

definition generateKey_browser :: "(nat \<Rightarrow> byte list) \<Rightarrow> byte list" where
  "generateKey_browser rng = rng 32"

definition generateTaskId :: "(nat \<Rightarrow> byte list) \<Rightarrow> string" where
  "generateTaskId rng =
     ''0x'' @ concat (map (\<lambda>b. pad_start 2 (CHR ''0'') (nat_to_string 16 (unat b))) (rng 32))"

lemma payload_simps [simp]:
  "iv (payload i t c) = i" "authTag (payload i t c) = t" "ciphertext (payload i t c) = c"
  by (simp_all add: payload_def)

lemma payload_parts: "payload (iv p) (authTag p) (ciphertext p) = p"
  by (simp add: payload_def)

lemma packPayload_chat_append: "packPayload_chat p = iv p @ authTag p @ ciphertext p"
  by (simp add: packPayload_chat_def set_at_def)

lemma packPayload_wizard_append: "packPayload_wizard p = iv p @ authTag p @ ciphertext p"
  by (simp add: packPayload_wizard_def set_at_def)

lemma split_sealed_tag: "length tag = 16 \<Longrightarrow> split_sealed i (ct @ tag) = payload i tag ct"
  by (simp add: split_sealed_def tag_start_def js_slice_def)

lemma generateTaskId_hex: "generateTaskId rng = ''0x'' @ hex_of_bytes (rng 32)"
proof -
  have "pad_start 2 (CHR ''0'') (nat_to_string 16 (unat b)) = fixed_digits 16 2 (unat b)" for b :: byte
    using pad_nat_to_string [of 16 2 "unat b"] byte_unat_less [of b] by simp
  then show ?thesis by (simp add: generateTaskId_def hex_of_bytes_def)
qed

subsection \<open>The contract of a payload format\<close>

locale payload_codec =
  fixes ivlen :: nat
    and pack :: "aes_payload \<Rightarrow> js_err + byte list"
    and unpack :: "byte list \<Rightarrow> js_err + aes_payload"
  assumes pack_ok: "length (iv p) = ivlen \<Longrightarrow> length (authTag p) = 16 \<Longrightarrow>
      pack p = Inr (iv p @ authTag p @ ciphertext p)"
    and unpack_ok: "ivlen + 16 \<le> length b \<Longrightarrow>
      unpack b = Inr (payload (take ivlen b) (take 16 (drop ivlen b)) (drop (ivlen + 16) b))"
    and unpack_short: "length b < ivlen + 16 \<Longrightarrow> \<exists>m. unpack b = Inl (ErrorObj m)"
begin

lemma unpack_pack:
  assumes "length (iv p) = ivlen" "length (authTag p) = 16"
  shows "\<exists>b. pack p = Inr b \<and> length b = ivlen + 16 + length (ciphertext p) \<and> unpack b = Inr p"
proof -
  from assms unpack_ok [of "iv p @ authTag p @ ciphertext p"]
  have "unpack (iv p @ authTag p @ ciphertext p) = Inr p"
    by (simp add: payload_parts)
  with assms pack_ok [OF assms] show ?thesis by simp
qed

lemma pack_unpack: "unpack b = Inr p \<Longrightarrow> pack p = Inr b \<and> length (iv p) = ivlen \<and> length (authTag p) = 16"
proof -
  assume p: "unpack b = Inr p"
  then have len: "ivlen + 16 \<le> length b" using unpack_short [of b] by force
  from p have parts: "p = payload (take ivlen b) (take 16 (drop ivlen b)) (drop (ivlen + 16) b)"
    by (simp add: unpack_ok [OF len])
  from len have "take ivlen b @ take 16 (drop ivlen b) @ drop (ivlen + 16) b = b"
    by (metis append_take_drop_id drop_drop add.commute)
  with parts len show ?thesis using pack_ok [of p] by simp
qed

end

interpretation agent_format: payload_codec 12 "\<lambda>p. Inr (packAesPayload (iv p) (authTag p) (ciphertext p))" unpackAesPayload
  by unfold_locales (simp_all add: packAesPayload_def unpackAesPayload_def js_slice_def)

interpretation shared_format: payload_codec 16 packPayload_shared unpackPayload
  by unfold_locales (simp_all add: packPayload_shared_def unpackPayload_def js_slice_def)

interpretation chat_format: payload_codec 12 "\<lambda>p. Inr (packPayload_chat p)" output_parts
  by unfold_locales (simp_all add: packPayload_chat_append output_parts_def js_slice_def)

interpretation wizard_format: payload_codec 16 "\<lambda>p. Inr (packPayload_wizard p)" unpackPayload
  by unfold_locales (simp_all add: packPayload_wizard_append unpackPayload_def js_slice_def)

subsection \<open>Sealing in one component, opening in another\<close>

lemma gcm_okD:
  assumes "gcm_ok g" "length key = 32" "i \<noteq> []"
  obtains ct tag where "gcm_seal g key i pt = Inr (ct, tag)" "length tag = 16" "gcm_open g key i tag ct = Inr pt"
  using assms unfolding gcm_ok_def by blast

lemma rng_length: "rng_ok rng \<Longrightarrow> length (rng n) = n"
  by (simp add: rng_ok_def)

lemma rng_nonempty: "rng_ok rng \<Longrightarrow> 0 < n \<Longrightarrow> rng n \<noteq> []"
  using rng_length [of rng n] by force

lemma encryptAesGcm_ok:
  assumes "gcm_ok g" "rng_ok rng" "length key = 32"
  obtains p where "encryptAesGcm g rng t key = Inr p" "length (iv p) = 12" "length (authTag p) = 16"
    "gcm_seal g key (iv p) (utf8_encode t) = Inr (ciphertext p, authTag p)"
    "gcm_open g key (iv p) (authTag p) (ciphertext p) = Inr (utf8_encode t)"
proof -
  from assms(2) have "rng 12 \<noteq> []" by (rule rng_nonempty) simp
  from gcm_okD [OF assms(1,3) this, of "utf8_encode t"] obtain ct tag where
    seal: "gcm_seal g key (rng 12) (utf8_encode t) = Inr (ct, tag)" "length tag = 16"
      "gcm_open g key (rng 12) tag ct = Inr (utf8_encode t)" .
  show ?thesis
    using seal rng_length [OF assms(2), of 12] by (intro that [of "payload (rng 12) tag ct"]) (simp_all add: encryptAesGcm_def)
qed

lemma encryptText_chat_agent:
  assumes "gcm_ok g" "web_ok g w" "rng_ok rng" "length key = 32"
  shows "encryptText_chat w rng t key = encryptAesGcm g rng t key"
proof -
  from assms(3) have ne: "rng 12 \<noteq> []" by (rule rng_nonempty) simp
  from gcm_okD [OF assms(1,4) this, of "utf8_encode t"] obtain ct tag where
    seal: "gcm_seal g key (rng 12) (utf8_encode t) = Inr (ct, tag)" "length tag = 16" .
  with assms(2,4) ne have "subtle_encrypt w key (rng 12) (utf8_encode t) = Inr (ct @ tag)"
    by (simp add: web_ok_def)
  with seal show ?thesis by (simp add: encryptText_chat_def encryptAesGcm_def split_sealed_tag)
qed

lemma encryptText_wizard_shared:
  assumes "gcm_ok g" "web_ok g w" "rng_ok rng"
  shows "encryptText_wizard w rng t key = encryptText_shared g rng t key"
proof (cases "length key = 32")
  case True
  from assms(3) have ne: "rng 16 \<noteq> []" by (rule rng_nonempty) simp
  from gcm_okD [OF assms(1) True this, of "utf8_encode t"] obtain ct tag where
    seal: "gcm_seal g key (rng 16) (utf8_encode t) = Inr (ct, tag)" "length tag = 16" .
  with assms(2) True ne have "subtle_encrypt w key (rng 16) (utf8_encode t) = Inr (ct @ tag)"
    by (simp add: web_ok_def)
  with seal True show ?thesis by (simp add: encryptText_wizard_def encryptText_shared_def split_sealed_tag)
qed (simp add: encryptText_wizard_def encryptText_shared_def)

subsection \<open>A concrete cipher, for the witnesses\<close>

text \<open>Any pair of functions with the documented behaviour will do; this one seals a plaintext
  under a tag made of the key's first bytes.\<close>

definition toy_gcm :: gcm where
  "toy_gcm = \<lparr>gcm_seal = (\<lambda>key i pt. Inr (pt, take 16 key)),
              gcm_open = (\<lambda>key i tag ct. if tag = take 16 key then Inr ct else Inl (ErrorObj ''auth''))\<rparr>"

definition toy_web :: web_crypto where
  "toy_web = \<lparr>subtle_encrypt = (\<lambda>key i pt. Inr (pt @ take 16 key)),
              subtle_decrypt = (\<lambda>key i bs. if drop (length bs - 16) bs = take 16 key
                then Inr (take (length bs - 16) bs) else Inl (ErrorObj ''auth''))\<rparr>"

definition toy_rng :: "nat \<Rightarrow> byte list" where
  "toy_rng n = replicate n 9"

lemma toy_ok: "gcm_ok toy_gcm" "web_ok toy_gcm toy_web" "rng_ok toy_rng"
  by (simp_all add: gcm_ok_def web_ok_def rng_ok_def toy_gcm_def toy_web_def toy_rng_def)

subsection \<open>Round trips\<close>

text \<open>C5: what the agent SDK or the chat page seals and packs, the agent SDK unpacks and
  decrypts to the same text: the two produce the same payload, of 28 bytes more than the
  ciphertext, for every text and every 32-byte key.\<close>

theorem sealed_prompt_opens:
  assumes "gcm_ok g" "web_ok g w" "rng_ok rng" "length key = 32" "well_formed t"
  shows "\<exists>p. encryptAesGcm g rng t key = Inr p \<and> encryptText_chat w rng t key = Inr p
      \<and> packPayload_chat p = packAesPayload (iv p) (authTag p) (ciphertext p)
      \<and> length (packPayload_chat p) = 28 + length (ciphertext p)
      \<and> unpackAesPayload (packPayload_chat p) = Inr p
      \<and> decryptAesGcm g (ciphertext p) key (iv p) (authTag p) = Inr t"
proof -
  obtain p where p: "encryptAesGcm g rng t key = Inr p" "length (iv p) = 12" "length (authTag p) = 16"
    "gcm_open g key (iv p) (authTag p) (ciphertext p) = Inr (utf8_encode t)"
    using encryptAesGcm_ok [OF assms(1,3,4)] by metis
  moreover from p have "encryptText_chat w rng t key = Inr p"
    using encryptText_chat_agent [OF assms(1-4)] by simp
  moreover have pack: "packPayload_chat p = packAesPayload (iv p) (authTag p) (ciphertext p)"
    by (simp add: packPayload_chat_append packAesPayload_def)
  moreover from agent_format.unpack_pack [OF p(2,3)] pack
  have "unpackAesPayload (packPayload_chat p) = Inr p" "length (packPayload_chat p) = 28 + length (ciphertext p)"
    by simp_all
  moreover from p(4) assms(5) have "decryptAesGcm g (ciphertext p) key (iv p) (authTag p) = Inr t"
    by (simp add: decryptAesGcm_def utf8_roundtrip)
  ultimately show ?thesis by blast
qed

theorem sealed_prompt_opens_witness:
  "\<exists>p. encryptText_chat toy_web toy_rng [72, 8364, 128512] (replicate 32 5) = Inr p
     \<and> unpackAesPayload (packPayload_chat p) = Inr p"
  using sealed_prompt_opens [OF toy_ok, of "replicate 32 5" "[72, 8364, 128512]"]
  by (auto simp: well_formed_def scalar_def)

lemma gcm_blob_opens_in_browser:
  assumes "gcm_ok g" "web_ok g w" "rng_ok rng" "length key = 32" "well_formed t" "t = [] \<or> hd t \<noteq> 65279"
  shows "\<exists>p. encryptAesGcm g rng t key = Inr p
      \<and> decrypt_output_blob w (packAesPayload (iv p) (authTag p) (ciphertext p)) key = Inr t"
proof -
  obtain p where p: "encryptAesGcm g rng t key = Inr p" "length (iv p) = 12" "length (authTag p) = 16"
    "gcm_seal g key (iv p) (utf8_encode t) = Inr (ciphertext p, authTag p)"
    using encryptAesGcm_ok [OF assms(1,3,4)] by metis
  have "output_parts (packAesPayload (iv p) (authTag p) (ciphertext p)) = Inr p"
    using chat_format.unpack_pack [OF p(2,3)] by (simp add: packPayload_chat_append packAesPayload_def)
  moreover have "subtle_decrypt w key (iv p) (ciphertext p @ authTag p) = Inr (utf8_encode t)"
  proof -
    have "iv p \<noteq> []" using p(2) by auto
    with p(4) assms(2,4) show ?thesis by (simp add: web_ok_def)
  qed
  ultimately have "decrypt_output_blob w (packAesPayload (iv p) (authTag p) (ciphertext p)) key = Inr t"
    using text_decoder_no_bom [OF assms(5,6)] by (simp add: decrypt_output_blob_def set_at_def)
  with p(1) show ?thesis by blast
qed

text \<open>An output the agent SDK's format carries opens in the browser: the blob made of IV, tag
  and ciphertext decrypts, through the re-joined \<open>ciphertext + tag\<close>, to the text that was
  sealed, unless this starts with a byte order mark, which \<open>TextDecoder\<close> drops.\<close>

lemma sealed_output_opens_in_browser:
  assumes "gcm_ok g" "web_ok g w" "rng_ok rng" "length key = 32" "well_formed t" "t = [] \<or> hd t \<noteq> 65279"
  shows "\<exists>p. encryptAesGcm g rng t key = Inr p
      \<and> decrypt_output_blob w (packAesPayload (iv p) (authTag p) (ciphertext p)) key = Inr t"
  by (rule gcm_blob_opens_in_browser [OF assms])

text \<open>What the text wizard seals and packs (16-byte IV), the shared package decrypts to the
  same text, and so does what the shared package itself seals; a key of another length is
  refused by all of them.\<close>

lemma wizard_blob_decrypts:
  assumes "gcm_ok g" "web_ok g w" "rng_ok rng" "well_formed t"
  shows "if length key = 32
    then \<exists>p. encryptText_wizard w rng t key = Inr p \<and> encryptText_shared g rng t key = Inr p
           \<and> packPayload_shared p = Inr (packPayload_wizard p)
           \<and> decryptBlob g (packPayload_wizard p) key = Inr t
    else \<exists>m. encryptText_wizard w rng t key = Inl (ErrorObj m) \<and> encryptText_shared g rng t key = Inl (ErrorObj m)
           \<and> (\<forall>b. decryptBlob g b key = Inl (ErrorObj m))"
proof (cases "length key = 32")
  case True
  from assms(3) have ne: "rng 16 \<noteq> []" by (rule rng_nonempty) simp
  from gcm_okD [OF assms(1) True this, of "utf8_encode t"] obtain ct tag where
    seal: "gcm_seal g key (rng 16) (utf8_encode t) = Inr (ct, tag)" "length tag = 16"
      "gcm_open g key (rng 16) tag ct = Inr (utf8_encode t)" .
  let ?p = "payload (rng 16) tag ct"
  from seal True have "encryptText_shared g rng t key = Inr ?p" by (simp add: encryptText_shared_def)
  moreover have "unpackPayload (packPayload_wizard ?p) = Inr ?p" "packPayload_shared ?p = Inr (packPayload_wizard ?p)"
    using wizard_format.unpack_pack [of ?p] seal(2) rng_length [OF assms(3), of 16]
    by (simp_all add: packPayload_shared_def packPayload_wizard_append)
  moreover from this(1) seal(3) True assms(4) have "decryptBlob g (packPayload_wizard ?p) key = Inr t"
    by (simp add: decryptBlob_def utf8_roundtrip)
  ultimately show ?thesis using True encryptText_wizard_shared [OF assms(1-3)] by auto
next
  case False
  then show ?thesis by (simp add: encryptText_wizard_def encryptText_shared_def decryptBlob_def)
qed

text \<open>C35: The 12-byte and the 16-byte formats do not mix. A blob packed by the chat page is read
  by the shared package (whose format the nodes use) with an IV that ends with the tag's first four
  bytes, or is refused when the ciphertext has fewer than four; a blob the shared package packed is
  read by the output view and by the agent SDK with an IV that lacks its last four bytes, which go
  into the tag. No reader recovers the IV that sealed the text.\<close>

theorem formats_misread:
  assumes "length (iv p) = 12" "length (authTag p) = 16" "length (iv q) = 16" "length (authTag q) = 16"
  shows "unpackPayload (packPayload_chat p) =
      (if length (ciphertext p) < 4 then Inl (ErrorObj ''Packed data too short'')
       else Inr (payload (iv p @ take 4 (authTag p))
                         (drop 4 (authTag p) @ take 4 (ciphertext p)) (drop 4 (ciphertext p))))
    \<and> (\<exists>blob r. packPayload_shared q = Inr blob \<and> output_parts blob = Inr r \<and> unpackAesPayload blob = Inr r
         \<and> r = payload (take 12 (iv q)) (drop 12 (iv q) @ take 12 (authTag q))
                       (drop 12 (authTag q) @ ciphertext q))"
  using assms by (simp add: unpackPayload_def packPayload_chat_append packPayload_shared_def
    output_parts_def unpackAesPayload_def js_slice_def)

theorem formats_misread_witness:
  "unpackPayload (packPayload_chat (payload (replicate 12 1) (replicate 16 2) [3, 4]))
      = Inl (ErrorObj ''Packed data too short'')
    \<and> (\<exists>blob. packPayload_shared (payload (replicate 16 1) (replicate 16 2) [3, 4]) = Inr blob
         \<and> output_parts blob = Inr (payload (replicate 12 1) (replicate 4 1 @ replicate 12 2) [2, 2, 2, 2, 3, 4]))"
  using formats_misread [of "payload (replicate 12 1) (replicate 16 2) [3, 4]" "payload (replicate 16 1) (replicate 16 2) [3, 4]"]
  by (auto simp: eval_nat_numeral)

end
