(* ===== verification/Ipfs.thy ===== *)
theory Ipfs
  imports External Aes_Payload
begin

section \<open>IPFS: uploads through Pinata, downloads through gateways\<close>

text \<open>
  \<open>uploadToIpfs\<close> and \<open>downloadFromIpfs\<close> of \<open>agent-sdk/src/encryption.ts\<close>,
  \<open>uploadToIPFS\<close> and \<open>downloadFromIPFS\<close> of \<open>shared/src/ipfs.ts\<close>, and the browser's
  \<open>downloadAndDecryptTextOutput\<close>. The network is the parameter \<open>net\<close>: what \<open>fetch\<close>
  answers to a request after the requests of the log. \<open>penv\<close> is \<open>process.env\<close> (or
  \<open>import.meta.env\<close>).
\<close>

type_synonym net = "ext list \<Rightarrow> http_req \<Rightarrow> js_err + byte fetch_response"

definition fetch :: "net \<Rightarrow> http_req \<Rightarrow> (ext, 'x, byte fetch_response) io" where
  "fetch net c = call (\<lambda>lg. net lg c) (Fetch c)"

abbreviation asked :: "string \<Rightarrow> ext" where
  "asked url \<equiv> Fetch (Get url)"

subsection \<open>Agent SDK\<close>

definition uploadToIpfs :: "net \<Rightarrow> byte list \<Rightarrow> string \<Rightarrow> string \<Rightarrow> (ext, 'x, json option) io" where
  "uploadToIpfs net data jwt filename =
     bindE (fetch net (Post ''https://api.pinata.cloud/pinning/pinFileToIPFS''
                        [(''Authorization'', ''Bearer '' @ jwt)] [(''file'', FileField data filename)]))
       (\<lambda>resp. if \<not> resp_ok resp then throw (ErrorObj (''IPFS upload failed: '' @ status_line resp))
               else bindE (lift (body_json resp)) (\<lambda>result. lift (json_prop ''IpfsHash'' result)))"

definition DEFAULT_IPFS_GATEWAYS :: "string list" where
  "DEFAULT_IPFS_GATEWAYS =
     [''https://ipfs.io/ipfs'', ''https://gateway.pinata.cloud/ipfs'', ''https://dweb.link/ipfs'']"

definition gateways :: "(string \<Rightarrow> string option) \<Rightarrow> string option \<Rightarrow> string list" where
  "gateways penv gateway =
     (let envGateway = js_or_opt (penv ''BLINDFERENCE_IPFS_GATEWAY'') (penv ''IPFS_GATEWAY'') in
      (if truthy envGateway then [the envGateway] else [])
      @ (if truthy gateway then [the gateway] else [])
      @ DEFAULT_IPFS_GATEWAYS)"

definition gateway_url :: "string \<Rightarrow> string \<Rightarrow> string" where
  "gateway_url g cid = strip_slash g @ ''/'' @ cid"

text \<open>One turn of the loop: the bytes, or nothing and one more error\<close>

definition try_gateway :: "net \<Rightarrow> string \<Rightarrow> string list \<Rightarrow> (ext, 'x, byte list option \<times> string list) io" where
  "try_gateway net url errors =
     catchE
       (bindE (fetch net (Get url)) (\<lambda>resp.
          if resp_ok resp then bindE (lift (body_bytes resp)) (\<lambda>b. ret (Some b, errors))
          else ret (None, errors @ [url @ '': '' @ status_line resp])))
       (\<lambda>e. ret (None, errors @ [url @ '': '' @ message_or_string e]))"

fun gateway_loop :: "net \<Rightarrow> string \<Rightarrow> nat \<Rightarrow> string list \<Rightarrow> string list \<Rightarrow> (ext, 'x, byte list) io" where
  "gateway_loop net cid attempts [] errors =
     throw (ErrorObj (''IPFS download failed after '' @ nat_str attempts @ '' attempts (cid='' @ cid @ ''). ''
                      @ ''Errors: '' @ join ''; '' errors))"
| "gateway_loop net cid attempts (g # gs) errors =
     bindE (try_gateway net (gateway_url g cid) errors)
       (\<lambda>(r, errors'). case r of Some b \<Rightarrow> ret b | None \<Rightarrow> gateway_loop net cid attempts gs errors')"

definition downloadFromIpfs ::
  "net \<Rightarrow> (string \<Rightarrow> string option) \<Rightarrow> string \<Rightarrow> string option \<Rightarrow> (ext, 'x, byte list) io" where
  "downloadFromIpfs net penv cid gateway =
     gateway_loop net cid (length (gateways penv gateway)) (gateways penv gateway) []"

subsection \<open>Shared package\<close>

definition getPinataJwt :: "(string \<Rightarrow> string option) \<Rightarrow> js_err + string" where
  "getPinataJwt penv =
     (let jwt = penv ''PINATA_JWT'' in
      if \<not> truthy jwt then Inl (ErrorObj ''PINATA_JWT is not set'') else Inr (the jwt))"

definition getGatewayBaseUrl :: "(string \<Rightarrow> string option) \<Rightarrow> string" where
  "getGatewayBaseUrl penv = strip_slash (js_or (penv ''PINATA_GATEWAY_URL'') ''https://gateway.pinata.cloud/ipfs'')"

definition uploadToIPFS :: "net \<Rightarrow> (string \<Rightarrow> string option) \<Rightarrow> byte list \<Rightarrow> (ext, 'x, json option) io" where
  "uploadToIPFS net penv data =
     (let formData = [(''file'', FileField data ''blindference.bin''),
                      (''network'', TextField ''public''),
                      (''name'', TextField ''blindference.bin'')] in
      bindE (lift (getPinataJwt penv)) (\<lambda>jwt.
      bindE (fetch net (Post ''https://uploads.pinata.cloud/v3/files''
                         [(''Authorization'', ''Bearer '' @ jwt)] formData)) (\<lambda>response.
      if \<not> resp_ok response then throw (ErrorObj (''IPFS upload failed: '' @ status_line response))
      else bindE (lift (body_json response)) (\<lambda>payload.
      let cid = opt_prop ''cid'' (opt_prop ''data'' (Some payload)) in
      if \<not> json_truthy cid then throw (ErrorObj (''IPFS upload failed: '' @ json_stringify payload))
      else ret cid))))"

definition downloadFromIPFS :: "net \<Rightarrow> (string \<Rightarrow> string option) \<Rightarrow> string \<Rightarrow> (ext, 'x, byte list) io" where
  "downloadFromIPFS net penv cid =
     bindE (fetch net (Get (getGatewayBaseUrl penv @ ''/'' @ cid))) (\<lambda>response.
     if \<not> resp_ok response then throw (ErrorObj (''IPFS download failed: '' @ status_line response))
     else lift (body_bytes response))"

subsection \<open>Browser\<close>

definition downloadAndDecryptTextOutput ::
  "net \<Rightarrow> web_crypto \<Rightarrow> (string \<Rightarrow> string option) \<Rightarrow> string \<Rightarrow> byte list \<Rightarrow> (ext, 'x, utext) io" where
  "downloadAndDecryptTextOutput net w penv outputCid key =
     (let gatewayBaseUrl = strip_slash (js_or (penv ''VITE_IPFS_GATEWAY_URL'') ''https://ipfs.io/ipfs'');
          url = gatewayBaseUrl @ ''/'' @ outputCid in
      bindE (fetch net (Get url)) (\<lambda>response.
      if \<not> resp_ok response then
        throw (ErrorObj (''Failed to download encrypted output from IPFS: '' @ status_line response
                         @ '' (CID='' @ outputCid @ '', len='' @ nat_str (length outputCid) @ '')''))
      else bindE (lift (body_bytes response)) (\<lambda>packed. lift (decrypt_output_blob w packed key))))"

subsection \<open>The fallback over gateways\<close>

text \<open>What one request to a gateway is worth: the bytes of a good answer, or nothing\<close>

definition served :: "net \<Rightarrow> ext list \<Rightarrow> string \<Rightarrow> byte list option" where
  "served net lg url = (case net lg (Get url) of
      Inl e \<Rightarrow> None
    | Inr resp \<Rightarrow> (if resp_ok resp then (case body_bytes resp of Inl e \<Rightarrow> None | Inr b \<Rightarrow> Some b) else None))"

lemma try_gateway_served:
  "\<exists>errors'. try_gateway net url errors (lg, x) = (Inr (served net lg url, errors'), (lg @ [asked url], x))
     \<and> (case served net lg url of Some _ \<Rightarrow> errors' = errors | None \<Rightarrow> \<exists>e. errors' = errors @ [url @ '': '' @ e])"
  by (auto simp: try_gateway_def fetch_def catchE_apply bindE_call served_def split: sum.splits)

text \<open>\<open>tried net lg urls k\<close>: the first \<open>k\<close> of the urls were asked in order and none served\<close>

definition tried :: "net \<Rightarrow> ext list \<Rightarrow> string list \<Rightarrow> nat \<Rightarrow> bool" where
  "tried net lg urls k = (\<forall>i<k. served net (lg @ map asked (take i urls)) (urls ! i) = None)"

lemma tried_Suc:
  "tried net lg (u # urls) (Suc k) \<longleftrightarrow> served net lg u = None \<and> tried net (lg @ [asked u]) urls k"
  by (auto simp: tried_def less_Suc_eq_0_disj)

lemma tried_0 [simp]: "tried net lg urls 0"
  by (simp add: tried_def)

text \<open>\<open>hit\<close>: the url of number \<open>k\<close> served \<open>b\<close>, none before it did, and none after it was
  asked. \<open>miss\<close>: all were asked and none served.\<close>

definition hit :: "net \<Rightarrow> ext list \<Rightarrow> 'x \<Rightarrow> string list \<Rightarrow> nat \<Rightarrow> byte list \<Rightarrow>
    (js_err + byte list) \<times> (ext list \<times> 'x) \<Rightarrow> bool" where
  "hit net lg x urls k b out =
     (k < length urls \<and> tried net lg urls k
      \<and> served net (lg @ map asked (take k urls)) (urls ! k) = Some b
      \<and> out = (Inr b, (lg @ map asked (take (Suc k) urls), x)))"

definition miss :: "net \<Rightarrow> string \<Rightarrow> nat \<Rightarrow> ext list \<Rightarrow> 'x \<Rightarrow> string list \<Rightarrow> string list \<Rightarrow>
    (js_err + byte list) \<times> (ext list \<times> 'x) \<Rightarrow> bool" where
  "miss net cid attempts lg x urls errors out =
     (tried net lg urls (length urls)
      \<and> out = (Inl (ErrorObj (''IPFS download failed after '' @ nat_str attempts @ '' attempts (cid='' @ cid
                 @ ''). Errors: '' @ join ''; '' errors)), (lg @ map asked urls, x)))"

lemma hit_later:
  "served net lg u = None \<Longrightarrow> hit net (lg @ [asked u]) x urls k b out \<Longrightarrow> hit net lg x (u # urls) (Suc k) b out"
  by (simp add: hit_def tried_Suc)

lemma miss_later:
  "served net lg u = None \<Longrightarrow> miss net cid n (lg @ [asked u]) x urls errors out \<Longrightarrow> miss net cid n lg x (u # urls) errors out"
  by (simp add: miss_def tried_Suc)

lemma gateway_loop_result:
  fixes cid :: string and gs :: "string list"
  defines "urls \<equiv> map (\<lambda>g. gateway_url g cid) gs"
  shows "(\<exists>k b. hit net lg x urls k b (gateway_loop net cid n gs errors (lg, x)))
    \<or> (\<exists>more. length more = length gs
        \<and> miss net cid n lg x urls (errors @ more) (gateway_loop net cid n gs errors (lg, x)))"
  unfolding urls_def
proof (induction gs arbitrary: errors lg)
  case Nil
  then show ?case by (simp add: miss_def)
next
  case (Cons g gs)
  let ?u = "gateway_url g cid"
  obtain errors' where turn: "try_gateway net ?u errors (lg, x)
      = (Inr (served net lg ?u, errors'), (lg @ [asked ?u], x))"
    and errs: "case served net lg ?u of Some _ \<Rightarrow> errors' = errors | None \<Rightarrow> \<exists>e. errors' = errors @ [?u @ '': '' @ e]"
    using try_gateway_served [of net ?u errors lg x] by blast
  show ?case
  proof (cases "served net lg ?u")
    case (Some b)
    with turn have "hit net lg x (map (\<lambda>g. gateway_url g cid) (g # gs)) 0 b
        (gateway_loop net cid n (g # gs) errors (lg, x))"
      by (simp add: hit_def)
    then show ?thesis by blast
  next
    case None
    with errs obtain e where e: "errors' = errors @ [?u @ '': '' @ e]" by auto
    from None turn have step: "gateway_loop net cid n (g # gs) errors (lg, x)
        = gateway_loop net cid n gs errors' (lg @ [asked ?u], x)" by simp
    from Cons.IH [of "lg @ [asked ?u]" errors'] show ?thesis
    proof (elim disjE exE conjE)
      fix k b
      assume "hit net (lg @ [asked ?u]) x (map (\<lambda>g. gateway_url g cid) gs) k b
          (gateway_loop net cid n gs errors' (lg @ [asked ?u], x))"
      from hit_later [OF None this] show ?thesis unfolding step by (simp only: list.map) blast
    next
      fix more :: "string list"
      assume len: "length more = length gs"
        and "miss net cid n (lg @ [asked ?u]) x (map (\<lambda>g. gateway_url g cid) gs) (errors' @ more)
          (gateway_loop net cid n gs errors' (lg @ [asked ?u], x))"
      with miss_later [OF None] have "miss net cid n lg x (map (\<lambda>g. gateway_url g cid) (g # gs))
          (errors @ ((?u @ '': '' @ e) # more)) (gateway_loop net cid n (g # gs) errors (lg, x))"
        unfolding step e by simp
      with len show ?thesis by (intro disjI2 exI [of _ "(?u @ '': '' @ e) # more"]) simp
    qed
  qed
qed

text \<open>C26: \<open>downloadFromIpfs\<close> either returns the bytes of the first gateway of its list that
  answers well, having asked the ones before it (in order) and none after it, or it asked
  every gateway, none served, and it throws with one error per gateway. An override from the
  environment comes before the caller's gateway, and the three public ones are always last.\<close>

theorem download_fallback:
  fixes cid :: string and penv :: "string \<Rightarrow> string option" and gateway :: "string option"
  defines "urls \<equiv> map (\<lambda>g. gateway_url g cid) (gateways penv gateway)"
  shows "((\<exists>k b. hit net lg x urls k b (downloadFromIpfs net penv cid gateway (lg, x)))
      \<or> (\<exists>errors. length errors = length urls
          \<and> miss net cid (length urls) lg x urls errors (downloadFromIpfs net penv cid gateway (lg, x))))
    \<and> gateways penv gateway =
        filter (\<lambda>g. g \<noteq> []) [js_or (penv ''BLINDFERENCE_IPFS_GATEWAY'') (js_or (penv ''IPFS_GATEWAY'') []), js_or gateway []]
        @ DEFAULT_IPFS_GATEWAYS"
proof
  show "(\<exists>k b. hit net lg x urls k b (downloadFromIpfs net penv cid gateway (lg, x)))
      \<or> (\<exists>errors. length errors = length urls
          \<and> miss net cid (length urls) lg x urls errors (downloadFromIpfs net penv cid gateway (lg, x)))"
    using gateway_loop_result [of net lg x cid "gateways penv gateway" "length urls" "[]"]
    by (simp add: urls_def downloadFromIpfs_def)
  show "gateways penv gateway =
        filter (\<lambda>g. g \<noteq> []) [js_or (penv ''BLINDFERENCE_IPFS_GATEWAY'') (js_or (penv ''IPFS_GATEWAY'') []), js_or gateway []]
        @ DEFAULT_IPFS_GATEWAYS"
    by (auto simp: gateways_def Let_def js_or_opt_def truthy_def js_or_def split: option.splits)
qed

text \<open>From seal to screen: when the configured gateway serves, with status 200, the blob
  that holds an output sealed in the SDK's format, the browser returns the text that was
  sealed; it makes one request.\<close>

lemma browser_shows_sealed_output:
  assumes "gcm_ok g" "web_ok g w" "rng_ok rng" "length key = 32" "well_formed t" "t = [] \<or> hd t \<noteq> 65279"
    and "penv ''VITE_IPFS_GATEWAY_URL'' = None"
    and "encryptAesGcm g rng t key = Inr p"
    and "net lg (Get (''https://ipfs.io/ipfs/'' @ cid)) = Inr r" "status_code r = 200"
    and "body_bytes r = Inr (packAesPayload (iv p) (authTag p) (ciphertext p))"
  shows "downloadAndDecryptTextOutput net w penv cid key (lg, x)
       = (Inr t, (lg @ [asked (''https://ipfs.io/ipfs/'' @ cid)], x))"
proof -
  obtain p' where "encryptAesGcm g rng t key = Inr p'"
    "decrypt_output_blob w (packAesPayload (iv p') (authTag p') (ciphertext p')) key = Inr t"
    using gcm_blob_opens_in_browser [OF assms(1-6)] by blast
  with assms(8) have "decrypt_output_blob w (packAesPayload (iv p) (authTag p) (ciphertext p)) key = Inr t"
    by simp
  moreover have "strip_slash (js_or (penv ''VITE_IPFS_GATEWAY_URL'') ''https://ipfs.io/ipfs'') @ ''/'' @ cid
      = ''https://ipfs.io/ipfs/'' @ cid"
    using assms(7) by (simp add: js_or_def strip_slash_def)
  ultimately show ?thesis
    using assms(9-11)
    by (simp only: downloadAndDecryptTextOutput_def Let_def fetch_def bindE_call)
      (simp add: resp_ok_def)
qed

definition toy_net :: "byte list \<Rightarrow> net" where
  "toy_net b lg c = Inr \<lparr>status_code = 200, status_text = ''OK'', body_json = Inr JNull,
     body_text = Inr [], body_bytes = Inr b\<rparr>"

end
