(* ===== verification/Agent.thy ===== *)
theory Agent
  imports Agent_Client Chain_Tx Ipfs
begin

section \<open>\<open>BlindferenceAgent\<close>: the end-to-end flow of the SDK\<close>

text \<open>
  \<open>agent-sdk/src/agent.ts\<close>. The resolved configuration and the wallet's address are an
  argument; the state is \<open>cofheClient\<close>, of which the code only asks whether it is there. The
  cipher and the random source are those of \<open>Aes_Payload\<close>.
\<close>

definition DEFAULT_PROMPT_KEY_STORE_ADDRESS :: string where
  "DEFAULT_PROMPT_KEY_STORE_ADDRESS = ''0x1E22dD12f448B15f1Ca8560fB6B4463834FaAf73''"

definition DEFAULT_PAYMENT_WALLET :: string where
  "DEFAULT_PAYMENT_WALLET = ''0x7F9B413Da50e72415b16Eb9df6e5E59774a338dc''"

definition DEFAULT_BLIND_TOKEN :: string where
  "DEFAULT_BLIND_TOKEN = ''0x232D5470DaaC7AD552a42d876aDEF1f778033cE0''"

record agent_config =
  ac_privateKey :: string
  ac_paymentServiceUrl :: string
  ac_iclUrl :: "string option"
  ac_ipfsGateway :: "string option"
  ac_pinataJwt :: "string option"
  ac_rpcUrl :: string
  ac_chainId :: "nat option"
  ac_promptKeyStoreAddress :: "string option"

record agent =
  ag_paymentServiceUrl :: string
  ag_iclUrl :: string
  ag_ipfsGateway :: string
  ag_pinataJwt :: string
  ag_rpcUrl :: string
  ag_chainId :: nat
  ag_promptKeyStoreAddress :: string
  ag_address :: string

definition new_BlindferenceAgent ::
  "(string \<Rightarrow> string) \<Rightarrow> (string \<Rightarrow> string option) \<Rightarrow> agent_config \<Rightarrow> agent" where
  "new_BlindferenceAgent privateKeyToAccount penv config =
     \<lparr>ag_paymentServiceUrl = ac_paymentServiceUrl config,
      ag_iclUrl = js_or (ac_iclUrl config) (replace_first '':8001'' '':8000'' (ac_paymentServiceUrl config)),
      ag_ipfsGateway = js_or (ac_ipfsGateway config) (js_or (penv ''BLINDFERENCE_IPFS_GATEWAY'')
        (js_or (penv ''IPFS_GATEWAY'') ''https://ipfs.io/ipfs'')),
      ag_pinataJwt = js_or (ac_pinataJwt config) [],
      ag_rpcUrl = ac_rpcUrl config,
      ag_chainId = (case ac_chainId config of None \<Rightarrow> 421614 | Some n \<Rightarrow> if n = 0 then 421614 else n),
      ag_promptKeyStoreAddress = js_or (ac_promptKeyStoreAddress config) DEFAULT_PROMPT_KEY_STORE_ADDRESS,
      ag_address = privateKeyToAccount (ac_privateKey config)\<rparr>"

record agent_state =
  cofheClient :: bool

subsection \<open>CoFHE client\<close>

text \<open>\<open>createCofheClient\<close> (the parameter \<open>created\<close>: whether it returns a client) is assigned
  before \<open>connect\<close> is awaited.\<close>

definition initCofhe :: "world \<Rightarrow> bool \<Rightarrow> (ext, agent_state, unit) io" where
  "initCofhe w created =
     bindE (getting cofheClient) (\<lambda>have. if have then ret () else
     thenE (update (\<lambda>st. st\<lparr>cofheClient := created\<rparr>))
     (if \<not> created then throw (ErrorObj ''Failed to create CoFHE client'')
      else cofhe_connect w))"

subsection \<open>Helpers\<close>

definition agent_generateTaskId :: "(nat \<Rightarrow> byte) \<Rightarrow> string" where
  "agent_generateTaskId random_byte = ''0x'' @ hex_of_bytes (map random_byte [0..<32])"

definition uploadToIcl :: "world \<Rightarrow> agent \<Rightarrow> byte list \<Rightarrow> (ext, 'x, json option) io" where
  "uploadToIcl w a data =
     bindE (axios_post w (ag_iclUrl a) ''/v1/inference/upload-prompt'' (FormBody data ''blindference-text-prompt.bin''))
       (\<lambda>d. lift (json_prop ''cid'' d))"

definition storePromptKey :: "world \<Rightarrow> agent \<Rightarrow> string \<Rightarrow> encrypted_input \<Rightarrow> encrypted_input \<Rightarrow> (ext, 'x, string) io" where
  "storePromptKey w a taskId highInput lowInput =
     (let safeAllowedNodes = [ag_address a] in
      bindE (chain_fee_params w) (\<lambda>feeParams.
      bindE (write_contract w \<lparr>tx_account = ag_address a, tx_address = ag_promptKeyStoreAddress a,
               tx_function = ''storeKey'',
               tx_args = [AStr taskId, toContractInput highInput, toContractInput lowInput,
                          AList (map AStr safeAllowedNodes)],
               tx_fees = feeParams\<rparr>) (\<lambda>hash.
      bindE (wait_receipt w hash) (\<lambda>status.
      if status \<noteq> ''success'' then throw (ErrorObj (''PromptKeyStore transaction failed for task '' @ taskId))
      else ret hash))))"

text \<open>\<open>{ status: 'FAILED', ...data }\<close>\<close>

definition job_verdict :: "json \<Rightarrow> js_err + json option" where
  "job_verdict data =
     (case json_prop ''status'' data of
        Inl e \<Rightarrow> Inl e
      | Inr status \<Rightarrow>
         if is_str status ''COMPLETED'' then Inr (Some data)
         else if is_str status ''FAILED'' \<or> is_str status ''REFUNDED'' then
           Inr (Some (JObj (obj_spread [(''status'', JStr ''FAILED'')] (case data of JObj kvs \<Rightarrow> kvs | _ \<Rightarrow> []))))
         else Inr None)"

fun pollJobStatus :: "world \<Rightarrow> agent \<Rightarrow> json \<Rightarrow> nat \<Rightarrow> nat \<Rightarrow> (ext, 'x, json) io" where
  "pollJobStatus w a jobId maxAttempts 0 =
     throw (ErrorObj (''Polling timed out after '' @ nat_str maxAttempts @ '' attempts''))"
| "pollJobStatus w a jobId maxAttempts (Suc n) =
     thenE (sleep 3000)
     (bindE (axios_get w (ag_paymentServiceUrl a) (''/v1/jobs/'' @ json_display jobId)) (\<lambda>data.
      bindE (lift (job_verdict data)) (\<lambda>v. case v of
        Some d \<Rightarrow> ret d
      | None \<Rightarrow> pollJobStatus w a jobId maxAttempts n)))"

text \<open>A permit that has expired is removed and asked for again.\<close>

definition fresh_permit :: "world \<Rightarrow> (ext, 'x, nat) io" where
  "fresh_permit w =
     bindE (get_permit w) (\<lambda>expiration.
     bindE (clock w) (\<lambda>now.
     if expiration < now div 1000 then thenE (remove_permit w) (get_permit w)
     else ret expiration))"

text \<open>\<open>keyData[i].ctHash\<close>: the handle of one half, a bigint printed and parsed again\<close>

definition ct_handle :: "abi_value list \<Rightarrow> nat \<Rightarrow> js_err + int" where
  "ct_handle keyData i =
     (if i < length keyData then
        (case keyData ! i of ATuple (AInt h # _) \<Rightarrow> js_BigInt (int_str h)
         | _ \<Rightarrow> Inl (ErrorObj ''Cannot read properties of undefined''))
      else Inl (ErrorObj ''Cannot read properties of undefined''))"

definition agent_decryptOutputKey :: "world \<Rightarrow> agent \<Rightarrow> string \<Rightarrow> (ext, agent_state, byte list) io" where
  "agent_decryptOutputKey w a taskId =
     bindE (getting cofheClient) (\<lambda>have.
     if \<not> have then throw (ErrorObj ''CoFHE client not initialized'') else
     bindE (read_contract w (ag_promptKeyStoreAddress a) ''getEncryptedKey'' [AStr taskId]) (\<lambda>keyData.
     bindE (fresh_permit w) (\<lambda>permit.
     bindE (lift (ct_handle keyData 0)) (\<lambda>hHandle.
     bindE (cofhe_decrypt w hHandle) (\<lambda>high.
     bindE (lift (ct_handle keyData 1)) (\<lambda>lHandle.
     bindE (cofhe_decrypt w lHandle) (\<lambda>low.
     ret (combineKeyHalves high low))))))))"

definition downloadAndDecryptOutput ::
  "world \<Rightarrow> gcm \<Rightarrow> (string \<Rightarrow> string option) \<Rightarrow> agent \<Rightarrow> json \<Rightarrow> byte list \<Rightarrow> (ext, 'x, utext) io" where
  "downloadAndDecryptOutput w g penv a cid key =
     bindE (downloadFromIpfs (on_fetch w) penv (json_display cid) (Some (ag_ipfsGateway a))) (\<lambda>data.
     bindE (lift (unpackAesPayload data)) (\<lambda>p.
     lift (decryptAesGcm g (ciphertext p) key (iv p) (authTag p))))"

definition serializeEncryptedInput :: "encrypted_input \<Rightarrow> json" where
  "serializeEncryptedInput input =
     JObj ([(''ctHash'', JStr (int_str (ctHash input)))]
           @ opt_field ''securityZone'' (map_option (\<lambda>z. JNum (of_int z)) (securityZone input))
           @ [(''utype'', JNum (of_int (utype input))), (''signature'', JStr (signature input))])"

subsection \<open>Credits\<close>

definition agent_getBalance :: "world \<Rightarrow> agent \<Rightarrow> string option \<Rightarrow> (ext, 'x, json) io" where
  "agent_getBalance w a addr = axios_get w (ag_paymentServiceUrl a) (''/v1/balance/'' @ js_or addr (ag_address a))"

definition agent_getPackages :: "world \<Rightarrow> agent \<Rightarrow> (ext, 'x, json option) io" where
  "agent_getPackages w a =
     bindE (axios_get w (ag_paymentServiceUrl a) ''/v1/credits/packages'') (\<lambda>d. lift (json_prop ''packages'' d))"

datatype currency = BLIND | CUSDC

definition agent_deposit :: "world \<Rightarrow> agent \<Rightarrow> int \<Rightarrow> currency \<Rightarrow> (ext, 'x, string) io" where
  "agent_deposit w a amountWei cur =
     (let tokenAddress = (case cur of BLIND \<Rightarrow> DEFAULT_BLIND_TOKEN
                          | CUSDC \<Rightarrow> ''0x42E47f9bA89712C317f60A72C81A610A2b68c48a'');
          paymentWallet = DEFAULT_PAYMENT_WALLET in
      bindE (write_contract w \<lparr>tx_account = ag_address a, tx_address = tokenAddress,
               tx_function = ''transfer'', tx_args = [AStr paymentWallet, AInt amountWei], tx_fees = NoFees\<rparr>)
        (\<lambda>txHash. thenE (wait_receipt w txHash) (ret txHash)))"

definition agent_purchasePackage :: "world \<Rightarrow> agent \<Rightarrow> string \<Rightarrow> (ext, 'x, json \<times> string) io" where
  "agent_purchasePackage w a packageId =
     bindE (agent_getPackages w a) (\<lambda>packages.
     bindE (lift (packages_find packageId packages)) (\<lambda>found.
     case found of
       None \<Rightarrow> throw (ErrorObj (''Package '' @ packageId @ '' not found''))
     | Some pkg \<Rightarrow>
        bindE (lift (json_prop ''price_blind_wei'' pkg)) (\<lambda>price.
        bindE (lift (BigInt_json price)) (\<lambda>amountWei.
        bindE (agent_deposit w a amountWei BLIND) (\<lambda>txHash.
        bindE (axios_post w (ag_paymentServiceUrl a) ''/v1/credits/purchase-package''
                 (JsonBody (JObj [(''package_id'', JStr packageId), (''tx_hash'', JStr txHash)]))) (\<lambda>balance.
        ret (balance, txHash)))))))"

definition agent_getDeveloperStats :: "world \<Rightarrow> agent \<Rightarrow> string option \<Rightarrow> (ext, 'x, json) io" where
  "agent_getDeveloperStats w a addr =
     axios_get w (ag_paymentServiceUrl a) (''/v1/developers/'' @ js_or addr (ag_address a) @ ''/stats'')"

subsection \<open>Inference\<close>

record infer_options =
  opt_prompt :: utext
  opt_modelId :: "string option"
  opt_currency :: "string option"
  opt_insurance :: bool

record infer_result =
  ir_jobId :: json
  ir_taskId :: string
  ir_status :: "json option"
  ir_output :: "utext option"
  ir_outputCid :: "json option"
  ir_commitmentHash :: "json option"

definition job_body ::
  "agent \<Rightarrow> infer_options \<Rightarrow> string \<Rightarrow> json option \<Rightarrow> encrypted_input \<Rightarrow> encrypted_input \<Rightarrow> string \<Rightarrow> json" where
  "job_body a options taskId promptCid highInput lowInput storeTxHash =
     (let modelId = js_or (opt_modelId options) ''groq:llama-3.3-70b-versatile'' in
      JObj ([(''user_address'', JStr (ag_address a))]
        @ opt_field ''prompt_cid'' promptCid
        @ [(''model_id'', JStr modelId),
           (''encrypted_prompt_key_high'', JStr (int_str (ctHash highInput))),
           (''encrypted_prompt_key_low'', JStr (int_str (ctHash lowInput))),
           (''payment_mode'', JStr ''credits''),
           (''payment_currency'', JStr (to_lower (js_or (opt_currency options) ''cUSDC''))),
           (''insurance_opt_in'', JBool (opt_insurance options)),
           (''task_id'', JStr taskId), (''min_tier'', JNum 0), (''zdr_required'', JBool False),
           (''verifier_count'', JNum 2), (''permits'', JArr []),
           (''metadata'', JObj
             [(''cofhe_prompt_key_inputs'', JObj [(''high'', serializeEncryptedInput highInput),
                                                  (''low'', serializeEncryptedInput lowInput)]),
              (''prompt_length'', js_num (text_length (opt_prompt options))),
              (''vertical'', JStr ''blindference-text-demo''), (''model'', JStr modelId),
              (''is_agent_job'', JBool True), (''uavp_enabled'', JBool True),
              (''prompt_key_store_tx'', JStr storeTxHash),
              (''prompt_key_store_status'', JStr ''stored_by_user''),
              (''prompt_key_store_address'', JStr (ag_promptKeyStoreAddress a)),
              (''source'', JStr ''sdk'')])]))"

text \<open>Steps 2 to 6: seal, upload, split, CoFHE-encrypt, store. The result is what the submission
  needs. A missing encrypted input is noticed by \<open>toContractInput\<close>, after the fee estimate.\<close>

definition infer_prepare ::
  "world \<Rightarrow> gcm \<Rightarrow> (nat \<Rightarrow> byte list) \<Rightarrow> agent \<Rightarrow> infer_options \<Rightarrow> string \<Rightarrow>
   (ext, agent_state, json option \<times> encrypted_input \<times> encrypted_input \<times> string) io" where
  "infer_prepare w g rng a options taskId =
     (let aesKey = generateAesKey rng in
      bindE (lift (encryptAesGcm g rng (opt_prompt options) aesKey)) (\<lambda>p.
      let packedPrompt = packAesPayload (iv p) (authTag p) (ciphertext p) in
      bindE (uploadToIcl w a packedPrompt) (\<lambda>promptCid.
      bindE (lift (splitKeyForCofhe aesKey)) (\<lambda>(high, low).
      bindE (cofhe_encrypt w [Uint128 high, Uint128 low]) (\<lambda>encResult.
      case encResult of
        highInput # lowInput # _ \<Rightarrow>
          bindE (storePromptKey w a taskId highInput lowInput) (\<lambda>storeTxHash.
          ret (promptCid, highInput, lowInput, storeTxHash))
      | _ \<Rightarrow> thenE (chain_fee_params w) (throw (ErrorObj ''Cannot read properties of undefined (reading ctHash)'')))))))"

text \<open>Steps 9 and 10: poll, and decrypt the output of a completed job\<close>

definition infer_finish ::
  "world \<Rightarrow> gcm \<Rightarrow> (string \<Rightarrow> string option) \<Rightarrow> agent \<Rightarrow> string \<Rightarrow> json \<Rightarrow> (ext, agent_state, infer_result) io" where
  "infer_finish w g penv a taskId jobId =
     bindE (pollJobStatus w a jobId 60 60) (\<lambda>jobStatus.
     let status = obj_get ''status'' jobStatus; outputCid = obj_get ''output_cid'' jobStatus in
     if \<not> is_str status ''COMPLETED'' then
       ret \<lparr>ir_jobId = jobId, ir_taskId = taskId, ir_status = status, ir_output = None,
            ir_outputCid = None, ir_commitmentHash = None\<rparr>
     else if \<not> json_truthy outputCid then throw (ErrorObj ''Job completed but no output CID found'')
     else
       bindE (agent_decryptOutputKey w a taskId) (\<lambda>outputKey.
       bindE (downloadAndDecryptOutput w g penv a (the outputCid) outputKey) (\<lambda>outputPlaintext.
       ret \<lparr>ir_jobId = jobId, ir_taskId = taskId, ir_status = Some (JStr ''COMPLETED''),
            ir_output = Some outputPlaintext, ir_outputCid = outputCid,
            ir_commitmentHash = obj_get ''result_hash'' jobStatus\<rparr>)))"

definition infer ::
  "world \<Rightarrow> bool \<Rightarrow> gcm \<Rightarrow> (nat \<Rightarrow> byte list) \<Rightarrow> (nat \<Rightarrow> byte) \<Rightarrow> (string \<Rightarrow> string option) \<Rightarrow>
   agent \<Rightarrow> infer_options \<Rightarrow> (ext, agent_state, infer_result) io" where
  "infer w created g rng random_byte penv a options =
     thenE (initCofhe w created)
     (bindE (getting cofheClient) (\<lambda>have.
      if \<not> have then throw (ErrorObj ''CoFHE client failed to initialize'') else
      let modelId = js_or (opt_modelId options) ''groq:llama-3.3-70b-versatile'';
          taskId = agent_generateTaskId random_byte in
      bindE (infer_prepare w g rng a options taskId) (\<lambda>(promptCid, highInput, lowInput, storeTxHash).
      thenE (axios_post w (ag_iclUrl a) ''/v1/inference/quorum-preview'' (JsonBody (quorum_request modelId)))
      (bindE (axios_post w (ag_paymentServiceUrl a) ''/v1/jobs/submit''
                (JsonBody (job_body a options taskId promptCid highInput lowInput storeTxHash))) (\<lambda>data.
       bindE (lift (json_prop ''job_id'' data)) (\<lambda>jobId.
       if \<not> json_truthy jobId then throw (ErrorObj ''Payment Service response did not include a job identifier'')
       else infer_finish w g penv a taskId (the jobId)))))))"

subsection \<open>A purchase pays the price of the package\<close>

text \<open>\<open>purchase_of\<close>: the calls of a purchase of package \<open>pid\<close> from \<open>lg\<close> on: the package list,
  which holds the package at this price, \<open>extra\<close> calls, one BLIND transfer of exactly the
  price, its receipt, and the notification with its hash.\<close>

definition purchase_of ::
  "world \<Rightarrow> string \<Rightarrow> string \<Rightarrow> string \<Rightarrow> ext list \<Rightarrow> ext list \<Rightarrow> string \<Rightarrow> ext list \<Rightarrow> bool" where
  "purchase_of w me base pid lg extra h lg' =
     (\<exists>d ps pkg price.
        on_axios w lg (Axios ''GET'' base ''/v1/credits/packages'' NoBody) = Inr d
        \<and> obj_get ''packages'' d = Some (JArr ps) \<and> pkg \<in> set ps \<and> obj_get ''id'' pkg = Some (JStr pid)
        \<and> BigInt_json (obj_get ''price_blind_wei'' pkg) = Inr price
        \<and> lg' = lg @ [Axios ''GET'' base ''/v1/credits/packages'' NoBody] @ extra @
            [WriteContract \<lparr>tx_account = me, tx_address = DEFAULT_BLIND_TOKEN, tx_function = ''transfer'',
               tx_args = [AStr DEFAULT_PAYMENT_WALLET, AInt price], tx_fees = NoFees\<rparr>,
             WaitReceipt h,
             Axios ''POST'' base ''/v1/credits/purchase-package''
               (JsonBody (JObj [(''package_id'', JStr pid), (''tx_hash'', JStr h)]))])"

lemma json_prop_Inr: "json_prop k j = Inr v \<Longrightarrow> obj_get k j = v"
  by (simp add: json_prop_def split: if_splits)

lemma find_package_sound:
  "find_package pid ps = Inr (Some p) \<Longrightarrow> p \<in> set ps \<and> obj_get ''id'' p = Some (JStr pid)"
  by (induction ps) (auto split: sum.splits if_splits dest: json_prop_Inr)

lemma packages_find_sound:
  "packages_find pid packages = Inr (Some p) \<Longrightarrow>
   \<exists>ps. packages = Some (JArr ps) \<and> p \<in> set ps \<and> obj_get ''id'' p = Some (JStr pid)"
  by (auto simp: packages_find_def dest: find_package_sound split: option.splits json.splits)

lemma purchase_ofI:
  assumes "on_axios w lg (Axios ''GET'' base ''/v1/credits/packages'' NoBody) = Inr d"
    "json_prop ''packages'' d = Inr packages" "packages_find pid packages = Inr (Some pkg)"
    "json_prop ''price_blind_wei'' pkg = Inr price" "BigInt_json price = Inr amount"
    "lg' = lg @ [Axios ''GET'' base ''/v1/credits/packages'' NoBody] @ extra @
       [WriteContract \<lparr>tx_account = me, tx_address = DEFAULT_BLIND_TOKEN, tx_function = ''transfer'',
          tx_args = [AStr DEFAULT_PAYMENT_WALLET, AInt amount], tx_fees = NoFees\<rparr>, WaitReceipt h,
        Axios ''POST'' base ''/v1/credits/purchase-package''
          (JsonBody (JObj [(''package_id'', JStr pid), (''tx_hash'', JStr h)]))]"
  shows "purchase_of w me base pid lg extra h lg'"
proof -
  from packages_find_sound [OF assms(3)] obtain ps where
    ps: "packages = Some (JArr ps)" "pkg \<in> set ps" "obj_get ''id'' pkg = Some (JStr pid)" by blast
  with assms json_prop_Inr [OF assms(2)] json_prop_Inr [OF assms(4)] show ?thesis
    unfolding purchase_of_def by (intro exI [of _ d] exI [of _ ps] exI [of _ pkg] exI [of _ amount]) simp
qed

lemma agent_purchase_ok:
  assumes "agent_purchasePackage w a pid (lg, x) = (Inr (balance, h), (lg', x'))"
  shows "purchase_of w (ag_address a) (ag_paymentServiceUrl a) pid lg [] h lg' \<and> x' = x"
proof -
  from assms obtain d packages pkg price amount where
    "on_axios w lg (Axios ''GET'' (ag_paymentServiceUrl a) ''/v1/credits/packages'' NoBody) = Inr d"
    "json_prop ''packages'' d = Inr packages" "packages_find pid packages = Inr (Some pkg)"
    "json_prop ''price_blind_wei'' pkg = Inr price" "BigInt_json price = Inr amount"
    and "lg' = lg @ [Axios ''GET'' (ag_paymentServiceUrl a) ''/v1/credits/packages'' NoBody,
       WriteContract \<lparr>tx_account = ag_address a, tx_address = DEFAULT_BLIND_TOKEN, tx_function = ''transfer'',
          tx_args = [AStr DEFAULT_PAYMENT_WALLET, AInt amount], tx_fees = NoFees\<rparr>, WaitReceipt h,
        Axios ''POST'' (ag_paymentServiceUrl a) ''/v1/credits/purchase-package''
          (JsonBody (JObj [(''package_id'', JStr pid), (''tx_hash'', JStr h)]))]" "x' = x"
    by (auto simp: agent_purchasePackage_def agent_getPackages_def agent_deposit_def call_defs run_Inr
        simp del: bindE_lift split: option.splits)
  then show ?thesis using purchase_ofI [where extra = "[]"] by simp
qed

lemma client_purchase_ok:
  assumes "client_purchasePackage w c pid (lg, x) = (Inr (balance, h), (lg', x'))"
  shows "purchase_of w (client_address c) (paymentBaseUrl c) pid lg
      [Axios ''GET'' (paymentBaseUrl c) ''/health'' NoBody] h lg' \<and> x' = x"
proof -
  from assms obtain d packages pkg price amount where
    "on_axios w lg (Axios ''GET'' (paymentBaseUrl c) ''/v1/credits/packages'' NoBody) = Inr d"
    "json_prop ''packages'' d = Inr packages" "packages_find pid packages = Inr (Some pkg)"
    "json_prop ''price_blind_wei'' pkg = Inr price" "BigInt_json price = Inr amount"
    and "lg' = lg @ [Axios ''GET'' (paymentBaseUrl c) ''/v1/credits/packages'' NoBody,
       Axios ''GET'' (paymentBaseUrl c) ''/health'' NoBody,
       WriteContract \<lparr>tx_account = client_address c, tx_address = DEFAULT_BLIND_TOKEN, tx_function = ''transfer'',
          tx_args = [AStr DEFAULT_PAYMENT_WALLET, AInt amount], tx_fees = NoFees\<rparr>, WaitReceipt h,
        Axios ''POST'' (paymentBaseUrl c) ''/v1/credits/purchase-package''
          (JsonBody (JObj [(''package_id'', JStr pid), (''tx_hash'', JStr h)]))]" "x' = x"
    by (auto simp: client_purchasePackage_def client_getPackages_def depositBLIND_def client_getPaymentWalletAddress_def
        client_getBlindTokenAddress_def DEFAULT_BLIND_TOKEN_def DEFAULT_PAYMENT_WALLET_def call_defs run_Inr
        simp del: bindE_lift split: option.splits)
  then show ?thesis using purchase_ofI [where extra = "[Axios ''GET'' (paymentBaseUrl c) ''/health'' NoBody]"] by simp
qed

text \<open>When a purchase succeeds, in the agent or in the plain client, the package was in the
  service's list, exactly one transfer of its price in BLIND went to the payment wallet, and
  the service was notified of that transfer's hash.\<close>

lemma purchase_pays_price:
  shows "(case agent_purchasePackage w a pid (lg, x) of
      (Inl e, s) \<Rightarrow> True
    | (Inr (balance, h), (lg', x')) \<Rightarrow> purchase_of w (ag_address a) (ag_paymentServiceUrl a) pid lg [] h lg' \<and> x' = x)
    \<and> (case client_purchasePackage w c pid (lg, x) of
      (Inl e, s) \<Rightarrow> True
    | (Inr (balance, h), (lg', x')) \<Rightarrow> purchase_of w (client_address c) (paymentBaseUrl c) pid lg
        [Axios ''GET'' (paymentBaseUrl c) ''/health'' NoBody] h lg' \<and> x' = x)"
proof
  show "case agent_purchasePackage w a pid (lg, x) of
      (Inl e, s) \<Rightarrow> True
    | (Inr (balance, h), (lg', x')) \<Rightarrow> purchase_of w (ag_address a) (ag_paymentServiceUrl a) pid lg [] h lg' \<and> x' = x"
    by (auto dest: agent_purchase_ok split: prod.splits sum.splits)
  show "case client_purchasePackage w c pid (lg, x) of
      (Inl e, s) \<Rightarrow> True
    | (Inr (balance, h), (lg', x')) \<Rightarrow> purchase_of w (client_address c) (paymentBaseUrl c) pid lg
        [Axios ''GET'' (paymentBaseUrl c) ''/health'' NoBody] h lg' \<and> x' = x"
    by (auto dest: client_purchase_ok split: prod.splits sum.splits)
qed

end
