(* ===== verification/Key_Store.thy ===== *)
theory Key_Store
  imports Key_Codec External
begin

section \<open>The contract that holds the keys\<close>

text \<open>
  \<open>contracts/core/PromptKeyStore.sol\<close>, as far as the agent SDK reads it back: its two mappings, who
  writes which, and the bytes \<open>getEncryptedKey\<close> returns. A \<open>euint128\<close> is a handle of 256 bits. The grants of
  access and the events are left out; \<open>as_euint128\<close> is the library's check of an encrypted input.
  viem decodes the returned bytes by the ABI that \<open>agent.ts\<close> declares; its decoder is a parameter, of which
  only the standard's layout of a tuple is used.
\<close>

type_synonym handle = "256 word"

record key_store =
  ks_jobKeys :: "string \<Rightarrow> handle \<times> handle"
  ks_outputKeys :: "string \<Rightarrow> handle \<times> handle"
  ks_icl :: string

definition sol_storeKey ::
  "(encrypted_input \<Rightarrow> handle option) \<Rightarrow> string \<Rightarrow> encrypted_input \<Rightarrow> encrypted_input \<Rightarrow> key_store \<Rightarrow> key_store option" where
  "sol_storeKey as_euint128 jobId encHigh encLow st = (case (as_euint128 encHigh, as_euint128 encLow) of
      (Some high, Some low) \<Rightarrow> Some (st\<lparr>ks_jobKeys := (ks_jobKeys st)(jobId := (high, low))\<rparr>)
    | _ \<Rightarrow> None)"

definition sol_storeOutputKey :: "string \<Rightarrow> string \<Rightarrow> handle \<Rightarrow> handle \<Rightarrow> key_store \<Rightarrow> key_store option" where
  "sol_storeOutputKey sender jobId koHighHandle koLowHandle st =
     (if sender \<noteq> ks_icl st then None
      else if \<not> koHighHandle \<le> 2 ^ 128 - 1 \<or> \<not> koLowHandle \<le> 2 ^ 128 - 1 then None
      else Some (st\<lparr>ks_outputKeys := (ks_outputKeys st)(jobId := (koHighHandle, koLowHandle))\<rparr>))"

definition sol_getEncryptedKey :: "key_store \<Rightarrow> string \<Rightarrow> handle \<times> handle" where
  "sol_getEncryptedKey st jobId = ks_jobKeys st jobId"

text \<open>\<open>returns (euint128, euint128)\<close>: two words, big-endian\<close>

definition return_data :: "handle \<times> handle \<Rightarrow> byte list" where
  "return_data hs = be_bytes 32 (unat (fst hs)) @ be_bytes 32 (unat (snd hs))"

lemma length_return_data [simp]: "length (return_data hs) = 64"
  by (simp add: return_data_def)

text \<open>What is stored as a job's output key never shows in what \<open>getEncryptedKey\<close> returns: that is the key
  the user stored for the prompt.\<close>

lemma output_key_not_read:
  "sol_storeOutputKey sender job high low st = Some st' \<Longrightarrow> sol_getEncryptedKey st' job' = sol_getEncryptedKey st job'"
  by (auto simp: sol_storeOutputKey_def sol_getEncryptedKey_def split: if_splits)

lemma prompt_key_read:
  "sol_storeKey as_euint128 job encHigh encLow st = Some st' \<Longrightarrow>
   as_euint128 encHigh = Some (fst (sol_getEncryptedKey st' job)) \<and> as_euint128 encLow = Some (snd (sol_getEncryptedKey st' job))"
  by (auto simp: sol_storeKey_def sol_getEncryptedKey_def split: option.splits)

subsection \<open>What the SDK declares\<close>

text \<open>\<open>agent.ts\<close> declares two results of type \<open>(uint256, uint8, uint8, bytes)\<close>. Such a tuple is dynamic: by the
  ABI the data holds its offset, and at the offset the four words of its head. A decoder that
  accepts data has found them.\<close>

definition decodes_inputs :: "(byte list \<Rightarrow> js_err + abi_value list) \<Rightarrow> bool" where
  "decodes_inputs decode = (\<forall>data v. decode data = Inr v \<longrightarrow>
     64 \<le> length data \<and> be_val (take 32 data) + 128 \<le> length data \<and> be_val (take 32 (drop 32 data)) + 128 \<le> length data)"

lemma declared_type_refused: "decodes_inputs decode \<Longrightarrow> \<exists>e. decode (return_data hs) = Inl e"
  by (cases "decode (return_data hs)") (force simp: decodes_inputs_def)+

text \<open>A decoder of that kind\<close>

definition toy_abi :: "byte list \<Rightarrow> js_err + abi_value list" where
  "toy_abi data =
     (let off = (\<lambda>i. be_val (take 32 (drop (32 * i) data)));
          tuple = (\<lambda>pos. ATuple (map (\<lambda>i. AInt (int (be_val (take 32 (drop (pos + 32 * i) data))))) [0..<4])) in
      if 64 \<le> length data \<and> off 0 + 128 \<le> length data \<and> off 1 + 128 \<le> length data
      then Inr [tuple (off 0), tuple (off 1)] else Inl (ErrorObj ''Position is out of bounds''))"

lemma toy_abi_ok: "decodes_inputs toy_abi"
  by (simp add: decodes_inputs_def toy_abi_def Let_def)

end
