(* ===== verification/Agent_Flow.thy ===== *)
theory Agent_Flow
  imports Agent Key_Store
begin

section \<open>What an \<open>infer\<close> call guarantees\<close>

text \<open>
  Theorems on the whole of \<open>BlindferenceAgent.infer\<close>: what it returns and after which calls, that
  it submits a job only after the key is confirmed on chain, what leaves the process, and
  that the output of a completed job is never opened.
\<close>

definition job_call :: "agent \<Rightarrow> json \<Rightarrow> ext" where
  "job_call a jobId = Axios ''GET'' (ag_paymentServiceUrl a) (''/v1/jobs/'' @ json_display jobId) NoBody"

interpretation job_poll: poller "pollJobStatus w a jobId m" "job_call a jobId"
    "\<lambda>lg. on_axios w lg (job_call a jobId)" job_verdict
    "ErrorObj (''Polling timed out after '' @ nat_str m @ '' attempts'')" for w a jobId m
  by unfold_locales
    (auto simp: call_defs thenE_call bindE_call attempt_def job_call_def split: sum.splits option.splits)

subsection \<open>Terminal jobs\<close>

lemma job_verdict_status:
  assumes "job_verdict data = Inr (Some d)"
  shows "obj_get ''status'' d = obj_get ''status'' data
    \<and> obj_get ''status'' data \<in> {Some (JStr ''COMPLETED''), Some (JStr ''FAILED''), Some (JStr ''REFUNDED'')}"
proof -
  from assms obtain status where st: "json_prop ''status'' data = Inr status"
    by (auto simp: job_verdict_def split: sum.splits)
  then have status: "obj_get ''status'' data = status" by (rule json_prop_Inr)
  show ?thesis
  proof (cases "is_str status ''COMPLETED''")
    case True
    with assms st status show ?thesis by (simp add: job_verdict_def is_str_def)
  next
    case False
    with assms st have d: "d = JObj (obj_spread [(''status'', JStr ''FAILED'')] (case data of JObj kvs \<Rightarrow> kvs | _ \<Rightarrow> []))"
      and ended: "is_str status ''FAILED'' \<or> is_str status ''REFUNDED''"
      by (auto simp: job_verdict_def split: if_splits)
    from ended status obtain kvs where kvs: "data = JObj kvs" "map_of kvs ''status'' = status" "status \<noteq> None"
      by (auto simp: is_str_def obj_get_def split: json.splits)
    then have "obj_get ''status'' d = status"
      by (auto simp: d obj_get_def map_of_obj_spread)
    with ended status show ?thesis by (auto simp: is_str_def)
  qed
qed

lemma poll_terminal:
  assumes "pollJobStatus w a jobId 60 60 (lg, x) = (Inr d, (lg', x'))"
  obtains k data where "k < 60" "lg' = lg @ rounds (job_call a jobId) (Suc k)" "x' = x"
    "on_axios w (lg @ rounds (job_call a jobId) k @ [Sleep 3000]) (job_call a jobId) = Inr data"
    "job_verdict data = Inr (Some d)"
  using job_poll.poll_result [where w = w and a = a and jobId = jobId and m = 60 and n = 60 and lg = lg and x = x, unfolded assms]
  by (rule poll_spec_result) blast

lemma infer_finish_result:
  assumes "infer_finish w g penv a taskId jobId (lg, x) = (Inr r, s)"
  shows "ir_jobId r = jobId \<and> ir_taskId r = taskId \<and>
    (if ir_status r = Some (JStr ''COMPLETED'') then ir_output r \<noteq> None \<and> json_truthy (ir_outputCid r)
     else ir_status r \<in> {Some (JStr ''FAILED''), Some (JStr ''REFUNDED'')} \<and> ir_output r = None)"
proof -
  from assms obtain d lg' x' where poll: "pollJobStatus w a jobId 60 60 (lg, x) = (Inr d, (lg', x'))"
    and rest: "(let status = obj_get ''status'' d; outputCid = obj_get ''output_cid'' d in
     if \<not> is_str status ''COMPLETED'' then
       ret \<lparr>ir_jobId = jobId, ir_taskId = taskId, ir_status = status, ir_output = None,
            ir_outputCid = None, ir_commitmentHash = None\<rparr>
     else if \<not> json_truthy outputCid then throw (ErrorObj ''Job completed but no output CID found'')
     else
       bindE (agent_decryptOutputKey w a taskId) (\<lambda>outputKey.
       bindE (downloadAndDecryptOutput w g penv a (the outputCid) outputKey) (\<lambda>outputPlaintext.
       ret \<lparr>ir_jobId = jobId, ir_taskId = taskId, ir_status = Some (JStr ''COMPLETED''),
            ir_output = Some outputPlaintext, ir_outputCid = outputCid,
            ir_commitmentHash = obj_get ''result_hash'' d\<rparr>))) (lg', x') = (Inr r, s)"
    by (auto simp: infer_finish_def bindE_EqInr)
  from poll obtain data where "job_verdict data = Inr (Some d)" by (rule poll_terminal)
  from job_verdict_status [OF this]
  have status: "obj_get ''status'' d \<in> {Some (JStr ''COMPLETED''), Some (JStr ''FAILED''), Some (JStr ''REFUNDED'')}"
    by simp
  show ?thesis
  proof (cases "is_str (obj_get ''status'' d) ''COMPLETED''")
    case False
    with rest status show ?thesis by (auto simp: is_str_def)
  next
    case True
    with rest show ?thesis by (auto simp: Let_def bindE_EqInr split: if_splits)
  qed
qed

text \<open>C27: what \<open>infer\<close> returns is about the job and the task it created: COMPLETED comes with the
  decrypted output and its CID; any other result has no output and is the job's own terminal
  status, FAILED or REFUNDED. (The type allows REJECTED, on which the poll does not stop,
  and not REFUNDED, which the spread in \<open>_pollJobStatus\<close> lets through.)\<close>

theorem infer_result_status:
  shows "case infer w created g rng random_byte penv a options (lg, x) of
      (Inl e, s) \<Rightarrow> True
    | (Inr r, s) \<Rightarrow> ir_taskId r = agent_generateTaskId random_byte \<and>
        (if ir_status r = Some (JStr ''COMPLETED'') then ir_output r \<noteq> None \<and> json_truthy (ir_outputCid r)
         else ir_status r \<in> {Some (JStr ''FAILED''), Some (JStr ''REFUNDED'')} \<and> ir_output r = None)"
proof -
  have "ir_taskId r = agent_generateTaskId random_byte \<and>
        (if ir_status r = Some (JStr ''COMPLETED'') then ir_output r \<noteq> None \<and> json_truthy (ir_outputCid r)
         else ir_status r \<in> {Some (JStr ''FAILED''), Some (JStr ''REFUNDED'')} \<and> ir_output r = None)"
    if run: "infer w created g rng random_byte penv a options (lg, x) = (Inr r, s)" for r s
  proof -
    from run obtain jobId lg' x' where
      "infer_finish w g penv a (agent_generateTaskId random_byte) jobId (lg', x') = (Inr r, s)"
      by (auto simp: infer_def thenE_def bindE_EqInr Let_def
          simp del: bindE_lift split: if_splits prod.splits)
    from infer_finish_result [OF this] show ?thesis by auto
  qed
  then show ?thesis by (auto split: prod.splits sum.splits)
qed

subsection \<open>No job without a confirmed key\<close>

definition is_submit :: "ext \<Rightarrow> bool" where
  "is_submit c = (\<exists>base body. c = Axios ''POST'' base ''/v1/jobs/submit'' body)"

lemma not_submit [simp]:
  "\<not> is_submit (Axios ''GET'' base path body)" "\<not> is_submit GetBlock" "\<not> is_submit EstimatePriorityFee"
  "\<not> is_submit GetGasPrice" "\<not> is_submit (WriteContract tx)" "\<not> is_submit (WaitReceipt h)"
  "\<not> is_submit (ReadContract addr f as)" "\<not> is_submit CofheConnect" "\<not> is_submit (CofheEncrypt es)"
  "\<not> is_submit CofhePermit" "\<not> is_submit CofheRemovePermit" "\<not> is_submit (CofheDecrypt n)"
  "\<not> is_submit (Sleep ms)" "\<not> is_submit Clock" "\<not> is_submit (Fetch req)"
  "\<not> is_submit (Axios ''POST'' base ''/v1/inference/upload-prompt'' body)"
  "\<not> is_submit (Axios ''POST'' base ''/v1/inference/quorum-preview'' body)"
  by (simp_all add: is_submit_def)

abbreviation quiet :: "(ext, 'x, 'a) io \<Rightarrow> bool" where
  "quiet m \<equiv> adds (\<lambda>c. \<not> is_submit c) m"

lemma quiet_initCofhe: "quiet (initCofhe w created)"
  unfolding initCofhe_def call_defs by (intro adds_rules) simp_all

lemma quiet_fees: "quiet (chain_fee_params w)"
  unfolding chain_fee_params_def call_defs by (intro adds_rules) simp_all

lemma quiet_store: "quiet (storePromptKey w a taskId high low)"
  unfolding storePromptKey_def call_defs by (intro adds_rules quiet_fees) simp_all

lemma quiet_prepare: "quiet (infer_prepare w g rng a options taskId)"
  unfolding infer_prepare_def uploadToIcl_def call_defs
  by (intro adds_rules) (auto intro!: adds_rules quiet_store quiet_fees split: list.splits)

lemma quiet_poll: "quiet (pollJobStatus w a jobId m n)"
proof (induction n)
  case 0
  show ?case by (simp only: pollJobStatus.simps adds_rules)
next
  case (Suc n)
  then show ?case by (auto simp: call_defs intro!: adds_rules)
qed

lemma quiet_gateways: "quiet (gateway_loop net cid n gs errors)"
  by (induction gs arbitrary: errors) (auto simp: try_gateway_def fetch_def intro!: adds_rules)

lemma quiet_download: "quiet (downloadFromIpfs net penv cid gateway)"
  by (simp add: downloadFromIpfs_def quiet_gateways)

lemma quiet_finish: "quiet (infer_finish w g penv a taskId jobId)"
  unfolding infer_finish_def agent_decryptOutputKey_def fresh_permit_def downloadAndDecryptOutput_def call_defs
  by (intro adds_rules quiet_poll quiet_download) simp_all

definition store_tx :: "agent \<Rightarrow> string \<Rightarrow> encrypted_input \<Rightarrow> encrypted_input \<Rightarrow> fee_params \<Rightarrow> contract_tx" where
  "store_tx a taskId high low fees = \<lparr>tx_account = ag_address a, tx_address = ag_promptKeyStoreAddress a,
     tx_function = ''storeKey'',
     tx_args = [AStr taskId, toContractInput high, toContractInput low, AList [AStr (ag_address a)]],
     tx_fees = fees\<rparr>"

lemma storePromptKey_confirms:
  assumes "storePromptKey w a taskId high low (lg, x) = (Inr h, (lg', x'))"
  shows "confirmed w (store_tx a taskId high low) lg h lg' \<and> x' = x"
  using assms unfolding storePromptKey_def Let_def list.map store_tx_def by (rule send_confirmed)

lemma case_two_Inr:
  "(case xs of a # b # _ \<Rightarrow> f a b | _ \<Rightarrow> thenE m (throw e)) s = (Inr y, s')
     \<longleftrightarrow> (\<exists>a b r. xs = a # b # r \<and> f a b s = (Inr y, s'))"
  by (cases xs; cases "tl xs") auto

lemma prepare_confirms:
  assumes "infer_prepare w g rng a options taskId (lg, x) = (Inr (cid, high, low, h), (lg', x'))"
  shows "\<exists>before. confirmed w (store_tx a taskId high low) (lg @ before) h lg'"
proof -
  from assms obtain lg0 x0 where store: "storePromptKey w a taskId high low (lg0, x0) = (Inr h, (lg', x'))"
    and grow: "\<exists>before. lg0 = lg @ before"
    by (auto simp: infer_prepare_def uploadToIcl_def call_defs run_Inr case_two_Inr Let_def
        simp del: bindE_lift throw_apply split: prod.split_asm) (auto simp: bindE_EqInr)
  with storePromptKey_confirms [OF store] show ?thesis by blast
qed

text \<open>What follows the preparation: the submission is the second call, the rest is quiet.\<close>

lemma submit_tail:
  assumes "thenE (axios_post w base ''/v1/inference/quorum-preview'' pbody)
      (bindE (axios_post w url ''/v1/jobs/submit'' body) k) (lg, x) = (r, (lg', x'))"
    and "\<And>d. quiet (k d)"
  obtains new where "lg' = lg @ new" "\<forall>c \<in> set new. is_submit c \<longrightarrow> c = Axios ''POST'' url ''/v1/jobs/submit'' body"
proof -
  have "adds (\<lambda>c. is_submit c \<longrightarrow> c = Axios ''POST'' url ''/v1/jobs/submit'' body)
      (thenE (axios_post w base ''/v1/inference/quorum-preview'' pbody)
        (bindE (axios_post w url ''/v1/jobs/submit'' body) k))"
    unfolding axios_post_def Let_def
    by (intro adds_rules) (auto intro: adds_mono [OF assms(2)])
  from addsE [OF this assms(1)] that show thesis by (auto simp: list_all_iff)
qed

text \<open>C6: no job is submitted before its key is on chain. If \<open>infer\<close> posts a job, on any path,
  also one that fails later, then before that post a \<open>storeKey\<close> transaction for the same task
  went out, its receipt said \<open>success\<close>, and the posted job names this task, the two
  ciphertext handles stored, and the transaction's hash.\<close>

theorem no_submit_without_stored_key:
  assumes "infer w created g rng random_byte penv a options (lg, x) = (r, (lg @ new, x'))"
    and "c \<in> set new" "is_submit c"
  shows "\<exists>high low h cid before stored after.
      confirmed w (store_tx a (agent_generateTaskId random_byte) high low) (lg @ before) h stored
    \<and> lg @ new = stored @ after \<and> c \<in> set after
    \<and> c = Axios ''POST'' (ag_paymentServiceUrl a) ''/v1/jobs/submit''
        (JsonBody (job_body a options (agent_generateTaskId random_byte) cid high low h))"
proof -
  let ?task = "agent_generateTaskId random_byte"
  obtain r1 lg1 x1 where init: "initCofhe w created (lg, x) = (r1, (lg1, x1))" by (metis surj_pair)
  from addsE [OF quiet_initCofhe init] obtain n1 where n1: "lg1 = lg @ n1" "list_all (\<lambda>c. \<not> is_submit c) n1" .
  have no: "\<not> list_all (\<lambda>c. \<not> is_submit c) new"
    using assms(2,3) by (auto simp: list_all_iff)
  have fail: "\<not> (lg @ new = lg1 @ more \<and> list_all (\<lambda>c. \<not> is_submit c) more)" for more
    using no n1 by auto
  have go: "r1 = Inr () \<and> cofheClient x1"
  proof (rule ccontr)
    assume "\<not> ?thesis"
    then have "snd (infer w created g rng random_byte penv a options (lg, x)) = (lg1, x1)"
      by (cases r1) (auto simp: infer_def thenE_def bindE_def init split: sum.splits)
    with assms(1) fail [of "[]"] show False by simp
  qed
  obtain r2 lg2 x2 where prep: "infer_prepare w g rng a options ?task (lg1, x1) = (r2, (lg2, x2))" by (metis surj_pair)
  from addsE [OF quiet_prepare prep] obtain n2 where n2: "lg2 = lg1 @ n2" "list_all (\<lambda>c. \<not> is_submit c) n2" .
  have "\<exists>cid high low h. r2 = Inr (cid, high, low, h)"
  proof (rule ccontr)
    assume "\<not> ?thesis"
    then obtain e where "r2 = Inl e" by (cases r2) auto
    with go have "snd (infer w created g rng random_byte penv a options (lg, x)) = (lg2, x2)"
      by (auto simp: infer_def thenE_def bindE_def init prep Let_def getting_def split: sum.splits)
    with assms(1) fail [of n2] n2 show False by simp
  qed
  then obtain cid high low h where r2: "r2 = Inr (cid, high, low, h)" by blast
  let ?body = "JsonBody (job_body a options ?task cid high low h)"
  from assms(1) go have "thenE (axios_post w (ag_iclUrl a) ''/v1/inference/quorum-preview''
        (JsonBody (quorum_request (js_or (opt_modelId options) ''groq:llama-3.3-70b-versatile''))))
      (bindE (axios_post w (ag_paymentServiceUrl a) ''/v1/jobs/submit'' ?body) (\<lambda>data.
       bindE (lift (json_prop ''job_id'' data)) (\<lambda>jobId.
       if \<not> json_truthy jobId then throw (ErrorObj ''Payment Service response did not include a job identifier'')
       else infer_finish w g penv a ?task (the jobId)))) (lg2, x2) = (r, (lg @ new, x'))"
    by (simp add: infer_def thenE_def bindE_def init prep r2 Let_def getting_def)
  then obtain tail where tail: "lg @ new = lg2 @ tail"
      "\<forall>c \<in> set tail. is_submit c \<longrightarrow> c = Axios ''POST'' (ag_paymentServiceUrl a) ''/v1/jobs/submit'' ?body"
    by (rule submit_tail) (intro adds_rules quiet_finish)
  from tail(1) n1 n2 have "new = n1 @ n2 @ tail" by simp
  with assms(2,3) n1 n2 have "c \<in> set tail" by (auto simp: list_all_iff)
  moreover from prepare_confirms [OF prep [unfolded r2]] obtain before where
    "confirmed w (store_tx a ?task high low) (lg1 @ before) h lg2" by blast
  ultimately show ?thesis
    using tail assms(3) n1(1) by (intro exI [of _ high] exI [of _ low] exI [of _ h] exI [of _ cid]
        exI [of _ "n1 @ before"] exI [of _ lg2] exI [of _ tail]) simp
qed

subsection \<open>What the last steps are written for\<close>

lemma fresh_permit_ok:
  assumes "\<And>lg. \<exists>e. on_permit w lg = Inr e" "\<And>lg. on_remove_permit w lg = Inr ()"
  obtains e lg' where "fresh_permit w (lg, x) = (Inr e, (lg', x))"
proof -
  obtain e1 where e1: "on_permit w lg = Inr e1" using assms(1) by blast
  obtain e2 where e2: "on_permit w (lg @ [CofhePermit, Clock, CofheRemovePermit]) = Inr e2" using assms(1) by blast
  from e1 e2 assms(2) that show thesis
    by (cases "e1 < on_clock w (lg @ [CofhePermit]) div 1000")
      (auto simp: fresh_permit_def call_defs bindE_call thenE_call)
qed

lemma ct_handle_tuple:
  assumes "0 \<le> h" "0 \<le> l"
  shows "ct_handle [ATuple (AInt h # r), ATuple (AInt l # r')] 0 = Inr h"
    "ct_handle [ATuple (AInt h # r), ATuple (AInt l # r')] (Suc 0) = Inr l"
  using assms by (simp_all add: ct_handle_def bigint_of_int_str)

lemma decryptOutputKey_ok:
  assumes "cofheClient x"
    and "\<And>lg. on_read w lg (ReadContract (ag_promptKeyStoreAddress a) ''getEncryptedKey'' [AStr taskId])
          = Inr [ATuple (AInt hHandle # r), ATuple (AInt lHandle # r')]"
    and "0 \<le> hHandle" "0 \<le> lHandle"
    and "\<And>lg. \<exists>e. on_permit w lg = Inr e" "\<And>lg. on_remove_permit w lg = Inr ()"
    and "\<And>lg. on_cofhe_decrypt w lg hHandle = Inr high" "\<And>lg. on_cofhe_decrypt w lg lHandle = Inr low"
  shows "\<exists>lg'. agent_decryptOutputKey w a taskId (lg, x) = (Inr (combineKeyHalves high low), (lg', x))"
proof -
  let ?lg = "lg @ [ReadContract (ag_promptKeyStoreAddress a) ''getEncryptedKey'' [AStr taskId]]"
  obtain e lg1 where permit: "fresh_permit w (?lg, x) = (Inr e, (lg1, x))"
    by (rule fresh_permit_ok [OF assms(5,6)])
  have "agent_decryptOutputKey w a taskId (lg, x) = bindE (fresh_permit w) (\<lambda>permit.
     bindE (lift (ct_handle [ATuple (AInt hHandle # r), ATuple (AInt lHandle # r')] 0)) (\<lambda>h. bindE (cofhe_decrypt w h) (\<lambda>high.
     bindE (lift (ct_handle [ATuple (AInt hHandle # r), ATuple (AInt lHandle # r')] 1)) (\<lambda>l. bindE (cofhe_decrypt w l) (\<lambda>low.
     ret (combineKeyHalves high low)))))) (?lg, x)"
    by (simp add: agent_decryptOutputKey_def assms(1,2) read_contract_def Let_def bindE_call)
  then show ?thesis
    by (simp add: permit ct_handle_tuple [OF assms(3,4)] cofhe_decrypt_def bindE_call assms(7,8))
qed

lemma downloadFromIpfs_first:
  assumes "served net lg (gateway_url (hd (gateways penv gateway)) cid) = Some b"
  shows "\<exists>lg'. downloadFromIpfs net penv cid gateway (lg, x) = (Inr b, (lg', x))"
proof -
  have "gateways penv gateway \<noteq> []" by (simp add: gateways_def Let_def DEFAULT_IPFS_GATEWAYS_def)
  then obtain gt rest where g: "gateways penv gateway = gt # rest" by (cases "gateways penv gateway") auto
  with assms have hit: "served net lg (gateway_url gt cid) = Some b" by simp
  from try_gateway_served [of net "gateway_url gt cid" "[]" lg x] obtain errors' where
    "try_gateway net (gateway_url gt cid) [] (lg, x) = (Inr (Some b, errors'), (lg @ [asked (gateway_url gt cid)], x))"
    unfolding hit by blast
  then have "gateway_loop net cid n (gt # rest) [] (lg, x) = (Inr b, (lg @ [asked (gateway_url gt cid)], x))" for n
    by simp
  then show ?thesis unfolding downloadFromIpfs_def g by blast
qed

text \<open>What the last steps were written for: a store that answers \<open>getEncryptedKey(taskId)\<close> with two tuples, as the
  ABI in \<open>agent.ts\<close> declares, holding the output key. Against such a store they would return the output. It
  is not the store of this repository, which returns two words, and the prompt's key: see
  the next theorem.\<close>

lemma declared_store_recovers_output:
  assumes cipher: "gcm_ok g" "rng_ok rng" "length key = 32" "well_formed t" "encryptAesGcm g rng t key = Inr p"
    and job: "k < 60" "undecided (job_call a jobId) (\<lambda>lg. on_axios w lg (job_call a jobId)) job_verdict lg k"
      "on_axios w (lg @ rounds (job_call a jobId) k @ [Sleep 3000]) (job_call a jobId) = Inr d"
      "obj_get ''status'' d = Some (JStr ''COMPLETED'')" "obj_get ''output_cid'' d = Some (JStr cid)" "cid \<noteq> []"
    and chain: "\<And>lg. on_read w lg (ReadContract (ag_promptKeyStoreAddress a) ''getEncryptedKey'' [AStr taskId])
          = Inr [ATuple (AInt hHandle # r), ATuple (AInt lHandle # r')]" "0 \<le> hHandle" "0 \<le> lHandle"
    and cofhe: "cofheClient x" "\<And>lg. \<exists>e. on_permit w lg = Inr e" "\<And>lg. on_remove_permit w lg = Inr ()"
      "splitKeyForCofhe key = Inr (high, low)"
      "\<And>lg. on_cofhe_decrypt w lg hHandle = Inr high" "\<And>lg. on_cofhe_decrypt w lg lHandle = Inr low"
    and gateway: "\<And>lg. served (on_fetch w) lg (gateway_url (hd (gateways penv (Some (ag_ipfsGateway a)))) cid)
          = Some (packAesPayload (iv p) (authTag p) (ciphertext p))"
  shows "\<exists>res lg'. infer_finish w g penv a taskId jobId (lg, x) = (Inr res, (lg', x))
      \<and> ir_status res = Some (JStr ''COMPLETED'') \<and> ir_output res = Some t \<and> ir_outputCid res = Some (JStr cid)"
proof -
  let ?ask = "job_call a jobId"
  let ?answer = "\<lambda>lg. on_axios w lg ?ask"
  have key: "combineKeyHalves high low = key"
    using agent_codec.split_combine [OF cipher(3)] cofhe(4) by auto
  have "d \<noteq> JNull" using job(4) by (auto simp: obj_get_def)
  with job(4) have "job_verdict d = Inr (Some d)" by (simp add: job_verdict_def json_prop_def is_str_def)
  with job(3) have att: "attempt ?answer job_verdict (lg @ rounds ?ask k) = Inr (Some d)"
    by (simp add: attempt_Inr)
  have "pollJobStatus w a jobId 60 60 (lg, x) = (Inr d, (lg @ rounds ?ask (Suc k), x))"
    using job_poll.poll_decided [OF job(1,2) att] .
  moreover obtain lg2 where "agent_decryptOutputKey w a taskId (lg @ rounds ?ask (Suc k), x) = (Inr key, (lg2, x))"
    using decryptOutputKey_ok [OF cofhe(1) chain cofhe(2,3,5,6)]
      key by auto
  moreover obtain lg3 where "downloadFromIpfs (on_fetch w) penv cid (Some (ag_ipfsGateway a)) (lg2, x)
      = (Inr (packAesPayload (iv p) (authTag p) (ciphertext p)), (lg3, x))"
    by (rule exE [OF downloadFromIpfs_first [OF gateway]])
  moreover obtain "unpackAesPayload (packAesPayload (iv p) (authTag p) (ciphertext p)) = Inr p"
      "decryptAesGcm g (ciphertext p) key (iv p) (authTag p) = Inr t"
  proof -
    obtain p' where p': "encryptAesGcm g rng t key = Inr p'" "length (iv p') = 12" "length (authTag p') = 16"
      "gcm_open g key (iv p') (authTag p') (ciphertext p') = Inr (utf8_encode t)"
      using encryptAesGcm_ok [OF cipher(1-3)] by metis
    from p'(1) cipher(5) have same: "p' = p" by simp
    show thesis
    proof (rule that)
      show "unpackAesPayload (packAesPayload (iv p) (authTag p) (ciphertext p)) = Inr p"
        using agent_format.unpack_pack [of p] p'(2,3) unfolding same by simp
      show "decryptAesGcm g (ciphertext p) key (iv p) (authTag p) = Inr t"
        using p'(4) cipher(4) unfolding same by (simp add: decryptAesGcm_def utf8_roundtrip)
    qed
  qed
  ultimately show ?thesis
    using job(4-6) by (simp add: infer_finish_def downloadAndDecryptOutput_def is_str_def json_truthy_def Let_def)
qed

subsection \<open>The output is never opened\<close>

text \<open>The agent's calls that would open an output\<close>

definition opens_output :: "ext \<Rightarrow> bool" where
  "opens_output c = (case c of Fetch r \<Rightarrow> True | CofheDecrypt h \<Rightarrow> True | _ \<Rightarrow> False)"

lemma opens_output_simps [simp]:
  "\<not> opens_output (Axios verb base path body)" "\<not> opens_output GetBlock" "\<not> opens_output EstimatePriorityFee"
  "\<not> opens_output GetGasPrice" "\<not> opens_output (WriteContract tx)" "\<not> opens_output (WaitReceipt h)"
  "\<not> opens_output (ReadContract addr f as)" "\<not> opens_output CofheConnect" "\<not> opens_output (CofheEncrypt es)"
  "\<not> opens_output (Sleep ms)"
  by (simp_all add: opens_output_def)

abbreviation sealed :: "(ext, 'x, 'a) io \<Rightarrow> bool" where
  "sealed m \<equiv> adds (\<lambda>c. \<not> opens_output c) m"

text \<open>What the agent reads of the key store: the call fails, or the decoder is given what the contract returns\<close>

definition reads_store :: "world \<Rightarrow> agent \<Rightarrow> (byte list \<Rightarrow> js_err + abi_value list) \<Rightarrow> bool" where
  "reads_store w a decode = (\<forall>lg task.
     (\<exists>e. on_read w lg (ReadContract (ag_promptKeyStoreAddress a) ''getEncryptedKey'' [AStr task]) = Inl e) \<or>
     (\<exists>st. on_read w lg (ReadContract (ag_promptKeyStoreAddress a) ''getEncryptedKey'' [AStr task])
        = decode (return_data (sol_getEncryptedKey st task))))"

lemma decryptOutputKey_fails:
  assumes "reads_store w a decode" "decodes_inputs decode"
  shows "\<exists>e new. agent_decryptOutputKey w a taskId (lg, x) = (Inl e, (lg @ new, x)) \<and> list_all (\<lambda>c. \<not> opens_output c) new"
proof -
  let ?c = "ReadContract (ag_promptKeyStoreAddress a) ''getEncryptedKey'' [AStr taskId]"
  obtain e where "on_read w lg ?c = Inl e"
    using assms declared_type_refused [OF assms(2)] unfolding reads_store_def by metis
  then show ?thesis
    by (cases "cofheClient x") (simp_all add: agent_decryptOutputKey_def read_contract_def bindE_call Let_def)
qed

lemma failing_bind:
  assumes "m s = (Inl e, s')" shows "bindE m k s = (Inl e, s')"
  using assms by (simp add: bindE_def)

text \<open>The last steps, when the poll has ended with \<open>d\<close>\<close>

lemma finish_after_poll:
  assumes "reads_store w a decode" "decodes_inputs decode"
    and "pollJobStatus w a jobId 60 60 (lg, x) = (Inr d, (lg1, x1))"
  shows "\<exists>r new. infer_finish w g penv a taskId jobId (lg, x) = (r, (lg1 @ new, x1)) \<and> list_all (\<lambda>c. \<not> opens_output c) new
    \<and> (if is_str (obj_get ''status'' d) ''COMPLETED'' then \<exists>e. r = Inl e
       else \<exists>res. r = Inr res \<and> ir_output res = None \<and> ir_status res = obj_get ''status'' d)"
proof (cases "is_str (obj_get ''status'' d) ''COMPLETED'' \<and> json_truthy (obj_get ''output_cid'' d)")
  case True
  obtain e new where dec: "agent_decryptOutputKey w a taskId (lg1, x1) = (Inl e, (lg1 @ new, x1))" "list_all (\<lambda>c. \<not> opens_output c) new"
    using decryptOutputKey_fails [OF assms(1,2)] by blast
  with True assms(3) show ?thesis by (simp add: infer_finish_def bindE_def Let_def)
next
  case False
  then show ?thesis using assms(3) by (auto simp: infer_finish_def bindE_def Let_def intro!: exI [of _ "[]"])
qed

lemma sealed_poll: "sealed (pollJobStatus w a jobId m n)"
proof (induction n)
  case 0
  show ?case by (simp only: pollJobStatus.simps adds_rules)
next
  case (Suc n)
  then show ?case by (auto simp: call_defs intro!: adds_rules)
qed

lemma sealed_finish:
  assumes "reads_store w a decode" "decodes_inputs decode"
  shows "sealed (infer_finish w g penv a taskId jobId)"
proof (rule addsI)
  fix lg and x :: agent_state
  obtain r lg1 x1 where poll: "pollJobStatus w a jobId 60 60 (lg, x) = (r, (lg1, x1))" by (metis surj_pair)
  from addsE [OF sealed_poll poll] obtain n1 where n1: "lg1 = lg @ n1" "list_all (\<lambda>c. \<not> opens_output c) n1" .
  show "\<exists>new. fst (snd (infer_finish w g penv a taskId jobId (lg, x))) = lg @ new \<and> list_all (\<lambda>c. \<not> opens_output c) new"
  proof (cases r)
    case (Inl e)
    with poll n1 show ?thesis by (simp add: infer_finish_def bindE_def)
  next
    case (Inr d)
    with finish_after_poll [OF assms, where jobId = jobId and lg = lg and x = x] poll n1 show ?thesis
      by (metis append.assoc fst_conv list_all_append snd_conv)
  qed
qed

lemma sealed_infer:
  assumes "reads_store w a decode" "decodes_inputs decode"
  shows "sealed (infer w created g rng random_byte penv a options)"
proof -
  have prepare: "sealed (infer_prepare w g rng a options t)" for t
    unfolding infer_prepare_def uploadToIcl_def storePromptKey_def chain_fee_params_def call_defs
    by (intro adds_rules) (auto intro!: adds_rules split: list.splits)
  show ?thesis
    unfolding infer_def initCofhe_def call_defs Let_def
    by (intro adds_rules prepare sealed_finish [OF assms]) simp_all
qed

text \<open>C3: \<open>infer\<close> never opens an output. The ABI in \<open>agent.ts\<close> declares that \<open>getEncryptedKey\<close> returns two encrypted
  inputs, tuples with a signature; \<open>PromptKeyStore.sol\<close> returns two words. Whatever keys the contract
  holds, a decoder that follows the ABI refuses its 64 bytes. So, whatever else is answered, \<open>infer\<close> fetches nothing and
  decrypts nothing: if it returns, then for a job that failed or was refunded and without an output; and
  as soon as the poll reports a job completed, which is then paid for, it throws.\<close>

theorem infer_never_opens_output:
  assumes "decodes_inputs decode" "reads_store w a decode"
  shows "(case infer w created g rng random_byte penv a options (lg, x) of (r, (lg', x')) \<Rightarrow>
      (\<exists>new. lg' = lg @ new \<and> list_all (\<lambda>c. \<not> opens_output c) new) \<and>
      (case r of Inl e \<Rightarrow> True
       | Inr res \<Rightarrow> ir_output res = None \<and> ir_status res \<in> {Some (JStr ''FAILED''), Some (JStr ''REFUNDED'')}))
    \<and> (\<forall>taskId jobId d polled x1. pollJobStatus w a jobId 60 60 (lg, x) = (Inr d, (polled, x1)) \<and>
        obj_get ''status'' d = Some (JStr ''COMPLETED'') \<longrightarrow>
        (\<exists>e. fst (infer_finish w g penv a taskId jobId (lg, x)) = Inl e))"
proof
  obtain r lg' x' where run: "infer w created g rng random_byte penv a options (lg, x) = (r, (lg', x'))" by (metis surj_pair)
  have log: "\<exists>new. lg' = lg @ new \<and> list_all (\<lambda>c. \<not> opens_output c) new"
    using addsE [OF sealed_infer [OF assms(2,1)] run] by blast
  have "ir_output res = None \<and> ir_status res \<in> {Some (JStr ''FAILED''), Some (JStr ''REFUNDED'')}" if "r = Inr res" for res
  proof -
    from run that obtain jobId lg0 x0 s where fin: "infer_finish w g penv a (agent_generateTaskId random_byte) jobId (lg0, x0) = (Inr res, s)"
      by (auto simp: infer_def thenE_def bindE_EqInr Let_def simp del: bindE_lift split: if_splits prod.splits)
    obtain r0 lg1 x1 where poll: "pollJobStatus w a jobId 60 60 (lg0, x0) = (r0, (lg1, x1))" by (metis surj_pair)
    with fin obtain d where "r0 = Inr d" by (cases r0) (auto simp: infer_finish_def bindE_def)
    with finish_after_poll [OF assms(2,1) poll [unfolded \<open>r0 = Inr d\<close>], where taskId = "agent_generateTaskId random_byte" and g = g and penv = penv] fin
    have "\<not> is_str (obj_get ''status'' d) ''COMPLETED''" "ir_output res = None" "ir_status res = obj_get ''status'' d"
      by (auto split: if_splits)
    with infer_finish_result [OF fin] show ?thesis by (auto simp: is_str_def split: if_splits)
  qed
  with log run show "case infer w created g rng random_byte penv a options (lg, x) of (r, (lg', x')) \<Rightarrow>
      (\<exists>new. lg' = lg @ new \<and> list_all (\<lambda>c. \<not> opens_output c) new) \<and>
      (case r of Inl e \<Rightarrow> True
       | Inr res \<Rightarrow> ir_output res = None \<and> ir_status res \<in> {Some (JStr ''FAILED''), Some (JStr ''REFUNDED'')})"
    by (cases r) simp_all
  show "\<forall>taskId jobId d polled x1. pollJobStatus w a jobId 60 60 (lg, x) = (Inr d, (polled, x1)) \<and>
        obj_get ''status'' d = Some (JStr ''COMPLETED'') \<longrightarrow>
        (\<exists>e. fst (infer_finish w g penv a taskId jobId (lg, x)) = Inl e)"
  proof (intro allI impI, elim conjE)
    fix taskId jobId d polled and x1 :: agent_state
    assume "pollJobStatus w a jobId 60 60 (lg, x) = (Inr d, (polled, x1))" "obj_get ''status'' d = Some (JStr ''COMPLETED'')"
    with finish_after_poll [OF assms(2,1) this(1), where taskId = taskId and g = g and penv = penv]
    show "\<exists>e. fst (infer_finish w g penv a taskId jobId (lg, x)) = Inl e" by (auto simp: is_str_def)
  qed
qed

definition demo_agent :: agent where
  "demo_agent = \<lparr>ag_paymentServiceUrl = ''p'', ag_iclUrl = ''i'', ag_ipfsGateway = ''g'', ag_pinataJwt = [],
     ag_rpcUrl = ''r'', ag_chainId = 1, ag_promptKeyStoreAddress = ''s'', ag_address = ''me''\<rparr>"

text \<open>A job completed at the first poll, against a store that holds the handles 1 and 2\<close>

definition completed_world :: world where
  "completed_world = offline\<lparr>
     on_axios := (\<lambda>_ _. Inr (JObj [(''status'', JStr ''COMPLETED''), (''output_cid'', JStr ''Qm'')])),
     on_read := (\<lambda>_ _. toy_abi (return_data (1, 2))),
     on_permit := (\<lambda>_. Inr 5), on_remove_permit := (\<lambda>_. Inr ()), on_cofhe_decrypt := (\<lambda>_ h. Inr h)\<rparr>"

theorem infer_never_opens_output_witness:
  "\<exists>e. fst (infer_finish completed_world toy_gcm (\<lambda>_. None) demo_agent ''0x1'' (JStr ''j'') ([], \<lparr>cofheClient = True\<rparr>)) = Inl e"
proof -
  let ?st = "\<lparr>ks_jobKeys = (\<lambda>_. (1, 2)), ks_outputKeys = (\<lambda>_. (0, 0)), ks_icl = []\<rparr>"
  let ?d = "JObj [(''status'', JStr ''COMPLETED''), (''output_cid'', JStr ''Qm'')]"
  let ?ask = "job_call demo_agent (JStr ''j'')"
  have store: "reads_store completed_world demo_agent toy_abi"
    unfolding reads_store_def
    by (intro allI disjI2 exI [of _ ?st]) (simp add: completed_world_def sol_getEncryptedKey_def)
  have "job_verdict ?d = Inr (Some ?d)" by (simp add: job_verdict_def json_prop_def obj_get_def is_str_def)
  then have att: "attempt (\<lambda>lg. on_axios completed_world lg ?ask) job_verdict ([] @ rounds ?ask 0) = Inr (Some ?d)"
    by (simp add: attempt_Inr completed_world_def)
  have "pollJobStatus completed_world demo_agent (JStr ''j'') 60 60 ([], \<lparr>cofheClient = True\<rparr>)
      = (Inr ?d, ([] @ rounds ?ask (Suc 0), \<lparr>cofheClient = True\<rparr>))"
    by (rule job_poll.poll_decided [OF _ _ att]) simp_all
  then show ?thesis
    using conjunct2 [OF infer_never_opens_output [OF toy_abi_ok store, where lg = "[]" and x = "\<lparr>cofheClient = True\<rparr>"
      and g = toy_gcm and penv = "\<lambda>_. None"], rule_format, of "JStr ''j''" ?d _ _ "''0x1''"] by (auto simp: obj_get_def)
qed

definition submit_world :: world where
  "submit_world = (one_write_world ''success'')\<lparr>
     on_axios := (\<lambda>_ _. Inr (JObj [(''cid'', JStr ''Qm'')])),
     on_cofhe_connect := (\<lambda>_. Inr ()),
     on_cofhe_encrypt := (\<lambda>_ _. Inr [toy_input, toy_input])\<rparr>"

definition demo_options :: infer_options where
  "demo_options = \<lparr>opt_prompt = [104, 105], opt_modelId = Some ''m'', opt_currency = None, opt_insurance = False\<rparr>"

lemma submit_world_run:
  "\<exists>e before body x'. infer submit_world True toy_gcm toy_rng (\<lambda>_. 1) (\<lambda>_. None) demo_agent demo_options
     ([], \<lparr>cofheClient = False\<rparr>) = (Inl e, ([] @ before @ [Axios ''POST'' ''p'' ''/v1/jobs/submit'' body], x'))"
proof -
  have key: "splitKeyForCofhe (toy_rng 32) = Inr (int (be_val (take 16 (toy_rng 32))), int (be_val (drop 16 (toy_rng 32))))"
    by (rule agent_codec.split_ok) (simp add: toy_rng_def)
  have init: "initCofhe submit_world True ([], \<lparr>cofheClient = False\<rparr>) = (Inr (), ([CofheConnect], \<lparr>cofheClient = True\<rparr>))"
    by (simp add: initCofhe_def call_defs submit_world_def)
  obtain p where p: "encryptAesGcm toy_gcm toy_rng [104, 105] (generateAesKey toy_rng) = Inr p"
    by (simp add: encryptAesGcm_def toy_gcm_def)
  have fees: "chain_fee_params submit_world (lg, x) = (Inr (Eip1559 2000000 3000010), (lg @ [GetBlock, EstimatePriorityFee], x))" for lg and x :: agent_state
    by (simp add: chain_fee_params_apply submit_world_def one_write_world_def offline_def estimated_def priority_fee_def Let_def)
  have store: "\<exists>more. storePromptKey submit_world demo_agent t toy_input toy_input (lg, x) = (Inr ''0xabc'', (lg @ more, x))" for t lg and x :: agent_state
    by (simp add: storePromptKey_def fees call_defs bindE_call) (simp add: submit_world_def one_write_world_def)
  have cid: "json_prop ''cid'' (JObj [(''cid'', JStr ''Qm'')]) = Inr (Some (JStr ''Qm''))"
    by (simp add: json_prop_def obj_get_def)
  have up: "uploadToIcl submit_world demo_agent b (lg, x) = (Inr (Some (JStr ''Qm'')),
      (lg @ [Axios ''POST'' ''i'' ''/v1/inference/upload-prompt'' (FormBody b ''blindference-text-prompt.bin'')], x))" for b lg and x :: agent_state
    by (simp add: uploadToIcl_def call_defs bindE_call cid) (simp add: submit_world_def demo_agent_def cid)
  have enc: "cofhe_encrypt submit_world es (lg, x) = (Inr [toy_input, toy_input], (lg @ [CofheEncrypt es], x))" for es lg and x :: agent_state
    by (simp add: cofhe_encrypt_def submit_world_def)
  have prep: "\<exists>more. infer_prepare submit_world toy_gcm toy_rng demo_agent demo_options t (lg, x)
      = (Inr (Some (JStr ''Qm''), toy_input, toy_input, ''0xabc''), (lg @ more, x))" for t lg and x :: agent_state
  proof -
    let ?b = "packAesPayload (iv p) (authTag p) (ciphertext p)"
    let ?key = "toy_rng 32"
    let ?lg = "(lg @ [Axios ''POST'' ''i'' ''/v1/inference/upload-prompt'' (FormBody ?b ''blindference-text-prompt.bin'')])
      @ [CofheEncrypt [Uint128 (int (be_val (take 16 ?key))), Uint128 (int (be_val (drop 16 ?key)))]]"
    obtain more where "storePromptKey submit_world demo_agent t toy_input toy_input (?lg, x) = (Inr ''0xabc'', (?lg @ more, x))"
      using store by blast
    then have "infer_prepare submit_world toy_gcm toy_rng demo_agent demo_options t (lg, x)
      = (Inr (Some (JStr ''Qm''), toy_input, toy_input, ''0xabc''), (?lg @ more, x))"
      unfolding infer_prepare_def Let_def generateAesKey_def
      using p by (simp add: generateAesKey_def demo_options_def up key enc)
    then show ?thesis by (metis append.assoc)
  qed
  let ?task = "agent_generateTaskId (\<lambda>_. 1)"
  obtain more where prep1: "infer_prepare submit_world toy_gcm toy_rng demo_agent demo_options ?task ([CofheConnect], \<lparr>cofheClient = True\<rparr>)
      = (Inr (Some (JStr ''Qm''), toy_input, toy_input, ''0xabc''), ([CofheConnect] @ more, \<lparr>cofheClient = True\<rparr>))"
    using prep by blast
  have axios: "axios_post submit_world b pth body (lg, x) = (Inr (JObj [(''cid'', JStr ''Qm'')]), (lg @ [Axios ''POST'' b pth body], x))"
    for b pth body lg and x :: agent_state
    by (simp add: axios_post_def submit_world_def)
  have "json_prop ''job_id'' (JObj [(''cid'', JStr ''Qm'')]) = Inr None"
    by (simp add: json_prop_def obj_get_def)
  then have "infer submit_world True toy_gcm toy_rng (\<lambda>_. 1) (\<lambda>_. None) demo_agent demo_options ([], \<lparr>cofheClient = False\<rparr>)
    = (Inl (ErrorObj ''Payment Service response did not include a job identifier''),
       (([CofheConnect] @ more @ [Axios ''POST'' ''i'' ''/v1/inference/quorum-preview'' (JsonBody (quorum_request ''m''))])
         @ [Axios ''POST'' ''p'' ''/v1/jobs/submit'' (JsonBody (job_body demo_agent demo_options ?task (Some (JStr ''Qm'')) toy_input toy_input ''0xabc''))],
        \<lparr>cofheClient = True\<rparr>))"
    by (simp add: infer_def init prep1 axios Let_def json_truthy_def) (simp add: demo_options_def demo_agent_def js_or_def)
  then show ?thesis by (metis append_Nil)
qed

theorem no_submit_without_stored_key_witness:
  "\<exists>high low h before stored. confirmed submit_world
     (store_tx demo_agent (agent_generateTaskId (\<lambda>_. 1)) high low) ([] @ before) h stored"
proof -
  obtain e before body x' where "infer submit_world True toy_gcm toy_rng (\<lambda>_. 1) (\<lambda>_. None) demo_agent demo_options
     ([], \<lparr>cofheClient = False\<rparr>) = (Inl e, ([] @ before @ [Axios ''POST'' ''p'' ''/v1/jobs/submit'' body], x'))"
    using submit_world_run by blast
  from no_submit_without_stored_key [OF this, of "Axios ''POST'' ''p'' ''/v1/jobs/submit'' body"]
  obtain high low h cid b stored where
    "confirmed submit_world (store_tx demo_agent (agent_generateTaskId (\<lambda>_. 1)) high low) ([] @ b) h stored"
    by (auto simp: is_submit_def)
  then show ?thesis by blast
qed

subsection \<open>What leaves the process\<close>

text \<open>C25: the prompt leaves the process only sealed. Change the prompt to another of the same
  length, under a cipher that seals it to the same ciphertext and tag: \<open>infer\<close> makes
  the same calls with the same arguments, on every path, and returns the same. So every
  request, transaction and log entry depends on the prompt through its sealed form and its
  length alone.\<close>

theorem infer_prompt_confined:
  assumes "gcm_seal g (rng 32) (rng 12) (utf8_encode (opt_prompt options)) = gcm_seal g' (rng 32) (rng 12) (utf8_encode q)"
    and "gcm_open g = gcm_open g'" and "text_length (opt_prompt options) = text_length q"
  shows "infer w created g rng random_byte penv a options
       = infer w created g' rng random_byte penv a (options\<lparr>opt_prompt := q\<rparr>)"
proof -
  let ?o = "options\<lparr>opt_prompt := q\<rparr>"
  have prepare: "infer_prepare w g rng a options taskId = infer_prepare w g' rng a ?o taskId" for taskId
    using assms(1) by (simp add: infer_prepare_def encryptAesGcm_def generateAesKey_def)
  have "decryptAesGcm g = decryptAesGcm g'"
    using assms(2) by (simp add: decryptAesGcm_def fun_eq_iff)
  then have opened: "(downloadAndDecryptOutput w g penv a cid key :: (ext, agent_state, utext) io)
      = downloadAndDecryptOutput w g' penv a cid key" for cid key
    by (simp add: downloadAndDecryptOutput_def)
  have finish: "infer_finish w g penv a taskId jobId = infer_finish w g' penv a taskId jobId" for taskId jobId
    unfolding infer_finish_def opened ..
  have body: "job_body a options taskId cid high low h = job_body a ?o taskId cid high low h" for taskId cid high low h
    using assms(3) by (simp add: job_body_def)
  have model: "opt_modelId ?o = opt_modelId options" by simp
  show ?thesis
    unfolding infer_def prepare finish body model ..
qed

theorem infer_prompt_confined_witness:
  "infer offline True (toy_gcm\<lparr>gcm_seal := (\<lambda>_ _ _. Inr ([1], [2]))\<rparr>) toy_rng (\<lambda>_. 1) (\<lambda>_. None) demo_agent demo_options
   = infer offline True (toy_gcm\<lparr>gcm_seal := (\<lambda>_ _ _. Inr ([1], [2]))\<rparr>) toy_rng (\<lambda>_. 1) (\<lambda>_. None) demo_agent
       (demo_options\<lparr>opt_prompt := [110, 111]\<rparr>)"
  by (rule infer_prompt_confined) (simp_all add: demo_options_def text_length_def)

end
