(* ===== verification/Agent_Server.thy ===== *)
theory Agent_Server
  imports Agent_Flow
begin

section \<open>The agent's HTTP server and command line\<close>

text \<open>
  \<open>agent-sdk/src/server.ts\<close>, as one operation per route over the agent's state, and
  \<open>agent-sdk/src/cli.ts\<close>, as one operation per command: option parsing is commander's,
  printing is not modelled, a command ends with \<open>process.exit(1)\<close> (\<open>Exit1\<close>) or with what it
  printed (\<open>Done\<close>).
\<close>

subsection \<open>Server\<close>

record server_options =
  so_port :: "int option"
  so_paymentServiceUrl :: string
  so_iclUrl :: "string option"
  so_ipfsGateway :: string
  so_rpcUrl :: string
  so_privateKey :: string
  so_pinataJwt :: "string option"
  so_promptKeyStoreAddress :: "string option"

definition server_agent :: "(string \<Rightarrow> string) \<Rightarrow> (string \<Rightarrow> string option) \<Rightarrow> server_options \<Rightarrow> agent" where
  "server_agent toAccount penv options = new_BlindferenceAgent toAccount penv
     \<lparr>ac_privateKey = so_privateKey options,
      ac_paymentServiceUrl = so_paymentServiceUrl options,
      ac_iclUrl = Some (js_or (so_iclUrl options) (replace_first '':8001'' '':8000'' (so_paymentServiceUrl options))),
      ac_ipfsGateway = Some (so_ipfsGateway options),
      ac_pinataJwt = so_pinataJwt options,
      ac_rpcUrl = so_rpcUrl options,
      ac_chainId = None,
      ac_promptKeyStoreAddress = so_promptKeyStoreAddress options\<rparr>"

text \<open>\<open>req.body.prompt\<close>: absent, a string (arbitrary text), or another JSON value\<close>

datatype prompt_field = NoPrompt | TextPrompt utext | OtherPrompt json

record infer_request =
  rq_prompt :: prompt_field
  rq_modelId :: "string option"
  rq_currency :: "string option"
  rq_insurance :: bool

datatype reply_body = ErrorBody string | JsonReply json | InferReply infer_result

record reply =
  rp_status :: nat
  rp_body :: reply_body

definition ok_reply :: "reply_body \<Rightarrow> reply" where
  "ok_reply b = \<lparr>rp_status = 200, rp_body = b\<rparr>"

definition error_reply :: "nat \<Rightarrow> string \<Rightarrow> reply" where
  "error_reply st m = \<lparr>rp_status = st, rp_body = ErrorBody m\<rparr>"

definition route_health :: "agent \<Rightarrow> (ext, agent_state, reply) io" where
  "route_health a = ret (ok_reply (JsonReply (JObj [(''status'', JStr ''ok''), (''agent'', JStr (ag_address a))])))"

definition route_balance :: "world \<Rightarrow> agent \<Rightarrow> (ext, agent_state, reply) io" where
  "route_balance w a =
     catchE (bindE (agent_getBalance w a None) (\<lambda>b. ret (ok_reply (JsonReply b))))
       (\<lambda>err. ret (error_reply 500 (any_message_or err ''Failed to fetch balance'')))"

definition route_infer ::
  "world \<Rightarrow> bool \<Rightarrow> gcm \<Rightarrow> (nat \<Rightarrow> byte list) \<Rightarrow> (nat \<Rightarrow> byte) \<Rightarrow> (string \<Rightarrow> string option) \<Rightarrow>
   agent \<Rightarrow> infer_request \<Rightarrow> (ext, agent_state, reply) io" where
  "route_infer w created g rng random_byte penv a req =
     (case rq_prompt req of
        TextPrompt prompt \<Rightarrow>
          if prompt = [] then ret (error_reply 400 ''Missing required field: prompt'')
          else catchE
            (thenE (initCofhe w created)
             (bindE (infer w created g rng random_byte penv a
                \<lparr>opt_prompt = prompt, opt_modelId = rq_modelId req,
                 opt_currency = Some (js_or (rq_currency req) ''cUSDC''),
                 opt_insurance = rq_insurance req\<rparr>)
               (\<lambda>result. ret (ok_reply (InferReply result)))))
            (\<lambda>err. ret (error_reply 500 (any_message_or err ''Inference failed'')))
      | _ \<Rightarrow> ret (error_reply 400 ''Missing required field: prompt''))"

definition route_status :: "world \<Rightarrow> agent \<Rightarrow> string \<Rightarrow> (ext, agent_state, reply) io" where
  "route_status w a jobId =
     catchE (bindE (axios_get w (ag_paymentServiceUrl a) (''/v1/jobs/'' @ jobId)) (\<lambda>d. ret (ok_reply (JsonReply d))))
       (\<lambda>err. ret (error_reply 500 (any_message_or err ''Failed to fetch status'')))"

subsection \<open>Command line\<close>

datatype 'a cli_outcome = Exit1 | Done 'a

definition cli_privateKey :: "(string \<Rightarrow> string option) \<Rightarrow> string option" where
  "cli_privateKey penv = js_or_opt (penv ''BLINDFERENCE_PRIVATE_KEY'') (penv ''PRIVATE_KEY'')"

definition cli_default_gateway :: "(string \<Rightarrow> string option) \<Rightarrow> string" where
  "cli_default_gateway penv = js_or (penv ''BLINDFERENCE_IPFS_GATEWAY'') (js_or (penv ''IPFS_GATEWAY'') ''https://ipfs.io/ipfs'')"

text \<open>\<open>parseInt(s, 10)\<close>: optional white space and sign, then the leading digits; \<open>None\<close> is NaN\<close>

definition js_parseInt :: "string \<Rightarrow> int option" where
  "js_parseInt s =
     (let t = dropWhile is_space s;
          neg = (t \<noteq> [] \<and> hd t = CHR ''-'');
          u = (if t \<noteq> [] \<and> (hd t = CHR ''-'' \<or> hd t = CHR ''+'') then tl t else t);
          ds = takeWhile (\<lambda>c. digit_val 10 c \<noteq> None) u
      in map_option (\<lambda>n. if neg then - int n else int n) (parse_nat 10 ds))"

record cli_options =
  co_port :: string
  co_paymentService :: string
  co_icl :: "string option"
  co_ipfsGateway :: string
  co_rpcUrl :: string
  co_pinataJwt :: "string option"
  co_promptKeyStore :: "string option"
  co_prompt :: utext
  co_model :: string
  co_currency :: string
  co_insurance :: bool
  co_packageId :: string

definition cli_start :: "(string \<Rightarrow> string option) \<Rightarrow> cli_options \<Rightarrow> server_options cli_outcome" where
  "cli_start penv options =
     (let privateKey = cli_privateKey penv in
      if \<not> truthy privateKey then Exit1
      else Done \<lparr>so_port = js_parseInt (co_port options),
                 so_paymentServiceUrl = co_paymentService options,
                 so_iclUrl = Some (js_or (co_icl options) (replace_first '':8001'' '':8000'' (co_paymentService options))),
                 so_ipfsGateway = co_ipfsGateway options,
                 so_rpcUrl = co_rpcUrl options,
                 so_privateKey = the privateKey,
                 so_pinataJwt = co_pinataJwt options,
                 so_promptKeyStoreAddress = co_promptKeyStore options\<rparr>)"

definition cli_infer_agent :: "(string \<Rightarrow> string) \<Rightarrow> (string \<Rightarrow> string option) \<Rightarrow> cli_options \<Rightarrow> string \<Rightarrow> agent" where
  "cli_infer_agent toAccount penv options privateKey = new_BlindferenceAgent toAccount penv
     \<lparr>ac_privateKey = privateKey, ac_paymentServiceUrl = co_paymentService options,
      ac_iclUrl = Some (js_or (co_icl options) (replace_first '':8001'' '':8000'' (co_paymentService options))),
      ac_ipfsGateway = Some (co_ipfsGateway options), ac_pinataJwt = None, ac_rpcUrl = co_rpcUrl options,
      ac_chainId = None, ac_promptKeyStoreAddress = co_promptKeyStore options\<rparr>"

definition cli_infer ::
  "world \<Rightarrow> (string \<Rightarrow> string) \<Rightarrow> bool \<Rightarrow> gcm \<Rightarrow> (nat \<Rightarrow> byte list) \<Rightarrow> (nat \<Rightarrow> byte) \<Rightarrow>
   (string \<Rightarrow> string option) \<Rightarrow> cli_options \<Rightarrow> (ext, agent_state, infer_result cli_outcome) io" where
  "cli_infer w toAccount created g rng random_byte penv options =
     (let privateKey = cli_privateKey penv in
      if \<not> truthy privateKey then ret Exit1
      else
        let a = cli_infer_agent toAccount penv options (the privateKey) in
        catchE
          (thenE (initCofhe w created)
           (bindE (infer w created g rng random_byte penv a
              \<lparr>opt_prompt = co_prompt options, opt_modelId = Some (co_model options),
               opt_currency = Some (co_currency options), opt_insurance = co_insurance options\<rparr>)
             (\<lambda>result. ret (Done result))))
          (\<lambda>err. ret Exit1))"

definition cli_agent :: "(string \<Rightarrow> string) \<Rightarrow> (string \<Rightarrow> string option) \<Rightarrow> string \<Rightarrow> string \<Rightarrow> string \<Rightarrow> agent" where
  "cli_agent toAccount penv paymentService rpc privateKey = new_BlindferenceAgent toAccount penv
     \<lparr>ac_privateKey = privateKey, ac_paymentServiceUrl = paymentService, ac_iclUrl = None,
      ac_ipfsGateway = None, ac_pinataJwt = None, ac_rpcUrl = rpc, ac_chainId = None,
      ac_promptKeyStoreAddress = None\<rparr>"

text \<open>Printing \<open>balance.user_address\<close> and the other fields throws for a \<open>null\<close> answer.\<close>

definition cli_balance ::
  "world \<Rightarrow> (string \<Rightarrow> string) \<Rightarrow> (string \<Rightarrow> string option) \<Rightarrow> cli_options \<Rightarrow> (ext, agent_state, json cli_outcome) io" where
  "cli_balance w toAccount penv options =
     (let privateKey = cli_privateKey penv in
      if \<not> truthy privateKey then ret Exit1
      else
        let a = cli_agent toAccount penv (co_paymentService options) ''https://sepolia-rollup.arbitrum.io/rpc'' (the privateKey) in
        catchE
          (bindE (agent_getBalance w a None) (\<lambda>balance.
           thenE (lift (json_prop ''user_address'' balance)) (ret (Done balance))))
          (\<lambda>err. ret Exit1))"

definition cli_buy_package ::
  "world \<Rightarrow> (string \<Rightarrow> string) \<Rightarrow> (string \<Rightarrow> string option) \<Rightarrow> cli_options \<Rightarrow> (ext, agent_state, (json \<times> string) cli_outcome) io" where
  "cli_buy_package w toAccount penv options =
     (let privateKey = cli_privateKey penv in
      if \<not> truthy privateKey then ret Exit1
      else
        let a = cli_agent toAccount penv (co_paymentService options) (co_rpcUrl options) (the privateKey) in
        catchE
          (bindE (agent_purchasePackage w a (co_packageId options)) (\<lambda>(balance, txHash).
           thenE (lift (json_prop ''balance_cusdc'' balance)) (ret (Done (balance, txHash)))))
          (\<lambda>err. ret Exit1))"

subsection \<open>Every request is answered\<close>

text \<open>C28: the inference route always answers, with 400, 500 or 200. 400 is for a prompt that is
  missing, empty or not a string, before any call or change; otherwise the answer is 200
  with \<open>infer\<close>'s result exactly when \<open>initCofhe\<close> and \<open>infer\<close> succeed, and 500 with a non-empty
  message when one of them throws.\<close>

theorem infer_route_answers:
  shows "\<exists>rp s'. route_infer w created g rng random_byte penv a req (lg, x) = (Inr rp, s') \<and>
    (case rq_prompt req of
       TextPrompt (c # cs) \<Rightarrow>
         (case thenE (initCofhe w created) (infer w created g rng random_byte penv a
                 \<lparr>opt_prompt = c # cs, opt_modelId = rq_modelId req,
                  opt_currency = Some (js_or (rq_currency req) ''cUSDC''), opt_insurance = rq_insurance req\<rparr>) (lg, x) of
            (Inr result, s2) \<Rightarrow> rp = ok_reply (InferReply result) \<and> s' = s2
          | (Inl e, s2) \<Rightarrow> (\<exists>m. rp = error_reply 500 m \<and> m \<noteq> []) \<and> s' = s2)
     | _ \<Rightarrow> rp = error_reply 400 ''Missing required field: prompt'' \<and> s' = (lg, x))"
proof (cases "\<exists>c cs. rq_prompt req = TextPrompt (c # cs)")
  case True
  then obtain c cs where p: "rq_prompt req = TextPrompt (c # cs)" by blast
  let ?o = "\<lparr>opt_prompt = c # cs, opt_modelId = rq_modelId req,
      opt_currency = Some (js_or (rq_currency req) ''cUSDC''), opt_insurance = rq_insurance req\<rparr>"
  obtain r s2 where run: "thenE (initCofhe w created) (infer w created g rng random_byte penv a ?o) (lg, x) = (r, s2)"
    by (metis surj_pair)
  have route: "route_infer w created g rng random_byte penv a req (lg, x) =
      catchE (bindE (thenE (initCofhe w created) (infer w created g rng random_byte penv a ?o))
          (\<lambda>result. ret (ok_reply (InferReply result))))
        (\<lambda>err. ret (error_reply 500 (any_message_or err ''Inference failed''))) (lg, x)"
    by (simp add: route_infer_def p bindE_thenE)
  show ?thesis
  proof (cases r)
    case (Inl e)
    have "any_message_or e ''Inference failed'' \<noteq> []" by (simp add: any_message_nonempty)
    then have "\<exists>m. error_reply 500 (any_message_or e ''Inference failed'') = error_reply 500 m \<and> m \<noteq> []" by blast
    with Inl run route p show ?thesis by simp
  next
    case (Inr result)
    with run route p show ?thesis by simp
  qed
next
  case False
  then show ?thesis by (cases "rq_prompt req") (auto simp: route_infer_def split: list.splits)
qed

subsection \<open>A failed connection is not retried\<close>

text \<open>\<open>initCofhe\<close> stores the client before it connects it. When the connection fails, the
  request fails, but the next \<open>initCofhe\<close> finds a client, makes no call and reports success:
  a client that never connected is used from then on. (When no client could be created,
  the next call tries again.)\<close>

lemma failed_connection_sticks:
  assumes "cofheClient x = False"
  shows "case on_cofhe_connect w lg of
      Inl e \<Rightarrow> initCofhe w True (lg, x) = (Inl e, (lg @ [CofheConnect], x\<lparr>cofheClient := True\<rparr>))
        \<and> (\<forall>w' created. initCofhe w' created (lg @ [CofheConnect], x\<lparr>cofheClient := True\<rparr>)
             = (Inr (), (lg @ [CofheConnect], x\<lparr>cofheClient := True\<rparr>)))
    | Inr _ \<Rightarrow> initCofhe w True (lg, x) = (Inr (), (lg @ [CofheConnect], x\<lparr>cofheClient := True\<rparr>))"
  using assms by (auto simp: initCofhe_def cofhe_connect_def split: sum.splits)

text \<open>The deposit operations wait for the receipt of the transfer and do not read its status:
  the hash they return may be of a reverted transaction.\<close>

lemma deposit_ignores_receipt_status:
  assumes "on_write w lg tx = Inr h" "on_receipt w (lg @ [WriteContract tx]) h = Inr status"
    and "tx = \<lparr>tx_account = ag_address a, tx_address = DEFAULT_BLIND_TOKEN, tx_function = ''transfer'',
           tx_args = [AStr DEFAULT_PAYMENT_WALLET, AInt amount], tx_fees = NoFees\<rparr>"
  shows "agent_deposit w a amount BLIND (lg, x) = (Inr h, (lg @ [WriteContract tx, WaitReceipt h], x))"
  using assms by (simp add: agent_deposit_def call_defs bindE_call thenE_call)

end
