(* ===== verification/Frontend_Api.thy ===== *)
theory Frontend_Api
  imports External
begin

section \<open>The browser's API clients\<close>

text \<open>
  \<open>frontend/src/api/client.ts\<close>, \<open>inferenceApi.ts\<close> and \<open>creditsApi.ts\<close>: which service, method
  and path each function calls. A GET with \<open>params\<close> carries them in the last argument of its
  log entry. Base URLs come from the build environment \<open>penv\<close>.
\<close>

definition apiClient :: "(string \<Rightarrow> string option) \<Rightarrow> string" where
  "apiClient penv = js_or (penv ''VITE_ICL_API_URL'') ''http://127.0.0.1:8000''"

definition paymentApiClient :: "(string \<Rightarrow> string option) \<Rightarrow> string" where
  "paymentApiClient penv = js_or (penv ''VITE_PAYMENT_API_URL'') ''http://127.0.0.1:8001''"

definition axios_get_params :: "world \<Rightarrow> string \<Rightarrow> string \<Rightarrow> json \<Rightarrow> (ext, 'x, json) io" where
  "axios_get_params w base path params =
     (let c = Axios ''GET'' base path (JsonBody params) in call (\<lambda>lg. on_axios w lg c) c)"

subsection \<open>\<open>inferenceApi\<close>\<close>

definition api_getQuorumPreview ::
  "world \<Rightarrow> (string \<Rightarrow> string option) \<Rightarrow> json \<Rightarrow> (ext, 'x, json) io" where
  "api_getQuorumPreview w penv params = axios_get_params w (apiClient penv) ''/v1/inference/quorum-preview'' params"

definition api_submit :: "world \<Rightarrow> (string \<Rightarrow> string option) \<Rightarrow> json \<Rightarrow> (ext, 'x, json) io" where
  "api_submit w penv payload = axios_post w (apiClient penv) ''/v1/inference/requests'' (JsonBody payload)"

definition api_uploadPromptBlob ::
  "world \<Rightarrow> (string \<Rightarrow> string option) \<Rightarrow> byte list \<Rightarrow> string \<Rightarrow> (ext, 'x, json) io" where
  "api_uploadPromptBlob w penv blob filename =
     axios_post w (apiClient penv) ''/v1/inference/upload-prompt'' (FormBody blob filename)"

definition default_blob_name :: string where
  "default_blob_name = ''blindference-text-prompt.bin''"

definition api_getStatus :: "world \<Rightarrow> (string \<Rightarrow> string option) \<Rightarrow> string \<Rightarrow> (ext, 'x, json) io" where
  "api_getStatus w penv requestId = axios_get w (apiClient penv) (''/v1/inference/'' @ requestId)"

definition api_list :: "world \<Rightarrow> (string \<Rightarrow> string option) \<Rightarrow> (ext, 'x, json) io" where
  "api_list w penv = axios_get w (apiClient penv) ''/v1/inference''"

subsection \<open>\<open>jobApi\<close>\<close>

definition job_submit :: "world \<Rightarrow> (string \<Rightarrow> string option) \<Rightarrow> axios_body \<Rightarrow> (ext, 'x, json) io" where
  "job_submit w penv payload = axios_post w (paymentApiClient penv) ''/v1/jobs/submit'' payload"

definition job_getStatus :: "world \<Rightarrow> (string \<Rightarrow> string option) \<Rightarrow> string \<Rightarrow> (ext, 'x, json) io" where
  "job_getStatus w penv jobId = axios_get w (paymentApiClient penv) (''/v1/jobs/'' @ jobId)"

definition job_getDeveloperStats :: "world \<Rightarrow> (string \<Rightarrow> string option) \<Rightarrow> string \<Rightarrow> (ext, 'x, json) io" where
  "job_getDeveloperStats w penv address = axios_get w (paymentApiClient penv) (''/v1/developers/'' @ address @ ''/stats'')"

subsection \<open>\<open>coverageApi\<close>\<close>

definition coverage_quote :: "world \<Rightarrow> (string \<Rightarrow> string option) \<Rightarrow> string \<Rightarrow> (ext, 'x, json) io" where
  "coverage_quote w penv requestId = axios_get w (apiClient penv) (''/v1/coverage/'' @ requestId)"

definition coverage_fileDispute :: "world \<Rightarrow> (string \<Rightarrow> string option) \<Rightarrow> string \<Rightarrow> string \<Rightarrow> (ext, 'x, json) io" where
  "coverage_fileDispute w penv requestId evidence =
     axios_post w (apiClient penv) (''/v1/inference/'' @ requestId @ ''/dispute'')
       (JsonBody (JObj [(''evidence'', JStr evidence)]))"

definition coverage_submitFeedback ::
  "world \<Rightarrow> (string \<Rightarrow> string option) \<Rightarrow> string \<Rightarrow> json \<Rightarrow> (ext, 'x, json) io" where
  "coverage_submitFeedback w penv requestId payload =
     axios_post w (apiClient penv) (''/v1/inference/'' @ requestId @ ''/feedback'') (JsonBody payload)"

subsection \<open>\<open>creditsApi\<close>\<close>

definition credits_getBalance :: "world \<Rightarrow> (string \<Rightarrow> string option) \<Rightarrow> string \<Rightarrow> (ext, 'x, json) io" where
  "credits_getBalance w penv address = axios_get w (paymentApiClient penv) (''/v1/balance/'' @ address)"

definition credits_notifyDeposit :: "world \<Rightarrow> (string \<Rightarrow> string option) \<Rightarrow> string \<Rightarrow> (ext, 'x, json) io" where
  "credits_notifyDeposit w penv txHash =
     axios_post w (paymentApiClient penv) ''/v1/deposit'' (JsonBody (JObj [(''tx_hash'', JStr txHash)]))"

definition credits_getPackages :: "world \<Rightarrow> (string \<Rightarrow> string option) \<Rightarrow> (ext, 'x, json) io" where
  "credits_getPackages w penv = axios_get w (paymentApiClient penv) ''/v1/credits/packages''"

definition credits_purchasePackage ::
  "world \<Rightarrow> (string \<Rightarrow> string option) \<Rightarrow> string \<Rightarrow> string \<Rightarrow> (ext, 'x, json) io" where
  "credits_purchasePackage w penv packageId txHash =
     axios_post w (paymentApiClient penv) ''/v1/credits/purchase-package''
       (JsonBody (JObj [(''package_id'', JStr packageId), (''tx_hash'', JStr txHash)]))"

lemmas api_defs = axios_get_params_def api_getQuorumPreview_def api_submit_def api_uploadPromptBlob_def
  api_getStatus_def api_list_def job_submit_def job_getStatus_def job_getDeveloperStats_def
  coverage_quote_def coverage_fileDispute_def coverage_submitFeedback_def credits_getBalance_def
  credits_notifyDeposit_def credits_getPackages_def credits_purchasePackage_def

end
