(* ===== verification/Inference_Status.thy ===== *)
theory Inference_Status
  imports Frontend_Api
begin

section \<open>The status a request is shown with\<close>

text \<open>
  The mappings of \<open>frontend/src/hooks/useInferenceStatus.ts\<close> from the three backend answers
  (a request of the coordination layer, its text-mode status, a job of the payment service) to
  \<open>DemoStatus\<close>, and that of \<open>useJobStatus.ts\<close>. Backend answers are records of the fields the
  front end reads, typed as in \<open>api/inferenceApi.ts\<close>: a nullable or optional field is an
  option. \<open>Date.parse\<close> is the parameter \<open>date_parse\<close> (\<open>None\<close> for NaN).
\<close>

subsection \<open>Backend answers\<close>

record quorum_info =
  q_leader_address :: "string option"
  q_verifier_addresses :: "string list"

record leader_info =
  l_leader_address :: string
  l_risk_score :: "rat option"
  l_confidence :: "rat option"
  l_summary :: "string option"
  l_submitted_at :: "string option"

record verdict_info =
  v_verifier_address :: string
  v_submitted :: bool
  v_accepted :: "bool option"
  v_confidence :: "rat option"

record backend_request =
  b_request_id :: string
  b_task_id :: string
  b_developer_address :: string
  b_mode :: "string option"
  b_text_mode :: bool
  b_status :: string
  b_quorum :: quorum_info
  b_metadata :: "(string \<times> json) list"
  b_result_preview :: "string option"
  b_risk_score :: "rat option"
  b_leader_submission :: "leader_info option"
  b_verifier_verdicts :: "verdict_info list"
  b_chain_tx_hash :: "string option"
  b_aggregated_confidence :: "rat option"
  b_confirm_count :: nat
  b_reject_count :: nat
  b_output_cid :: "string option"
  b_commitment_hash :: "string option"
  b_key_high :: "string option"
  b_key_low :: "string option"
  b_failure_reason :: "string option"
  b_created_at :: "string option"
  b_updated_at :: "string option"

datatype text_stage = T_QUEUED | T_ACCEPTED | T_REJECTED | T_DISPUTED | T_TIMEDOUT

record backend_text_status =
  t_job_id :: string
  t_status :: text_stage
  t_output_cid :: "string option"
  t_commitment_hash :: "string option"
  t_key_high :: "string option"
  t_key_low :: "string option"
  t_quorum :: "(string list \<times> nat) option"
  t_reject_reason :: "string option"
  t_leader_submission :: "leader_info option"
  t_verifier_verdicts :: "verdict_info list option"

record job_response =
  j_job_id :: string
  j_user_address :: string
  j_model_id :: string
  j_status :: string
  j_coverage_id :: "nat option"
  j_leader_address :: "string option"
  j_verifier_addresses :: "string list"
  j_error_reason :: "string option"
  j_result_hash :: "string option"
  j_output_cid :: "string option"
  j_key_high :: "string option"
  j_key_low :: "string option"
  j_leader_summary :: "string option"
  j_rewards_distributed :: bool
  j_created_at :: string
  j_updated_at :: string

subsection \<open>\<open>DemoStatus\<close>\<close>

datatype stage = QUEUED | ASSIGNED | EXECUTING | VERIFYING | ACCEPTED | REJECTED | DISPUTED | FAILED

datatype vote = CONFIRM | REJECT

record leader_view =
  lv_address :: string
  lv_status :: string

record verifier_view =
  vv_address :: string
  vv_verdict :: "vote option"
  vv_confidence :: rat

record text_result =
  tr_output_cid :: "string option"
  tr_commitment_hash :: "string option"
  tr_key_high :: "string option"
  tr_key_low :: "string option"
  tr_preview :: "string option"

record demo_status =
  d_request_id :: string
  d_task_id :: string
  d_text_mode :: bool
  d_status :: stage
  d_result :: "(rat \<times> rat \<times> rat) option"
  d_text_result :: "text_result option"
  d_leader :: "leader_view option"
  d_verifiers :: "verifier_view list"
  d_confirm_count :: nat
  d_reject_count :: nat
  d_coverage_id :: "string option"
  d_coverage_recommendation :: "string option"
  d_result_commit_tx :: "string option"
  d_escrow_creation_tx :: "string option"
  d_escrow_release_tx :: "string option"
  d_coverage_purchase_tx :: "string option"
  d_dispute_submission_tx :: "string option"
  d_dispute_resolution_tx :: "string option"
  d_failure_reason :: "string option"
  d_timestamps :: "(stage \<times> rat) list"
  d_developer_address :: string

subsection \<open>Helpers\<close>

definition hashLike :: "string option \<Rightarrow> string option" where
  "hashLike v = (case v of Some s \<Rightarrow> if starts_with s ''0x'' then Some s else None | None \<Rightarrow> None)"

definition toMillis :: "(string \<Rightarrow> rat option) \<Rightarrow> json option \<Rightarrow> rat option" where
  "toMillis date_parse value = (case value of
      Some (JNum n) \<Rightarrow> Some n
    | Some (JStr s) \<Rightarrow> (if s = [] then None else date_parse s)
    | _ \<Rightarrow> None)"

text \<open>\<open>typeof metadata.k === 'string' ? metadata.k : undefined\<close>\<close>

definition meta_string :: "(string \<times> json) list \<Rightarrow> string \<Rightarrow> string option" where
  "meta_string m k = json_string (map_of m k)"

definition permit_count :: "(string \<times> json) list \<Rightarrow> nat" where
  "permit_count m = (case map_of m ''permits'' of Some (JArr ps) \<Rightarrow> length ps | _ \<Rightarrow> 0)"

definition deriveStage :: "backend_request \<Rightarrow> stage" where
  "deriveStage request =
     (if truthy (b_failure_reason request) then FAILED
      else if b_status request = ''accepted'' then ACCEPTED
      else if b_status request = ''rejected'' then REJECTED
      else if b_status request = ''disputed'' then DISPUTED
      else
        let verifierSubmissions = length (filter v_submitted (b_verifier_verdicts request)) in
        if b_leader_submission request \<noteq> None
           \<and> verifierSubmissions < length (q_verifier_addresses (b_quorum request)) then VERIFYING
        else if permit_count (b_metadata request) \<ge> length (q_verifier_addresses (b_quorum request)) + 1 then EXECUTING
        else ASSIGNED)"

text \<open>\<open>timestamps.K = v\<close>, where \<open>v\<close> is set only when truthy\<close>

definition stamp :: "rat option \<Rightarrow> stage \<Rightarrow> (stage \<times> rat) list" where
  "stamp v k = (case v of None \<Rightarrow> [] | Some t \<Rightarrow> if t = 0 then [] else [(k, t)])"

definition buildTimestamps :: "(string \<Rightarrow> rat option) \<Rightarrow> backend_request \<Rightarrow> (stage \<times> rat) list" where
  "buildTimestamps date_parse request =
     (let createdAt = toMillis date_parse (map_option JStr (b_created_at request));
          permitAttachedAt = toMillis date_parse (map_option JStr (meta_string (b_metadata request) ''permit_attached_at''));
          leaderSubmittedAt = toMillis date_parse
            (case b_leader_submission request of None \<Rightarrow> None | Some l \<Rightarrow> map_option JStr (l_submitted_at l));
          finishedAt = toMillis date_parse (map_option JStr (b_updated_at request)) in
      stamp createdAt QUEUED @ stamp createdAt ASSIGNED
      @ stamp permitAttachedAt EXECUTING
      @ stamp leaderSubmittedAt VERIFYING
      @ (if b_status request = ''accepted'' then stamp finishedAt ACCEPTED else [])
      @ (if b_status request = ''rejected'' then stamp finishedAt REJECTED else [])
      @ (if b_status request = ''disputed'' then stamp finishedAt DISPUTED else []))"

definition is_text :: "backend_request \<Rightarrow> bool" where
  "is_text request = (b_mode request = Some ''text'' \<or> b_text_mode request)"

text \<open>\<open>a ?? b ?? 0\<close>\<close>

definition nullish_num :: "rat option \<Rightarrow> rat option \<Rightarrow> rat" where
  "nullish_num a b = nullish (nullish_opt a b) 0"

definition find_verdict :: "verdict_info list \<Rightarrow> string \<Rightarrow> verdict_info option" where
  "find_verdict vs address = find (\<lambda>e. to_lower (v_verifier_address e) = to_lower address) vs"

definition request_verifier :: "backend_request \<Rightarrow> string \<Rightarrow> verifier_view" where
  "request_verifier request address =
     (let verdict = find_verdict (b_verifier_verdicts request) address in
      \<lparr>vv_address = address,
       vv_verdict = (case verdict of
           Some v \<Rightarrow> if v_submitted v then Some (if v_accepted v = Some False then REJECT else CONFIRM) else None
         | None \<Rightarrow> None),
       vv_confidence = (case verdict of Some v \<Rightarrow> nullish (v_confidence v) 0 | None \<Rightarrow> 0)\<rparr>)"

subsection \<open>The mappings\<close>

definition mapRequestToStatus ::
  "(string \<Rightarrow> rat option) \<Rightarrow> backend_request \<Rightarrow> string option \<Rightarrow> demo_status" where
  "mapRequestToStatus date_parse request coverageRecommendation =
     (let stg = deriveStage request;
          m = b_metadata request;
          leader = b_leader_submission request in
      \<lparr>d_request_id = b_request_id request,
       d_task_id = b_task_id request,
       d_text_mode = is_text request,
       d_status = stg,
       d_result =
         (if leader \<noteq> None \<or> truthy (b_result_preview request) \<or> b_risk_score request \<noteq> None
          then Some (nullish_num (b_risk_score request) (Option.bind leader l_risk_score),
                     nullish_num (b_aggregated_confidence request) (Option.bind leader l_confidence), 1240)
          else None),
       d_text_result =
         (if is_text request
          then Some \<lparr>tr_output_cid = b_output_cid request, tr_commitment_hash = b_commitment_hash request,
                     tr_key_high = b_key_high request, tr_key_low = b_key_low request, tr_preview = None\<rparr>
          else None),
       d_leader =
         (if truthy (q_leader_address (b_quorum request))
          then Some \<lparr>lv_address = the (q_leader_address (b_quorum request)),
                     lv_status = (if leader \<noteq> None then ''COMPLETE''
                                  else if stg = EXECUTING \<or> stg = VERIFYING then ''EXECUTING'' else ''ASSIGNED'')\<rparr>
          else None),
       d_verifiers = map (request_verifier request) (q_verifier_addresses (b_quorum request)),
       d_confirm_count = b_confirm_count request,
       d_reject_count = b_reject_count request,
       d_coverage_id = meta_string m ''coverage_id'',
       d_coverage_recommendation = coverageRecommendation,
       d_result_commit_tx = hashLike (b_chain_tx_hash request),
       d_escrow_creation_tx = nullish_opt (hashLike (meta_string m ''escrow_creation_tx''))
                                          (hashLike (meta_string m ''task_registered_tx'')),
       d_escrow_release_tx = nullish_opt (hashLike (meta_string m ''escrow_release_tx''))
         (if b_status request = ''accepted'' then hashLike (b_chain_tx_hash request) else None),
       d_coverage_purchase_tx = hashLike (meta_string m ''coverage_purchase_tx''),
       d_dispute_submission_tx = hashLike (meta_string m ''dispute_submission_tx''),
       d_dispute_resolution_tx = hashLike (meta_string m ''dispute_resolution_tx''),
       d_failure_reason = b_failure_reason request,
       d_timestamps = buildTimestamps date_parse request,
       d_developer_address = b_developer_address request\<rparr>)"

definition text_verifier :: "verdict_info \<Rightarrow> verifier_view" where
  "text_verifier v =
     \<lparr>vv_address = v_verifier_address v,
      vv_verdict = (if v_submitted v
        then (case v_accepted v of Some True \<Rightarrow> Some CONFIRM | Some False \<Rightarrow> Some REJECT | None \<Rightarrow> None)
        else None),
      vv_confidence = (if v_accepted v = Some True then 100 else 0)\<rparr>"

text \<open>The set of seen addresses is built once, from the verdicts.\<close>

definition text_verifiers :: "backend_text_status \<Rightarrow> verifier_view list" where
  "text_verifiers request =
     (let verdicts = map text_verifier (nullish (t_verifier_verdicts request) []);
          addresses = (case t_quorum request of None \<Rightarrow> [] | Some (as, _) \<Rightarrow> as) in
      verdicts @ map (\<lambda>a. \<lparr>vv_address = a, vv_verdict = None, vv_confidence = 0\<rparr>)
        (filter (\<lambda>a. a \<notin> set (map vv_address verdicts)) addresses))"

definition text_stage_view :: "text_stage \<Rightarrow> stage" where
  "text_stage_view t = (case t of T_TIMEDOUT \<Rightarrow> REJECTED | T_QUEUED \<Rightarrow> QUEUED | T_ACCEPTED \<Rightarrow> ACCEPTED
     | T_REJECTED \<Rightarrow> REJECTED | T_DISPUTED \<Rightarrow> DISPUTED)"

definition mapTextStatusToDemoStatus :: "string \<Rightarrow> backend_text_status \<Rightarrow> demo_status" where
  "mapTextStatusToDemoStatus requestId request =
     (let stg = text_stage_view (t_status request);
          ident = (if t_job_id request = [] then requestId else t_job_id request);
          leader = t_leader_submission request in
      \<lparr>d_request_id = ident, d_task_id = ident, d_text_mode = True, d_status = stg, d_result = None,
       d_text_result = Some \<lparr>tr_output_cid = t_output_cid request, tr_commitment_hash = t_commitment_hash request,
         tr_key_high = t_key_high request, tr_key_low = t_key_low request,
         tr_preview = Option.bind leader l_summary\<rparr>,
       d_leader = (case leader of None \<Rightarrow> None
         | Some l \<Rightarrow> Some \<lparr>lv_address = l_leader_address l,
                           lv_status = (if stg = ACCEPTED then ''COMPLETE'' else ''EXECUTED'')\<rparr>),
       d_verifiers = text_verifiers request,
       d_confirm_count = (case t_quorum request of None \<Rightarrow> 0 | Some (_, n) \<Rightarrow> n),
       d_reject_count = length (filter (\<lambda>v. v_accepted v = Some False) (nullish (t_verifier_verdicts request) [])),
       d_coverage_id = None, d_coverage_recommendation = None, d_result_commit_tx = None,
       d_escrow_creation_tx = None, d_escrow_release_tx = None, d_coverage_purchase_tx = None,
       d_dispute_submission_tx = None, d_dispute_resolution_tx = None,
       d_failure_reason = t_reject_reason request, d_timestamps = [], d_developer_address = []\<rparr>)"

definition job_stage :: "string \<Rightarrow> stage" where
  "job_stage st = (if st = ''COMPLETED'' then ACCEPTED
     else if st = ''FAILED'' \<or> st = ''REFUNDED'' then REJECTED
     else if st = ''PENDING_PAYMENT'' then QUEUED else EXECUTING)"

definition mapJobToDemoStatus :: "job_response \<Rightarrow> demo_status" where
  "mapJobToDemoStatus job =
     (let stg = job_stage (j_status job) in
      \<lparr>d_request_id = j_job_id job, d_task_id = j_job_id job, d_text_mode = True, d_status = stg, d_result = None,
       d_text_result = Some \<lparr>tr_output_cid = j_output_cid job, tr_commitment_hash = j_result_hash job,
         tr_key_high = j_key_high job, tr_key_low = j_key_low job, tr_preview = j_leader_summary job\<rparr>,
       d_leader = (if truthy (j_leader_address job)
         then Some \<lparr>lv_address = the (j_leader_address job),
                    lv_status = (if stg = ACCEPTED then ''COMPLETE'' else ''EXECUTING'')\<rparr> else None),
       d_verifiers = map (\<lambda>a. \<lparr>vv_address = a, vv_verdict = (if stg = ACCEPTED then Some CONFIRM else None),
                                vv_confidence = 0\<rparr>) (j_verifier_addresses job),
       d_confirm_count = (if stg = ACCEPTED then 3 else 0),
       d_reject_count = (if stg = REJECTED then 3 else 0),
       d_coverage_id = None, d_coverage_recommendation = None, d_result_commit_tx = None,
       d_escrow_creation_tx = None, d_escrow_release_tx = None, d_coverage_purchase_tx = None,
       d_dispute_submission_tx = None, d_dispute_resolution_tx = None,
       d_failure_reason = j_error_reason job, d_timestamps = [], d_developer_address = j_user_address job\<rparr>)"

subsection \<open>\<open>useJobStatus.ts\<close>\<close>

datatype job_stage_view = J_RUNNING | J_COMPLETED | J_FAILED | J_REFUNDED | J_PENDING_PAYMENT

record job_view =
  jv_jobId :: string
  jv_stage :: job_stage_view
  jv_status :: string
  jv_modelId :: string
  jv_resultHash :: "string option"
  jv_outputCid :: "string option"
  jv_leaderAddress :: "string option"
  jv_verifierAddresses :: "string list"
  jv_errorReason :: "string option"
  jv_rewardsDistributed :: bool
  jv_createdAt :: string
  jv_updatedAt :: string

definition mapJobResponse :: "job_response \<Rightarrow> job_view" where
  "mapJobResponse response =
     (let st = j_status response in
      \<lparr>jv_jobId = j_job_id response,
       jv_stage = (if st = ''COMPLETED'' then J_COMPLETED else if st = ''FAILED'' then J_FAILED
         else if st = ''REFUNDED'' then J_REFUNDED else if st = ''PENDING_PAYMENT'' then J_PENDING_PAYMENT
         else J_RUNNING),
       jv_status = st, jv_modelId = j_model_id response, jv_resultHash = j_result_hash response,
       jv_outputCid = j_output_cid response, jv_leaderAddress = j_leader_address response,
       jv_verifierAddresses = j_verifier_addresses response, jv_errorReason = j_error_reason response,
       jv_rewardsDistributed = j_rewards_distributed response, jv_createdAt = j_created_at response,
       jv_updatedAt = j_updated_at response\<rparr>)"

subsection \<open>What the stages say\<close>

text \<open>The stage of a request says what it should: FAILED exactly for a stated failure
  reason, ACCEPTED, REJECTED and DISPUTED exactly for these statuses without one, VERIFYING
  exactly while the leader has submitted and a verifier has not, EXECUTING and ASSIGNED
  otherwise, by the number of permits. QUEUED is never derived.\<close>

lemma stage_meaning:
  fixes request
  defines "open_request \<equiv> \<not> truthy (b_failure_reason request) \<and> b_status request \<notin> {''accepted'', ''rejected'', ''disputed''}"
    and "verifying \<equiv> b_leader_submission request \<noteq> None \<and>
      length (filter v_submitted (b_verifier_verdicts request)) < length (q_verifier_addresses (b_quorum request))"
    and "permitted \<equiv> length (q_verifier_addresses (b_quorum request)) < permit_count (b_metadata request)"
  shows "(deriveStage request = FAILED \<longleftrightarrow> truthy (b_failure_reason request))
    \<and> (deriveStage request = ACCEPTED \<longleftrightarrow> \<not> truthy (b_failure_reason request) \<and> b_status request = ''accepted'')
    \<and> (deriveStage request = REJECTED \<longleftrightarrow> \<not> truthy (b_failure_reason request) \<and> b_status request = ''rejected'')
    \<and> (deriveStage request = DISPUTED \<longleftrightarrow> \<not> truthy (b_failure_reason request) \<and> b_status request = ''disputed'')
    \<and> (deriveStage request = VERIFYING \<longleftrightarrow> open_request \<and> verifying)
    \<and> (deriveStage request = EXECUTING \<longleftrightarrow> open_request \<and> \<not> verifying \<and> permitted)
    \<and> (deriveStage request = ASSIGNED \<longleftrightarrow> open_request \<and> \<not> verifying \<and> \<not> permitted)
    \<and> deriveStage request \<noteq> QUEUED"
  unfolding assms by (auto simp: deriveStage_def Let_def)

text \<open>Progress is lost at the end. Once the last verifier has submitted, and until the
  service changes the status, a request falls back from VERIFYING to EXECUTING, or, with
  fewer permits than nodes, to ASSIGNED.\<close>

lemma stage_falls_back:
  assumes "b_failure_reason request = None" "b_status request = ''queued''"
    and "b_leader_submission request \<noteq> None"
    and "length (b_verifier_verdicts request) = length (q_verifier_addresses (b_quorum request))"
    and "\<forall>v \<in> set (b_verifier_verdicts request). v_submitted v"
  shows "deriveStage request = (if length (q_verifier_addresses (b_quorum request)) < permit_count (b_metadata request)
      then EXECUTING else ASSIGNED)"
proof -
  from assms(5) have "filter v_submitted (b_verifier_verdicts request) = b_verifier_verdicts request"
    by (simp add: filter_id_conv)
  with assms(1-4) show ?thesis by (simp add: deriveStage_def truthy_def)
qed

definition demo_request :: "verdict_info list \<Rightarrow> backend_request" where
  "demo_request verdicts = \<lparr>b_request_id = ''r'', b_task_id = ''t'', b_developer_address = ''d'', b_mode = None,
     b_text_mode = False, b_status = ''queued'',
     b_quorum = \<lparr>q_leader_address = Some ''0xl'', q_verifier_addresses = [''0xA'', ''0xB'']\<rparr>,
     b_metadata = [], b_result_preview = None, b_risk_score = None,
     b_leader_submission = Some \<lparr>l_leader_address = ''0xl'', l_risk_score = None, l_confidence = None,
       l_summary = None, l_submitted_at = None\<rparr>,
     b_verifier_verdicts = verdicts, b_chain_tx_hash = None, b_aggregated_confidence = None,
     b_confirm_count = 0, b_reject_count = 0, b_output_cid = None, b_commitment_hash = None, b_key_high = None,
     b_key_low = None, b_failure_reason = None, b_created_at = None, b_updated_at = None\<rparr>"

definition demo_verdict :: "string \<Rightarrow> bool \<Rightarrow> verdict_info" where
  "demo_verdict a sub = \<lparr>v_verifier_address = a, v_submitted = sub, v_accepted = Some True, v_confidence = None\<rparr>"

subsection \<open>Verifiers\<close>

lemma find_verdict_match: "find_verdict vs a = Some v \<Longrightarrow> to_lower (v_verifier_address v) = to_lower a"
  by (auto simp: find_verdict_def find_Some_iff)

text \<open>A request is shown with exactly its quorum's verifiers, in order. One has a vote only
  when a verdict with its address (in any letter case) was submitted, and then the vote of
  the first such verdict: REJECT if it was explicitly not accepted, CONFIRM otherwise.\<close>

lemma request_verifiers_votes:
  shows "map vv_address (d_verifiers (mapRequestToStatus date_parse request rec)) = q_verifier_addresses (b_quorum request)
    \<and> list_all (\<lambda>view. case find_verdict (b_verifier_verdicts request) (vv_address view) of
         None \<Rightarrow> vv_verdict view = None
       | Some v \<Rightarrow> to_lower (v_verifier_address v) = to_lower (vv_address view)
           \<and> (vv_verdict view \<noteq> None \<longleftrightarrow> v_submitted v)
           \<and> (vv_verdict view = Some REJECT \<longleftrightarrow> v_submitted v \<and> v_accepted v = Some False))
        (d_verifiers (mapRequestToStatus date_parse request rec))"
proof
  have "vv_address \<circ> request_verifier request = id"
    by (auto simp: request_verifier_def Let_def)
  then show "map vv_address (d_verifiers (mapRequestToStatus date_parse request rec)) = q_verifier_addresses (b_quorum request)"
    by (simp add: mapRequestToStatus_def Let_def)
  show "list_all (\<lambda>view. case find_verdict (b_verifier_verdicts request) (vv_address view) of
         None \<Rightarrow> vv_verdict view = None
       | Some v \<Rightarrow> to_lower (v_verifier_address v) = to_lower (vv_address view)
           \<and> (vv_verdict view \<noteq> None \<longleftrightarrow> v_submitted v)
           \<and> (vv_verdict view = Some REJECT \<longleftrightarrow> v_submitted v \<and> v_accepted v = Some False))
        (d_verifiers (mapRequestToStatus date_parse request rec))"
    by (auto simp: mapRequestToStatus_def Let_def list_all_iff request_verifier_def find_verdict_match
        split: option.splits)
qed

text \<open>In text mode the addresses are compared as they are, so a verifier whose verdict spells its
  address in another letter case is listed twice.\<close>

lemma text_verifiers_addresses:
  "set (map vv_address (text_verifiers request)) =
     set (map v_verifier_address (nullish (t_verifier_verdicts request) []))
     \<union> (case t_quorum request of None \<Rightarrow> {} | Some (as, _) \<Rightarrow> set as)"
  by (auto simp: text_verifiers_def Let_def text_verifier_def image_image split: option.splits)

lemma text_verifiers_case:
  "map vv_address (text_verifiers \<lparr>t_job_id = ''j'', t_status = T_QUEUED, t_output_cid = None, t_commitment_hash = None,
     t_key_high = None, t_key_low = None, t_quorum = Some ([''0xAb''], 0), t_reject_reason = None,
     t_leader_submission = None, t_verifier_verdicts = Some [demo_verdict ''0xab'' True]\<rparr>) = [''0xab'', ''0xAb'']"
  by (simp add: text_verifiers_def text_verifier_def demo_verdict_def nullish_def)

text \<open>C34: the two views of a job agree: the status page shows ACCEPTED, REJECTED, QUEUED or
  EXECUTING exactly when the job hook shows COMPLETED, FAILED or REFUNDED, PENDING_PAYMENT
  or RUNNING, with the same job, output and hash; an accepted job counts three
  confirmations, a rejected one three rejections, whatever the number of its verifiers.\<close>

theorem job_views_agree:
  shows "d_status (mapJobToDemoStatus job) = (case jv_stage (mapJobResponse job) of
        J_COMPLETED \<Rightarrow> ACCEPTED | J_FAILED \<Rightarrow> REJECTED | J_REFUNDED \<Rightarrow> REJECTED
      | J_PENDING_PAYMENT \<Rightarrow> QUEUED | J_RUNNING \<Rightarrow> EXECUTING)
    \<and> d_request_id (mapJobToDemoStatus job) = jv_jobId (mapJobResponse job)
    \<and> map_option tr_output_cid (d_text_result (mapJobToDemoStatus job)) = Some (jv_outputCid (mapJobResponse job))
    \<and> map_option tr_commitment_hash (d_text_result (mapJobToDemoStatus job)) = Some (jv_resultHash (mapJobResponse job))
    \<and> map vv_address (d_verifiers (mapJobToDemoStatus job)) = jv_verifierAddresses (mapJobResponse job)
    \<and> d_confirm_count (mapJobToDemoStatus job) = (if d_status (mapJobToDemoStatus job) = ACCEPTED then 3 else 0)
    \<and> d_reject_count (mapJobToDemoStatus job) = (if d_status (mapJobToDemoStatus job) = REJECTED then 3 else 0)"
  by (auto simp: mapJobToDemoStatus_def mapJobResponse_def job_stage_def Let_def comp_def)

end
