(* ===== verification/Status_Poll.thy ===== *)
theory Status_Poll
  imports Inference_Status
begin

section \<open>The polling hooks as state machines\<close>

text \<open>
  \<open>useInferenceStatus\<close> and \<open>useJobStatus\<close>: an effect per request id starts a poll at once and
  one every three seconds; each poll awaits answers, so polls of one or of several effects
  are in flight together and are answered in any order. An effect's clean-up sets its
  \<open>mounted\<close> to false: an effect is a generation number here, and it is mounted while it is
  the current generation and \<open>live\<close>. A step is one event: a render of the component with some id,
  the effect that is due after a render with a new id, the end of the component, a tick of the
  timer, or an answer to one poll. The effect resets the status with \<open>setStatus(null)\<close>, which
  only the next render shows: until then the old status is displayed under the new id. The refs
  only steer logging to the console; \<open>lastLoggedRef\<close> is kept all the same.
\<close>

subsection \<open>\<open>useInferenceStatus\<close>\<close>

datatype phase = AwaitJob | AwaitRequest

record flight =
  fl_gen :: nat
  fl_rid :: string
  fl_phase :: phase

text \<open>\<open>hs_id\<close> is the id of the last render, \<open>hs_due\<close> tells that its effect has still to run, and
  \<open>hs_reset\<close> that the effect's null is queued and not yet rendered; \<open>hs_status\<close> is the status
  the last render displayed. \<open>hs_rid\<close>, \<open>hs_gen\<close> and \<open>hs_live\<close> belong to the effect that polls.\<close>

record hook_state =
  hs_id :: string
  hs_due :: bool
  hs_reset :: bool
  hs_rid :: string
  hs_gen :: nat
  hs_live :: bool
  hs_status :: "demo_status option"
  hs_logged :: "string option"
  hs_flying :: "flight list"

definition hook_init :: hook_state where
  "hook_init = \<lparr>hs_id = [], hs_due = False, hs_reset = False, hs_rid = [], hs_gen = 0, hs_live = False, hs_status = None, hs_logged = None, hs_flying = []\<rparr>"

definition mounted :: "hook_state \<Rightarrow> flight \<Rightarrow> bool" where
  "mounted s p = (hs_live s \<and> fl_gen p = hs_gen s)"

text \<open>The answer to both requests of the fallback: a text status, or a request and the
  recommendation of its coverage quote, if that was answered\<close>

datatype request_answer = TextAnswer backend_text_status | RequestAnswer backend_request "string option"

definition answer_status :: "(string \<Rightarrow> rat option) \<Rightarrow> string \<Rightarrow> request_answer \<Rightarrow> demo_status" where
  "answer_status date_parse requestId a = (case a of
      TextAnswer t \<Rightarrow> mapTextStatusToDemoStatus requestId t
    | RequestAnswer r quote \<Rightarrow> mapRequestToStatus date_parse r quote)"

datatype event =
    RenderId string
  | IdEffect
  | Unmount
  | Tick
  | JobAnswer flight "job_response option"
  | ApiAnswer flight "request_answer option"

text \<open>A render applies the queued null, and makes the effect due when the id is a new one. The
  effect runs after that render: first the old effect's clean-up, then, unless the id is empty,
  the reset and the first poll.\<close>

definition render_id :: "string \<Rightarrow> hook_state \<Rightarrow> hook_state" where
  "render_id rid s = s\<lparr>hs_status := if hs_reset s then None else hs_status s, hs_reset := False,
     hs_id := rid, hs_due := rid \<noteq> hs_id s\<rparr>"

definition id_effect :: "hook_state \<Rightarrow> hook_state" where
  "id_effect s =
     (if hs_id s = [] then s\<lparr>hs_due := False, hs_live := False\<rparr>
      else s\<lparr>hs_due := False, hs_reset := True, hs_rid := hs_id s, hs_gen := Suc (hs_gen s), hs_live := True,
             hs_logged := None,
             hs_flying := hs_flying s @ [\<lparr>fl_gen = Suc (hs_gen s), fl_rid = hs_id s, fl_phase = AwaitJob\<rparr>]\<rparr>)"

text \<open>The three steps of a change of the id one after the other, with nothing in between: the
  render with the new id, its effect, and the render that the effect's reset asks for\<close>

definition change_id :: "string \<Rightarrow> hook_state \<Rightarrow> hook_state" where
  "change_id rid s = render_id rid (id_effect (render_id rid s))"

lemma change_id_status: "rid \<noteq> [] \<Longrightarrow> hs_status (change_id rid s) = None"
  by (simp add: change_id_def render_id_def id_effect_def)

definition tick :: "hook_state \<Rightarrow> hook_state" where
  "tick s = (if hs_live s
     then s\<lparr>hs_flying := hs_flying s @ [\<lparr>fl_gen = hs_gen s, fl_rid = hs_rid s, fl_phase = AwaitJob\<rparr>]\<rparr> else s)"

definition stage_name :: "stage \<Rightarrow> string" where
  "stage_name st = (case st of QUEUED \<Rightarrow> ''QUEUED'' | ASSIGNED \<Rightarrow> ''ASSIGNED'' | EXECUTING \<Rightarrow> ''EXECUTING''
     | VERIFYING \<Rightarrow> ''VERIFYING'' | ACCEPTED \<Rightarrow> ''ACCEPTED'' | REJECTED \<Rightarrow> ''REJECTED''
     | DISPUTED \<Rightarrow> ''DISPUTED'' | FAILED \<Rightarrow> ''FAILED'')"

definition log_key :: "demo_status \<Rightarrow> string" where
  "log_key d = stage_name (d_status d) @ '':'' @ (case d_text_result d of None \<Rightarrow> []
     | Some t \<Rightarrow> nullish (nullish_opt (tr_output_cid t) (tr_commitment_hash t)) [])"

text \<open>An answered job ends the poll while its effect is mounted; otherwise it goes on to the
  coordination layer, whose answer counts only while the effect is mounted. A status set while
  the null is queued is queued behind it, so that the next render shows the status.\<close>

definition job_answer :: "flight \<Rightarrow> job_response option \<Rightarrow> hook_state \<Rightarrow> hook_state" where
  "job_answer p ans s =
     (case ans of
        Some job \<Rightarrow>
          if mounted s p then
            (let d = mapJobToDemoStatus job in
             s\<lparr>hs_status := Some d, hs_reset := False, hs_logged := Some (log_key d), hs_flying := remove1 p (hs_flying s)\<rparr>)
          else s\<lparr>hs_flying := remove1 p (hs_flying s) @ [p\<lparr>fl_phase := AwaitRequest\<rparr>]\<rparr>
      | None \<Rightarrow> s\<lparr>hs_flying := remove1 p (hs_flying s) @ [p\<lparr>fl_phase := AwaitRequest\<rparr>]\<rparr>)"

definition api_answer :: "(string \<Rightarrow> rat option) \<Rightarrow> flight \<Rightarrow> request_answer option \<Rightarrow> hook_state \<Rightarrow> hook_state" where
  "api_answer date_parse p ans s =
     (case ans of
        None \<Rightarrow> s\<lparr>hs_flying := remove1 p (hs_flying s)\<rparr>
      | Some a \<Rightarrow>
          if \<not> mounted s p then s\<lparr>hs_flying := remove1 p (hs_flying s)\<rparr>
          else s\<lparr>hs_status := Some (answer_status date_parse (fl_rid p) a), hs_reset := False,
                 hs_flying := remove1 p (hs_flying s)\<rparr>)"

text \<open>React runs the effects of a render before the next render of the component.\<close>

inductive hook_step :: "(string \<Rightarrow> rat option) \<Rightarrow> hook_state \<Rightarrow> event \<Rightarrow> hook_state \<Rightarrow> bool" for dp where
  step_render: "\<not> hs_due s \<Longrightarrow> hook_step dp s (RenderId rid) (render_id rid s)"
| step_effect: "hs_due s \<Longrightarrow> hook_step dp s IdEffect (id_effect s)"
| step_unmount: "hook_step dp s Unmount (s\<lparr>hs_live := False\<rparr>)"
| step_tick: "hook_step dp s Tick (tick s)"
| step_job: "p \<in> set (hs_flying s) \<Longrightarrow> fl_phase p = AwaitJob \<Longrightarrow>
    hook_step dp s (JobAnswer p ans) (job_answer p ans s)"
| step_api: "p \<in> set (hs_flying s) \<Longrightarrow> fl_phase p = AwaitRequest \<Longrightarrow>
    hook_step dp s (ApiAnswer p ans) (api_answer dp p ans s)"

inductive_cases hook_stepE: "hook_step dp s e s'"

inductive hook_run :: "(string \<Rightarrow> rat option) \<Rightarrow> event list \<Rightarrow> hook_state \<Rightarrow> bool" for dp where
  run_start: "hook_run dp [] hook_init"
| run_step: "hook_run dp es s \<Longrightarrow> hook_step dp s e s' \<Longrightarrow> hook_run dp (es @ [e]) s'"

text \<open>Polls belong to an effect that has started, those of the current one to its id; when no
  effect is due, the effect that polls is that of the id displayed, unless that is empty.\<close>

definition flights_ok :: "hook_state \<Rightarrow> bool" where
  "flights_ok s = ((\<forall>p \<in> set (hs_flying s). fl_gen p \<le> hs_gen s \<and> (fl_gen p = hs_gen s \<longrightarrow> fl_rid p = hs_rid s))
     \<and> (\<not> hs_due s \<and> hs_id s \<noteq> [] \<longrightarrow> hs_rid s = hs_id s))"

text \<open>The event that answered a poll of the effect \<open>g\<close> for the id \<open>rid\<close> with this status\<close>

definition explains :: "(string \<Rightarrow> rat option) \<Rightarrow> nat \<Rightarrow> string \<Rightarrow> demo_status \<Rightarrow> event \<Rightarrow> bool" where
  "explains dp g rid d e = (case e of
      JobAnswer p (Some job) \<Rightarrow> fl_gen p = g \<and> fl_rid p = rid \<and> d = mapJobToDemoStatus job
    | ApiAnswer p (Some a) \<Rightarrow> fl_gen p = g \<and> fl_rid p = rid \<and> d = answer_status dp rid a
    | _ \<Rightarrow> False)"

text \<open>What the events so far say of the status displayed\<close>

definition status_explained :: "(string \<Rightarrow> rat option) \<Rightarrow> event list \<Rightarrow> hook_state \<Rightarrow> bool" where
  "status_explained dp es s = (\<forall>d. hs_status s = Some d \<longrightarrow>
     (\<exists>g rid. (\<exists>e \<in> set es. explains dp g rid d e) \<and> (\<not> hs_reset s \<longrightarrow> g = hs_gen s \<and> rid = hs_rid s)))"

lemma explained_same:
  assumes "status_explained dp es s" "hs_status s' = hs_status s"
    and "\<not> hs_reset s' \<Longrightarrow> \<not> hs_reset s \<and> hs_gen s' = hs_gen s \<and> hs_rid s' = hs_rid s"
  shows "status_explained dp (es @ [e]) s'"
  unfolding status_explained_def
proof (intro allI impI)
  fix d assume "hs_status s' = Some d"
  then obtain g rid e' where "e' \<in> set es" "explains dp g rid d e'" "\<not> hs_reset s \<longrightarrow> g = hs_gen s \<and> rid = hs_rid s"
    using assms(1,2) unfolding status_explained_def by auto
  then show "\<exists>g rid. (\<exists>e \<in> set (es @ [e]). explains dp g rid d e) \<and> (\<not> hs_reset s' \<longrightarrow> g = hs_gen s' \<and> rid = hs_rid s')"
    using assms(3) by auto
qed

lemma explained_none: "hs_status s' = None \<Longrightarrow> status_explained dp es s'"
  by (simp add: status_explained_def)

lemma explained_new:
  "hs_status s' = Some d \<Longrightarrow> explains dp (hs_gen s') (hs_rid s') d e \<Longrightarrow> status_explained dp (es @ [e]) s'"
  unfolding status_explained_def by auto

lemma flights_ok_step:
  assumes "hook_step dp s e s'" "flights_ok s" shows "flights_ok s'"
  using assms(1)
proof (rule hook_stepE)
  fix rid assume "s' = render_id rid s" "\<not> hs_due s"
  with assms(2) show ?thesis by (auto simp: flights_ok_def render_id_def)
next
  assume "s' = id_effect s"
  with assms(2) show ?thesis by (auto simp: flights_ok_def id_effect_def)
next
  assume "s' = s\<lparr>hs_live := False\<rparr>"
  with assms(2) show ?thesis by (simp add: flights_ok_def)
next
  assume "s' = tick s"
  with assms(2) show ?thesis by (auto simp: flights_ok_def tick_def)
next
  fix p ans assume "s' = job_answer p ans s" "p \<in> set (hs_flying s)"
  with assms(2) show ?thesis
    by (auto simp: flights_ok_def job_answer_def Let_def split: option.splits dest: notin_set_remove1 set_remove1_subset [THEN subsetD])
next
  fix p ans assume "s' = api_answer dp p ans s" "p \<in> set (hs_flying s)"
  with assms(2) show ?thesis
    by (auto simp: flights_ok_def api_answer_def split: option.splits dest: set_remove1_subset [THEN subsetD])
qed

lemma explained_step:
  assumes step: "hook_step dp s e s'" and ok: "flights_ok s" and old: "status_explained dp es s"
  shows "status_explained dp (es @ [e]) s'"
  using step
proof (rule hook_stepE)
  fix rid assume s': "s' = render_id rid s"
  show ?thesis
  proof (cases "hs_reset s")
    case True
    then show ?thesis by (intro explained_none) (simp add: s' render_id_def)
  next
    case False
    then show ?thesis by (intro explained_same [OF old]) (simp_all add: s' render_id_def)
  qed
next
  assume "s' = id_effect s"
  then show ?thesis by (intro explained_same [OF old]) (auto simp: id_effect_def split: if_splits)
next
  assume "s' = s\<lparr>hs_live := False\<rparr>"
  then show ?thesis by (intro explained_same [OF old]) simp_all
next
  assume "s' = tick s"
  then show ?thesis by (intro explained_same [OF old]) (simp_all add: tick_def split: if_splits)
next
  fix p ans assume s': "e = JobAnswer p ans" "s' = job_answer p ans s" and p: "p \<in> set (hs_flying s)"
  show ?thesis
  proof (cases "\<exists>job. ans = Some job \<and> mounted s p")
    case True
    then obtain job where "ans = Some job" "mounted s p" by blast
    with s' p ok show ?thesis
      by (intro explained_new [where d = "mapJobToDemoStatus job"])
        (auto simp: job_answer_def Let_def explains_def mounted_def flights_ok_def)
  next
    case False
    then have "\<exists>fl. s' = s\<lparr>hs_flying := fl\<rparr>" using s' by (auto simp: job_answer_def split: option.splits)
    then show ?thesis by (elim exE) (intro explained_same [OF old], simp_all)
  qed
next
  fix p ans assume s': "e = ApiAnswer p ans" "s' = api_answer dp p ans s" and p: "p \<in> set (hs_flying s)"
  show ?thesis
  proof (cases "\<exists>a. ans = Some a \<and> mounted s p")
    case True
    then obtain a where "ans = Some a" "mounted s p" by blast
    with s' p ok show ?thesis
      by (intro explained_new [where d = "answer_status dp (fl_rid p) a"])
        (auto simp: api_answer_def explains_def mounted_def flights_ok_def)
  next
    case False
    then have "\<exists>fl. s' = s\<lparr>hs_flying := fl\<rparr>" using s' by (auto simp: api_answer_def split: option.splits)
    then show ?thesis by (elim exE) (intro explained_same [OF old], simp_all)
  qed
qed

lemma hook_run_inv: "hook_run dp es s \<Longrightarrow> flights_ok s \<and> status_explained dp es s"
proof (induction rule: hook_run.induct)
  case run_start
  show ?case by (simp add: flights_ok_def status_explained_def hook_init_def)
next
  case (run_step es s e s')
  then show ?case using flights_ok_step explained_step by blast
qed

text \<open>C13: how long a stale answer is shown. Whatever the order in which renders, effects, ticks
  and answers come, a status displayed is the mapping of an answer to some poll. Once the effect
  of the id displayed has run and its reset has been rendered, it is an answer to a poll of that
  very effect, for the id displayed: late answers to polls of earlier ids are dropped (an empty id, for
  which the effect does nothing but end the polls, is left out: the last status stays). Before
  that it can be stale: the first render with a new id still displays the old status, it stays
  while the effect runs, and is gone only with the render after the effect.\<close>

theorem no_stale_status:
  assumes "hook_run dp es s" "hs_status s = Some d"
  shows "(\<exists>g rid. (\<exists>e \<in> set es. explains dp g rid d e)
        \<and> (hs_id s \<noteq> [] \<and> \<not> hs_due s \<and> \<not> hs_reset s \<longrightarrow> g = hs_gen s \<and> rid = hs_id s))
    \<and> (\<forall>new. new \<noteq> [] \<and> new \<noteq> hs_id s \<and> \<not> hs_due s \<and> \<not> hs_reset s \<longrightarrow>
         hook_run dp (es @ [RenderId new]) (render_id new s) \<and> hs_id (render_id new s) = new
         \<and> hs_status (render_id new s) = Some d
         \<and> hook_run dp ((es @ [RenderId new]) @ [IdEffect]) (id_effect (render_id new s))
         \<and> hs_status (id_effect (render_id new s)) = Some d
         \<and> hs_status (render_id new (id_effect (render_id new s))) = None)"
proof (rule conjI)
  show "\<exists>g rid. (\<exists>e \<in> set es. explains dp g rid d e)
      \<and> (hs_id s \<noteq> [] \<and> \<not> hs_due s \<and> \<not> hs_reset s \<longrightarrow> g = hs_gen s \<and> rid = hs_id s)"
    using hook_run_inv [OF assms(1)] assms(2) unfolding status_explained_def flights_ok_def by metis
  show "\<forall>new. new \<noteq> [] \<and> new \<noteq> hs_id s \<and> \<not> hs_due s \<and> \<not> hs_reset s \<longrightarrow>
         hook_run dp (es @ [RenderId new]) (render_id new s) \<and> hs_id (render_id new s) = new
         \<and> hs_status (render_id new s) = Some d
         \<and> hook_run dp ((es @ [RenderId new]) @ [IdEffect]) (id_effect (render_id new s))
         \<and> hs_status (id_effect (render_id new s)) = Some d
         \<and> hs_status (render_id new (id_effect (render_id new s))) = None"
  proof (intro allI impI)
    fix new assume new: "new \<noteq> [] \<and> new \<noteq> hs_id s \<and> \<not> hs_due s \<and> \<not> hs_reset s"
    then have one: "hook_run dp (es @ [RenderId new]) (render_id new s)"
      by (intro run_step [OF assms(1)] step_render) simp
    moreover from new have "hook_run dp ((es @ [RenderId new]) @ [IdEffect]) (id_effect (render_id new s))"
      by (intro run_step [OF one] step_effect) (auto simp: render_id_def)
    ultimately show "hook_run dp (es @ [RenderId new]) (render_id new s) \<and> hs_id (render_id new s) = new
         \<and> hs_status (render_id new s) = Some d
         \<and> hook_run dp ((es @ [RenderId new]) @ [IdEffect]) (id_effect (render_id new s))
         \<and> hs_status (id_effect (render_id new s)) = Some d
         \<and> hs_status (render_id new (id_effect (render_id new s))) = None"
      using new assms(2) by (simp add: render_id_def id_effect_def)
  qed
qed

definition demo_job :: "string \<Rightarrow> job_response" where
  "demo_job st = \<lparr>j_job_id = ''r'', j_user_address = ''u'', j_model_id = ''m'', j_status = st, j_coverage_id = None,
     j_leader_address = None, j_verifier_addresses = [], j_error_reason = None, j_result_hash = None,
     j_output_cid = None, j_key_high = None, j_key_low = None, j_leader_summary = None,
     j_rewards_distributed = False, j_created_at = [], j_updated_at = []\<rparr>"

definition demo_flight :: flight where
  "demo_flight = \<lparr>fl_gen = 1, fl_rid = ''r'', fl_phase = AwaitJob\<rparr>"

definition two_polls :: hook_state where
  "two_polls = tick (change_id ''r'' hook_init)"

definition two_polls_events :: "event list" where
  "two_polls_events = [RenderId ''r'', IdEffect, RenderId ''r'', Tick]"

lemma two_polls_run: "hook_run dp two_polls_events two_polls"
proof -
  have "hook_run dp ([] @ [RenderId ''r'']) (render_id ''r'' hook_init)"
    by (rule run_step [OF run_start], rule step_render) (simp add: hook_init_def)
  then have "hook_run dp (([] @ [RenderId ''r'']) @ [IdEffect]) (id_effect (render_id ''r'' hook_init))"
    by (rule run_step, intro step_effect) (simp add: render_id_def hook_init_def)
  then have "hook_run dp ((([] @ [RenderId ''r'']) @ [IdEffect]) @ [RenderId ''r'']) (change_id ''r'' hook_init)"
    unfolding change_id_def by (rule run_step, intro step_render) (simp add: id_effect_def render_id_def hook_init_def)
  from run_step [OF this step_tick] show ?thesis by (simp add: two_polls_def two_polls_events_def)
qed

lemma two_polls_flying: "hs_flying two_polls = [demo_flight, demo_flight]"
  by (simp add: two_polls_def tick_def change_id_def render_id_def id_effect_def hook_init_def demo_flight_def)

lemma two_polls_answered:
  "hook_run dp (two_polls_events @ [JobAnswer demo_flight (Some (demo_job st))])
     (job_answer demo_flight (Some (demo_job st)) two_polls)"
  by (rule run_step [OF two_polls_run], rule step_job) (simp_all add: two_polls_flying, simp add: demo_flight_def)

lemma two_polls_status:
  "hs_status (job_answer demo_flight (Some (demo_job st)) two_polls) = Some (mapJobToDemoStatus (demo_job st))"
  "hs_flying (job_answer demo_flight (Some (demo_job st)) two_polls) = [demo_flight]"
  by (simp_all add: job_answer_def mounted_def two_polls_def tick_def change_id_def render_id_def id_effect_def hook_init_def demo_flight_def Let_def)

theorem no_stale_status_witness:
  "let s = job_answer demo_flight (Some (demo_job ''COMPLETED'')) two_polls;
       d = mapJobToDemoStatus (demo_job ''COMPLETED'')
   in (\<exists>e \<in> set (two_polls_events @ [JobAnswer demo_flight (Some (demo_job ''COMPLETED''))]).
         explains (\<lambda>_. None) 1 ''r'' d e)
      \<and> hs_id (render_id ''q'' s) = ''q'' \<and> hs_status (render_id ''q'' s) = Some d"
proof -
  let ?s = "job_answer demo_flight (Some (demo_job ''COMPLETED'')) two_polls"
  have shown: "hs_id ?s = ''r''" "hs_due ?s = False" "hs_reset ?s = False" "hs_gen ?s = 1"
    by (simp_all add: job_answer_def mounted_def two_polls_def tick_def change_id_def render_id_def id_effect_def
      hook_init_def demo_flight_def Let_def)
  note all = no_stale_status [OF two_polls_answered [where st = "''COMPLETED''"] two_polls_status(1), unfolded shown]
  have "hs_id (render_id ''q'' ?s) = ''q'' \<and> hs_status (render_id ''q'' ?s) = Some (mapJobToDemoStatus (demo_job ''COMPLETED''))"
    using spec [OF conjunct2 [OF all], of "''q''"] by simp
  with conjunct1 [OF all] show ?thesis unfolding Let_def by simp
qed

text \<open>Within one id the answers are not ordered. There is a run in which the status shown
  goes back from ACCEPTED to EXECUTING, because of two polls in flight the later answer is
  the older one.\<close>

lemma status_can_go_back:
  shows "\<exists>es s e s'. hook_run dp es s \<and> map_option d_status (hs_status s) = Some ACCEPTED
    \<and> hook_step dp s e s' \<and> map_option d_status (hs_status s') = Some EXECUTING"
proof -
  let ?s = "job_answer demo_flight (Some (demo_job ''COMPLETED'')) two_polls"
  let ?s' = "job_answer demo_flight (Some (demo_job ''RUNNING'')) ?s"
  have "hook_step dp ?s (JobAnswer demo_flight (Some (demo_job ''RUNNING''))) ?s'"
    by (rule step_job) (simp_all add: two_polls_status, simp add: demo_flight_def)
  moreover have "map_option d_status (hs_status ?s) = Some ACCEPTED"
    by (simp add: two_polls_status) (simp add: mapJobToDemoStatus_def job_stage_def demo_job_def)
  moreover have "mounted ?s demo_flight"
    by (simp add: job_answer_def mounted_def two_polls_def tick_def change_id_def render_id_def id_effect_def hook_init_def demo_flight_def Let_def)
  then have "map_option d_status (hs_status ?s') = Some EXECUTING"
    by (simp add: job_answer_def [of demo_flight _ ?s] Let_def) (simp add: mapJobToDemoStatus_def job_stage_def demo_job_def)
  ultimately show ?thesis using two_polls_answered by blast
qed

subsection \<open>\<open>useJobStatus\<close>\<close>

text \<open>The same machine with one request per poll, and without the reset: a new id leaves the old
  job's status in place until the first answer.\<close>

record job_hook =
  jh_rid :: string
  jh_gen :: nat
  jh_live :: bool
  jh_status :: "job_view option"
  jh_logged :: "string option"
  jh_flying :: "(nat \<times> string) list"

datatype job_event = JobChange string | JobUnmount | JobTick | JobReply "nat \<times> string" "job_response option"

definition job_stage_name :: "job_stage_view \<Rightarrow> string" where
  "job_stage_name st = (case st of J_RUNNING \<Rightarrow> ''RUNNING'' | J_COMPLETED \<Rightarrow> ''COMPLETED'' | J_FAILED \<Rightarrow> ''FAILED''
     | J_REFUNDED \<Rightarrow> ''REFUNDED'' | J_PENDING_PAYMENT \<Rightarrow> ''PENDING_PAYMENT'')"

definition job_hook_step :: "job_hook \<Rightarrow> job_event \<Rightarrow> job_hook" where
  "job_hook_step s e = (case e of
      JobChange rid \<Rightarrow> if rid = [] then s\<lparr>jh_live := False\<rparr>
        else s\<lparr>jh_rid := rid, jh_gen := Suc (jh_gen s), jh_live := True,
               jh_flying := jh_flying s @ [(Suc (jh_gen s), rid)]\<rparr>
    | JobUnmount \<Rightarrow> s\<lparr>jh_live := False\<rparr>
    | JobTick \<Rightarrow> if jh_live s then s\<lparr>jh_flying := jh_flying s @ [(jh_gen s, jh_rid s)]\<rparr> else s
    | JobReply p ans \<Rightarrow>
        if p \<notin> set (jh_flying s) then s
        else (case ans of
            Some job \<Rightarrow> if jh_live s \<and> fst p = jh_gen s
              then (let v = mapJobResponse job in
                s\<lparr>jh_status := Some v, jh_logged := Some (job_stage_name (jv_stage v) @ '':'' @ nullish (jv_resultHash v) []),
                  jh_flying := remove1 p (jh_flying s)\<rparr>)
              else s\<lparr>jh_flying := remove1 p (jh_flying s)\<rparr>
          | None \<Rightarrow> s\<lparr>jh_flying := remove1 p (jh_flying s)\<rparr>))"

definition job_hook_init :: job_hook where
  "job_hook_init = \<lparr>jh_rid = [], jh_gen = 0, jh_live = False, jh_status = None, jh_logged = None, jh_flying = []\<rparr>"

lemma job_hook_shows_old_job:
  "jh_status (fold (\<lambda>e s. job_hook_step s e)
     [JobChange ''r'', JobReply (1, ''r'') (Some (demo_job ''COMPLETED'')), JobChange ''q''] job_hook_init)
   = Some (mapJobResponse (demo_job ''COMPLETED''))"
  by (simp add: job_hook_step_def job_hook_init_def Let_def)

end
