(* ===== verification/Trading_Signal.thy ===== *)
theory Trading_Signal
  imports External
begin

section \<open>The insured trading signal: client and contract\<close>

text \<open>
  \<open>examples-trading-signal-sdk/src/client.ts\<close> and \<open>types.ts\<close>, and the part of the contract
  \<open>TradingLossUnderwriter.sol\<close> that the client's documentation says it mirrors. Solidity's
  checked 256-bit arithmetic is written out: \<open>None\<close> is a revert. viem's \<open>decodeEventLog\<close> and
  \<open>keccak256\<close> are parameters.
\<close>

subsection \<open>Data\<close>

datatype direction = SELL | HOLD | BUY

definition direction_code :: "direction \<Rightarrow> int" where
  "direction_code d = (case d of SELL \<Rightarrow> 0 | HOLD \<Rightarrow> 1 | BUY \<Rightarrow> 2)"

definition directionLabel :: "direction \<Rightarrow> string" where
  "directionLabel d = (case d of SELL \<Rightarrow> ''SELL'' | HOLD \<Rightarrow> ''HOLD'' | BUY \<Rightarrow> ''BUY'')"

record signal =
  sg_invocationId :: int
  sg_asset :: string
  sg_direction :: int
  sg_confidenceBps :: int
  sg_priceAtIssue :: int
  sg_issuedAt :: int
  sg_validUntil :: int
  sg_agent :: string

record coverage =
  cv_buyer :: string
  cv_coverageAmount :: int
  cv_escrowId :: int
  cv_purchasedAt :: int
  cv_claimed :: bool

record addresses =
  signalAttestor :: string
  lossUnderwriter :: string
  priceOracle :: string

text \<open>The client: its addresses, and the wallet's account, if there is a wallet and if it has one\<close>

record signal_client =
  tc_addresses :: addresses
  tc_wallet :: "string option option"

definition SignalNotFoundError :: "int \<Rightarrow> js_err" where
  "SignalNotFoundError invocationId = ErrorObj (''Signal not found for invocation '' @ int_str invocationId)"

definition CoverageMissingError :: "int \<Rightarrow> string \<Rightarrow> js_err" where
  "CoverageMissingError invocationId buyer =
     ErrorObj (''No coverage purchased by '' @ buyer @ '' for invocation '' @ int_str invocationId)"

text \<open>What viem decodes from the view functions; another shape is a decoding error\<close>

definition decode_signal :: "abi_value list \<Rightarrow> js_err + signal" where
  "decode_signal vs = (case vs of
      [ATuple [AInt invId, AStr asset, AInt dir, AInt conf, AInt price, AInt issued, AInt valid, AStr ag]] \<Rightarrow>
        Inr \<lparr>sg_invocationId = invId, sg_asset = asset, sg_direction = dir, sg_confidenceBps = conf,
             sg_priceAtIssue = price, sg_issuedAt = issued, sg_validUntil = valid, sg_agent = ag\<rparr>
    | _ \<Rightarrow> Inl (ErrorObj ''AbiDecodingDataSizeTooSmallError''))"

definition decode_coverage :: "abi_value list \<Rightarrow> js_err + coverage" where
  "decode_coverage vs = (case vs of
      [ATuple [AStr buyer, AInt amount, AInt escrow, AInt purchased, ABool claimed]] \<Rightarrow>
        Inr \<lparr>cv_buyer = buyer, cv_coverageAmount = amount, cv_escrowId = escrow, cv_purchasedAt = purchased,
             cv_claimed = claimed\<rparr>
    | _ \<Rightarrow> Inl (ErrorObj ''AbiDecodingDataSizeTooSmallError''))"

subsection \<open>Read paths\<close>

definition getSignal :: "world \<Rightarrow> signal_client \<Rightarrow> int \<Rightarrow> (ext, 'x, signal) io" where
  "getSignal w c invocationId =
     bindE (read_contract w (signalAttestor (tc_addresses c)) ''signalOf'' [AInt invocationId]) (\<lambda>vs.
     bindE (lift (decode_signal vs)) (\<lambda>result.
     if sg_issuedAt result = 0 then throw (SignalNotFoundError invocationId) else ret result))"

definition getCoverage :: "world \<Rightarrow> signal_client \<Rightarrow> int \<Rightarrow> string \<Rightarrow> (ext, 'x, coverage) io" where
  "getCoverage w c invocationId buyer =
     bindE (read_contract w (lossUnderwriter (tc_addresses c)) ''coverageOf'' [AInt invocationId, AStr buyer]) (\<lambda>vs.
     bindE (lift (decode_coverage vs)) (\<lambda>result.
     if cv_purchasedAt result = 0 then throw (CoverageMissingError invocationId buyer) else ret result))"

definition getLossThresholdBps :: "world \<Rightarrow> signal_client \<Rightarrow> (ext, 'x, abi_value list) io" where
  "getLossThresholdBps w c = read_contract w (lossUnderwriter (tc_addresses c)) ''lossThresholdBps'' []"

definition getCurrentPrice :: "world \<Rightarrow> signal_client \<Rightarrow> string \<Rightarrow> (ext, 'x, int \<times> int) io" where
  "getCurrentPrice w c asset =
     bindE (read_contract w (priceOracle (tc_addresses c)) ''latestAnswer'' [AStr asset]) (\<lambda>vs.
     case vs of [AInt price, AInt updatedAt] \<Rightarrow> ret (price, updatedAt)
     | _ \<Rightarrow> throw (ErrorObj ''AbiDecodingDataSizeTooSmallError''))"

definition assetKey :: "('h \<Rightarrow> string) \<Rightarrow> (string \<Rightarrow> 'h) \<Rightarrow> string \<Rightarrow> string" where
  "assetKey keccak256 toHex symbol = keccak256 (toHex symbol)"

definition signalDigest :: "world \<Rightarrow> signal_client \<Rightarrow> signal \<Rightarrow> (ext, 'x, abi_value list) io" where
  "signalDigest w c s = read_contract w (signalAttestor (tc_addresses c)) ''signalDigest''
     [AStr (sg_asset s), AInt (sg_direction s), AInt (sg_confidenceBps s), AInt (sg_priceAtIssue s),
      AInt (sg_validUntil s), AStr (sg_agent s)]"

subsection \<open>Projected loss\<close>

text \<open>\<open>a / b\<close> for a non-zero \<open>b\<close>\<close>

definition bquot :: "int \<Rightarrow> int \<Rightarrow> int" where
  "bquot a b = sgn a * sgn b * (\<bar>a\<bar> div \<bar>b\<bar>)"

definition projectedLossBps :: "signal \<Rightarrow> int \<Rightarrow> int \<Rightarrow> int" where
  "projectedLossBps s currentPrice holdToleranceBps =
     (if sg_priceAtIssue s \<le> 0 \<or> currentPrice \<le> 0 then 0
      else
        let issuePrice = sg_priceAtIssue s in
        if sg_direction s = 2 then
          (if currentPrice \<ge> issuePrice then 0 else bquot ((issuePrice - currentPrice) * 10000) issuePrice)
        else if sg_direction s = 0 then
          (if currentPrice \<le> issuePrice then 0 else bquot ((currentPrice - issuePrice) * 10000) issuePrice)
        else
          let absMove = (if currentPrice \<ge> issuePrice then currentPrice - issuePrice else issuePrice - currentPrice);
              holdMoveBps = bquot (absMove * 10000) issuePrice in
          if holdMoveBps > holdToleranceBps then holdMoveBps - holdToleranceBps else 0)"

subsection \<open>Write paths\<close>

text \<open>A dash of the message, as its UTF-8 bytes\<close>

definition em_dash :: string where
  "em_dash = [CHR 0xE2, CHR 0x80, CHR 0x94]"

definition requireWallet :: "signal_client \<Rightarrow> string \<Rightarrow> js_err + string" where
  "requireWallet c op = (case tc_wallet c of
      None \<Rightarrow> Inl (ErrorObj (''TradingSignalClient.'' @ op @ '' requires a walletClient '' @ em_dash
                            @ '' pass one in the constructor''))
    | Some None \<Rightarrow> Inl (ErrorObj (''TradingSignalClient.'' @ op @ '': walletClient is missing an account''))
    | Some (Some me) \<Rightarrow> Inr me)"

definition underwriter_tx :: "signal_client \<Rightarrow> string \<Rightarrow> string \<Rightarrow> abi_value list \<Rightarrow> contract_tx" where
  "underwriter_tx c me f as = \<lparr>tx_account = me, tx_address = lossUnderwriter (tc_addresses c),
     tx_function = f, tx_args = as, tx_fees = NoFees\<rparr>"

definition signal_purchaseCoverage :: "world \<Rightarrow> signal_client \<Rightarrow> int \<Rightarrow> int \<Rightarrow> int \<Rightarrow> (ext, 'x, string) io" where
  "signal_purchaseCoverage w c invocationId coverageAmount escrowId =
     bindE (lift (requireWallet c ''purchaseCoverage'')) (\<lambda>me.
     let tx = underwriter_tx c me ''purchaseCoverage'' [AInt invocationId, AInt coverageAmount, AInt escrowId] in
     thenE (simulate_contract w tx) (write_contract w tx))"

record decoded_event =
  ev_name :: string
  ev_payoutAmount :: int

text \<open>The scan of the receipt's logs: other addresses are skipped, what does not decode or is
  another event is passed over, the first \<open>ClaimPaid\<close> decides\<close>

fun claim_payout :: "(raw_log \<Rightarrow> js_err + decoded_event) \<Rightarrow> string \<Rightarrow> raw_log list \<Rightarrow> int option" where
  "claim_payout decodeEventLog underwriter [] = None"
| "claim_payout decodeEventLog underwriter (l # ls) =
     (if to_lower (log_address l) \<noteq> to_lower underwriter then claim_payout decodeEventLog underwriter ls
      else case decodeEventLog l of
          Inl e \<Rightarrow> claim_payout decodeEventLog underwriter ls
        | Inr d \<Rightarrow> if ev_name d = ''ClaimPaid'' then Some (ev_payoutAmount d)
                   else claim_payout decodeEventLog underwriter ls)"

definition signal_claimLoss ::
  "world \<Rightarrow> (raw_log \<Rightarrow> js_err + decoded_event) \<Rightarrow> signal_client \<Rightarrow> int \<Rightarrow> (ext, 'x, string \<times> int option) io" where
  "signal_claimLoss w decodeEventLog c invocationId =
     bindE (lift (requireWallet c ''claimLoss'')) (\<lambda>me.
     let tx = underwriter_tx c me ''claimLoss'' [AInt invocationId] in
     thenE (simulate_contract w tx)
     (bindE (write_contract w tx) (\<lambda>txHash.
      bindE (wait_receipt_logs w txHash) (\<lambda>logs.
      ret (txHash, claim_payout decodeEventLog (lossUnderwriter (tc_addresses c)) logs)))))"

subsection \<open>The contract the client mirrors\<close>

text \<open>
  \<open>TradingLossUnderwriter.sol\<close>: the storage, and the two functions the client calls. A revert is a
  value of \<open>revert\<close>; a checked multiplication that leaves 256 bits is \<open>Panic\<close>. \<open>signalOf\<close> and
  \<open>latestAnswer\<close> of the other contracts are arguments (\<open>None\<close> for a revert of theirs), the release
  of the escrow is the pair of escrow and amount returned.
\<close>

datatype revert = Revert string | LossBelowThreshold int int | Panic | CalleeReverts

record uw_layout =
  uw_lossThresholdBps :: int
  uw_holdToleranceBps :: int
  uw_coverages :: "int \<Rightarrow> string \<Rightarrow> coverage"

definition mul256 :: "int \<Rightarrow> int \<Rightarrow> revert + int" where
  "mul256 a b = (if a * b < 2 ^ 256 then Inr (a * b) else Inl Panic)"

text \<open>\<open>move * 10_000 / issuePrice\<close> on unsigned 256-bit integers\<close>

definition move_bps :: "int \<Rightarrow> int \<Rightarrow> revert + int" where
  "move_bps move issuePrice = (case mul256 move 10000 of Inl e \<Rightarrow> Inl e | Inr v \<Rightarrow> Inr (v div issuePrice))"

definition computeLoss :: "uw_layout \<Rightarrow> signal \<Rightarrow> int \<Rightarrow> revert + int \<times> int" where
  "computeLoss l s currentPrice =
     (let threshold = uw_lossThresholdBps l;
          issuePrice = sg_priceAtIssue s;
          lossBps =
            (if sg_direction s = direction_code BUY then
               (if currentPrice < issuePrice then move_bps (issuePrice - currentPrice) issuePrice else Inr 0)
             else if sg_direction s = direction_code SELL then
               (if currentPrice > issuePrice then move_bps (currentPrice - issuePrice) issuePrice else Inr 0)
             else
               case move_bps (if currentPrice \<ge> issuePrice then currentPrice - issuePrice else issuePrice - currentPrice)
                      issuePrice of
                 Inl e \<Rightarrow> Inl e
               | Inr holdMoveBps \<Rightarrow> Inr (if holdMoveBps > uw_holdToleranceBps l
                                        then holdMoveBps - uw_holdToleranceBps l else 0))
      in case lossBps of Inl e \<Rightarrow> Inl e | Inr b \<Rightarrow> Inr (b, threshold))"

definition sol_purchaseCoverage ::
  "uw_layout \<Rightarrow> signal option \<Rightarrow> int \<Rightarrow> string \<Rightarrow> int \<Rightarrow> int \<Rightarrow> int \<Rightarrow> revert + uw_layout" where
  "sol_purchaseCoverage l signalOf now buyer invocationId coverageAmount escrowId =
     (if coverageAmount = 0 then Inl (Revert ''ZeroCoverage'')
      else if cv_purchasedAt (uw_coverages l invocationId buyer) \<noteq> 0 then Inl (Revert ''CoverageAlreadyPurchased'')
      else case signalOf of
          None \<Rightarrow> Inl CalleeReverts
        | Some _ \<Rightarrow> Inr (l\<lparr>uw_coverages := (uw_coverages l)(invocationId := (uw_coverages l invocationId)(buyer :=
            (uw_coverages l invocationId buyer)\<lparr>cv_buyer := buyer, cv_coverageAmount := coverageAmount,
              cv_escrowId := escrowId, cv_purchasedAt := now mod 2 ^ 64\<rparr>))\<rparr>))"

definition sol_claimLoss ::
  "uw_layout \<Rightarrow> signal option \<Rightarrow> int option \<Rightarrow> int \<Rightarrow> string \<Rightarrow> int \<Rightarrow> revert + uw_layout \<times> int \<times> int" where
  "sol_claimLoss l signalOf latestAnswer now buyer invocationId =
     (let c = uw_coverages l invocationId buyer in
      if cv_purchasedAt c = 0 then Inl (Revert ''CoverageMissing'')
      else if cv_claimed c then Inl (Revert ''AlreadyClaimed'')
      else case signalOf of
          None \<Rightarrow> Inl CalleeReverts
        | Some s \<Rightarrow>
          if now < sg_validUntil s then Inl (Revert ''SignalNotMature'')
          else case latestAnswer of
              None \<Rightarrow> Inl CalleeReverts
            | Some currentPrice \<Rightarrow>
              if currentPrice \<le> 0 \<or> sg_priceAtIssue s \<le> 0 then Inl (Revert ''PriceUnavailable'')
              else case computeLoss l s currentPrice of
                  Inl e \<Rightarrow> Inl e
                | Inr (lossBps, threshold) \<Rightarrow>
                  if lossBps < threshold then Inl (LossBelowThreshold lossBps threshold)
                  else case mul256 (cv_coverageAmount c) lossBps of
                      Inl e \<Rightarrow> Inl e
                    | Inr v \<Rightarrow>
                      let payout = (if v div 10000 > cv_coverageAmount c then cv_coverageAmount c else v div 10000) in
                      Inr (l\<lparr>uw_coverages := (uw_coverages l)(invocationId := (uw_coverages l invocationId)(buyer :=
                             c\<lparr>cv_claimed := True\<rparr>))\<rparr>, cv_escrowId c, payout))"

subsection \<open>The client's projection against the contract\<close>

lemma bquot_nonneg: "0 \<le> a \<Longrightarrow> 0 < b \<Longrightarrow> bquot a b = a div b"
  by (cases "a = 0") (simp_all add: bquot_def)

lemma move_bps_bquot:
  assumes "0 \<le> m" "0 < p"
  shows "move_bps m p = (if m * 10000 < 2 ^ 256 then Inr (bquot (m * 10000) p) else Inl Panic)"
  using assms by (simp add: move_bps_def mul256_def bquot_nonneg)

lemma projected_no_price:
  "currentPrice \<le> 0 \<Longrightarrow> projectedLossBps s currentPrice tol = 0"
  by (simp add: projectedLossBps_def)

lemma projected_nonneg:
  assumes "0 \<le> tol"
  shows "0 \<le> projectedLossBps s currentPrice tol"
  by (simp add: projectedLossBps_def Let_def bquot_nonneg pos_imp_zdiv_nonneg_iff)

text \<open>The move that the contract multiplies, and so the only place where it may overflow\<close>

definition adverse_move :: "signal \<Rightarrow> int \<Rightarrow> int" where
  "adverse_move s currentPrice =
     (if sg_direction s = 2 then max 0 (sg_priceAtIssue s - currentPrice)
      else if sg_direction s = 0 then max 0 (currentPrice - sg_priceAtIssue s)
      else \<bar>currentPrice - sg_priceAtIssue s\<bar>)"

lemma computeLoss_projected:
  assumes "0 < sg_priceAtIssue s" "0 < currentPrice"
  shows "computeLoss l s currentPrice =
    (if adverse_move s currentPrice * 10000 < 2 ^ 256
     then Inr (projectedLossBps s currentPrice (uw_holdToleranceBps l), uw_lossThresholdBps l) else Inl Panic)"
proof -
  note defs = computeLoss_def projectedLossBps_def adverse_move_def direction_code_def Let_def max_def
  consider "sg_direction s = 2" | "sg_direction s = 0" | "sg_direction s \<noteq> 2" "sg_direction s \<noteq> 0" by blast
  then show ?thesis
    using assms by cases (auto simp: defs move_bps_bquot)
qed

lemma claim_succeeds:
  assumes "sol_claimLoss l sg ans now buyer i = Inr (l', escrow, payout)"
  obtains s p where "sg = Some s" "ans = Some p" "0 < p" "0 < sg_priceAtIssue s" "sg_validUntil s \<le> now"
    "uw_lossThresholdBps l \<le> projectedLossBps s p (uw_holdToleranceBps l)"
    "\<not> cv_claimed (uw_coverages l i buyer)" "cv_purchasedAt (uw_coverages l i buyer) \<noteq> 0"
    "l' = l\<lparr>uw_coverages := (uw_coverages l)(i := (uw_coverages l i)(buyer := (uw_coverages l i buyer)\<lparr>cv_claimed := True\<rparr>))\<rparr>"
    "escrow = cv_escrowId (uw_coverages l i buyer)"
    "payout = min (cv_coverageAmount (uw_coverages l i buyer))
       (cv_coverageAmount (uw_coverages l i buyer) * projectedLossBps s p (uw_holdToleranceBps l) div 10000)"
  using assms
  by (auto simp: sol_claimLoss_def Let_def computeLoss_projected mul256_def min_def split: if_splits option.splits)

subsection \<open>The client's calls\<close>

text \<open>What one log contributes: the payout of a \<open>ClaimPaid\<close> of the underwriter\<close>

definition claim_of :: "(raw_log \<Rightarrow> js_err + decoded_event) \<Rightarrow> string \<Rightarrow> raw_log \<Rightarrow> int option" where
  "claim_of decodeEventLog underwriter l =
     (if to_lower (log_address l) \<noteq> to_lower underwriter then None
      else case decodeEventLog l of
          Inl e \<Rightarrow> None
        | Inr d \<Rightarrow> if ev_name d = ''ClaimPaid'' then Some (ev_payoutAmount d) else None)"

lemma claim_payout_first:
  "claim_payout dec u ls = (case List.map_filter (claim_of dec u) ls of [] \<Rightarrow> None | p # _ \<Rightarrow> Some p)"
  by (induction ls) (auto simp: claim_of_def List.map_filter_simps split: sum.splits)

lemma getSignal_read:
  "fst (getSignal w c i (lg, x)) =
    (case on_read w lg (ReadContract (signalAttestor (tc_addresses c)) ''signalOf'' [AInt i]) of
       Inl e \<Rightarrow> Inl e
     | Inr vs \<Rightarrow> (case decode_signal vs of
          Inl e \<Rightarrow> Inl e
        | Inr s \<Rightarrow> if sg_issuedAt s = 0 then Inl (SignalNotFoundError i) else Inr s))"
  by (simp add: getSignal_def read_contract_def Let_def bindE_call split: sum.splits)

lemma getCoverage_read:
  "fst (getCoverage w c i b (lg, x)) =
    (case on_read w lg (ReadContract (lossUnderwriter (tc_addresses c)) ''coverageOf'' [AInt i, AStr b]) of
       Inl e \<Rightarrow> Inl e
     | Inr vs \<Rightarrow> (case decode_coverage vs of
          Inl e \<Rightarrow> Inl e
        | Inr v \<Rightarrow> if cv_purchasedAt v = 0 then Inl (CoverageMissingError i b) else Inr v))"
  by (simp add: getCoverage_def read_contract_def Let_def bindE_call split: sum.splits)

lemma writes_need_wallet:
  assumes "requireWallet c ''claimLoss'' = Inl e" "requireWallet c ''purchaseCoverage'' = Inl e'"
  shows "signal_claimLoss w dec c i s = (Inl e, s) \<and> signal_purchaseCoverage w c i amount escrow s = (Inl e', s)"
  using assms by (simp add: signal_claimLoss_def signal_purchaseCoverage_def)

text \<open>C23: the client's projection is the contract's loss. For positive prices \<open>projectedLossBps\<close> with
  the contract's tolerance is what \<open>_computeLoss\<close> returns, for a BUY, a SELL and a HOLD,
  unless the adverse move times 10000 leaves 256 bits, where the contract reverts and the client
  still answers.\<close>

theorem projection_mirrors_contract:
  assumes "0 < sg_priceAtIssue s" "0 < currentPrice"
  shows "computeLoss l s currentPrice =
    (if adverse_move s currentPrice * 10000 < 2 ^ 256
     then Inr (projectedLossBps s currentPrice (uw_holdToleranceBps l), uw_lossThresholdBps l) else Inl Panic)"
  using assms by (rule computeLoss_projected)

definition demo_signal :: signal where
  "demo_signal = \<lparr>sg_invocationId = 7, sg_asset = ''0xA'', sg_direction = 2, sg_confidenceBps = 8000,
     sg_priceAtIssue = 2000, sg_issuedAt = 100, sg_validUntil = 200, sg_agent = ''0xB''\<rparr>"

definition demo_layout :: uw_layout where
  "demo_layout = \<lparr>uw_lossThresholdBps = 300, uw_holdToleranceBps = 100,
     uw_coverages = (\<lambda>_ _. \<lparr>cv_buyer = ''0xC'', cv_coverageAmount = 1000, cv_escrowId = 4,
       cv_purchasedAt = 150, cv_claimed = False\<rparr>)\<rparr>"

theorem projection_mirrors_contract_witness:
  "computeLoss demo_layout demo_signal 1900 = Inr (500, 300)
   \<and> computeLoss demo_layout (demo_signal\<lparr>sg_direction := 0\<rparr>) (2 ^ 250) = Inl Panic"
  using projection_mirrors_contract [of demo_signal 1900 demo_layout]
    projection_mirrors_contract [of "demo_signal\<lparr>sg_direction := 0\<rparr>" "2 ^ 250" demo_layout]
  by (simp add: demo_signal_def demo_layout_def adverse_move_def projectedLossBps_def bquot_def)

text \<open>C11: what a successful claim pays. The contract pays the coverage amount times the projected loss
  over 10000, at most the coverage amount, out of the escrow the buyer named; it does so only once
  the signal has matured and the projected loss has reached the threshold; and the same buyer's
  next claim on that invocation reverts, whatever the oracle then says.\<close>

theorem claim_pays_projected_loss_once:
  assumes "sol_claimLoss l sg ans now buyer i = Inr (l', escrow, payout)"
  shows "\<exists>s p. sg = Some s \<and> ans = Some p \<and> sg_validUntil s \<le> now
    \<and> uw_lossThresholdBps l \<le> projectedLossBps s p (uw_holdToleranceBps l)
    \<and> payout = min (cv_coverageAmount (uw_coverages l i buyer))
         (cv_coverageAmount (uw_coverages l i buyer) * projectedLossBps s p (uw_holdToleranceBps l) div 10000)
    \<and> escrow = cv_escrowId (uw_coverages l i buyer)
    \<and> sol_claimLoss l' sg2 ans2 now2 buyer i = Inl (Revert ''AlreadyClaimed'')"
  by (rule claim_succeeds [OF assms]) (auto simp: sol_claimLoss_def Let_def)

theorem claim_pays_projected_loss_once_witness:
  "\<exists>l' s p. sol_claimLoss demo_layout (Some demo_signal) (Some 1900) 300 ''0xC'' 7 = Inr (l', 4, 50)
     \<and> Some demo_signal = Some s \<and> Some (1900::int) = Some p \<and> 50 = min 1000 (1000 * projectedLossBps s p 100 div 10000)
     \<and> sol_claimLoss l' None None 0 ''0xC'' 7 = Inl (Revert ''AlreadyClaimed'')"
proof -
  obtain l' where run: "sol_claimLoss demo_layout (Some demo_signal) (Some 1900) 300 ''0xC'' 7 = Inr (l', 4, 50)"
    by (simp add: sol_claimLoss_def demo_layout_def demo_signal_def computeLoss_def direction_code_def
        move_bps_def mul256_def Let_def)
  from claim_pays_projected_loss_once [OF run, of None None 0] run show ?thesis
    by (auto simp: demo_layout_def)
qed

text \<open>What \<open>claimLoss\<close> of the client reports. A run that returns had a wallet with an account,
  simulated, sent and waited for one \<open>claimLoss\<close> transaction to the underwriter, in that order, and
  nothing else; the payout it reports is that of the first log of the receipt that is a
  \<open>ClaimPaid\<close> of the underwriter, and there is none if no log is.\<close>

lemma claim_reports_first_payout:
  assumes "signal_claimLoss w dec c i (lg, x) = (Inr (h, payout), (lg', x'))"
  shows "\<exists>me logs. tc_wallet c = Some (Some me)
    \<and> (let tx = underwriter_tx c me ''claimLoss'' [AInt i] in
       lg' = lg @ [SimulateContract tx, WriteContract tx, WaitReceipt h]
       \<and> on_receipt_logs w (lg @ [SimulateContract tx, WriteContract tx]) h = Inr logs)
    \<and> payout = (case List.map_filter (claim_of dec (lossUnderwriter (tc_addresses c))) logs of
                  [] \<Rightarrow> None | p # _ \<Rightarrow> Some p)"
  using assms
  by (auto simp: signal_claimLoss_def requireWallet_def call_defs run_Inr claim_payout_first
      split: option.splits simp del: bindE_lift)

definition paying_world :: world where
  "paying_world = offline\<lparr>on_simulate := (\<lambda>_ _. Inr ()), on_write := (\<lambda>_ _. Inr ''0xT''),
     on_receipt_logs := (\<lambda>_ _. Inr
       [\<lparr>log_address = ''0xOther'', log_data = ''9'', log_topics = []\<rparr>,
        \<lparr>log_address = ''0xUNDER'', log_data = ''50'', log_topics = []\<rparr>])\<rparr>"

definition demo_client :: signal_client where
  "demo_client = \<lparr>tc_addresses = \<lparr>signalAttestor = ''0xSig'', lossUnderwriter = ''0xunder'', priceOracle = ''0xOra''\<rparr>,
     tc_wallet = Some (Some ''0xMe'')\<rparr>"

definition demo_decode :: "raw_log \<Rightarrow> js_err + decoded_event" where
  "demo_decode l = (if log_data l = ''50'' then Inr \<lparr>ev_name = ''ClaimPaid'', ev_payoutAmount = 50\<rparr> else Inl unreachable)"

end
