(* ===== verification/Js_Text.thy ===== *)
theory Js_Text
  imports Utf8 Js_World
begin

section \<open>Text beyond 8-bit strings\<close>

text \<open>
  Prompts and answers are \<open>utext\<close>, lists of code points (a lone surrogate is its own point). Here:
  the UTF-16 view that \<open>slice\<close> and \<open>length\<close> work on, \<open>trim\<close>, and \<open>JSON.stringify\<close> of a chat's
  payload \<open>{ conversation, prompt }\<close>.
\<close>

subsection \<open>UTF-16\<close>

definition units_of_point :: "nat \<Rightarrow> nat list" where
  "units_of_point c = (if c < 65536 then [c]
     else [55296 + (c - 65536) div 1024, 56320 + (c - 65536) mod 1024])"

definition to_units :: "utext \<Rightarrow> nat list" where
  "to_units t = concat (map units_of_point t)"

fun of_units :: "nat list \<Rightarrow> utext" where
  "of_units (h # l # us) =
     (if 55296 \<le> h \<and> h < 56320 \<and> 56320 \<le> l \<and> l < 57344
      then (65536 + (h - 55296) * 1024 + (l - 56320)) # of_units us else h # of_units (l # us))"
| "of_units us = us"

lemma length_to_units: "length (to_units t) = text_length t"
  by (induction t) (simp_all add: to_units_def text_length_def units_of_point_def)

text \<open>\<open>t.slice(0, n)\<close>\<close>

definition text_slice :: "nat \<Rightarrow> utext \<Rightarrow> utext" where
  "text_slice n t = of_units (take n (to_units t))"

lemma of_to_units:
  assumes "list_all (\<lambda>c. c < 1114112 \<and> \<not> (55296 \<le> c \<and> c < 57344)) t"
  shows "of_units (to_units t @ us) = t @ of_units us"
  using assms
proof (induction t)
  case Nil
  then show ?case by (simp add: to_units_def)
next
  case (Cons c t)
  have simple: "of_units (c # vs) = c # of_units vs" if "\<not> (55296 \<le> c \<and> c < 56320)" for vs
    using that by (cases vs) auto
  show ?case
  proof (cases "c < 65536")
    case True
    moreover have "\<not> (55296 \<le> c \<and> c < 56320)" using Cons.prems by auto
    note simple [OF this]
    ultimately show ?thesis using Cons by (simp add: to_units_def units_of_point_def)
  next
    case False
    define d where "d = c - 65536"
    from False Cons have d: "c = 65536 + d" "d < 1048576" by (auto simp: d_def)
    then have "d div 1024 < 1024" by (simp add: less_mult_imp_div_less)
    with d Cons show ?thesis by (simp add: to_units_def units_of_point_def)
  qed
qed

lemma text_slice_all:
  assumes "list_all (\<lambda>c. c < 1114112 \<and> \<not> (55296 \<le> c \<and> c < 57344)) t" "text_length t \<le> n"
  shows "text_slice n t = t"
  using of_to_units [OF assms(1), of "[]"] assms(2) by (simp add: text_slice_def length_to_units [symmetric])

subsection \<open>White space\<close>

definition is_text_space :: "nat \<Rightarrow> bool" where
  "is_text_space c = (c \<in> {9, 10, 11, 12, 13, 32, 160, 5760, 8232, 8233, 8239, 8287, 12288, 65279}
     \<or> (8192 \<le> c \<and> c \<le> 8202))"

definition text_trim :: "utext \<Rightarrow> utext" where
  "text_trim t = rev (dropWhile is_text_space (rev (dropWhile is_text_space t)))"

lemma text_trim_empty: "text_trim t = [] \<longleftrightarrow> list_all is_text_space t"
proof
  assume "text_trim t = []"
  then have all: "\<forall>c \<in> set (dropWhile is_text_space t). is_text_space c"
    by (simp add: text_trim_def dropWhile_eq_Nil_conv)
  have "dropWhile is_text_space t = []"
  proof (rule ccontr)
    assume ne: "dropWhile is_text_space t \<noteq> []"
    with all hd_dropWhile [OF ne] show False by simp
  qed
  then show "list_all is_text_space t" by (simp add: dropWhile_eq_Nil_conv list_all_iff)
next
  assume "list_all is_text_space t"
  then have empty: "dropWhile is_text_space t = []" by (simp add: dropWhile_eq_Nil_conv list_all_iff)
  show "text_trim t = []" unfolding text_trim_def empty by simp
qed

subsection \<open>\<open>JSON.stringify\<close>\<close>

definition hex4 :: "nat \<Rightarrow> utext" where
  "hex4 n = [92, 117] @ text_of_string (fixed_digits 16 4 n)"

definition escape_point :: "nat \<Rightarrow> utext" where
  "escape_point c =
     (if c = 34 \<or> c = 92 then [92, c]
      else if c = 8 then [92, 98] else if c = 9 then [92, 116] else if c = 10 then [92, 110]
      else if c = 12 then [92, 102] else if c = 13 then [92, 114]
      else if c < 32 \<or> (55296 \<le> c \<and> c < 57344) then hex4 c
      else [c])"

definition quote_text :: "utext \<Rightarrow> utext" where
  "quote_text t = [34] @ concat (map escape_point t) @ [34]"

definition stringify_turn :: "string \<times> utext \<Rightarrow> utext" where
  "stringify_turn turn = (case turn of (role, content) \<Rightarrow>
     text_of_string ''{'' @ quote_text (text_of_string ''role'') @ text_of_string '':''
     @ quote_text (text_of_string role) @ text_of_string '','' @ quote_text (text_of_string ''content'')
     @ text_of_string '':'' @ quote_text content @ text_of_string ''}'')"

fun join_text :: "utext list \<Rightarrow> utext" where
  "join_text [] = []"
| "join_text [t] = t"
| "join_text (t # u # us) = t @ [44] @ join_text (u # us)"

definition stringify_payload :: "(string \<times> utext) list \<Rightarrow> utext \<Rightarrow> utext" where
  "stringify_payload conversation prompt =
     text_of_string ''{'' @ quote_text (text_of_string ''conversation'') @ text_of_string '':[''
     @ join_text (map stringify_turn conversation) @ text_of_string ''],''
     @ quote_text (text_of_string ''prompt'') @ text_of_string '':'' @ quote_text prompt @ text_of_string ''}''"

end
