(* ===== verification/History.thy ===== *)
theory History
  imports Js_Text
begin

section \<open>The stored history\<close>

text \<open>
  \<open>frontend/src/utils/historyStore.ts\<close>. The \<open>localStorage\<close> slot holds nothing, something that does
  not parse to an array, or a list of entries. \<open>fits\<close> says whether a list is within the quota:
  a \<open>setItem\<close> that throws changes nothing and is ignored.
\<close>

datatype chat_status = S_pending | S_encrypting | S_processing | S_escrow | S_ready | S_done | S_error

record hist_entry =
  he_id :: string
  he_title :: utext
  he_prompt :: utext
  he_mode :: string
  he_model :: string
  he_status :: chat_status
  he_requestId :: "string option"
  he_outputCID :: "string option"
  he_keyHigh :: "string option"
  he_keyLow :: "string option"
  he_decryptedContent :: "utext option"
  he_errorMsg :: "string option"
  he_timestamp :: nat

datatype 'a slot = Absent | Malformed | Stored 'a

type_synonym history = "hist_entry list slot"

definition loadHistory :: "history \<Rightarrow> hist_entry list" where
  "loadHistory st = (case st of Stored es \<Rightarrow> es | Absent \<Rightarrow> [] | Malformed \<Rightarrow> [])"

definition saveHistory :: "(hist_entry list \<Rightarrow> bool) \<Rightarrow> hist_entry list \<Rightarrow> history \<Rightarrow> history" where
  "saveHistory fits entries st = (if fits entries then Stored entries else st)"

definition addHistoryEntry :: "(hist_entry list \<Rightarrow> bool) \<Rightarrow> hist_entry \<Rightarrow> history \<Rightarrow> history" where
  "addHistoryEntry fits entry st = saveHistory fits (entry # loadHistory st) st"

text \<open>\<open>entries[idx] = { ...entries[idx], ...patch }\<close> at the first entry with the id\<close>

fun patch_first :: "string \<Rightarrow> (hist_entry \<Rightarrow> hist_entry) \<Rightarrow> hist_entry list \<Rightarrow> hist_entry list" where
  "patch_first ident patch [] = []"
| "patch_first ident patch (e # es) = (if he_id e = ident then patch e # es else e # patch_first ident patch es)"

definition updateHistoryEntry ::
  "(hist_entry list \<Rightarrow> bool) \<Rightarrow> string \<Rightarrow> (hist_entry \<Rightarrow> hist_entry) \<Rightarrow> history \<Rightarrow> history" where
  "updateHistoryEntry fits ident patch st =
     (let entries = loadHistory st in
      if \<not> list_ex (\<lambda>e. he_id e = ident) entries then st
      else saveHistory fits (patch_first ident patch entries) st)"

definition clearHistory :: "history \<Rightarrow> history" where
  "clearHistory st = Absent"

subsection \<open>Lemmas\<close>

lemma load_save: "loadHistory (saveHistory fits es st) = (if fits es then es else loadHistory st)"
  by (simp add: saveHistory_def loadHistory_def)

lemma patch_first_absent: "\<not> list_ex (\<lambda>e. he_id e = ident) es \<Longrightarrow> patch_first ident patch es = es"
  by (induction es) auto

lemma patch_first_ids:
  assumes "\<And>e. he_id (patch e) = he_id e"
  shows "map he_id (patch_first ident patch es) = map he_id es"
  by (induction es) (auto simp: assms)

lemma update_absent:
  "\<not> list_ex (\<lambda>e. he_id e = ident) (loadHistory st) \<Longrightarrow> updateHistoryEntry fits ident patch st = st"
  by (simp add: updateHistoryEntry_def)

lemma load_update:
  "loadHistory (updateHistoryEntry fits ident patch st) =
     (if fits (patch_first ident patch (loadHistory st)) then patch_first ident patch (loadHistory st)
      else loadHistory st)"
  by (simp add: updateHistoryEntry_def Let_def load_save patch_first_absent)

lemma update_ids:
  assumes "\<And>e. he_id (patch e) = he_id e"
  shows "map he_id (loadHistory (updateHistoryEntry fits ident patch st)) = map he_id (loadHistory st)"
  using patch_first_ids [OF assms] by (simp add: load_update)

lemma patch_first_others:
  "i < length es \<Longrightarrow> he_id (es ! i) \<noteq> ident \<Longrightarrow> patch_first ident patch es ! i = es ! i"
  by (induction es arbitrary: i) (auto simp: nth_Cons split: nat.splits)

lemma length_patch_first [simp]: "length (patch_first ident patch es) = length es"
  by (induction es) auto

lemma find_patch_first:
  assumes "\<And>e. he_id (patch e) = he_id e"
  shows "find (\<lambda>e. he_id e = ident) (patch_first ident patch es) = map_option patch (find (\<lambda>e. he_id e = ident) es)"
  by (induction es) (auto simp: assms)

end
