(* ===== verification/Text_Key.thy ===== *)
theory Text_Key
  imports Frontend_Api Chain_Tx Ipfs
begin

section \<open>The browser's prompt and output keys\<close>

text \<open>
  \<open>frontend/src/utils/textPromptKey.ts\<close> (the CoFHE side; its byte codec is in \<open>Key_Codec\<close>, its
  download in \<open>Ipfs\<close>) and \<open>utils/encryption.ts\<close>. A CoFHE client is a record of its operations:
  \<open>real_client\<close> calls the network, \<open>mock_client\<close> is \<open>createMockCofheClient\<close>, which the sources use
  when \<open>VITE_COFHE_MOCK\<close> is \<open>true\<close> and whose state is its counter.
\<close>

subsection \<open>Clients\<close>

record 'x cofhe =
  co_encrypt :: "encryptable list \<Rightarrow> (ext, 'x, encrypted_input list) io"
  co_permit :: "(ext, 'x, nat) io"
  co_remove_permit :: "(ext, 'x, unit) io"
  co_decrypt :: "int \<Rightarrow> (ext, 'x, int) io"

definition real_client :: "world \<Rightarrow> 'x cofhe" where
  "real_client w = \<lparr>co_encrypt = cofhe_encrypt w, co_permit = get_permit w,
     co_remove_permit = remove_permit w, co_decrypt = cofhe_decrypt w\<rparr>"

lemma real_simps [simp]:
  "co_encrypt (real_client w) = cofhe_encrypt w" "co_permit (real_client w) = get_permit w"
  "co_remove_permit (real_client w) = remove_permit w" "co_decrypt (real_client w) = cofhe_decrypt w"
  by (simp_all add: real_client_def)

text \<open>\<open>item._value ?? item.value ?? 0n\<close> and \<open>item._type ?? item.type ?? 6\<close> read fields of objects of
  the CoFHE SDK: \<open>value_of\<close> and \<open>type_of\<close> say what they hold\<close>

definition mock_item ::
  "(encryptable \<Rightarrow> int option) \<Rightarrow> (encryptable \<Rightarrow> int option) \<Rightarrow> nat \<Rightarrow> nat \<times> encryptable \<Rightarrow> encrypted_input" where
  "mock_item value_of type_of counter it =
     (case it of (index, item) \<Rightarrow>
        \<lparr>ctHash = (int counter + int index) * 1000000 + int index + nullish (value_of item) 0,
         securityZone = Some 0, utype = nullish (type_of item) 6,
         signature = ''0x'' @ concat (replicate 65 ''00'')\<rparr>)"

definition mock_encrypt ::
  "(encryptable \<Rightarrow> int option) \<Rightarrow> (encryptable \<Rightarrow> int option) \<Rightarrow> encryptable list
   \<Rightarrow> (ext, nat, encrypted_input list) io" where
  "mock_encrypt value_of type_of items =
     bindE (getting id) (\<lambda>counter.
     thenE (update (\<lambda>c. c + length items))
       (ret (map (mock_item value_of type_of counter) (enumerate 0 items))))"

definition mock_client ::
  "(encryptable \<Rightarrow> int option) \<Rightarrow> (encryptable \<Rightarrow> int option) \<Rightarrow> nat \<Rightarrow> nat cofhe" where
  "mock_client value_of type_of created =
     \<lparr>co_encrypt = mock_encrypt value_of type_of, co_permit = ret (created div 1000 + 86400),
      co_remove_permit = ret (), co_decrypt = (\<lambda>_. ret 0)\<rparr>"

subsection \<open>Encrypting the prompt key\<close>

definition COFHE_FETCH_ERROR_PATTERNS :: "string list" where
  "COFHE_FETCH_ERROR_PATTERNS =
     [''Failed to fetch'', ''Failed to fetch FHE key and CRS'', ''Error serializing FHE publicKey'',
      ''Error serializing CRS'', ''NetworkError'']"

definition isCofheFetchError :: "js_err \<Rightarrow> bool" where
  "isCofheFetchError err =
     (let msg = error_message_or err (string_of_err err) in
      list_ex (\<lambda>p. str_includes msg p) COFHE_FETCH_ERROR_PATTERNS)"

definition serializeEncryptedInput_browser :: "encrypted_input \<Rightarrow> json" where
  "serializeEncryptedInput_browser input =
     JObj ([(''ctHash'', JStr (int_str (ctHash input)))]
           @ opt_field ''securityZone'' (map_option (\<lambda>z. JNum (of_int z)) (securityZone input))
           @ [(''utype'', JNum (of_int (utype input))), (''signature'', JStr (signature input))])"

text \<open>The payload: the two handles as strings, and the two inputs, which \<open>storeKey\<close> is given
  serialized; viem reads the decimal handle back as a number\<close>

record prompt_key_payload =
  pk_high :: string
  pk_low :: string
  pk_highInput :: encrypted_input
  pk_lowInput :: encrypted_input

definition cofhe_prompt_key_inputs :: "prompt_key_payload \<Rightarrow> json" where
  "cofhe_prompt_key_inputs p = JObj [(''high'', serializeEncryptedInput_browser (pk_highInput p)),
                                     (''low'', serializeEncryptedInput_browser (pk_lowInput p))]"

definition encryptPromptKeyForTextRequest ::
  "'x cofhe \<Rightarrow> byte list \<Rightarrow> (ext, 'x, prompt_key_payload) io" where
  "encryptPromptKeyForTextRequest client promptKey =
     bindE (lift (prompt_key_halves promptKey)) (\<lambda>(high, low).
     bindE (catchE (co_encrypt client [Uint128 high, Uint128 low])
              (\<lambda>firstErr. if \<not> isCofheFetchError firstErr then throw firstErr
                          else co_encrypt client [Uint128 high, Uint128 low])) (\<lambda>result.
     case result of
       highInput # lowInput # _ \<Rightarrow>
         ret \<lparr>pk_high = int_str (ctHash highInput), pk_low = int_str (ctHash lowInput),
              pk_highInput = highInput, pk_lowInput = lowInput\<rparr>
     | _ \<Rightarrow> throw (ErrorObj ''Cannot read properties of undefined (reading ctHash)'')))"

subsection \<open>Decrypting the output key\<close>

definition active_permit :: "world \<Rightarrow> 'x cofhe \<Rightarrow> (ext, 'x, nat) io" where
  "active_permit w client =
     bindE (co_permit client) (\<lambda>expiration.
     bindE (clock w) (\<lambda>now.
     let nowSec = now div 1000 in
     if expiration < nowSec then thenE (co_remove_permit client) (co_permit client)
     else ret expiration))"

definition decryptOutputKey :: "world \<Rightarrow> 'x cofhe \<Rightarrow> string \<Rightarrow> string \<Rightarrow> (ext, 'x, byte list) io" where
  "decryptOutputKey w client highHandle lowHandle =
     bindE (active_permit w client) (\<lambda>permit.
     bindE (lift (js_BigInt highHandle)) (\<lambda>h.
     bindE (co_decrypt client h) (\<lambda>high.
     bindE (lift (js_BigInt lowHandle)) (\<lambda>l.
     bindE (co_decrypt client l) (\<lambda>low.
     ret (combineKeyHalves_browser high low))))))"

subsection \<open>Risk features\<close>

text \<open>\<open>BigInt(n)\<close> of a number: a RangeError unless it is an integer\<close>

definition BigInt_num :: "rat \<Rightarrow> js_err + int" where
  "BigInt_num q = (case quotient_of q of (a, b) \<Rightarrow>
     if b = 1 then Inr a
     else Inl (ErrorObj (''The number '' @ number_str q @ '' cannot be converted to a BigInt because it is not an integer'')))"

record risk_features =
  rf_creditScore :: rat
  rf_loanAmount :: rat
  rf_accountAge :: rat
  rf_prevDefaults :: rat

definition encryptRiskFeatures :: "'x cofhe \<Rightarrow> risk_features \<Rightarrow> (ext, 'x, encrypted_input list) io" where
  "encryptRiskFeatures client features =
     bindE (lift (BigInt_num (rf_creditScore features))) (\<lambda>c.
     bindE (lift (BigInt_num (rf_loanAmount features))) (\<lambda>l.
     bindE (lift (BigInt_num (rf_accountAge features))) (\<lambda>a.
     bindE (lift (BigInt_num (rf_prevDefaults features))) (\<lambda>p.
     co_encrypt client [Uint32 c, Uint64 l, Uint32 a, Uint8 p]))))"

subsection \<open>The key comes back\<close>

text \<open>What the sources rely on in CoFHE: an encryption answers one input per item, whose handle is a
  natural number and decrypts, from then on, to the value of the item; and permits are granted.\<close>

definition item_value :: "encryptable \<Rightarrow> int" where
  "item_value it = (case it of Uint8 v \<Rightarrow> v | Uint32 v \<Rightarrow> v | Uint64 v \<Rightarrow> v | Uint128 v \<Rightarrow> v)"

definition cofhe_ok :: "world \<Rightarrow> bool" where
  "cofhe_ok w = (\<forall>lg items inputs. on_cofhe_encrypt w lg items = Inr inputs \<longrightarrow>
     length inputs = length items \<and>
     (\<forall>i < length items. 0 \<le> ctHash (inputs ! i) \<and>
        (\<forall>later. on_cofhe_decrypt w (lg @ CofheEncrypt items # later) (ctHash (inputs ! i)) = Inr (item_value (items ! i)))))"

definition permits_ok :: "world \<Rightarrow> bool" where
  "permits_ok w = ((\<forall>lg. \<exists>e. on_permit w lg = Inr e) \<and> (\<forall>lg. on_remove_permit w lg = Inr ()))"

lemma active_permit_runs:
  assumes "permits_ok w"
  shows "\<exists>e new. active_permit w (real_client w) (lg, x) = (Inr e, (lg @ new, x))"
proof -
  obtain e1 where e1: "on_permit w lg = Inr e1" using assms by (auto simp: permits_ok_def)
  obtain e2 where e2: "on_permit w (lg @ [CofhePermit, Clock, CofheRemovePermit]) = Inr e2"
    using assms by (auto simp: permits_ok_def)
  show ?thesis
    using assms e1 e2 by (auto simp: active_permit_def real_client_def call_defs bindE_call thenE_call permits_ok_def)
qed

lemma encrypt_two:
  assumes "encryptPromptKeyForTextRequest (real_client w) key (lg, x) = (Inr p, (lg', x'))" "cofhe_ok w"
  obtains h l pre where "prompt_key_halves key = Inr (h, l)" "lg' = pre @ [CofheEncrypt [Uint128 h, Uint128 l]]"
    "x' = x" "on_cofhe_encrypt w pre [Uint128 h, Uint128 l] = Inr [pk_highInput p, pk_lowInput p]"
    "pk_high p = int_str (ctHash (pk_highInput p))" "pk_low p = int_str (ctHash (pk_lowInput p))"
    "pre = lg \<or> pre = lg @ [CofheEncrypt [Uint128 h, Uint128 l]]"
proof -
  from assms(1) obtain h l where hl: "prompt_key_halves key = Inr (h, l)"
    by (auto simp: encryptPromptKeyForTextRequest_def split: sum.splits prod.splits)
  let ?items = "[Uint128 h, Uint128 l]"
  let ?k = "\<lambda>result. case result of
       highInput # lowInput # _ \<Rightarrow>
         ret \<lparr>pk_high = int_str (ctHash highInput), pk_low = int_str (ctHash lowInput),
              pk_highInput = highInput, pk_lowInput = lowInput\<rparr>
     | _ \<Rightarrow> throw (ErrorObj ''Cannot read properties of undefined (reading ctHash)'')"
  let ?enc = "cofhe_encrypt w ?items"
  have eq: "bindE (catchE ?enc (\<lambda>e. if \<not> isCofheFetchError e then throw e else ?enc)) ?k (lg, x) = (Inr p, (lg', x'))"
    using assms(1) hl unfolding encryptPromptKeyForTextRequest_def real_simps by simp
  obtain pre r where pre: "on_cofhe_encrypt w pre ?items = Inr r" "lg' = pre @ [CofheEncrypt ?items]" "x' = x"
      "pre = lg \<or> pre = lg @ [CofheEncrypt ?items]" and rest: "?k r (lg', x') = (Inr p, (lg', x'))"
  proof (cases "on_cofhe_encrypt w lg ?items")
    case (Inr r)
    with eq have run: "?k r (lg @ [CofheEncrypt ?items], x) = (Inr p, (lg', x'))"
      by (simp add: bindE_def catchE_def cofhe_encrypt_def)
    then have "lg' = lg @ [CofheEncrypt ?items]" "x' = x" by (auto split: list.splits)
    with that [OF Inr] run show ?thesis by simp
  next
    case (Inl e)
    with eq have ok: "isCofheFetchError e"
      by (auto simp: bindE_def catchE_def cofhe_encrypt_def split: if_splits)
    with Inl eq obtain r where r: "on_cofhe_encrypt w (lg @ [CofheEncrypt ?items]) ?items = Inr r"
      and run: "?k r ((lg @ [CofheEncrypt ?items]) @ [CofheEncrypt ?items], x) = (Inr p, (lg', x'))"
      by (auto simp: bindE_def catchE_def cofhe_encrypt_def split: sum.splits)
    then have "lg' = (lg @ [CofheEncrypt ?items]) @ [CofheEncrypt ?items]" "x' = x" by (auto split: list.splits)
    with that [OF r] run show ?thesis by simp
  qed
  from assms(2) pre(1) have "length r = 2" by (auto simp: cofhe_ok_def)
  then obtain a b where "r = [a, b]" by (auto simp: length_Suc_conv numeral_2_eq_2)
  with rest that [OF hl pre(2,3) _ _ _ pre(4)] pre(1) show ?thesis by auto
qed

text \<open>What is stored under the two handles of a payload\<close>

lemma encrypted_halves:
  assumes "cofhe_ok w" "encryptPromptKeyForTextRequest (real_client w) key (lg, x) = (Inr p, (lg', x'))"
  obtains h l where "combineKeyHalves_browser h l = key" "length key = 32"
    "\<And>rest. on_cofhe_decrypt w (lg' @ rest) (ctHash (pk_highInput p)) = Inr h"
    "\<And>rest. on_cofhe_decrypt w (lg' @ rest) (ctHash (pk_lowInput p)) = Inr l"
    "js_BigInt (pk_high p) = Inr (ctHash (pk_highInput p))" "js_BigInt (pk_low p) = Inr (ctHash (pk_lowInput p))"
    "0 \<le> h" "0 \<le> l"
proof -
  from encrypt_two [OF assms(2,1)] obtain h l pre where
    halves: "prompt_key_halves key = Inr (h, l)" and log': "lg' = pre @ [CofheEncrypt [Uint128 h, Uint128 l]]"
    and enc: "on_cofhe_encrypt w pre [Uint128 h, Uint128 l] = Inr [pk_highInput p, pk_lowInput p]"
    and handles: "pk_high p = int_str (ctHash (pk_highInput p))" "pk_low p = int_str (ctHash (pk_lowInput p))" by metis
  from halves have len: "length key = 32" by (simp add: prompt_key_halves_def split: if_splits)
  from browser_codec.split_combine [OF len] halves have join: "combineKeyHalves_browser h l = key" "0 \<le> h" "0 \<le> l" by auto
  have dec: "on_cofhe_decrypt w (lg' @ rest) (ctHash (pk_highInput p)) = Inr h"
    "on_cofhe_decrypt w (lg' @ rest) (ctHash (pk_lowInput p)) = Inr l"
    "0 \<le> ctHash (pk_highInput p)" "0 \<le> ctHash (pk_lowInput p)" for rest
    using assms(1) enc log' unfolding cofhe_ok_def
    by (force simp: item_value_def dest: spec [of _ 0] spec [of _ "Suc 0"])+
  show thesis using that [OF join(1) len dec(1,2)] handles dec(3,4) join(2,3) by (simp add: bigint_of_int_str)
qed

text \<open>C8: the key survives CoFHE. What \<open>encryptPromptKeyForTextRequest\<close> stored under two handles, at
  the first or the second attempt, \<open>decryptOutputKey\<close> returns from these handles, after any number of
  other calls: the handles print and parse, an expired permit is replaced, and the halves join to the
  32 bytes that were split.\<close>

theorem prompt_key_round_trip:
  assumes "cofhe_ok w" "permits_ok w"
    and "encryptPromptKeyForTextRequest (real_client w) key (lg, x) = (Inr p, (lg', x'))"
  shows "length key = 32 \<and>
    (\<exists>s. decryptOutputKey w (real_client w) (pk_high p) (pk_low p) (lg' @ later, y) = (Inr key, s))"
proof -
  obtain h l where key: "combineKeyHalves_browser h l = key" "length key = 32"
    "\<And>rest. on_cofhe_decrypt w (lg' @ rest) (ctHash (pk_highInput p)) = Inr h"
    "\<And>rest. on_cofhe_decrypt w (lg' @ rest) (ctHash (pk_lowInput p)) = Inr l"
    "js_BigInt (pk_high p) = Inr (ctHash (pk_highInput p))" "js_BigInt (pk_low p) = Inr (ctHash (pk_lowInput p))"
    using encrypted_halves [OF assms(1,3)] by metis
  obtain e new where permit: "active_permit w (real_client w) (lg' @ later, y) = (Inr e, ((lg' @ later) @ new, y))"
    using active_permit_runs [OF assms(2), of "lg' @ later" y] by blast
  show ?thesis
    using key permit by (simp add: decryptOutputKey_def) (simp add: real_client_def cofhe_decrypt_def bindE_call)
qed

definition toy_cofhe :: world where
  "toy_cofhe = offline\<lparr>on_permit := (\<lambda>_. Inr 0), on_remove_permit := (\<lambda>_. Inr ()), on_clock := (\<lambda>_. 5000),
     on_cofhe_encrypt := (\<lambda>_ items. if list_all (\<lambda>it. 0 \<le> item_value it) items
       then Inr (map (\<lambda>it. \<lparr>ctHash = item_value it, securityZone = Some 0, utype = 6, signature = ''0x''\<rparr>) items)
       else Inl unreachable),
     on_cofhe_decrypt := (\<lambda>_ h. Inr h)\<rparr>"

lemma toy_cofhe_ok: "cofhe_ok toy_cofhe" "permits_ok toy_cofhe"
  by (auto simp: cofhe_ok_def permits_ok_def toy_cofhe_def list_all_length split: if_splits)

theorem prompt_key_round_trip_witness:
  "\<exists>p s. encryptPromptKeyForTextRequest (real_client toy_cofhe) (replicate 32 7) ([], ()) = (Inr p, s)
    \<and> (\<exists>s'. decryptOutputKey toy_cofhe (real_client toy_cofhe) (pk_high p) (pk_low p) (fst s @ [Clock], ())
          = (Inr (replicate 32 7), s'))"
proof -
  obtain h l where hl: "prompt_key_halves (replicate 32 7) = Inr (h, l)" "0 \<le> h" "0 \<le> l"
    using browser_codec.split_combine [of "replicate 32 7"] by auto
  obtain p where run: "encryptPromptKeyForTextRequest (real_client toy_cofhe) (replicate 32 7) ([], ())
      = (Inr p, ([CofheEncrypt [Uint128 h, Uint128 l]], ()))"
    using hl by (simp add: encryptPromptKeyForTextRequest_def real_client_def cofhe_encrypt_def bindE_def catchE_def
        toy_cofhe_def item_value_def)
  from prompt_key_round_trip [OF toy_cofhe_ok run, of "[Clock]" "()"] run show ?thesis by auto
qed

end
