(* ===== verification/Chat.thy ===== *)
theory Chat
  imports History Inference_Status Text_Key
begin

section \<open>The chat's messages\<close>

text \<open>
  \<open>frontend/src/hooks/useChat.ts\<close>: the messages of the page, the request they wait for, the refs
  and the stored history, with one function per callback and per effect. \<open>fits\<close> is the storage
  quota of \<open>History\<close>; the setting \<open>blindference_auto_decrypt\<close> is the argument \<open>auto\<close>. An effect's
  asynchronous decryption is split into its start and its end, since other steps happen in
  between; the callback \<open>decryptMessage\<close> is an operation with its calls.
\<close>

subsection \<open>State\<close>

record chat_meta =
  md_model :: "string option"
  md_taskId :: "string option"
  md_storeKeyTx :: "string option"
  md_promptCID :: "string option"
  md_requestIdDisplay :: "string option"
  md_leader :: "string option"
  md_verifiers :: "string option"
  md_modelId :: "string option"
  md_receiptRoot :: "string option"
  md_receiptsCID :: "string option"
  md_traceHash :: "string option"

record chat_entry =
  ce_id :: string
  ce_user :: bool
  ce_content :: utext
  ce_status :: "chat_status option"
  ce_requestId :: "string option"
  ce_outputCID :: "string option"
  ce_keyHigh :: "string option"
  ce_keyLow :: "string option"
  ce_errorMsg :: "string option"
  ce_preview :: "string option"
  ce_meta :: chat_meta
  ce_timestamp :: nat

record chat =
  ch_messages :: "chat_entry list"
  ch_active :: string
  ch_decrypted :: "string list"
  ch_history :: history

definition chat_init :: "history \<Rightarrow> chat" where
  "chat_init st = \<lparr>ch_messages = [], ch_active = [], ch_decrypted = [], ch_history = st\<rparr>"

definition on_messages :: "(chat_entry \<Rightarrow> chat_entry) \<Rightarrow> chat \<Rightarrow> chat" where
  "on_messages f c = c\<lparr>ch_messages := map f (ch_messages c)\<rparr>"

definition on_history :: "(history \<Rightarrow> history) \<Rightarrow> chat \<Rightarrow> chat" where
  "on_history f c = c\<lparr>ch_history := f (ch_history c)\<rparr>"

definition empty_meta :: chat_meta where
  "empty_meta = \<lparr>md_model = None, md_taskId = None, md_storeKeyTx = None, md_promptCID = None,
     md_requestIdDisplay = None, md_leader = None, md_verifiers = None, md_modelId = None,
     md_receiptRoot = None, md_receiptsCID = None, md_traceHash = None\<rparr>"

subsection \<open>Callbacks\<close>

definition makeHistoryFromMessage :: "chat_entry \<Rightarrow> utext \<Rightarrow> hist_entry" where
  "makeHistoryFromMessage m prompt =
     \<lparr>he_id = ce_id m,
      he_title = text_slice 60 prompt @ (if text_length prompt > 60 then text_of_string ''...'' else []),
      he_prompt = prompt, he_mode = ''chat'', he_model = nullish (md_model (ce_meta m)) ''unknown'',
      he_status = nullish (ce_status m) S_pending, he_requestId = ce_requestId m,
      he_outputCID = ce_outputCID m, he_keyHigh = ce_keyHigh m, he_keyLow = ce_keyLow m,
      he_decryptedContent = None, he_errorMsg = ce_errorMsg m, he_timestamp = ce_timestamp m\<rparr>"

definition new_entry :: "string \<Rightarrow> bool \<Rightarrow> utext \<Rightarrow> string \<Rightarrow> chat_status \<Rightarrow> nat \<Rightarrow> chat_entry" where
  "new_entry ident user content model st now =
     \<lparr>ce_id = ident, ce_user = user, ce_content = content, ce_status = Some st, ce_requestId = None,
      ce_outputCID = None, ce_keyHigh = None, ce_keyLow = None, ce_errorMsg = None, ce_preview = None,
      ce_meta = empty_meta\<lparr>md_model := Some model\<rparr>, ce_timestamp = now\<rparr>"

definition pushUserMessage ::
  "(hist_entry list \<Rightarrow> bool) \<Rightarrow> string \<Rightarrow> string \<Rightarrow> nat \<Rightarrow> utext \<Rightarrow> string \<Rightarrow> chat \<Rightarrow> chat" where
  "pushUserMessage fits userId assistantId now prompt model c =
     (let userEntry = new_entry userId True prompt model S_done now;
          assistantEntry = new_entry assistantId False [] model S_encrypting now in
      on_history (addHistoryEntry fits (makeHistoryFromMessage assistantEntry prompt))
        (c\<lparr>ch_messages := ch_messages c @ [userEntry, assistantEntry]\<rparr>))"

definition updateAssistantStatus ::
  "(hist_entry list \<Rightarrow> bool) \<Rightarrow> string \<Rightarrow> chat_status \<Rightarrow> string option \<Rightarrow> chat \<Rightarrow> chat" where
  "updateAssistantStatus fits assistantId st requestId c =
     (let c' = on_messages (\<lambda>m. if ce_id m = assistantId
                 then (if truthy requestId then m\<lparr>ce_status := Some st, ce_requestId := requestId\<rparr>
                       else m\<lparr>ce_status := Some st\<rparr>) else m) c in
      if truthy requestId
      then on_history (updateHistoryEntry fits assistantId (\<lambda>e. e\<lparr>he_status := st, he_requestId := requestId\<rparr>)) c'
      else c')"

definition failAssistantMessage :: "(hist_entry list \<Rightarrow> bool) \<Rightarrow> string \<Rightarrow> string \<Rightarrow> chat \<Rightarrow> chat" where
  "failAssistantMessage fits assistantId errorMsg c =
     on_history (updateHistoryEntry fits assistantId (\<lambda>e. e\<lparr>he_status := S_error, he_errorMsg := Some errorMsg\<rparr>))
       (on_messages (\<lambda>m. if ce_id m = assistantId then m\<lparr>ce_status := Some S_error, ce_errorMsg := Some errorMsg\<rparr> else m) c)"

definition updateAssistantMetadata :: "string \<Rightarrow> (chat_meta \<Rightarrow> chat_meta) \<Rightarrow> chat \<Rightarrow> chat" where
  "updateAssistantMetadata assistantId metadataPatch c =
     on_messages (\<lambda>m. if ce_id m \<noteq> assistantId then m else m\<lparr>ce_meta := metadataPatch (ce_meta m)\<rparr>) c"

definition setActiveRequestId :: "string \<Rightarrow> chat \<Rightarrow> chat" where
  "setActiveRequestId rid c = c\<lparr>ch_active := rid\<rparr>"

subsection \<open>Effects on a new status\<close>

definition settled :: "chat_entry \<Rightarrow> bool" where
  "settled m = (ce_status m = Some S_done \<or> ce_status m = Some S_error \<or> ce_status m = Some S_ready)"

text \<open>The messages an effect may touch: unsettled answers to the active request\<close>

definition waiting :: "string \<Rightarrow> chat_entry \<Rightarrow> bool" where
  "waiting rid m = (\<not> ce_user m \<and> ce_requestId m = Some rid \<and> \<not> settled m)"

definition effect_progress :: "demo_status \<Rightarrow> chat \<Rightarrow> chat" where
  "effect_progress st c =
     (if ch_active c = [] then c
      else on_messages (\<lambda>m. if \<not> waiting (ch_active c) m then m
             else if d_status st = QUEUED \<or> d_status st = ASSIGNED \<or> d_status st = EXECUTING
                  then m\<lparr>ce_status := Some S_processing\<rparr> else m) c)"

text \<open>An accepted text status with its output: the two handles and the CID\<close>

definition accepted_output :: "demo_status \<Rightarrow> (string \<times> string \<times> string) option" where
  "accepted_output st =
     (if d_status st \<noteq> ACCEPTED \<or> \<not> d_text_mode st then None
      else case d_text_result st of
          None \<Rightarrow> None
        | Some t \<Rightarrow> if truthy (tr_key_high t) \<and> truthy (tr_key_low t) \<and> truthy (tr_output_cid t)
                    then Some (the (tr_key_high t), the (tr_key_low t), the (tr_output_cid t)) else None)"

definition preview_of :: "demo_status \<Rightarrow> string option" where
  "preview_of st = Option.bind (d_text_result st) tr_preview"

definition update_all :: "(hist_entry list \<Rightarrow> bool) \<Rightarrow> string list \<Rightarrow> (hist_entry \<Rightarrow> hist_entry) \<Rightarrow> history \<Rightarrow> history" where
  "update_all fits idents patch st = fold (\<lambda>i. updateHistoryEntry fits i patch) idents st"

text \<open>\<open>auto\<close> is \<open>getAutoDecryptSetting() && cofheClient && isReady\<close>\<close>

definition effect_accept :: "(hist_entry list \<Rightarrow> bool) \<Rightarrow> bool \<Rightarrow> demo_status \<Rightarrow> chat \<Rightarrow> chat" where
  "effect_accept fits auto st c =
     (case accepted_output st of
        None \<Rightarrow> c
      | Some (high, low, cid) \<Rightarrow>
          let hit = waiting (ch_active c);
              with_output = (\<lambda>m. m\<lparr>ce_outputCID := Some cid, ce_keyHigh := Some high, ce_keyLow := Some low,
                                   ce_preview := preview_of st\<rparr>) in
          if auto then on_messages (\<lambda>m. if hit m then with_output m else m) c
          else on_history (update_all fits (map ce_id (filter hit (ch_messages c)))
                   (\<lambda>e. e\<lparr>he_status := S_ready, he_outputCID := Some cid, he_keyHigh := Some high, he_keyLow := Some low\<rparr>))
                 (on_messages (\<lambda>m. if hit m then (with_output m)\<lparr>ce_status := Some S_ready\<rparr> else m) c))"

definition effect_reject :: "(hist_entry list \<Rightarrow> bool) \<Rightarrow> demo_status \<Rightarrow> chat \<Rightarrow> chat" where
  "effect_reject fits st c =
     (if (d_status st \<noteq> REJECTED \<and> d_status st \<noteq> FAILED) \<or> \<not> d_text_mode st then c
      else
        let hit = waiting (ch_active c);
            reason = nullish (d_failure_reason st) ''Quorum rejected the leader result.'' in
        on_history (update_all fits (map ce_id (filter hit (ch_messages c)))
            (\<lambda>e. e\<lparr>he_status := S_error, he_errorMsg := Some reason\<rparr>))
          (on_messages (\<lambda>m. if hit m then m\<lparr>ce_status := Some S_error, ce_errorMsg := Some reason,
                                            ce_preview := preview_of st\<rparr> else m) c))"

subsection \<open>Decryption\<close>

definition decrypt_output ::
  "world \<Rightarrow> web_crypto \<Rightarrow> (string \<Rightarrow> string option) \<Rightarrow> 'x cofhe \<Rightarrow> string \<Rightarrow> string \<Rightarrow> string \<Rightarrow> (ext, 'x, utext) io" where
  "decrypt_output w web penv client high low cid =
     bindE (decryptOutputKey w client high low) (\<lambda>key.
     downloadAndDecryptTextOutput (on_fetch w) web penv cid key)"

text \<open>The automatic decryption of an accepted request, once per request: its start says which
  output to fetch for which request\<close>

definition auto_start :: "bool \<Rightarrow> demo_status \<Rightarrow> chat \<Rightarrow> chat \<times> (string \<times> string \<times> string \<times> string) option" where
  "auto_start auto st c =
     (case accepted_output st of
        None \<Rightarrow> (c, None)
      | Some (high, low, cid) \<Rightarrow>
          if \<not> auto \<or> ch_active c \<in> set (ch_decrypted c) then (c, None)
          else (c\<lparr>ch_decrypted := ch_decrypted c @ [ch_active c]\<rparr>, Some (ch_active c, high, low, cid)))"

definition show_result :: "js_err + utext \<Rightarrow> chat_entry \<Rightarrow> chat_entry" where
  "show_result res m = (case res of
      Inr answer \<Rightarrow> m\<lparr>ce_status := Some S_done, ce_content := answer\<rparr>
    | Inl e \<Rightarrow> m\<lparr>ce_status := Some S_error, ce_errorMsg := Some (error_message_or e ''Decryption failed'')\<rparr>)"

definition store_result :: "js_err + utext \<Rightarrow> hist_entry \<Rightarrow> hist_entry" where
  "store_result res e = (case res of
      Inr answer \<Rightarrow> e\<lparr>he_status := S_done, he_decryptedContent := Some answer\<rparr>
    | Inl err \<Rightarrow> e\<lparr>he_status := S_error, he_errorMsg := Some (error_message_or err ''Decryption failed'')\<rparr>)"

definition auto_finish :: "(hist_entry list \<Rightarrow> bool) \<Rightarrow> string \<Rightarrow> js_err + utext \<Rightarrow> chat \<Rightarrow> chat" where
  "auto_finish fits rid res c =
     on_history (updateHistoryEntry fits rid (store_result res))
       (on_messages (\<lambda>m. if \<not> ce_user m \<and> ce_requestId m = Some rid then show_result res m else m) c)"

definition manual_finish :: "(hist_entry list \<Rightarrow> bool) \<Rightarrow> string \<Rightarrow> js_err + utext \<Rightarrow> chat \<Rightarrow> chat" where
  "manual_finish fits assistantId res c =
     on_history (updateHistoryEntry fits assistantId (store_result res))
       (on_messages (\<lambda>m. if ce_id m = assistantId then show_result res m else m) c)"

definition decryptable :: "chat_entry \<Rightarrow> bool" where
  "decryptable m = (truthy (ce_outputCID m) \<and> truthy (ce_keyHigh m) \<and> truthy (ce_keyLow m))"

definition decryptMessage ::
  "world \<Rightarrow> web_crypto \<Rightarrow> (string \<Rightarrow> string option) \<Rightarrow> (hist_entry list \<Rightarrow> bool) \<Rightarrow> chat cofhe option \<Rightarrow> bool
   \<Rightarrow> string \<Rightarrow> (ext, chat, unit) io" where
  "decryptMessage w web penv fits cofheClient isReady assistantId =
     bindE (getting ch_messages) (\<lambda>messages.
     case (find (\<lambda>m. ce_id m = assistantId \<and> \<not> ce_user m) messages, cofheClient) of
       (Some msg, Some client) \<Rightarrow>
         if \<not> decryptable msg \<or> \<not> isReady then ret ()
         else catchE
           (bindE (decrypt_output w web penv client (the (ce_keyHigh msg)) (the (ce_keyLow msg)) (the (ce_outputCID msg)))
              (\<lambda>answer. update (manual_finish fits assistantId (Inr answer))))
           (\<lambda>e. update (manual_finish fits assistantId (Inl e)))
     | _ \<Rightarrow> ret ())"

subsection \<open>Runs\<close>

text \<open>The page's uses of the callbacks: a status set by hand is one of the three the submission sets.\<close>

inductive chat_step :: "(hist_entry list \<Rightarrow> bool) \<Rightarrow> chat \<Rightarrow> chat \<Rightarrow> bool" for fits where
  step_push: "chat_step fits c (pushUserMessage fits userId assistantId now prompt model c)"
| step_status: "st \<in> {S_encrypting, S_processing, S_escrow} \<Longrightarrow>
    chat_step fits c (updateAssistantStatus fits assistantId st requestId c)"
| step_fail: "chat_step fits c (failAssistantMessage fits assistantId errorMsg c)"
| step_meta: "chat_step fits c (updateAssistantMetadata assistantId metadataPatch c)"
| step_active: "chat_step fits c (setActiveRequestId rid c)"
| step_progress: "chat_step fits c (effect_progress st c)"
| step_accept: "chat_step fits c (effect_accept fits auto st c)"
| step_reject: "chat_step fits c (effect_reject fits st c)"
| step_auto_start: "chat_step fits c (fst (auto_start auto st c))"
| step_auto_finish: "chat_step fits c (auto_finish fits rid res c)"
| step_manual_finish: "chat_step fits c (manual_finish fits assistantId res c)"

inductive chat_run :: "(hist_entry list \<Rightarrow> bool) \<Rightarrow> history \<Rightarrow> chat \<Rightarrow> bool" for fits st where
  run_init: "chat_run fits st (chat_init st)"
| run_step: "chat_run fits st c \<Longrightarrow> chat_step fits c c' \<Longrightarrow> chat_run fits st c'"

subsection \<open>Lemmas\<close>

lemma messages_simps [simp]:
  "ch_messages (on_messages f c) = map f (ch_messages c)" "ch_messages (on_history g c) = ch_messages c"
  "ch_history (on_messages f c) = ch_history c" "ch_history (on_history g c) = g (ch_history c)"
  "ch_active (on_messages f c) = ch_active c" "ch_active (on_history g c) = ch_active c"
  by (simp_all add: on_messages_def on_history_def)

lemma accepted_outputE:
  assumes "accepted_output st = Some (high, low, cid)"
  shows "truthy (Some high) \<and> truthy (Some low) \<and> truthy (Some cid)"
  using assms by (auto simp: accepted_output_def truthy_def split: if_splits option.splits)

definition ready_ok :: "chat_entry \<Rightarrow> bool" where
  "ready_ok m = (ce_status m = Some S_ready \<longrightarrow> decryptable m)"

lemma ready_ok_simps [simp]:
  "ready_ok (new_entry ident user content model S_done now)"
  "ready_ok (new_entry ident user content model S_encrypting now)"
  "ready_ok (show_result res m)"
  "ready_ok m \<Longrightarrow> ready_ok (m\<lparr>ce_meta := md\<rparr>)"
  by (auto simp: ready_ok_def new_entry_def show_result_def decryptable_def split: sum.splits)

lemma ready_ok_status [simp]: "st \<noteq> S_ready \<Longrightarrow> ready_ok (m\<lparr>ce_status := Some st\<rparr>)"
  "st \<noteq> S_ready \<Longrightarrow> ready_ok (m\<lparr>ce_status := Some st, ce_requestId := r\<rparr>)"
  "st \<noteq> S_ready \<Longrightarrow> ready_ok (m\<lparr>ce_status := Some st, ce_errorMsg := e\<rparr>)"
  "st \<noteq> S_ready \<Longrightarrow> ready_ok (m\<lparr>ce_status := Some st, ce_errorMsg := e, ce_preview := p\<rparr>)"
  by (simp_all add: ready_ok_def)

lemma chat_step_ready:
  assumes "chat_step fits c c'" "\<forall>m \<in> set (ch_messages c). ready_ok m"
  shows "\<forall>m \<in> set (ch_messages c'). ready_ok m"
  using assms
proof (cases rule: chat_step.cases)
  case (step_accept auto st)
  show ?thesis
  proof (cases "accepted_output st")
    case None
    with step_accept assms(2) show ?thesis by (simp add: effect_accept_def)
  next
    case (Some out)
    obtain high low cid where out: "out = (high, low, cid)" by (rule prod_cases3)
    with Some have "truthy (Some high)" "truthy (Some low)" "truthy (Some cid)" using accepted_outputE by blast+
    with step_accept assms(2) Some out show ?thesis
      by (auto simp: effect_accept_def Let_def ready_ok_def decryptable_def waiting_def settled_def)
  qed
qed (auto simp: pushUserMessage_def updateAssistantStatus_def failAssistantMessage_def updateAssistantMetadata_def
    setActiveRequestId_def effect_progress_def effect_reject_def auto_start_def auto_finish_def manual_finish_def
    Let_def split: option.splits)

lemma chat_run_ready: "chat_run fits st c \<Longrightarrow> \<forall>m \<in> set (ch_messages c). ready_ok m"
  by (induction rule: chat_run.induct) (simp add: chat_init_def, rule chat_step_ready)

text \<open>C16: an answer marked ready can be decrypted. In every chat the callbacks and effects can reach,
  in any order, a message with status \<open>ready\<close> holds a CID and both key handles, none empty, so the
  decrypt button never silently does nothing for want of them.\<close>

theorem ready_is_decryptable:
  assumes "chat_run fits st c" "m \<in> set (ch_messages c)" "ce_status m = Some S_ready"
  shows "decryptable m"
  using chat_run_ready [OF assms(1)] assms(2,3) by (simp add: ready_ok_def)

definition done_job :: job_response where
  "done_job = \<lparr>j_job_id = ''job'', j_user_address = ''u'', j_model_id = ''m'', j_status = ''COMPLETED'', j_coverage_id = None,
     j_leader_address = None, j_verifier_addresses = [], j_error_reason = None, j_result_hash = None,
     j_output_cid = Some ''Qm'', j_key_high = Some ''7'', j_key_low = Some ''8'', j_leader_summary = None,
     j_rewards_distributed = False, j_created_at = [], j_updated_at = []\<rparr>"

definition asked_chat :: chat where
  "asked_chat = setActiveRequestId ''job''
     (updateAssistantStatus (\<lambda>_. True) ''a'' S_processing (Some ''job'')
       (pushUserMessage (\<lambda>_. True) ''u'' ''a'' 5 [104, 105] ''M'' (chat_init Absent)))"

lemma done_job_output: "accepted_output (mapJobToDemoStatus done_job) = Some (''7'', ''8'', ''Qm'')"
  by (simp add: accepted_output_def mapJobToDemoStatus_def job_stage_def done_job_def Let_def truthy_def)

lemma asked_messages: "ch_messages asked_chat =
    [new_entry ''u'' True [104, 105] ''M'' S_done 5,
     (new_entry ''a'' False [] ''M'' S_encrypting 5)\<lparr>ce_status := Some S_processing, ce_requestId := Some ''job''\<rparr>]"
  "ch_active asked_chat = ''job''"
  by (simp_all add: asked_chat_def setActiveRequestId_def updateAssistantStatus_def pushUserMessage_def chat_init_def
      Let_def truthy_def new_entry_def)

lemma asked_run: "chat_run (\<lambda>_. True) Absent asked_chat"
proof -
  have "chat_run (\<lambda>_. True) Absent (pushUserMessage (\<lambda>_. True) ''u'' ''a'' 5 [104, 105] ''M'' (chat_init Absent))"
    by (rule run_step [OF run_init step_push])
  then have "chat_run (\<lambda>_. True) Absent (updateAssistantStatus (\<lambda>_. True) ''a'' S_processing (Some ''job'')
      (pushUserMessage (\<lambda>_. True) ''u'' ''a'' 5 [104, 105] ''M'' (chat_init Absent)))"
    by (rule run_step) (rule step_status, simp)
  then show ?thesis unfolding asked_chat_def by (rule run_step [OF _ step_active])
qed

definition ready_chat :: chat where
  "ready_chat = effect_accept (\<lambda>_. True) False (mapJobToDemoStatus done_job) asked_chat"

lemma ready_messages: "ch_messages ready_chat =
    [new_entry ''u'' True [104, 105] ''M'' S_done 5,
     (new_entry ''a'' False [] ''M'' S_encrypting 5)\<lparr>ce_status := Some S_ready, ce_requestId := Some ''job'',
        ce_outputCID := Some ''Qm'', ce_keyHigh := Some ''7'', ce_keyLow := Some ''8'',
        ce_preview := preview_of (mapJobToDemoStatus done_job)\<rparr>]"
  by (simp add: ready_chat_def effect_accept_def done_job_output asked_messages waiting_def settled_def new_entry_def Let_def)

theorem ready_is_decryptable_witness:
  "chat_run (\<lambda>_. True) Absent ready_chat \<and> list_ex (\<lambda>m. ce_status m = Some S_ready \<and> decryptable m) (ch_messages ready_chat)"
proof -
  have run: "chat_run (\<lambda>_. True) Absent ready_chat"
    unfolding ready_chat_def by (rule run_step [OF asked_run]) (rule step_accept)
  let ?m = "ch_messages ready_chat ! 1"
  have m: "?m \<in> set (ch_messages ready_chat)" "ce_status ?m = Some S_ready" by (simp_all add: ready_messages)
  from ready_is_decryptable [OF run m] m run show ?thesis by (auto simp: list_ex_iff)
qed

subsection \<open>What the effects leave alone\<close>

definition same_question :: "chat_entry \<Rightarrow> chat_entry \<Rightarrow> bool" where
  "same_question m m' = (ce_id m' = ce_id m \<and> ce_user m' = ce_user m \<and> ce_content m' = ce_content m
     \<and> ce_requestId m' = ce_requestId m \<and> ce_meta m' = ce_meta m \<and> ce_timestamp m' = ce_timestamp m)"

definition framed :: "string \<Rightarrow> chat_entry \<Rightarrow> chat_entry \<Rightarrow> bool" where
  "framed rid m m' = (if waiting rid m then same_question m m' else m' = m)"

lemma framed_map: "(\<And>m. framed rid m (f m)) \<Longrightarrow> list_all2 (framed rid) ms (map f ms)"
  by (simp add: list.rel_map list.rel_refl_strong)

lemma framed_refl [simp]: "framed rid m m"
  by (simp add: framed_def same_question_def)

lemma list_framed_refl [simp]: "list_all2 (framed rid) ms ms"
  by (simp add: list.rel_refl_strong)

lemma progress_frame: "list_all2 (framed (ch_active c)) (ch_messages c) (ch_messages (effect_progress st c))"
  by (auto simp: effect_progress_def framed_def same_question_def intro!: framed_map)

lemma accept_frame: "list_all2 (framed (ch_active c)) (ch_messages c) (ch_messages (effect_accept fits auto st c))"
  by (auto simp: effect_accept_def Let_def framed_def same_question_def intro!: framed_map split: option.splits prod.splits)

lemma reject_frame: "list_all2 (framed (ch_active c)) (ch_messages c) (ch_messages (effect_reject fits st c))"
  by (auto simp: effect_reject_def Let_def framed_def same_question_def intro!: framed_map)

text \<open>A status only touches the answers that wait for it. Each of the three effects keeps every
  message's place, id, role, text and request, and changes a message at all only if it is an
  assistant message of the active request that is not done, failed or ready: a decrypted or failed
  answer stays as it is, whatever status arrives later.\<close>

lemma status_effects_frame:
  shows "list_all2 (framed (ch_active c)) (ch_messages c) (ch_messages (effect_progress st c))
    \<and> list_all2 (framed (ch_active c)) (ch_messages c) (ch_messages (effect_accept fits auto st c))
    \<and> list_all2 (framed (ch_active c)) (ch_messages c) (ch_messages (effect_reject fits st c))"
  by (intro conjI progress_frame accept_frame reject_frame)

subsection \<open>Decryption and the history\<close>

lemma manual_finish_history:
  assumes "list_ex (\<lambda>e. he_id e = aid) (loadHistory (ch_history c))" "fits (patch_first aid (store_result res) (loadHistory (ch_history c)))"
  shows "find (\<lambda>e. he_id e = aid) (loadHistory (ch_history (manual_finish fits aid res c)))
    = map_option (store_result res) (find (\<lambda>e. he_id e = aid) (loadHistory (ch_history c)))"
proof -
  have "he_id (store_result res e) = he_id e" for e by (simp add: store_result_def split: sum.splits)
  then show ?thesis using assms(2) by (simp add: manual_finish_def load_update find_patch_first)
qed

text \<open>An automatic decryption is lost to the history. It shows the answer in every message of its
  request, but looks up the stored entry by the request's id, where entries are stored under the
  message's: unless some entry happens to have the request's id as its own, the history is
  unchanged, and the conversation is still listed as unfinished.\<close>

lemma auto_decrypt_history_lost:
  assumes "\<forall>e \<in> set (loadHistory (ch_history c)). he_id e \<noteq> rid"
  shows "ch_history (auto_finish fits rid (Inr answer) c) = ch_history c
    \<and> ch_messages (auto_finish fits rid (Inr answer) c)
      = map (\<lambda>m. if \<not> ce_user m \<and> ce_requestId m = Some rid
                 then m\<lparr>ce_status := Some S_done, ce_content := answer\<rparr> else m) (ch_messages c)"
  using assms by (auto simp: auto_finish_def show_result_def update_absent list_ex_iff)

subsection \<open>The decrypted answer\<close>

lemma decryptOutputKey_real:
  assumes "permits_ok w" "js_BigInt hi = Inr hh" "js_BigInt lo = Inr ll"
    and "\<And>lg. on_cofhe_decrypt w lg hh = Inr vh" "\<And>lg. on_cofhe_decrypt w lg ll = Inr vl"
  shows "\<exists>new. decryptOutputKey w (real_client w) hi lo (lg, x) = (Inr (combineKeyHalves_browser vh vl), (lg @ new, x))"
proof -
  obtain e new where "active_permit w (real_client w) (lg, x) = (Inr e, (lg @ new, x))"
    using active_permit_runs [OF assms(1), of lg x] by blast
  with assms(2-5) show ?thesis
    by (simp add: decryptOutputKey_def cofhe_decrypt_def bindE_call)
qed

text \<open>The decrypt button shows what was sealed. For a ready message whose handles decrypt to the
  halves of the key that sealed a text in the agent SDK's format, and whose CID the gateway serves,
  \<open>decryptMessage\<close> ends with that text as the message's content, the message and its history entry
  done, and every other message unchanged.\<close>

lemma decrypt_shows_sealed_output:
  assumes crypto: "gcm_ok g" "web_ok g web" "rng_ok rng" "length key = 32" "well_formed t" "t = [] \<or> hd t \<noteq> 65279"
      "encryptAesGcm g rng t key = Inr p"
    and cofhe: "permits_ok w" "prompt_key_halves key = Inr (vh, vl)" "js_BigInt hi = Inr hh" "js_BigInt lo = Inr ll"
      "\<And>lg. on_cofhe_decrypt w lg hh = Inr vh" "\<And>lg. on_cofhe_decrypt w lg ll = Inr vl"
    and net: "penv ''VITE_IPFS_GATEWAY_URL'' = None"
      "\<And>lg. on_fetch w lg (Get (''https://ipfs.io/ipfs/'' @ cid)) = Inr r" "status_code r = 200"
      "body_bytes r = Inr (packAesPayload (iv p) (authTag p) (ciphertext p))"
    and msg: "find (\<lambda>m. ce_id m = aid \<and> \<not> ce_user m) (ch_messages c) = Some m" "decryptable m"
      "ce_keyHigh m = Some hi" "ce_keyLow m = Some lo" "ce_outputCID m = Some cid"
  shows "\<exists>new. decryptMessage w web penv fits (Some (real_client w)) True aid (lg, c)
      = (Inr (), (lg @ new, manual_finish fits aid (Inr t) c))"
proof -
  from browser_codec.split_combine [OF crypto(4)] cofhe(2) have join: "combineKeyHalves_browser vh vl = key" by auto
  obtain new where key: "decryptOutputKey w (real_client w) hi lo (lg, c) = (Inr key, (lg @ new, c))"
    using decryptOutputKey_real [OF cofhe(1,3,4,5,6), of lg c] join by auto
  have shown: "downloadAndDecryptTextOutput (on_fetch w) web penv cid key (lg @ new, c)
      = (Inr t, (lg @ new @ [asked (''https://ipfs.io/ipfs/'' @ cid)], c))"
    using browser_shows_sealed_output [where net = "on_fetch w" and lg = "lg @ new" and cid = cid and x = c and penv = penv,
        OF crypto(1-6) net(1) crypto(7) net(2) [of "lg @ new"] net(3,4)] by simp
  have "decrypt_output w web penv (real_client w) hi lo cid (lg, c)
      = (Inr t, (lg @ new @ [asked (''https://ipfs.io/ipfs/'' @ cid)], c))"
    using key shown by (simp add: decrypt_output_def)
  then show ?thesis
    using msg by (auto simp: decryptMessage_def)
qed

definition serving_world :: "byte list \<Rightarrow> int \<Rightarrow> int \<Rightarrow> world" where
  "serving_world b vh vl = toy_cofhe\<lparr>on_fetch := (\<lambda>lg c. toy_net b lg c),
     on_cofhe_decrypt := (\<lambda>_ h. Inr (if h = 7 then vh else vl))\<rparr>"

end
