(* ===== verification/Escrow.thy ===== *)
theory Escrow
  imports Text_Key
begin

section \<open>Escrows and wrapping\<close>

text \<open>
  The Reineira escrows of the front end: the SDK instance of \<open>lib/reineiraSdk.ts\<close>, the hook
  \<open>hooks/useCreateEscrow.ts\<close>, the page \<open>pages/CreateEscrowPage.tsx\<close> and the wrapping of USDC in
  \<open>hooks/useWrapUSDC.ts\<close>. The module variable \<open>cachedSdk\<close> is the wallet whose signer the instance
  has. \<open>sdk.usdc\<close> is the parameter \<open>usdc\<close>. A wallet client is its optional account.
\<close>

subsection \<open>The SDK instance\<close>

type_synonym wallet = "string option"

definition signer_of :: "wallet \<Rightarrow> string" where
  "signer_of walletClient = nullish walletClient []"

definition getReineiraSdk :: "world \<Rightarrow> wallet \<Rightarrow> (ext, string option, string) io" where
  "getReineiraSdk w walletClient =
     bindE (getting id) (\<lambda>cachedSdk.
     case cachedSdk of
       Some sdk \<Rightarrow> ret sdk
     | None \<Rightarrow>
         let signer = signer_of walletClient in
         thenE (sdk_init w signer) (thenE (update (\<lambda>_. Some signer)) (ret signer)))"

definition clearReineiraSdkCache :: "string option \<Rightarrow> string option" where
  "clearReineiraSdkCache cachedSdk = None"

subsection \<open>\<open>useCreateEscrow\<close>\<close>

definition PAYOUT_CLAIMER_ADDRESS :: "(string \<Rightarrow> string option) \<Rightarrow> string" where
  "PAYOUT_CLAIMER_ADDRESS penv = js_or (penv ''VITE_PAYOUT_CLAIMER_ADDRESS'') ''0xEfB565c7989dd1dEDD0C5B8c95dA24Ef2d94FBbd''"

definition INFERENCE_GATE_ADDRESS :: "(string \<Rightarrow> string option) \<Rightarrow> string" where
  "INFERENCE_GATE_ADDRESS penv = js_or (penv ''VITE_INFERENCE_GATE_ADDRESS'') ''0x6a3fA63542d0b69937949372c11348A9EE3f6459''"

datatype usdc_amount = Units int | Usdc rat

definition not_positive :: "usdc_amount \<Rightarrow> bool" where
  "not_positive a = (case a of Units n \<Rightarrow> n \<le> 0 | Usdc q \<Rightarrow> q \<le> 0)"

definition amount_units :: "(rat \<Rightarrow> js_err + int) \<Rightarrow> usdc_amount \<Rightarrow> js_err + int" where
  "amount_units usdc a = (case a of Units n \<Rightarrow> Inr n | Usdc q \<Rightarrow> usdc q)"

definition bytes32_shape :: "string \<Rightarrow> bool" where
  "bytes32_shape jobId = (jobId \<noteq> [] \<and> starts_with jobId ''0x'' \<and> length jobId = 66)"

record escrow_result =
  er_escrowId :: int
  er_createTxHash :: string
  er_fundTxHash :: string

record escrow_hook =
  eh_cachedSdk :: "string option"
  eh_loading :: bool
  eh_error :: "string option"
  eh_result :: "escrow_result option"

text \<open>What the hook reads from its surroundings: the connected address, the two clients and whether
  CoFHE is there\<close>

record connection =
  cn_address :: "string option"
  cn_wallet :: "wallet option"
  cn_public :: bool
  cn_cofhe :: bool

definition connected :: "connection \<Rightarrow> bool" where
  "connected cn = (truthy (cn_address cn) \<and> cn_wallet cn \<noteq> None \<and> cn_public cn)"

definition cached_sdk :: "world \<Rightarrow> wallet \<Rightarrow> (ext, escrow_hook, string) io" where
  "cached_sdk w walletClient =
     zoom eh_cachedSdk (\<lambda>v h. h\<lparr>eh_cachedSdk := v\<rparr>) (getReineiraSdk w walletClient)"

definition job_escrow :: "(string \<Rightarrow> string option) \<Rightarrow> string \<Rightarrow> int \<Rightarrow> string \<Rightarrow> escrow_spec" where
  "job_escrow penv sdk amount jobId =
     \<lparr>es_wallet = sdk, es_amount = amount, es_owner = PAYOUT_CLAIMER_ADDRESS penv,
      es_condition = Some (INFERENCE_GATE_ADDRESS penv, jobId)\<rparr>"

definition createEscrow ::
  "world \<Rightarrow> (string \<Rightarrow> string option) \<Rightarrow> (rat \<Rightarrow> js_err + int) \<Rightarrow> connection \<Rightarrow> usdc_amount \<Rightarrow> string
   \<Rightarrow> (ext, escrow_hook, escrow_result option) io" where
  "createEscrow w penv usdc cn usdcAmount jobId =
     (let refuse = (\<lambda>msg. thenE (update (\<lambda>h. h\<lparr>eh_error := Some msg\<rparr>)) (ret None)) in
      if \<not> connected cn then refuse ''Connect your wallet first''
      else if \<not> cn_cofhe cn then refuse ''CoFHE client not ready. Please wait a moment and try again.''
      else if not_positive usdcAmount then refuse ''Amount must be greater than 0''
      else if \<not> bytes32_shape jobId then refuse ''Job ID must be a valid bytes32 hex string (0x + 64 chars)''
      else
        thenE (update (\<lambda>h. h\<lparr>eh_loading := True, eh_error := None, eh_result := None\<rparr>))
        (finally_do (\<lambda>h. h\<lparr>eh_loading := False\<rparr>)
          (catchE
            (bindE (cached_sdk w (the (cn_wallet cn))) (\<lambda>sdk.
             bindE (lift (amount_units usdc usdcAmount)) (\<lambda>amount.
             bindE (escrow_create w (job_escrow penv sdk amount jobId)) (\<lambda>(escrow, createTx).
             bindE (escrow_fund w sdk escrow amount) (\<lambda>fundTx.
             let res = \<lparr>er_escrowId = escrow, er_createTxHash = nullish createTx [], er_fundTxHash = fundTx\<rparr> in
             thenE (update (\<lambda>h. h\<lparr>eh_result := Some res\<rparr>)) (ret (Some res)))))))
            (\<lambda>err. refuse (any_message_or err ''Escrow creation failed'')))))"

subsection \<open>\<open>CreateEscrowPage\<close>\<close>

record escrow_page =
  ep_cachedSdk :: "string option"
  ep_amount :: string
  ep_jobId :: string
  ep_loading :: bool
  ep_error :: "string option"
  ep_success :: "string option"
  ep_escrowId :: "string option"
  ep_createTxHash :: "string option"
  ep_fundTxHash :: "string option"

text \<open>\<open>Number(s)\<close> is the parameter \<open>to_number\<close> (\<open>None\<close> for NaN)\<close>

definition handleCreate ::
  "world \<Rightarrow> (string \<Rightarrow> string option) \<Rightarrow> (rat \<Rightarrow> js_err + int) \<Rightarrow> (string \<Rightarrow> rat option) \<Rightarrow> connection
   \<Rightarrow> (ext, escrow_page, unit) io" where
  "handleCreate w penv usdc to_number cn =
     bindE (getting (\<lambda>p. (ep_amount p, ep_jobId p))) (\<lambda>(amount, jobId).
     let refuse = (\<lambda>msg. update (\<lambda>p. p\<lparr>ep_error := Some msg\<rparr>)) in
     if \<not> connected cn then refuse ''Connect your wallet first''
     else if \<not> cn_cofhe cn then refuse ''CoFHE client not ready. Please wait a moment and try again.''
     else case to_number amount of
         None \<Rightarrow> refuse ''Amount must be greater than 0''
       | Some usdcAmount \<Rightarrow>
         if usdcAmount \<le> 0 then refuse ''Amount must be greater than 0''
         else
           let trimmedJobId = trim jobId in
           if \<not> bytes32_shape trimmedJobId then
             refuse ''Job ID must be a valid bytes32 hex string (0x + 64 characters)''
           else
             thenE (update (\<lambda>p. p\<lparr>ep_loading := True, ep_error := None, ep_success := None, ep_escrowId := None,
                                 ep_createTxHash := None, ep_fundTxHash := None\<rparr>))
             (finally_do (\<lambda>p. p\<lparr>ep_loading := False\<rparr>)
               (catchE
                 (bindE (zoom ep_cachedSdk (\<lambda>v p. p\<lparr>ep_cachedSdk := v\<rparr>)
                           (getReineiraSdk w (the (cn_wallet cn)))) (\<lambda>sdk.
                  bindE (lift (usdc usdcAmount)) (\<lambda>sdkAmount.
                  bindE (escrow_create w (job_escrow penv sdk sdkAmount trimmedJobId)) (\<lambda>(escrow, createTx).
                  thenE (update (\<lambda>p. p\<lparr>ep_escrowId := Some (int_str escrow), ep_createTxHash := createTx\<rparr>))
                  (bindE (escrow_fund w sdk escrow sdkAmount) (\<lambda>fundTx.
                   update (\<lambda>p. p\<lparr>ep_fundTxHash := Some fundTx,
                     ep_success := Some (''Escrow #'' @ int_str escrow @ '' created and funded successfully!'')\<rparr>)))))))
                 (\<lambda>err. refuse (any_message_or err ''Escrow creation failed'')))))"

subsection \<open>\<open>useWrapUSDC\<close>\<close>

datatype step_status = W_pending | W_in_progress | W_done | W_error

record wrap_step =
  ws_label :: string
  ws_status :: step_status
  ws_txHash :: "string option"

definition initial_steps :: "wrap_step list" where
  "initial_steps =
     [\<lparr>ws_label = ''Create unconditional escrow'', ws_status = W_pending, ws_txHash = None\<rparr>,
      \<lparr>ws_label = ''Approve & fund escrow'', ws_status = W_pending, ws_txHash = None\<rparr>,
      \<lparr>ws_label = ''Redeem escrow (receive cUSDC)'', ws_status = W_pending, ws_txHash = None\<rparr>]"

record wrap_hook =
  wh_cachedSdk :: "string option"
  wh_loading :: bool
  wh_error :: "string option"
  wh_success :: "string option"
  wh_steps :: "wrap_step list"
  wh_balances :: "(string \<times> string \<times> string) option"
  wh_balanceLoading :: bool

definition updateStep :: "nat \<Rightarrow> step_status \<Rightarrow> string option \<Rightarrow> wrap_hook \<Rightarrow> wrap_hook" where
  "updateStep index st txHash h =
     h\<lparr>wh_steps := (wh_steps h)[index := (wh_steps h ! index)\<lparr>ws_status := st, ws_txHash := txHash\<rparr>]\<rparr>"

definition resetSteps :: "wrap_hook \<Rightarrow> wrap_hook" where
  "resetSteps h = h\<lparr>wh_steps := initial_steps\<rparr>"

fun fail_current :: "wrap_step list \<Rightarrow> wrap_step list" where
  "fail_current [] = []"
| "fail_current (s # ss) = (if ws_status s = W_in_progress then s\<lparr>ws_status := W_error\<rparr> # ss else s # fail_current ss)"

definition USDC_ADDRESS :: string where
  "USDC_ADDRESS = ''0x75faf114eafb1BDbe2F0316DF893fd58CE46AA4d''"

definition wrap_sdk :: "world \<Rightarrow> wallet \<Rightarrow> (ext, wrap_hook, string) io" where
  "wrap_sdk w walletClient = zoom wh_cachedSdk (\<lambda>v h. h\<lparr>wh_cachedSdk := v\<rparr>) (getReineiraSdk w walletClient)"

text \<open>A balance read whose failure is only logged\<close>

definition logged_balance :: "world \<Rightarrow> string option \<Rightarrow> string \<Rightarrow> (ext, 'x, unit) io" where
  "logged_balance w cusdcAddr address =
     (if truthy cusdcAddr
      then catchE (thenE (read_contract w (the cusdcAddr) ''balanceOf'' [AStr address]) (ret ())) (\<lambda>e. ret ())
      else ret ())"

definition logged_receipt :: "world \<Rightarrow> string \<Rightarrow> (ext, 'x, unit) io" where
  "logged_receipt w fundTx =
     (if fundTx \<noteq> [] then catchE (thenE (wait_receipt w fundTx) (ret ())) (\<lambda>e. ret ()) else ret ())"

definition wrap_escrow :: "world \<Rightarrow> string option \<Rightarrow> string \<Rightarrow> string \<Rightarrow> int \<Rightarrow> rat \<Rightarrow> (ext, wrap_hook, unit) io" where
  "wrap_escrow w cusdcAddr sdk address amount usdcAmount =
     thenE (read_contract w USDC_ADDRESS ''balanceOf'' [AStr address])
     (thenE (logged_balance w cusdcAddr address)
     (thenE (update (updateStep 0 W_in_progress None))
     (bindE (escrow_create w \<lparr>es_wallet = sdk, es_amount = amount, es_owner = address, es_condition = None\<rparr>)
       (\<lambda>(escrow, createTx).
      thenE (update (updateStep 0 W_done createTx))
     (thenE (update (updateStep 1 W_in_progress None))
     (bindE (escrow_fund w sdk escrow amount) (\<lambda>fundTx.
      thenE (update (updateStep 1 W_done (Some fundTx)))
     (thenE (read_contract w USDC_ADDRESS ''balanceOf'' [AStr address])
     (thenE (logged_receipt w fundTx)
     (thenE (update (updateStep 2 W_in_progress None))
     (bindE (escrow_redeem w sdk escrow) (\<lambda>redeemTx.
      thenE (update (updateStep 2 W_done redeemTx))
     (thenE (logged_balance w cusdcAddr address)
      (update (\<lambda>h. h\<lparr>wh_success := Some (number_str usdcAmount @ '' USDC wrapped to cUSDC successfully!'')\<rparr>)))))))))))))))"

definition wrap ::
  "world \<Rightarrow> (rat \<Rightarrow> js_err + int) \<Rightarrow> string option \<Rightarrow> connection \<Rightarrow> rat \<Rightarrow> (ext, wrap_hook, unit) io" where
  "wrap w usdc cusdcAddr cn usdcAmount =
     (let refuse = (\<lambda>msg. update (\<lambda>h. h\<lparr>wh_error := Some msg\<rparr>)) in
      if \<not> connected cn then refuse ''Connect your wallet first''
      else if \<not> cn_cofhe cn then refuse ''CoFHE client not ready. Please wait a moment and try again.''
      else if usdcAmount \<le> 0 then refuse ''Amount must be greater than 0''
      else
        thenE (update (\<lambda>h. resetSteps (h\<lparr>wh_loading := True, wh_error := None, wh_success := None\<rparr>)))
        (finally_do (\<lambda>h. h\<lparr>wh_loading := False\<rparr>)
          (catchE
            (bindE (wrap_sdk w (the (cn_wallet cn))) (\<lambda>sdk.
             bindE (lift (usdc usdcAmount)) (\<lambda>amount.
             wrap_escrow w cusdcAddr sdk (the (cn_address cn)) amount usdcAmount)))
            (\<lambda>err. update (\<lambda>h. h\<lparr>wh_error := Some (any_message_or err ''Wrap failed''),
                                wh_steps := fail_current (wh_steps h)\<rparr>)))))"

text \<open>\<open>(Number(raw) / 1e6).toFixed(2)\<close> is the parameter \<open>units_fixed raw decimals digits\<close>\<close>

definition checkBalances ::
  "world \<Rightarrow> (string \<Rightarrow> nat \<Rightarrow> nat \<Rightarrow> string) \<Rightarrow> connection \<Rightarrow> (ext, wrap_hook, unit) io" where
  "checkBalances w units_fixed cn =
     (let refuse = (\<lambda>msg. update (\<lambda>h. h\<lparr>wh_error := Some msg\<rparr>)) in
      if \<not> connected cn then refuse ''Connect your wallet first''
      else if \<not> cn_cofhe cn then refuse ''CoFHE client not ready. Please wait a moment and try again.''
      else
        thenE (update (\<lambda>h. h\<lparr>wh_balanceLoading := True, wh_error := None\<rparr>))
        (finally_do (\<lambda>h. h\<lparr>wh_balanceLoading := False\<rparr>)
          (catchE
            (bindE (wrap_sdk w (the (cn_wallet cn))) (\<lambda>sdk.
             bindE (sdk_balances w sdk (the (cn_address cn))) (\<lambda>(usdcBal, cusdcBal, ethBal).
             let usdcRaw = nullish usdcBal ''0''; cusdcRaw = nullish cusdcBal ''0''; ethRaw = nullish ethBal ''0'' in
             update (\<lambda>h. h\<lparr>wh_balances := Some
               (units_fixed usdcRaw 6 2,
                if cusdcRaw = ''0'' then ''None''
                else ''Encrypted (handle: '' @ js_slice 0 12 cusdcRaw @ [CHR 0xE2, CHR 0x80, CHR 0xA6] @ '')'',
                units_fixed ethRaw 18 4)\<rparr>))))
            (\<lambda>err. refuse (any_message_or err ''Balance check failed'')))))"

subsection \<open>What a created escrow is\<close>

definition sdk_for :: "string option \<Rightarrow> wallet \<Rightarrow> string" where
  "sdk_for cached walletClient = (case cached of Some sdk \<Rightarrow> sdk | None \<Rightarrow> signer_of walletClient)"

definition init_calls :: "string option \<Rightarrow> wallet \<Rightarrow> ext list" where
  "init_calls cached walletClient = (case cached of Some _ \<Rightarrow> [] | None \<Rightarrow> [SdkInit (signer_of walletClient)])"

lemma getReineiraSdk_apply:
  "getReineiraSdk w wal (lg, x) =
    (case x of
       Some sdk \<Rightarrow> (Inr sdk, (lg, x))
     | None \<Rightarrow> (case on_sdk_init w lg (signer_of wal) of
           Inl e \<Rightarrow> (Inl e, (lg @ [SdkInit (signer_of wal)], x))
         | Inr _ \<Rightarrow> (Inr (signer_of wal), (lg @ [SdkInit (signer_of wal)], Some (signer_of wal)))))"
  by (auto simp: getReineiraSdk_def sdk_init_def thenE_call thenE_def bindE_def Let_def split: option.splits sum.splits)

lemma sdk_result:
  assumes "getReineiraSdk w wal (lg, x) = (Inr sdk, (lg', x'))"
  shows "sdk = sdk_for x wal \<and> lg' = lg @ init_calls x wal \<and> x' = Some sdk"
  using assms by (auto simp: getReineiraSdk_apply sdk_for_def init_calls_def split: option.splits sum.splits)

lemma sdk_fails:
  assumes "getReineiraSdk w wal (lg, x) = (Inl e, (lg', x'))"
  shows "lg' = lg @ [SdkInit (signer_of wal)] \<and> x' = x \<and> x = None"
  using assms by (auto simp: getReineiraSdk_apply split: option.splits sum.splits)

lemma cached_sdk_apply:
  "cached_sdk w wal (lg, h) =
    (case getReineiraSdk w wal (lg, eh_cachedSdk h) of (r, (lg', x')) \<Rightarrow> (r, (lg', h\<lparr>eh_cachedSdk := x'\<rparr>)))"
  by (simp add: cached_sdk_def zoom_def split: prod.splits)

definition escrow_made ::
  "world \<Rightarrow> (string \<Rightarrow> string option) \<Rightarrow> string \<Rightarrow> int \<Rightarrow> string \<Rightarrow> ext list \<Rightarrow> escrow_result \<Rightarrow> ext list \<Rightarrow> bool" where
  "escrow_made w penv sdk amount jobId pre r lg' =
     (let spec = job_escrow penv sdk amount jobId in
      (\<exists>createTx. on_escrow_create w pre spec = Inr (er_escrowId r, createTx) \<and> er_createTxHash r = nullish createTx [])
      \<and> on_escrow_fund w (pre @ [EscrowCreate spec]) (er_escrowId r) amount = Inr (er_fundTxHash r)
      \<and> lg' = pre @ [EscrowCreate spec, EscrowFund sdk (er_escrowId r) amount])"

text \<open>The part inside \<open>try\<close>\<close>

definition create_body ::
  "world \<Rightarrow> (string \<Rightarrow> string option) \<Rightarrow> (rat \<Rightarrow> js_err + int) \<Rightarrow> wallet \<Rightarrow> usdc_amount \<Rightarrow> string
   \<Rightarrow> (ext, escrow_hook, escrow_result option) io" where
  "create_body w penv usdc wal usdcAmount jobId =
     bindE (cached_sdk w wal) (\<lambda>sdk.
     bindE (lift (amount_units usdc usdcAmount)) (\<lambda>amount.
     bindE (escrow_create w (job_escrow penv sdk amount jobId)) (\<lambda>(escrow, createTx).
     bindE (escrow_fund w sdk escrow amount) (\<lambda>fundTx.
     let res = \<lparr>er_escrowId = escrow, er_createTxHash = nullish createTx [], er_fundTxHash = fundTx\<rparr> in
     thenE (update (\<lambda>h. h\<lparr>eh_result := Some res\<rparr>)) (ret (Some res))))))"

lemma create_body_Inr:
  assumes "create_body w penv usdc wal usdcAmount jobId (lg, h) = (Inr out, (lg', h'))"
  shows "\<exists>r amount sdk. out = Some r \<and> sdk = sdk_for (eh_cachedSdk h) wal \<and> amount_units usdc usdcAmount = Inr amount
    \<and> escrow_made w penv sdk amount jobId (lg @ init_calls (eh_cachedSdk h) wal) r lg'
    \<and> h' = h\<lparr>eh_cachedSdk := Some sdk, eh_result := Some r\<rparr>"
proof -
  from assms obtain sdk lg1 x1 where sdk: "getReineiraSdk w wal (lg, eh_cachedSdk h) = (Inr sdk, (lg1, x1))"
    by (auto simp: create_body_def cached_sdk_apply bindE_def split: prod.splits sum.splits)
  note s = sdk_result [OF sdk]
  from assms sdk obtain amount where amount: "amount_units usdc usdcAmount = Inr amount"
    by (auto simp: create_body_def cached_sdk_apply bindE_def split: sum.splits)
  from assms sdk amount s show ?thesis
    by (auto simp: create_body_def cached_sdk_apply escrow_create_def escrow_fund_def run_Inr escrow_made_def Let_def
        bindE_call bindE_def split: sum.splits prod.splits)
qed

lemma create_body_Inl:
  assumes "create_body w penv usdc wal usdcAmount jobId (lg, h) = (Inl e, (lg', h'))"
  shows "\<exists>x. h' = h\<lparr>eh_cachedSdk := x\<rparr>"
proof (cases "getReineiraSdk w wal (lg, eh_cachedSdk h)")
  case (fields r lg1 x1)
  with assms show ?thesis
    by (auto simp: create_body_def cached_sdk_apply escrow_create_def escrow_fund_def Let_def
        bindE_def split: sum.splits prod.splits)
qed

lemma createEscrow_apply:
  "createEscrow w penv usdc cn usdcAmount jobId =
     (let refuse = (\<lambda>msg. thenE (update (\<lambda>h. h\<lparr>eh_error := Some msg\<rparr>)) (ret None)) in
      if \<not> connected cn then refuse ''Connect your wallet first''
      else if \<not> cn_cofhe cn then refuse ''CoFHE client not ready. Please wait a moment and try again.''
      else if not_positive usdcAmount then refuse ''Amount must be greater than 0''
      else if \<not> bytes32_shape jobId then refuse ''Job ID must be a valid bytes32 hex string (0x + 64 chars)''
      else
        thenE (update (\<lambda>h. h\<lparr>eh_loading := True, eh_error := None, eh_result := None\<rparr>))
        (finally_do (\<lambda>h. h\<lparr>eh_loading := False\<rparr>)
          (catchE (create_body w penv usdc (the (cn_wallet cn)) usdcAmount jobId)
            (\<lambda>err. refuse (any_message_or err ''Escrow creation failed'')))))"
  by (simp add: createEscrow_def create_body_def Let_def)

lemma create_escrow_outcome_lemma:
  shows "case createEscrow w penv usdc cn usdcAmount jobId (lg, h) of
      (Inl e, s) \<Rightarrow> False
    | (Inr None, (lg', h')) \<Rightarrow> truthy (eh_error h')
    | (Inr (Some r), (lg', h')) \<Rightarrow>
        connected cn \<and> cn_cofhe cn \<and> \<not> not_positive usdcAmount \<and> bytes32_shape jobId
        \<and> (\<exists>amount sdk. sdk = sdk_for (eh_cachedSdk h) (the (cn_wallet cn))
            \<and> amount_units usdc usdcAmount = Inr amount
            \<and> escrow_made w penv sdk amount jobId (lg @ init_calls (eh_cachedSdk h) (the (cn_wallet cn))) r lg'
            \<and> h' = h\<lparr>eh_cachedSdk := Some sdk, eh_loading := False, eh_error := None, eh_result := Some r\<rparr>)"
proof -
  let ?h = "h\<lparr>eh_loading := True, eh_error := None, eh_result := None\<rparr>"
  show ?thesis
  proof (cases "create_body w penv usdc (the (cn_wallet cn)) usdcAmount jobId (lg, ?h)")
    case (fields r lg1 h1)
    show ?thesis
    proof (cases r)
      case (Inl e)
      with fields have body: "create_body w penv usdc (the (cn_wallet cn)) usdcAmount jobId (lg, ?h) = (Inl e, (lg1, h1))"
        by simp
      then show ?thesis
        using any_message_nonempty [of "''Escrow creation failed''" e]
        by (auto simp: createEscrow_apply Let_def finally_do_def finallyE_def catchE_def truthy_def split: list.splits)
    next
      case (Inr out)
      with fields have body: "create_body w penv usdc (the (cn_wallet cn)) usdcAmount jobId (lg, ?h) = (Inr out, (lg1, h1))"
        by simp
      from create_body_Inr [OF body] body show ?thesis
        by (auto simp: createEscrow_apply Let_def finally_do_def finallyE_def catchE_def truthy_def)
    qed
  qed
qed

text \<open>What \<open>createEscrow\<close> promises. It never throws. A result means a connected wallet, a positive
  amount and a bytes32 job id; one escrow created for exactly that amount, owned by the payout claimer
  and released by the inference gate for that job, and then funded with the same amount, by the wallet
  of the SDK instance: the first wallet that ever used it, if there was one. No result means an error
  is shown.\<close>

lemma create_escrow_outcome:
  shows "case createEscrow w penv usdc cn usdcAmount jobId (lg, h) of
      (Inl e, s) \<Rightarrow> False
    | (Inr None, (lg', h')) \<Rightarrow> truthy (eh_error h')
    | (Inr (Some r), (lg', h')) \<Rightarrow>
        connected cn \<and> cn_cofhe cn \<and> \<not> not_positive usdcAmount \<and> bytes32_shape jobId
        \<and> (\<exists>amount sdk. sdk = sdk_for (eh_cachedSdk h) (the (cn_wallet cn))
            \<and> amount_units usdc usdcAmount = Inr amount
            \<and> escrow_made w penv sdk amount jobId (lg @ init_calls (eh_cachedSdk h) (the (cn_wallet cn))) r lg'
            \<and> h' = h\<lparr>eh_cachedSdk := Some sdk, eh_loading := False, eh_error := None, eh_result := Some r\<rparr>)"
  by (rule create_escrow_outcome_lemma)

text \<open>The SDK keeps its first wallet. After an escrow was made with one wallet, an escrow made by
  another, connected wallet is created and funded by the first: the instance is cached for the life
  of the module, and nothing calls \<open>clearReineiraSdkCache\<close>.\<close>

lemma escrow_keeps_first_wallet:
  assumes "createEscrow w penv usdc cn a jobId (lg, h) = (Inr (Some r), (lg1, h1))" "eh_cachedSdk h = None"
    and "cn_wallet cn = Some (Some first)"
    and "createEscrow w penv usdc cn2 a2 jobId2 (lg1 @ later, h1) = (Inr (Some r2), (lg2, h2))"
  shows "\<exists>n. lg2 = lg1 @ later @ [EscrowCreate (job_escrow penv first n jobId2), EscrowFund first (er_escrowId r2) n]"
proof -
  have h1: "eh_cachedSdk h1 = Some first"
    using create_escrow_outcome_lemma [where w = w and penv = penv and usdc = usdc and cn = cn and usdcAmount = a and jobId = jobId and lg = lg and h = h] assms(1-3)
    by (auto simp: sdk_for_def signer_of_def nullish_def)
  then show ?thesis
    using create_escrow_outcome_lemma [where w = w and penv = penv and usdc = usdc and cn = cn2 and usdcAmount = a2
        and jobId = jobId2 and lg = "lg1 @ later" and h = h1] assms(4)
    by (auto simp: sdk_for_def escrow_made_def init_calls_def Let_def)
qed

definition escrow_world :: world where
  "escrow_world = offline\<lparr>on_sdk_init := (\<lambda>_ _. Inr ()), on_escrow_create := (\<lambda>_ _. Inr (9, Some ''0xc'')),
     on_escrow_fund := (\<lambda>_ _ _. Inr ''0xf''), on_escrow_redeem := (\<lambda>_ _. Inr (Some ''0xr''))\<rparr>"

definition wallet_connection :: "string \<Rightarrow> connection" where
  "wallet_connection a = \<lparr>cn_address = Some a, cn_wallet = Some (Some a), cn_public = True, cn_cofhe = True\<rparr>"

definition idle_hook :: escrow_hook where
  "idle_hook = \<lparr>eh_cachedSdk = None, eh_loading = False, eh_error = None, eh_result = None\<rparr>"

definition demo_jobId :: string where
  "demo_jobId = ''0x'' @ replicate 64 (CHR ''a'')"

lemma demo_jobId_shape: "bytes32_shape demo_jobId"
  by (simp add: bytes32_shape_def demo_jobId_def starts_with_def)

lemma escrow_world_runs:
  assumes "a \<noteq> []" "0 < n"
  shows "\<exists>r lg' h'. createEscrow escrow_world penv usdc (wallet_connection a) (Units n) demo_jobId (lg, h)
    = (Inr (Some r), (lg', h'))"
  using assms demo_jobId_shape
  by (auto simp: createEscrow_apply wallet_connection_def connected_def truthy_def not_positive_def Let_def
      finally_do_def finallyE_def catchE_def create_body_def cached_sdk_apply getReineiraSdk_apply escrow_world_def
      amount_units_def escrow_create_def escrow_fund_def bindE_def split: option.splits list.splits)

subsection \<open>What the wrapping shows\<close>

lemma logged_balance_apply:
  "logged_balance w c a (lg, x) =
     (Inr (), (lg @ (if truthy c then [ReadContract (the c) ''balanceOf'' [AStr a]] else []), x))"
  by (auto simp: logged_balance_def read_contract_def Let_def thenE_call catchE_def split: sum.splits)

lemma logged_receipt_apply:
  "logged_receipt w h (lg, x) = (Inr (), (lg @ (if h \<noteq> [] then [WaitReceipt h] else []), x))"
  by (auto simp: logged_receipt_def wait_receipt_def thenE_call catchE_def split: sum.splits)

lemma then_logged:
  "thenE (logged_balance w c a) k (lg, x) =
     k (lg @ (if truthy c then [ReadContract (the c) ''balanceOf'' [AStr a]] else []), x)"
  "thenE (logged_receipt w h) k (lg, x) = k (lg @ (if h \<noteq> [] then [WaitReceipt h] else []), x)"
  by (simp_all add: thenE_def bindE_def logged_balance_apply logged_receipt_apply)

definition step_states :: "wrap_hook \<Rightarrow> step_status list" where
  "step_states h = map ws_status (wh_steps h)"

lemma updateStep_simps [simp]:
  "length (wh_steps (updateStep i st tx h)) = length (wh_steps h)"
  "wh_success (updateStep i st tx h) = wh_success h" "wh_error (updateStep i st tx h) = wh_error h"
  "wh_loading (updateStep i st tx h) = wh_loading h"
  by (simp_all add: updateStep_def)

lemma updateStep_states: "i < length (wh_steps h) \<Longrightarrow> step_states (updateStep i st tx h) = (step_states h)[i := st]"
  by (simp add: step_states_def updateStep_def map_update)

lemma initial_states: "step_states (resetSteps h) = [W_pending, W_pending, W_pending]" "length (wh_steps (resetSteps h)) = 3"
  by (simp_all add: step_states_def resetSteps_def initial_steps_def)

definition redeemed :: "ext list \<Rightarrow> bool" where
  "redeemed lg = list_ex (\<lambda>c. case c of EscrowRedeem _ _ \<Rightarrow> True | _ \<Rightarrow> False) lg"

text \<open>Where a wrap may stop: before each call, with the steps as they are then\<close>

lemma wp_logged [wp_simps]:
  "wp (logged_balance w c a) Q E = (\<lambda>lg x. Q () (lg @ (if truthy c then [ReadContract (the c) ''balanceOf'' [AStr a]] else [])) x)"
  "wp (logged_receipt w h) Q E = (\<lambda>lg x. Q () (lg @ (if h \<noteq> [] then [WaitReceipt h] else [])) x)"
  by (simp_all add: fun_eq_iff wp_def logged_balance_apply logged_receipt_apply)

definition stopped :: "wrap_hook \<Rightarrow> bool" where
  "stopped h = (wh_success h = None \<and> step_states h \<in>
     {[W_pending, W_pending, W_pending], [W_in_progress, W_pending, W_pending], [W_done, W_in_progress, W_pending],
      [W_done, W_done, W_pending], [W_done, W_done, W_in_progress]})"

lemma step_states_success [simp]: "step_states (h\<lparr>wh_success := m\<rparr>) = step_states h"
  by (simp add: step_states_def)

lemma wrap_escrow_outcome:
  assumes "length (wh_steps h) = 3" "step_states h = [W_pending, W_pending, W_pending]" "wh_success h = None"
  shows "wp (wrap_escrow w c sdk a amount q)
    (\<lambda>_ lg' h'. step_states h' = [W_done, W_done, W_done] \<and> wh_success h' \<noteq> None \<and> wh_error h' = wh_error h)
    (\<lambda>e lg' h'. stopped h') lg h"
  using assms
  by (simp add: wrap_escrow_def read_contract_def escrow_create_def escrow_fund_def escrow_redeem_def Let_def
      wp_simps updateStep_states stopped_def split: sum.splits prod.splits split del: if_split)

fun fail_states :: "step_status list \<Rightarrow> step_status list" where
  "fail_states [] = []"
| "fail_states (s # ss) = (if s = W_in_progress then W_error # ss else s # fail_states ss)"

lemma fail_current_states: "map ws_status (fail_current ss) = fail_states (map ws_status ss)"
  by (induction ss rule: fail_current.induct) auto

definition wrap_shown :: "wrap_hook \<Rightarrow> bool" where
  "wrap_shown h = (\<not> wh_loading h \<and>
     (if wh_error h = None then wh_success h \<noteq> None \<and> step_states h = [W_done, W_done, W_done]
      else truthy (wh_error h) \<and> wh_success h = None \<and> step_states h \<in>
        {[W_pending, W_pending, W_pending], [W_error, W_pending, W_pending], [W_done, W_error, W_pending],
         [W_done, W_done, W_pending], [W_done, W_done, W_error]}))"

lemma wrap_failed_shown:
  assumes "stopped h"
  shows "wrap_shown (h\<lparr>wh_error := Some (any_message_or e ''Wrap failed''), wh_steps := fail_current (wh_steps h),
                       wh_loading := False\<rparr>)"
  using assms any_message_nonempty [of "''Wrap failed''" e]
  by (auto simp: wrap_shown_def stopped_def step_states_def fail_current_states truthy_def split: list.splits)

lemma wp_sdk [wp_simps]:
  "wp (getReineiraSdk w wal) Q E = (\<lambda>lg x. (case x of Some sdk \<Rightarrow> Q sdk lg x
      | None \<Rightarrow> (case on_sdk_init w lg (signer_of wal) of
          Inl e \<Rightarrow> E e (lg @ [SdkInit (signer_of wal)]) x
        | Inr _ \<Rightarrow> Q (signer_of wal) (lg @ [SdkInit (signer_of wal)]) (Some (signer_of wal)))))"
  by (simp add: fun_eq_iff wp_def getReineiraSdk_apply split: option.splits sum.splits)

lemma wp_wrap_sdk [wp_simps]:
  "wp (wrap_sdk w wal) Q E = (\<lambda>lg h. wp (getReineiraSdk w wal) (\<lambda>v lg x. Q v lg (h\<lparr>wh_cachedSdk := x\<rparr>)) (\<lambda>e lg x. E e lg (h\<lparr>wh_cachedSdk := x\<rparr>)) lg (wh_cachedSdk h))"
  by (simp add: wrap_sdk_def wp_simps)

lemma wrap_body:
  assumes "length (wh_steps h) = 3" "step_states h = [W_pending, W_pending, W_pending]" "wh_success h = None" "wh_error h = None"
  shows "wp (bindE (wrap_sdk w wal) (\<lambda>sdk. bindE (lift (usdc q)) (\<lambda>amount. wrap_escrow w c sdk a amount q)))
    (\<lambda>_ lg' h'. step_states h' = [W_done, W_done, W_done] \<and> wh_success h' \<noteq> None \<and> wh_error h' = None)
    (\<lambda>e lg' h'. stopped h') lg h"
proof -
  let ?Q = "\<lambda>_ lg' h'. step_states h' = [W_done, W_done, W_done] \<and> wh_success h' \<noteq> None \<and> wh_error h' = None"
  have stop: "stopped (h\<lparr>wh_cachedSdk := x\<rparr>)" for x using assms by (simp add: stopped_def step_states_def)
  have run: "wp (wrap_escrow w c sdk a amount q) ?Q (\<lambda>e lg' h'. stopped h') lg' (h\<lparr>wh_cachedSdk := x\<rparr>)" for sdk amount x lg'
    using assms wrap_escrow_outcome [of "h\<lparr>wh_cachedSdk := x\<rparr>" w c sdk a amount q lg'] by (simp add: step_states_def)
  show ?thesis
    by (simp add: wp_simps wp_lift stop run [simplified] split: option.splits sum.splits)
qed

text \<open>What the steps of a wrap tell. \<open>wrap\<close> never throws and ends not loading; it reports success
  exactly with all three steps done and no error; after a failure the finished steps are shown as
  done, at most one as failed and the later ones as pending. (Two failures mark no step: one before
  the first, and one between funding and redemption.)\<close>

lemma wrap_steps_tell:
  shows "case wrap w usdc cusdcAddr cn q (lg, h) of
      (Inl e, s) \<Rightarrow> False
    | (Inr u, (lg', h')) \<Rightarrow>
        if connected cn \<and> cn_cofhe cn \<and> 0 < q then wrap_shown h'
        else lg' = lg \<and> truthy (wh_error h') \<and> h' = h\<lparr>wh_error := wh_error h'\<rparr>"
proof -
  let ?h = "resetSteps (h\<lparr>wh_loading := True, wh_error := None, wh_success := None\<rparr>)"
  have start: "length (wh_steps ?h) = 3" "step_states ?h = [W_pending, W_pending, W_pending]" "wh_success ?h = None" "wh_error ?h = None"
    by (simp_all add: initial_states) (simp_all add: resetSteps_def)
  let ?body = "bindE (wrap_sdk w (the (cn_wallet cn))) (\<lambda>sdk. bindE (lift (usdc q)) (\<lambda>amount.
      wrap_escrow w cusdcAddr sdk (the (cn_address cn)) amount q))"
  have "wp ?body (\<lambda>v lg' h'. wrap_shown (h'\<lparr>wh_loading := False\<rparr>))
      (\<lambda>e lg' h'. wrap_shown (h'\<lparr>wh_error := Some (any_message_or e ''Wrap failed''), wh_steps := fail_current (wh_steps h'),
                                wh_loading := False\<rparr>)) lg ?h"
    by (rule wp_conseq [OF wrap_body [OF start]], (auto simp: wrap_shown_def step_states_def)[1], rule wrap_failed_shown)
  then have "wp (wrap w usdc cusdcAddr cn q) (\<lambda>u lg' h'. wrap_shown h') (\<lambda>e lg' h'. False) lg h"
    if "connected cn" "cn_cofhe cn" "0 < q"
    using that by (simp add: wrap_def Let_def wp_then wp_finally wp_catch wp_basic)
  then show ?thesis
    by (auto simp: wrap_def wp_def Let_def truthy_def split: prod.splits sum.splits)
qed

definition lagging_world :: world where
  "lagging_world = escrow_world\<lparr>on_read := (\<lambda>lg c. if list_ex (\<lambda>e. case e of EscrowFund _ _ _ \<Rightarrow> True | _ \<Rightarrow> False) lg
     then Inl unreachable else Inr [AInt 5000000])\<rparr>"

definition idle_wrap :: wrap_hook where
  "idle_wrap = \<lparr>wh_cachedSdk = None, wh_loading = False, wh_error = None, wh_success = None, wh_steps = initial_steps,
     wh_balances = None, wh_balanceLoading = False\<rparr>"

text \<open>A diagnostic read can strand the funds. \<open>wrap\<close> reads the USDC balance between funding and
  redemption only to log it, without a \<open>catch\<close>: when that read fails, the funded escrow is not
  redeemed, an error is shown, and no step is marked as failed.\<close>

lemma wrap_can_strand_funds:
  shows "\<exists>w lg' h'. wrap w (\<lambda>q. Inr 1000000) None (wallet_connection ''A'') 1 ([], idle_wrap) = (Inr (), (lg', h'))
    \<and> EscrowFund ''A'' 9 1000000 \<in> set lg' \<and> on_escrow_redeem w lg' 9 = Inr (Some ''0xr'') \<and> \<not> redeemed lg'
    \<and> wh_error h' = Some ''offline'' \<and> step_states h' = [W_done, W_done, W_pending]"
proof -
  have "wp (wrap lagging_world (\<lambda>q. Inr 1000000) None (wallet_connection ''A'') 1)
      (\<lambda>u lg' h'. EscrowFund ''A'' 9 1000000 \<in> set lg' \<and> \<not> redeemed lg'
         \<and> wh_error h' = Some ''offline'' \<and> step_states h' = [W_done, W_done, W_pending]) (\<lambda>e lg' h'. False) [] idle_wrap"
    by (simp add: wrap_def wallet_connection_def connected_def truthy_def Let_def wp_simps wp_lift wrap_escrow_def read_contract_def
        escrow_create_def escrow_fund_def lagging_world_def escrow_world_def unreachable_def offline_def idle_wrap_def
        signer_of_def redeemed_def any_message_or_def nullish_def)
      (simp add: step_states_def resetSteps_def initial_steps_def updateStep_def signer_of_def nullish_def)
  then show ?thesis
    by (intro exI [of _ lagging_world])
      (auto simp: wp_def lagging_world_def escrow_world_def split: prod.splits sum.splits)
qed

end
