(* ===== verification/Key_Gate.thy ===== *)
theory Key_Gate
  imports Frontend_Api Chain_Tx Text_Key
begin

section \<open>The key first, then the job\<close>

text \<open>
  What the chat page and the text wizard share: the quorum preview, whose nodes may decrypt the prompt
  key, the \<open>storeKey\<close> transaction, and only then what posts the job. \<open>key_gate\<close> is the interface: any
  continuation that posts at most one job, in its last call, is safe behind the store.
\<close>

subsection \<open>The quorum preview\<close>

definition preview_params :: "string \<Rightarrow> json" where
  "preview_params modelId = JObj [(''model_id'', JStr modelId), (''min_tier'', JNum 0), (''verifier_count'', JNum 2),
     (''zdr_required'', JBool False)]"

text \<open>An entry of the answer where an address is expected; viem refuses what is none\<close>

definition node_str :: "json option \<Rightarrow> string" where
  "node_str v = (case v of None \<Rightarrow> ''undefined'' | Some j \<Rightarrow> json_display j)"

text \<open>\<open>[data.leader, ...data.verifiers.map(...)]\<close>\<close>

definition preview_nodes :: "json \<Rightarrow> js_err + string list" where
  "preview_nodes data = (case json_prop ''leader'' data of
      Inl e \<Rightarrow> Inl e
    | Inr leader \<Rightarrow> (case obj_get ''verifiers'' data of
          Some (JArr vs) \<Rightarrow> Inr (node_str leader # map (\<lambda>v. node_str (Some v)) vs)
        | _ \<Rightarrow> Inl (ErrorObj ''Cannot read properties of undefined (reading map)'')))"

subsection \<open>Calls that post no job\<close>

definition job_post :: "ext \<Rightarrow> bool" where
  "job_post c = (case c of Axios verb base path body \<Rightarrow> path = ''/v1/jobs/submit'' | _ \<Rightarrow> False)"

lemma job_post_simps [simp]:
  "job_post (Axios verb base path body) \<longleftrightarrow> path = ''/v1/jobs/submit''"
  "\<not> job_post GetBlock" "\<not> job_post EstimatePriorityFee" "\<not> job_post GetGasPrice" "\<not> job_post (WriteContract tx)"
  "\<not> job_post (WaitReceipt h)" "\<not> job_post (CofheEncrypt es)" "\<not> job_post (SdkInit a)" "\<not> job_post (EscrowCreate es')"
  "\<not> job_post (EscrowFund a i n)"
  by (simp_all add: job_post_def)

abbreviation no_post :: "ext \<Rightarrow> bool" where
  "no_post c \<equiv> \<not> job_post c"

lemma store_calls:
  "adds no_post (storePromptKeyForTextRequest w account taskId store high low nodes)"
  "keeps (storePromptKeyForTextRequest w account taskId store high low nodes)"
  unfolding storePromptKeyForTextRequest_def chain_fee_params_def call_defs
  by (intro adds_rules keeps_rules; simp)+

definition key_tx :: "string \<Rightarrow> string \<Rightarrow> string \<Rightarrow> prompt_key_payload \<Rightarrow> string list \<Rightarrow> fee_params \<Rightarrow> contract_tx" where
  "key_tx me store taskId key nodes fees = \<lparr>tx_account = me, tx_address = store, tx_function = ''storeKey'',
     tx_args = [AStr taskId, toContractInput (pk_highInput key), toContractInput (pk_lowInput key), AList (map AStr nodes)],
     tx_fees = fees\<rparr>"

definition job_call :: "(string \<Rightarrow> string option) \<Rightarrow> axios_body \<Rightarrow> ext" where
  "job_call penv body = Axios ''POST'' (paymentApiClient penv) ''/v1/jobs/submit'' body"

text \<open>\<open>either_way R m\<close>: however \<open>m\<close> ends, its log is related to the log it started with by \<open>R\<close>\<close>

abbreviation either_way :: "(ext list \<Rightarrow> bool) \<Rightarrow> (ext, 'x, 'a) io \<Rightarrow> ext list \<Rightarrow> 'x \<Rightarrow> bool" where
  "either_way R m \<equiv> wp m (\<lambda>v lg' x'. R lg') (\<lambda>e lg' x'. R lg')"

text \<open>At most one job was posted, with a body of the kind, in the last call\<close>

definition posts_last :: "(string \<Rightarrow> string option) \<Rightarrow> (axios_body \<Rightarrow> bool) \<Rightarrow> ext list \<Rightarrow> ext list \<Rightarrow> bool" where
  "posts_last penv B lg lg' =
    (\<exists>rest. list_all no_post rest \<and> (lg' = lg @ rest \<or> (\<exists>body. B body \<and> lg' = lg @ rest @ [job_call penv body])))"

text \<open>From \<open>lg\<close> to \<open>lg'\<close> no job was posted, or one, in the last call, after the confirmed transaction
  that stores its key for its task, for at least one node\<close>

definition post_after_store ::
  "world \<Rightarrow> (string \<Rightarrow> string option) \<Rightarrow> string option \<Rightarrow> string \<Rightarrow> string
   \<Rightarrow> (prompt_key_payload \<Rightarrow> string \<Rightarrow> axios_body \<Rightarrow> bool) \<Rightarrow> ext list \<Rightarrow> ext list \<Rightarrow> bool" where
  "post_after_store w penv wallet store taskId B lg lg' =
    (\<exists>new. lg' = lg @ new \<and> (if list_ex job_post new then
       \<exists>me nodes key before h stored.
         wallet = Some me \<and> nodes \<noteq> [] \<and> list_all no_post before \<and>
         confirmed w (key_tx me store taskId key nodes) (lg @ before) h stored \<and>
         posts_last penv (B key h) stored lg' else True))"

lemma no_post_all: "list_all no_post new \<longleftrightarrow> \<not> list_ex job_post new"
  by (induction new) auto


lemma posts_quiet: "list_all no_post new \<Longrightarrow> posts_last penv B lg (lg @ new)"
  by (auto simp: posts_last_def)

lemma posts_refl: "posts_last penv B lg lg"
  using posts_quiet [of "[]"] by simp

lemma posts_now: "B body \<Longrightarrow> posts_last penv B lg (lg @ [job_call penv body])"
  unfolding posts_last_def by (rule exI [of _ "[]"]) auto

lemma posts_later:
  assumes "list_all no_post new" "posts_last penv B (lg @ new) lg'" shows "posts_last penv B lg lg'"
proof -
  from assms(2) obtain rest where "list_all no_post rest"
    and lg': "lg' = lg @ new @ rest \<or> (\<exists>body. B body \<and> lg' = lg @ (new @ rest) @ [job_call penv body])"
    by (auto simp: posts_last_def)
  then show ?thesis using assms(1) unfolding posts_last_def by (intro exI [of _ "new @ rest"]) auto
qed

lemma quiet_after: "list_all no_post new \<Longrightarrow> post_after_store w penv wallet store taskId B lg (lg @ new)"
  by (auto simp: post_after_store_def no_post_all)

lemma stored_after:
  assumes "list_all no_post before" "wallet = Some me" "nodes \<noteq> []"
    and "confirmed w (key_tx me store taskId key nodes) (lg @ before) h stored"
    and "stored = lg @ before @ mid" "posts_last penv (B key h) stored lg'"
  shows "post_after_store w penv wallet store taskId B lg lg'"
proof -
  from assms(5,6) obtain new where "lg' = lg @ new" by (auto simp: posts_last_def)
  then show ?thesis unfolding post_after_store_def using assms by (intro exI [of _ new]) (metis)
qed

lemma store_wp:
  "wp (storePromptKeyForTextRequest w account taskId store (pk_highInput key) (pk_lowInput key) allowedNodes)
     (\<lambda>h lg' x'. x' = x \<and> (\<exists>new. lg' = lg @ new \<and> list_all no_post new) \<and>
        (\<exists>me nodes. account = Some me \<and> nodes \<noteq> [] \<and> confirmed w (key_tx me store taskId key nodes) lg h lg'))
     (\<lambda>e lg' x'. x' = x \<and> (\<exists>new. lg' = lg @ new \<and> list_all no_post new)) lg x"
proof -
  let ?m = "storePromptKeyForTextRequest w account taskId store (pk_highInput key) (pk_lowInput key) allowedNodes"
  have "wp ?m (\<lambda>v lg' x'. x' = x \<and> (\<exists>new. lg' = lg @ new \<and> list_all no_post new))
     (\<lambda>e lg' x'. x' = x \<and> (\<exists>new. lg' = lg @ new \<and> list_all no_post new)) lg x"
    by (rule wp_external [OF store_calls]) auto
  moreover have "wp ?m (\<lambda>h lg' x'. \<exists>me nodes. account = Some me \<and> nodes \<noteq> [] \<and> confirmed w (key_tx me store taskId key nodes) lg h lg')
     (\<lambda>e lg' x'. True) lg x"
    unfolding wp_def key_tx_def [abs_def]
    by (auto split: prod.splits sum.splits dest!: store_confirmed)
  ultimately show ?thesis by (rule wp_conseq [OF wp_conj]) auto
qed


subsection \<open>The gate\<close>

locale key_gate =
  fixes penv :: "string \<Rightarrow> string option" and body_ok :: "prompt_key_payload \<Rightarrow> string \<Rightarrow> axios_body \<Rightarrow> bool"
    and continue :: "prompt_key_payload \<Rightarrow> 'p \<Rightarrow> string \<Rightarrow> (ext, 'x, 'a) io"
  assumes continue_posts: "either_way (posts_last penv (body_ok key h) lg) (continue key pv h) lg x"
begin

lemma store_then_post:
  assumes new: "list_all no_post new"
  shows "either_way (post_after_store w penv account store task body_ok lg)
    (bindE (storePromptKeyForTextRequest w account task store (pk_highInput key) (pk_lowInput key) nodes) (continue key pv)) (lg @ new) x"
  unfolding wp_bind
proof (rule wp_conseq [OF store_wp], goal_cases)
  case (1 h lg1 x1)
  then obtain rest me ns where 1: "lg1 = lg @ new @ rest" "account = Some me" "ns \<noteq> []"
      "confirmed w (key_tx me store task key ns) (lg @ new) h lg1" by auto
  show ?case by (rule wp_conseq [OF continue_posts]) (rule stored_after [OF new 1(2,3,4,1)], assumption)+
next
  case (2 e lg1 x1)
  then show ?case using new by (auto intro!: quiet_after simp del: append_assoc simp: append_assoc)
qed

lemma preview_store_post:
  assumes new: "list_all no_post new" and preview: "adds no_post preview" "keeps preview"
  shows "either_way (post_after_store w penv account store task body_ok lg)
    (bindE preview (\<lambda>(pv, nodes).
       bindE (storePromptKeyForTextRequest w account task store (pk_highInput key) (pk_lowInput key) nodes) (continue key pv)))
    (lg @ new) x"
  unfolding wp_bind [of preview]
proof (rule wp_external [OF preview])
  fix r later assume "list_all no_post later"
  with new have both: "list_all no_post (new @ later)" by simp
  show "either_way (post_after_store w penv account store task body_ok lg)
      (case r of (pv, nodes) \<Rightarrow> bindE (storePromptKeyForTextRequest w account task store (pk_highInput key) (pk_lowInput key) nodes) (continue key pv))
      ((lg @ new) @ later) x"
    using store_then_post [OF both] by (simp split: prod.split)
next
  fix e later assume "list_all no_post later"
  with new show "post_after_store w penv account store task body_ok lg ((lg @ new) @ later)"
    using quiet_after [of "new @ later"] by simp
qed

end

end
