(* ===== verification/Chat_Submit.thy ===== *)
theory Chat_Submit
  imports Chat Escrow Key_Gate
begin

section \<open>Submitting a chat turn\<close>

text \<open>
  \<open>handleChatSubmit\<close> of \<open>frontend/src/pages/InferenceNewPage.tsx\<close>, with what it uses of the page: its
  models and prices, its payment settings and the execution trace. The handler runs on the page's
  state, which holds the chat of \<open>Chat\<close> and the escrow hook of \<open>Escrow\<close>; what the render closed over
  (the connection, the CoFHE client, the model chosen, the payment settings, the earlier messages) is
  read at its start. \<open>random\<close> gives the bytes of \<open>crypto.getRandomValues\<close> for the key, the IV and the
  task id.
\<close>

subsection \<open>Models and prices\<close>

record text_model =
  tm_id :: string
  tm_label :: string
  tm_provider :: string
  tm_model :: string

datatype text_model_key = groq_llama_70b | gemini_flash | opt_125m

definition TEXT_MODEL_OPTIONS :: "text_model_key \<Rightarrow> text_model" where
  "TEXT_MODEL_OPTIONS k = (case k of
      groq_llama_70b \<Rightarrow> \<lparr>tm_id = ''groq:llama-3.3-70b-versatile'', tm_label = ''Groq Llama 70B'',
        tm_provider = ''groq'', tm_model = ''llama-3.3-70b-versatile''\<rparr>
    | gemini_flash \<Rightarrow> \<lparr>tm_id = ''gemini:gemini-2.5-flash'', tm_label = ''Gemini 2.5 Flash'',
        tm_provider = ''gemini'', tm_model = ''gemini-2.5-flash''\<rparr>
    | opt_125m \<Rightarrow> \<lparr>tm_id = ''facebook/opt-125m'', tm_label = ''OPT 125M (Local)'',
        tm_provider = ''local'', tm_model = ''facebook/opt-125m''\<rparr>)"

definition jobPriceCusdc :: "text_model \<Rightarrow> int" where
  "jobPriceCusdc m = (if tm_id m = ''groq:llama-3.3-70b-versatile'' then 5000
     else if tm_id m = ''gemini:gemini-2.5-flash'' then 3000 else 1000)"

subsection \<open>State\<close>

datatype chat_stage = C_idle | C_encrypting | C_uploading | C_escrow | C_submitting

record submit_page =
  sp_chat :: chat
  sp_escrow :: escrow_hook
  sp_prompt :: utext
  sp_error :: "string option"
  sp_stage :: chat_stage

record payment =
  py_escrow :: bool
  py_currency :: string
  py_insurance :: bool

record random_bytes =
  rb_key :: "nat \<Rightarrow> byte list"
  rb_iv :: "nat \<Rightarrow> byte list"
  rb_task :: "nat \<Rightarrow> byte list"
  rb_user :: string
  rb_assistant :: string
  rb_now :: nat

definition set_error :: "string option \<Rightarrow> (ext, submit_page, unit) io" where
  "set_error e = update (\<lambda>p. p\<lparr>sp_error := e\<rparr>)"

definition set_stage :: "chat_stage \<Rightarrow> (ext, submit_page, unit) io" where
  "set_stage st = update (\<lambda>p. p\<lparr>sp_stage := st\<rparr>)"

definition on_chat :: "(chat \<Rightarrow> chat) \<Rightarrow> (ext, submit_page, unit) io" where
  "on_chat f = update (\<lambda>p. p\<lparr>sp_chat := f (sp_chat p)\<rparr>)"

subsection \<open>The turn's conversation\<close>

text \<open>The earlier turns: what the user said, and the answers that are decrypted\<close>

definition conversation_of :: "chat_entry list \<Rightarrow> (string \<times> utext) list" where
  "conversation_of messages =
     map (\<lambda>m. (if ce_user m then ''user'' else ''assistant'', ce_content m))
       (filter (\<lambda>m. ce_user m \<or> (\<not> ce_user m \<and> ce_status m = Some S_done)) messages)"

subsection \<open>The quorum preview\<close>

text \<open>The preview's answer, kept even when its nodes cannot be read, and the nodes allowed to decrypt:
  the quorum, or the wallet itself\<close>

definition quorum_preview ::
  "world \<Rightarrow> (string \<Rightarrow> string option) \<Rightarrow> string \<Rightarrow> string \<Rightarrow> (ext, 'x, json option \<times> string list) io" where
  "quorum_preview w penv modelId address =
     catchE (bindE (api_getQuorumPreview w penv (preview_params modelId)) (\<lambda>data.
       ret (Some data, case preview_nodes data of Inr nodes \<Rightarrow> nodes | Inl e \<Rightarrow> [address])))
     (\<lambda>quorumErr. ret (None, [address]))"

subsection \<open>The job\<close>

definition chat_job_body ::
  "text_model \<Rightarrow> payment \<Rightarrow> string \<Rightarrow> json option \<Rightarrow> prompt_key_payload \<Rightarrow> string option \<Rightarrow> string \<Rightarrow> nat \<Rightarrow> string
   \<Rightarrow> string \<Rightarrow> (string \<times> utext) list \<Rightarrow> axios_body" where
  "chat_job_body m py address promptCID key escrowId taskId prompt_length storeTx store conversation =
     JobBody (JObj
       ([(''user_address'', JStr address)] @ opt_field ''prompt_cid'' promptCID @
        [(''model_id'', JStr (tm_id m)),
         (''encrypted_prompt_key_high'', JStr (pk_high key)), (''encrypted_prompt_key_low'', JStr (pk_low key)),
         (''payment_mode'', JStr (if py_escrow py then ''escrow'' else ''credits'')),
         (''payment_currency'', JStr (py_currency py)), (''insurance_opt_in'', JBool (py_insurance py)),
         (''escrow_id'', case escrowId of None \<Rightarrow> JNull | Some s \<Rightarrow> JStr s),
         (''task_id'', JStr taskId), (''min_tier'', JNum 0), (''zdr_required'', JBool False),
         (''verifier_count'', JNum 2), (''permits'', JArr []),
         (''metadata'', JObj
           [(''cofhe_prompt_key_inputs'', cofhe_prompt_key_inputs key), (''prompt_length'', js_num prompt_length),
            (''vertical'', JStr ''blindference-text-demo''), (''provider'', JStr (tm_provider m)),
            (''model'', JStr (tm_model m)), (''is_agent_job'', JBool False), (''uavp_enabled'', JBool True),
            (''prompt_key_store_tx'', JStr storeTx), (''prompt_key_store_status'', JStr ''stored_by_user''),
            (''prompt_key_store_address'', JStr store), (''source'', JStr ''frontend''),
            (''has_conversation_history'', JBool (0 < length conversation))])])) conversation"

definition no_nodes_message :: string where
  "no_nodes_message =
     ''Encrypted key stored on-chain successfully, but no inference nodes are available. ''
     @ ''Start at least 3 blindference-node instances (1 leader + 2 verifiers) and ensure they register with the ICL via /admin/bootstrap-demo-nodes or real attestation to form a quorum.''"

definition nodes_gone_message :: string where
  "nodes_gone_message =
     ''Inference nodes became unavailable while creating the escrow. ''
     @ ''Please re-bootstrap nodes (curl /admin/bootstrap-demo-nodes) and try again.''"

definition upload_timeout_message :: string where
  "upload_timeout_message =
     ''Encrypted prompt upload timed out. Check the ICL and Pinata connectivity, then try again.''"

text \<open>The message of the outer \<open>catch\<close>\<close>

definition submit_error :: "js_err \<Rightarrow> string" where
  "submit_error e = (case e of
      AxiosErr (Some (JStr detail)) _ \<Rightarrow> if trim detail \<noteq> [] then detail else ''Failed to submit text inference request.''
    | AxiosErr _ _ \<Rightarrow> ''Failed to submit text inference request.''
    | ErrorObj m \<Rightarrow> m
    | ThrownValue _ \<Rightarrow> ''Failed to submit text inference request.'')"

subsection \<open>\<open>handleChatSubmit\<close>\<close>

text \<open>The guards: the message of the first that refuses\<close>

definition chat_refusal ::
  "(string \<Rightarrow> string option) \<Rightarrow> connection \<Rightarrow> bool \<Rightarrow> utext \<Rightarrow> string option" where
  "chat_refusal penv cn isReady normalizedPrompt =
     (if normalizedPrompt = [] then Some ''Please enter a prompt first.''
      else if \<not> cn_cofhe cn \<or> \<not> isReady \<or> \<not> truthy (cn_address cn)
        then Some ''Connect your wallet and wait for CoFHE to initialize.''
      else if \<not> cn_public cn \<or> cn_wallet cn = None then Some ''Wallet client is not available yet.''
      else if \<not> truthy (penv ''VITE_PROMPT_KEY_STORE_ADDRESS'')
        then Some ''VITE_PROMPT_KEY_STORE_ADDRESS is not configured.''
      else None)"

text \<open>Sealing: the packed prompt, and its key under CoFHE\<close>

definition chat_seal ::
  "web_crypto \<Rightarrow> random_bytes \<Rightarrow> 'x cofhe \<Rightarrow> (string \<times> utext) list \<Rightarrow> utext
   \<Rightarrow> (ext, 'x, byte list \<times> prompt_key_payload) io" where
  "chat_seal web rnd client conversation normalizedPrompt =
     (let payloadString = stringify_payload conversation normalizedPrompt;
          promptKey = generateKey_browser (rb_key rnd) in
      bindE (lift (encryptText_chat web (rb_iv rnd) payloadString promptKey)) (\<lambda>encryptedPrompt.
      let packedPrompt = packPayload_chat encryptedPrompt in
      bindE (encryptPromptKeyForTextRequest client promptKey) (\<lambda>encryptedPromptKey.
      ret (packedPrompt, encryptedPromptKey))))"

text \<open>An early return inside \<open>try\<close>: the message shown and the turn failed\<close>

definition give_up :: "(hist_entry list \<Rightarrow> bool) \<Rightarrow> string \<Rightarrow> string \<Rightarrow> (ext, submit_page, unit) io" where
  "give_up fits assistantId msg =
     thenE (set_error (Some msg)) (thenE (on_chat (failAssistantMessage fits assistantId msg)) (set_stage C_idle))"

text \<open>The upload, raced against its timeout\<close>

definition chat_upload :: "world \<Rightarrow> (string \<Rightarrow> string option) \<Rightarrow> byte list \<Rightarrow> (ext, 'x, json option) io" where
  "chat_upload w penv packedPrompt =
     bindE (with_timeout w (js_or (penv ''VITE_PROMPT_UPLOAD_TIMEOUT_MS'') ''30000'') upload_timeout_message
       (api_uploadPromptBlob w penv packedPrompt default_blob_name)) (\<lambda>data.
     lift (json_prop ''cid'' data))"

text \<open>Escrow mode: the escrow's id, or the message to give up with. The hook's error is the one of the
  render, not the one this call sets.\<close>

definition chat_escrow ::
  "world \<Rightarrow> (string \<Rightarrow> string option) \<Rightarrow> connection \<Rightarrow> text_model \<Rightarrow> string option \<Rightarrow> string \<Rightarrow> string
   \<Rightarrow> (hist_entry list \<Rightarrow> bool) \<Rightarrow> (ext, submit_page, string + string) io" where
  "chat_escrow w penv cn m escrowError taskId assistantId fits =
     thenE (set_stage C_escrow)
     (thenE (on_chat (updateAssistantStatus fits assistantId S_escrow None))
     (bindE (zoom sp_escrow (\<lambda>h p. p\<lparr>sp_escrow := h\<rparr>)
               (createEscrow w penv (\<lambda>q. Inl (ErrorObj ''unused'')) cn (Units (jobPriceCusdc m)) taskId)) (\<lambda>escrowResult.
      case escrowResult of
        None \<Rightarrow> ret (Inl (js_or escrowError ''Escrow creation failed. Please ensure you have enough USDC and try again.''))
      | Some r \<Rightarrow>
          catchE (thenE (api_getQuorumPreview w penv (preview_params (tm_id m))) (ret (Inr (int_str (er_escrowId r)))))
                 (\<lambda>quorumErr. ret (Inl nodes_gone_message)))))"

text \<open>The submission and the bookkeeping after it\<close>

definition leader_and_verifiers :: "json \<Rightarrow> js_err + string option \<times> string" where
  "leader_and_verifiers preview = (case json_prop ''leader'' preview of
      Inl e \<Rightarrow> Inl e
    | Inr leader \<Rightarrow> (case obj_get ''verifiers'' preview of
          Some (JArr vs) \<Rightarrow>
            Inr (map_option json_display leader, join '', '' (map (\<lambda>v. if v = JNull then [] else json_display v) vs))
        | _ \<Rightarrow> Inl (ErrorObj ''Cannot read properties of undefined (reading join)'')))"

definition chat_send ::
  "world \<Rightarrow> (string \<Rightarrow> string option) \<Rightarrow> (hist_entry list \<Rightarrow> bool) \<Rightarrow> string \<Rightarrow> json \<Rightarrow> axios_body \<Rightarrow> (ext, submit_page, unit) io" where
  "chat_send w penv fits assistantId preview body =
     thenE (set_stage C_submitting)
     (bindE (job_submit w penv body) (\<lambda>payload.
      bindE (lift (json_prop ''job_id'' payload)) (\<lambda>jobId.
      if \<not> json_truthy jobId then throw (ErrorObj ''The Payment Service response did not include a job identifier.'')
      else
        let rid = node_str jobId in
        bindE (lift (leader_and_verifiers preview)) (\<lambda>(leader, verifiers).
        thenE (on_chat (updateAssistantMetadata assistantId (\<lambda>md. md\<lparr>md_requestIdDisplay := Some rid,
                 md_leader := leader, md_verifiers := Some verifiers\<rparr>)))
        (thenE (on_chat (updateAssistantStatus fits assistantId S_processing (Some rid)))
         (on_chat (setActiveRequestId rid)))))))"

text \<open>What follows the stored key: without a quorum the turn ends here; otherwise the upload, the escrow
  in escrow mode, and the submission\<close>

definition chat_after_store ::
  "world \<Rightarrow> (string \<Rightarrow> string option) \<Rightarrow> (hist_entry list \<Rightarrow> bool) \<Rightarrow> string
   \<Rightarrow> connection \<Rightarrow> text_model \<Rightarrow> payment \<Rightarrow> (string \<times> utext) list \<Rightarrow> utext \<Rightarrow> string option
   \<Rightarrow> byte list \<Rightarrow> prompt_key_payload \<Rightarrow> string \<Rightarrow> json option \<Rightarrow> string \<Rightarrow> (ext, submit_page, unit) io" where
  "chat_after_store w penv fits aid cn m py conversation normalizedPrompt escrowError packedPrompt key taskId preview storeTx =
     (let address = the (cn_address cn); store = the (penv ''VITE_PROMPT_KEY_STORE_ADDRESS'') in
      thenE (if storeTx \<noteq> [] then on_chat (updateAssistantMetadata aid (\<lambda>md. md\<lparr>md_storeKeyTx := Some storeTx\<rparr>)) else ret ())
      (case preview of
         None \<Rightarrow> give_up fits aid no_nodes_message
       | Some previewData \<Rightarrow>
           thenE (set_stage C_uploading)
           (thenE (on_chat (updateAssistantStatus fits aid S_processing None))
           (bindE (chat_upload w penv packedPrompt) (\<lambda>promptCID.
            thenE (on_chat (updateAssistantMetadata aid (\<lambda>md. md\<lparr>md_promptCID := map_option json_display promptCID\<rparr>)))
           (bindE (if py_escrow py then bindE (chat_escrow w penv cn m escrowError taskId aid fits)
                     (\<lambda>r. ret (case r of Inl msg \<Rightarrow> Inl msg | Inr escrow \<Rightarrow> Inr (Some escrow)))
                   else ret (Inr None)) (\<lambda>paid.
            case paid of
              Inl msg \<Rightarrow> give_up fits aid msg
            | Inr escrowId \<Rightarrow>
                chat_send w penv fits aid previewData
                  (chat_job_body m py address promptCID key escrowId taskId (text_length normalizedPrompt) storeTx store
                     conversation))))))))"

definition chat_try ::
  "world \<Rightarrow> web_crypto \<Rightarrow> (string \<Rightarrow> string option) \<Rightarrow> (hist_entry list \<Rightarrow> bool) \<Rightarrow> random_bytes
   \<Rightarrow> connection \<Rightarrow> submit_page cofhe \<Rightarrow> text_model \<Rightarrow> payment \<Rightarrow> (string \<times> utext) list \<Rightarrow> utext \<Rightarrow> string option
   \<Rightarrow> (ext, submit_page, unit) io" where
  "chat_try w web penv fits rnd cn client m py conversation normalizedPrompt escrowError =
     (let aid = rb_assistant rnd; address = the (cn_address cn); store = the (penv ''VITE_PROMPT_KEY_STORE_ADDRESS'') in
      thenE (set_stage C_encrypting)
      (thenE (on_chat (updateAssistantStatus fits aid S_encrypting None))
      (bindE (chat_seal web rnd client conversation normalizedPrompt) (\<lambda>(packedPrompt, key).
       let taskId = generateTaskId (rb_task rnd) in
       thenE (on_chat (updateAssistantMetadata aid (\<lambda>md. md\<lparr>md_taskId := Some taskId, md_modelId := Some (tm_id m)\<rparr>)))
      (bindE (quorum_preview w penv (tm_id m) address) (\<lambda>(preview, allowedNodes).
       bindE (storePromptKeyForTextRequest w (the (cn_wallet cn)) taskId store (pk_highInput key) (pk_lowInput key) allowedNodes)
         (chat_after_store w penv fits aid cn m py conversation normalizedPrompt escrowError packedPrompt key taskId preview)))))))"

definition handleChatSubmit ::
  "world \<Rightarrow> web_crypto \<Rightarrow> (string \<Rightarrow> string option) \<Rightarrow> (hist_entry list \<Rightarrow> bool) \<Rightarrow> random_bytes
   \<Rightarrow> connection \<Rightarrow> submit_page cofhe \<Rightarrow> bool \<Rightarrow> text_model \<Rightarrow> payment \<Rightarrow> (ext, submit_page, unit) io" where
  "handleChatSubmit w web penv fits rnd cn client isReady m py =
     bindE (getting id) (\<lambda>page.
     let normalizedPrompt = text_trim (sp_prompt page);
         messages = ch_messages (sp_chat page);
         escrowError = eh_error (sp_escrow page) in
     case chat_refusal penv cn isReady normalizedPrompt of
       Some msg \<Rightarrow> set_error (Some msg)
     | None \<Rightarrow>
         thenE (on_chat (pushUserMessage fits (rb_user rnd) (rb_assistant rnd) (rb_now rnd) normalizedPrompt (tm_label m)))
        (thenE (update (\<lambda>p. p\<lparr>sp_prompt := [], sp_error := None\<rparr>))
        (finally_do (\<lambda>p. p\<lparr>sp_stage := C_idle\<rparr>)
          (catchE
            (chat_try w web penv fits rnd cn client m py (conversation_of messages) normalizedPrompt escrowError)
            (\<lambda>submitError. let msg = submit_error submitError in
               thenE (set_error (Some msg)) (on_chat (failAssistantMessage fits (rb_assistant rnd) msg)))))))"

subsection \<open>No job without a confirmed key\<close>

lemma seal_calls: "adds no_post (chat_seal web rnd (real_client w) conv prompt)" "keeps (chat_seal web rnd (real_client w) conv prompt)"
  unfolding chat_seal_def encryptPromptKeyForTextRequest_def real_simps cofhe_encrypt_def Let_def
  by (intro adds_rules keeps_rules; simp)+

lemma preview_calls: "adds no_post (quorum_preview w penv mid a)" "keeps (quorum_preview w penv mid a)"
  unfolding quorum_preview_def api_defs Let_def by (intro adds_rules keeps_rules; simp)+

lemma upload_calls: "adds no_post (chat_upload w penv b)" "keeps (chat_upload w penv b)"
  unfolding chat_upload_def api_defs axios_post_def Let_def by (intro adds_rules keeps_rules; simp)+

lemma escrow_calls: "adds no_post (createEscrow w penv usdc cn n jobId)"
  unfolding createEscrow_def cached_sdk_def getReineiraSdk_def call_defs
  by (intro adds_rules; simp)+

lemma send_wp: "wp (chat_send w penv fits aid pv body)
    (\<lambda>v lg' x'. lg' = lg @ [job_call penv body]) (\<lambda>v lg' x'. lg' = lg @ [job_call penv body]) lg x"
  unfolding chat_send_def set_stage_def on_chat_def job_submit_def axios_post_def job_call_def Let_def wp_simps
  by (auto simp: wp_simps split: sum.splits)

lemma chat_escrow_calls: "adds no_post (chat_escrow w penv cn m err taskId aid fits)"
  unfolding chat_escrow_def set_stage_def on_chat_def api_defs Let_def
  by (intro adds_rules escrow_calls; simp)



text \<open>The job a turn posts: of this task, with its key, naming the transaction that stored it\<close>

definition turn_job ::
  "(string \<Rightarrow> string option) \<Rightarrow> connection \<Rightarrow> text_model \<Rightarrow> payment \<Rightarrow> (string \<times> utext) list \<Rightarrow> utext \<Rightarrow> string
   \<Rightarrow> prompt_key_payload \<Rightarrow> string \<Rightarrow> axios_body \<Rightarrow> bool" where
  "turn_job penv cn m py conv prompt taskId key h body =
     (\<exists>cid escrow. body = chat_job_body m py (the (cn_address cn)) cid key escrow taskId (text_length prompt) h
        (the (penv ''VITE_PROMPT_KEY_STORE_ADDRESS'')) conv)"

lemma after_store_posts:
  assumes B: "\<And>cid escrow. B (chat_job_body m py (the (cn_address cn)) cid key escrow taskId (text_length prompt) storeTx
      (the (penv ''VITE_PROMPT_KEY_STORE_ADDRESS'')) conv)"
  shows "either_way (posts_last penv B lg) (chat_after_store w penv fits aid cn m py conv prompt err packed key taskId pv storeTx) lg p"
proof -
  note raw = chat_after_store_def Let_def on_chat_def set_stage_def wp_simps
  have give: "either_way (posts_last penv B lg) (give_up fits aid msg) (lg @ new) x" if "list_all no_post new" for msg new x
    unfolding give_up_def set_error_def set_stage_def on_chat_def wp_simps by (rule posts_quiet [OF that])
  note give0 = give [where new = "[]", simplified]
  have send: "either_way (posts_last penv B lg) (chat_send w penv fits aid data (chat_job_body m py (the (cn_address cn)) cid key escrow taskId
      (text_length prompt) storeTx (the (penv ''VITE_PROMPT_KEY_STORE_ADDRESS'')) conv)) (lg @ new) x"
    if "list_all no_post new" for data cid escrow new x
    by (rule wp_conseq [OF send_wp]) (simp_all only: posts_later [OF that posts_now [of B]] B)
  show ?thesis
  proof (cases pv)
    case None
    show ?thesis unfolding raw None option.case by (simp add: give0)
  next
    case (Some data)
    have upload: "either_way (posts_last penv B lg) (bindE (chat_upload w penv packed) k) lg x"
      if "\<And>cid new x. list_all no_post new \<Longrightarrow> either_way (posts_last penv B lg) (k cid) (lg @ new) x" for k x
      unfolding wp_simps by (rule wp_external [OF upload_calls]) (simp_all add: that posts_quiet)
    have escrow: "either_way (posts_last penv B lg) (bindE (chat_escrow w penv cn m err taskId aid fits) k) (lg @ new) x"
      if "list_all no_post new" "\<And>r new x. list_all no_post new \<Longrightarrow> either_way (posts_last penv B lg) (k r) (lg @ new) x" for k new x
      unfolding wp_simps
      by (rule wp_conseq [OF wp_adds [OF chat_escrow_calls]]) (auto simp: that posts_quiet)
    have last: "either_way (posts_last penv B lg) (case paid of Inl msg \<Rightarrow> give_up fits aid msg
        | Inr escrow \<Rightarrow> chat_send w penv fits aid data (chat_job_body m py (the (cn_address cn)) cid key escrow taskId
            (text_length prompt) storeTx (the (penv ''VITE_PROMPT_KEY_STORE_ADDRESS'')) conv)) (lg @ new) x"
      if "list_all no_post new" for paid cid new x
      by (cases paid) (simp_all add: give [OF that] send [OF that])
    have pay: "either_way (posts_last penv B lg) (bindE (if py_escrow py then bindE (chat_escrow w penv cn m err taskId aid fits) (\<lambda>r. ret (f r))
            else ret (Inr None)) (\<lambda>paid. case paid of Inl msg \<Rightarrow> give_up fits aid msg
        | Inr escrow \<Rightarrow> chat_send w penv fits aid data (chat_job_body m py (the (cn_address cn)) cid key escrow taskId
            (text_length prompt) storeTx (the (penv ''VITE_PROMPT_KEY_STORE_ADDRESS'')) conv))) (lg @ new) x"
      if "list_all no_post new" for f cid new x
    proof (cases "py_escrow py")
      case True
      then show ?thesis unfolding bindE_assoc
        by (simp only: if_True bindE_assoc) (rule escrow [OF that], simp only: wp_bind wp_basic, rule last)
    next
      case False
      then show ?thesis by (simp only: if_False wp_bind wp_basic) (rule last [OF that])
    qed
    show ?thesis
      unfolding chat_after_store_def Let_def on_chat_def set_stage_def Some option.case
      by (simp only: wp_then wp_basic wp_if if_cancel)
        (rule ifI; rule upload; simp only: wp_then wp_basic; rule pay)
  qed
qed

interpretation chat_gate: key_gate penv "turn_job penv cn m py conv prompt task"
    "\<lambda>key. chat_after_store w penv fits aid cn m py conv prompt err packed key task"
  for penv cn m py conv prompt task w fits aid err packed
  by unfold_locales (rule after_store_posts, auto simp: turn_job_def)

lemma chat_try_posts:
  "either_way (post_after_store w penv (the (cn_wallet cn)) (the (penv ''VITE_PROMPT_KEY_STORE_ADDRESS'')) (generateTaskId (rb_task rnd))
      (turn_job penv cn m py conv prompt (generateTaskId (rb_task rnd))) lg)
    (chat_try w web penv fits rnd cn (real_client w) m py conv prompt err) lg p"
  unfolding chat_try_def Let_def on_chat_def set_stage_def
  by (simp only: wp_then wp_basic wp_bind [of "chat_seal web rnd (real_client w) conv prompt"])
    (rule wp_external [OF seal_calls], simp only: wp_case_prod split: prod.split,
     intro allI impI, simp only: wp_then wp_basic, rule chat_gate.preview_store_post [OF _ preview_calls], assumption, rule quiet_after)

text \<open>C1: a job is posted only when its key can be used. Whatever the chain, the services, CoFHE and the
  SDK answer, one submission of the chat posts at most one job, as its last call, and only after the
  transaction that stores the turn's encrypted key for the turn's task, for at least one node, was
  confirmed; the posted job names that task, carries that key and the hash of that transaction.\<close>

theorem chat_job_after_key:
  shows "case handleChatSubmit w web penv fits rnd cn (real_client w) isReady m py (lg, page) of (r, (lg', page')) \<Rightarrow>
    post_after_store w penv (the (cn_wallet cn)) (the (penv ''VITE_PROMPT_KEY_STORE_ADDRESS'')) (generateTaskId (rb_task rnd))
      (turn_job penv cn m py (conversation_of (ch_messages (sp_chat page))) (text_trim (sp_prompt page)) (generateTaskId (rb_task rnd)))
      lg lg'"
proof -
  have "either_way (post_after_store w penv (the (cn_wallet cn)) (the (penv ''VITE_PROMPT_KEY_STORE_ADDRESS'')) (generateTaskId (rb_task rnd))
      (turn_job penv cn m py (conversation_of (ch_messages (sp_chat page))) (text_trim (sp_prompt page)) (generateTaskId (rb_task rnd))) lg)
      (handleChatSubmit w web penv fits rnd cn (real_client w) isReady m py) lg page"
    using quiet_after [of "[]", simplified]
    by (simp add: handleChatSubmit_def Let_def set_error_def on_chat_def wp_simps chat_try_posts split: option.split)
  then show ?thesis by (auto simp: wp_def split: prod.splits sum.splits)
qed

end
