(* ===== verification/Chat_Outcome.thy ===== *)
theory Chat_Outcome
  imports Chat_Submit
begin

section \<open>How a submitted turn ends\<close>

text \<open>
  What \<open>handleChatSubmit\<close> leaves on the page: the turn is answered for or shown as failed, the stage is
  back to idle, and no other message is touched.
\<close>

subsection \<open>A turn touches its own message\<close>

definition same_but :: "string \<Rightarrow> chat \<Rightarrow> chat \<Rightarrow> bool" where
  "same_but aid c c' = (map (\<lambda>m. (ce_id m, ce_user m)) (ch_messages c') = map (\<lambda>m. (ce_id m, ce_user m)) (ch_messages c) \<and>
     filter (\<lambda>m. ce_id m \<noteq> aid) (ch_messages c') = filter (\<lambda>m. ce_id m \<noteq> aid) (ch_messages c))"

lemma same_but_refl: "same_but aid c c"
  by (simp add: same_but_def)

lemma own_messages:
  assumes "\<And>m. ce_id (f m) = ce_id m" "\<And>m. ce_user (f m) = ce_user m" "\<And>m. ce_id m \<noteq> aid \<Longrightarrow> f m = m"
  shows "same_but aid c (on_messages f c') \<longleftrightarrow> same_but aid c c'"
proof -
  have "map (\<lambda>m. (ce_id m, ce_user m)) (map f ms) = map (\<lambda>m. (ce_id m, ce_user m)) ms \<and> filter (\<lambda>m. ce_id m \<noteq> aid) (map f ms) = filter (\<lambda>m. ce_id m \<noteq> aid) ms" for ms
    by (induction ms) (auto simp: assms)
  then show ?thesis by (simp add: same_but_def del: map_map)
qed

lemma same_but_history [simp]: "same_but aid c (on_history g c') \<longleftrightarrow> same_but aid c c'"
  by (simp add: same_but_def)

lemma same_but_callbacks [simp]:
  "same_but aid c (updateAssistantStatus fits aid st r c') \<longleftrightarrow> same_but aid c c'"
  "same_but aid c (failAssistantMessage fits aid msg c') \<longleftrightarrow> same_but aid c c'"
  "same_but aid c (updateAssistantMetadata aid md c') \<longleftrightarrow> same_but aid c c'"
  "same_but aid c (setActiveRequestId rid c') \<longleftrightarrow> same_but aid c c'"
  unfolding updateAssistantStatus_def failAssistantMessage_def updateAssistantMetadata_def Let_def
  by (auto simp: own_messages) (simp_all add: same_but_def setActiveRequestId_def)

lemma callbacks_active [simp]:
  "ch_active (updateAssistantStatus fits aid st r c) = ch_active c"
  "ch_active (failAssistantMessage fits aid msg c) = ch_active c"
  "ch_active (updateAssistantMetadata aid md c) = ch_active c"
  "ch_active (setActiveRequestId rid c) = rid"
  "ch_active (pushUserMessage fits u aid now prompt model c) = ch_active c"
  by (simp_all add: updateAssistantStatus_def failAssistantMessage_def updateAssistantMetadata_def setActiveRequestId_def
      pushUserMessage_def Let_def)

text \<open>While the turn runs: only its message has changed\<close>

definition running :: "string \<Rightarrow> submit_page \<Rightarrow> submit_page \<Rightarrow> bool" where
  "running aid p x = (same_but aid (sp_chat p) (sp_chat x) \<and> sp_prompt x = sp_prompt p \<and> sp_error x = sp_error p
     \<and> ch_active (sp_chat x) = ch_active (sp_chat p))"

lemma running_refl: "running aid p p"
  by (simp add: running_def same_but_refl)

lemma running_steps [simp]:
  "running aid p (x\<lparr>sp_stage := st\<rparr>) \<longleftrightarrow> running aid p x"
  "running aid p (x\<lparr>sp_escrow := h\<rparr>) \<longleftrightarrow> running aid p x"
  by (simp_all add: running_def)

lemma running_chat [simp]:
  "running aid p (x\<lparr>sp_chat := c\<rparr>) \<longleftrightarrow> same_but aid (sp_chat p) c \<and> sp_prompt x = sp_prompt p
     \<and> sp_error x = sp_error p \<and> ch_active c = ch_active (sp_chat p)"
  by (simp add: running_def)

lemma runningD: "running aid p x \<Longrightarrow> same_but aid (sp_chat p) (sp_chat x) \<and> sp_prompt x = sp_prompt p
     \<and> sp_error x = sp_error p \<and> ch_active (sp_chat x) = ch_active (sp_chat p)"
  by (simp add: running_def)

text \<open>Its two ends\<close>

definition failed :: "string \<Rightarrow> string \<Rightarrow> chat_entry \<Rightarrow> bool" where
  "failed aid msg m = (if ce_id m = aid then ce_status m = Some S_error \<and> ce_errorMsg m = Some msg else True)"

definition accepted :: "string \<Rightarrow> string \<Rightarrow> chat_entry \<Rightarrow> bool" where
  "accepted aid rid m = (if ce_id m = aid then ce_status m = Some S_processing
     \<and> (if rid = [] then True else ce_requestId m = Some rid) else True)"

definition turn_ended :: "string \<Rightarrow> submit_page \<Rightarrow> submit_page \<Rightarrow> bool" where
  "turn_ended aid p x = (same_but aid (sp_chat p) (sp_chat x) \<and> sp_prompt x = sp_prompt p \<and>
     (case sp_error x of
        Some msg \<Rightarrow> list_all (failed aid msg) (ch_messages (sp_chat x)) \<and> ch_active (sp_chat x) = ch_active (sp_chat p)
      | None \<Rightarrow> list_all (accepted aid (ch_active (sp_chat x))) (ch_messages (sp_chat x))))"

lemma ended_stage [simp]: "turn_ended aid p (x\<lparr>sp_stage := st\<rparr>) = turn_ended aid p x"
  by (simp add: turn_ended_def split: option.split)

lemma failed_all [simp]: "list_all (failed aid msg) (ch_messages (failAssistantMessage fits aid msg c))"
proof -
  have "list_all (failed aid msg) (map (\<lambda>m. if ce_id m = aid then m\<lparr>ce_status := Some S_error, ce_errorMsg := Some msg\<rparr> else m) ms)" for ms
    by (induction ms) (simp_all add: failed_def)
  then show ?thesis by (simp add: failAssistantMessage_def)
qed

lemma accepted_all [simp]:
  "list_all (accepted aid rid) (ch_messages (setActiveRequestId rid (updateAssistantStatus fits aid S_processing (Some rid) c)))"
proof -
  have "list_all (accepted aid rid) (map (\<lambda>m. if ce_id m = aid then (if truthy (Some rid)
      then m\<lparr>ce_status := Some S_processing, ce_requestId := Some rid\<rparr> else m\<lparr>ce_status := Some S_processing\<rparr>) else m) ms)" for ms
    by (induction ms) (simp_all add: accepted_def truthy_def)
  then show ?thesis unfolding updateAssistantStatus_def setActiveRequestId_def Let_def by (simp add: on_messages_def on_history_def)
qed

lemma fails:
  assumes "running aid p x"
  shows "turn_ended aid p (x\<lparr>sp_error := Some msg, sp_chat := failAssistantMessage fits aid msg (sp_chat x)\<rparr>)"
  using assms by (simp add: running_def turn_ended_def)

lemma sends:
  assumes "same_but aid (sp_chat p) c" "sp_prompt x = sp_prompt p" "sp_error x = None"
  shows "turn_ended aid p (x\<lparr>sp_chat := setActiveRequestId rid (updateAssistantStatus fits aid S_processing (Some rid) c)\<rparr>)"
  using assms by (simp add: turn_ended_def)

text \<open>\<open>ends m\<close>: \<open>m\<close>, run while the turn runs, ends it or throws with the turn still running\<close>

abbreviation ends :: "string \<Rightarrow> submit_page \<Rightarrow> (ext, submit_page, 'a) io \<Rightarrow> ext list \<Rightarrow> submit_page \<Rightarrow> bool" where
  "ends aid p m \<equiv> wp m (\<lambda>v lg x. turn_ended aid p x) (\<lambda>e lg x. running aid p x)"

lemma ends_give_up: "running aid p x \<Longrightarrow> ends aid p (give_up fits aid msg) lg x"
  by (simp add: give_up_def set_error_def set_stage_def on_chat_def wp_simps fails)

lemma ends_send:
  assumes "running aid p x" "sp_error p = None" shows "ends aid p (chat_send w penv fits aid data body) lg x"
  unfolding chat_send_def set_stage_def on_chat_def job_submit_def axios_post_def Let_def
  using assms by (simp add: wp_simps sends split: sum.split prod.split) (simp add: sends runningD)

lemma ends_external:
  assumes "keeps m" "running aid p x" "\<And>v lg. ends aid p (k v) lg x"
  shows "ends aid p (bindE m k) lg x"
  unfolding wp_bind by (rule wp_keeps [OF assms(1)]) (use assms(2,3) in simp_all)

lemma ends_escrow:
  assumes k: "\<And>r lg x. running aid p x \<Longrightarrow> ends aid p (k r) lg x" and x: "running aid p x"
  shows "ends aid p (bindE (chat_escrow w penv cn m err taskId aid fits) k) lg x"
  unfolding chat_escrow_def set_stage_def on_chat_def api_defs Let_def
  by (simp only: wp_bind wp_then wp_basic wp_zoom)
    (rule wp_any; simp add: wp_simps runningD [OF x] k split: option.split sum.split)

lemma ends_after_store:
  assumes x: "running aid p x" and none: "sp_error p = None"
  shows "ends aid p (chat_after_store w penv fits aid cn m py conv prompt err packed key taskId pv storeTx) lg x"
proof -
  have pay: "ends aid p (bindE (if py_escrow py then bindE (chat_escrow w penv cn m err taskId aid fits) (\<lambda>r. ret (f r))
            else ret (Inr None)) (\<lambda>paid. case paid of Inl msg \<Rightarrow> give_up fits aid msg
        | Inr escrow \<Rightarrow> chat_send w penv fits aid data (B escrow))) lg x"
    if "running aid p x" for f data B lg x
  proof -
    have last: "ends aid p (case paid of Inl msg \<Rightarrow> give_up fits aid msg | Inr escrow \<Rightarrow> chat_send w penv fits aid data (B escrow)) lg x"
      if "running aid p x" for paid lg x
      by (cases paid) (simp_all add: ends_give_up ends_send that none)
    show ?thesis
      by (cases "py_escrow py"; simp only: if_True if_False bindE_assoc)
        (rule ends_escrow [OF _ that], simp only: wp_bind wp_basic, rule last, assumption,
         simp only: wp_bind wp_basic, rule last [OF that])
  qed
  show ?thesis
  proof (cases pv)
    case None
    show ?thesis unfolding chat_after_store_def Let_def on_chat_def None option.case
      by (simp only: wp_then wp_basic wp_if) (rule ifI; rule ends_give_up; simp add: x runningD [OF x])
  next
    case (Some data)
    show ?thesis unfolding chat_after_store_def Let_def on_chat_def set_stage_def Some option.case
      by (simp only: wp_then wp_basic wp_if)
        (rule ifI; rule ends_external [OF upload_calls(2)], simp add: x runningD [OF x],
         simp only: wp_then wp_basic, rule pay, simp add: x runningD [OF x])
  qed
qed

lemma ends_try:
  assumes x: "running (rb_assistant rnd) p x" and none: "sp_error p = None"
  shows "ends (rb_assistant rnd) p (chat_try w web penv fits rnd cn (real_client w) m py conv prompt err) lg x"
  unfolding chat_try_def Let_def on_chat_def set_stage_def
  by (simp only: wp_then wp_basic)
    (rule ends_external [OF seal_calls(2)], simp add: runningD [OF x],
     simp only: wp_case_prod split: prod.split, intro allI impI, simp only: wp_then wp_basic,
     rule ends_external [OF preview_calls(2)], simp add: runningD [OF x],
     simp only: wp_case_prod split: prod.split, intro allI impI,
     rule ends_external [OF store_calls(2)], simp add: runningD [OF x],
     rule ends_after_store [OF _ none], simp add: runningD [OF x])

text \<open>A submission that is not refused\<close>

lemma submit_wp:
  assumes "chat_refusal penv cn isReady (text_trim (sp_prompt page)) = None"
    and p: "p = page\<lparr>sp_chat := pushUserMessage fits (rb_user rnd) (rb_assistant rnd) (rb_now rnd) (text_trim (sp_prompt page))
      (tm_label m) (sp_chat page), sp_prompt := [], sp_error := None\<rparr>"
  shows "wp (handleChatSubmit w web penv fits rnd cn (real_client w) isReady m py)
      (\<lambda>v lg x. sp_stage x = C_idle \<and> turn_ended (rb_assistant rnd) p x) (\<lambda>e lg x. False) lg page"
  unfolding handleChatSubmit_def Let_def set_error_def on_chat_def
  by (simp only: wp_bind wp_then wp_basic wp_finally wp_catch id_apply assms(1) option.case)
    (rule wp_conseq [OF ends_try [where p = p]], simp_all add: p running_def same_but_refl fails)

text \<open>C9: every submission of the chat ends, and says how. The handler never throws and leaves the stage
  idle. A refusal shows its reason and changes and calls nothing else. Otherwise the prompt field is
  emptied and the turn's two messages are appended, and then either the page shows an error and the
  turn's answer is marked failed with that same error, or no error is shown, the answer is marked as in
  progress for a job, and that job is the one the page waits for. Messages of other turns are untouched.\<close>

theorem chat_submit_ends:
  shows "case handleChatSubmit w web penv fits rnd cn (real_client w) isReady m py (lg, page) of (r, (lg', page')) \<Rightarrow> r = Inr () \<and>
    (case chat_refusal penv cn isReady (text_trim (sp_prompt page)) of
       Some msg \<Rightarrow> lg' = lg \<and> page' = page\<lparr>sp_error := Some msg\<rparr>
     | None \<Rightarrow> sp_stage page' = C_idle \<and>
         turn_ended (rb_assistant rnd) (page\<lparr>sp_prompt := [], sp_chat :=
           pushUserMessage fits (rb_user rnd) (rb_assistant rnd) (rb_now rnd) (text_trim (sp_prompt page)) (tm_label m) (sp_chat page)\<rparr>) page')"
proof (cases "chat_refusal penv cn isReady (text_trim (sp_prompt page))")
  case (Some msg)
  then show ?thesis by (simp add: handleChatSubmit_def Let_def set_error_def)
next
  case None
  let ?c = "pushUserMessage fits (rb_user rnd) (rb_assistant rnd) (rb_now rnd) (text_trim (sp_prompt page)) (tm_label m) (sp_chat page)"
  let ?p = "page\<lparr>sp_chat := ?c, sp_prompt := [], sp_error := None\<rparr>"
  have same: "turn_ended aid (page\<lparr>sp_prompt := [], sp_chat := ?c\<rparr>) x \<longleftrightarrow> turn_ended aid ?p x" for aid x
    by (simp add: turn_ended_def split: option.split)
  have "wp (handleChatSubmit w web penv fits rnd cn (real_client w) isReady m py)
      (\<lambda>v lg x. sp_stage x = C_idle \<and> turn_ended (rb_assistant rnd) ?p x) (\<lambda>e lg x. False) lg page"
    by (rule submit_wp [OF None]) simp
  with None show ?thesis by (auto simp: wp_def same split: prod.splits sum.splits)
qed

subsection \<open>When a submission is accepted\<close>

text \<open>The services, the wallet and the chain do their part: the preview names a quorum, the upload and the submission are answered,
  the latter with the id \<open>rid\<close>; CoFHE encrypts, the wallet signs, every receipt is a success, and the upload is in time.\<close>

definition services_answer :: "world \<Rightarrow> (string \<Rightarrow> string option) \<Rightarrow> string \<Rightarrow> bool" where
  "services_answer w penv rid =
     ((\<forall>lg body. \<exists>preview vs. on_axios w lg (Axios ''GET'' (apiClient penv) ''/v1/inference/quorum-preview'' body) = Inr preview
         \<and> obj_get ''verifiers'' preview = Some (JArr vs)) \<and>
      (\<forall>lg body. \<exists>uploaded. on_axios w lg (Axios ''POST'' (apiClient penv) ''/v1/inference/upload-prompt'' body) = Inr uploaded
         \<and> uploaded \<noteq> JNull) \<and>
      (\<forall>lg body. \<exists>submitted. on_axios w lg (Axios ''POST'' (paymentApiClient penv) ''/v1/jobs/submit'' body) = Inr submitted
         \<and> obj_get ''job_id'' submitted = Some (JStr rid)) \<and>
      (\<forall>lg items. \<exists>high low more. on_cofhe_encrypt w lg items = Inr (high # low # more)) \<and>
      (\<forall>lg. \<exists>base. on_block w lg = Inr (Some base)) \<and>
      (\<forall>lg tx. \<exists>h. on_write w lg tx = Inr h) \<and> (\<forall>lg h. on_receipt w lg h = Inr ''success'') \<and>
      (\<forall>lg ms. \<not> on_timeout w lg ms))"

text \<open>A step that always returns, leaving the state alone\<close>

definition returns :: "(ext, 'x, 'a) io \<Rightarrow> ('a \<Rightarrow> bool) \<Rightarrow> bool" where
  "returns m P = (\<forall>lg x. \<exists>v lg'. m (lg, x) = (Inr v, (lg', x)) \<and> P v)"

lemma wp_returns: "returns m P \<Longrightarrow> (\<And>v lg. P v \<Longrightarrow> wp (k v) Q E lg x) \<Longrightarrow> wp (bindE m k) Q E lg x"
proof -
  assume m: "returns m P" and k: "\<And>v lg. P v \<Longrightarrow> wp (k v) Q E lg x"
  from m obtain v lg' where "m (lg, x) = (Inr v, (lg', x))" "P v" unfolding returns_def by blast
  with k [of v lg'] show ?thesis by (simp add: wp_def bindE_def)
qed

lemma preview_returns:
  assumes "services_answer w penv rid"
  shows "returns (quorum_preview w penv mid a) (\<lambda>(preview, nodes). \<exists>data vs. preview = Some data \<and> obj_get ''verifiers'' data = Some (JArr vs))"
proof -
  have "\<exists>v lg'. quorum_preview w penv mid a (lg, x) = (Inr v, (lg', x))
      \<and> (case v of (preview, nodes) \<Rightarrow> \<exists>data vs. preview = Some data \<and> obj_get ''verifiers'' data = Some (JArr vs))" for lg x
  proof -
    obtain data vs where "on_axios w lg (Axios ''GET'' (apiClient penv) ''/v1/inference/quorum-preview'' (JsonBody (preview_params mid))) = Inr data"
      "obj_get ''verifiers'' data = Some (JArr vs)" using assms unfolding services_answer_def by blast
    then show ?thesis by (simp add: quorum_preview_def api_defs catchE_def bindE_def ret_def Let_def)
  qed
  then show ?thesis unfolding returns_def by blast
qed

lemma upload_returns:
  assumes "services_answer w penv rid" shows "returns (chat_upload w penv b) (\<lambda>v. True)"
proof -
  have "\<exists>v lg'. chat_upload w penv b (lg, x) = (Inr v, (lg', x)) \<and> True" for lg x
  proof -
    obtain d where "on_axios w lg (Axios ''POST'' (apiClient penv) ''/v1/inference/upload-prompt'' (FormBody b default_blob_name)) = Inr d" "d \<noteq> JNull"
      using assms unfolding services_answer_def by blast
    moreover have "\<not> on_timeout w lg' ms" for lg' ms using assms unfolding services_answer_def by blast
    ultimately show ?thesis
      by (simp add: chat_upload_def with_timeout_def api_defs axios_post_def bindE_def Let_def json_prop_def lift_def)
  qed
  then show ?thesis unfolding returns_def by blast
qed

lemma store_returns:
  assumes "services_answer w penv rid" shows "returns (storePromptKeyForTextRequest w (Some me) task store high low nodes) (\<lambda>h. True)"
proof -
  have "\<exists>v lg'. storePromptKeyForTextRequest w (Some me) task store high low nodes (lg, x) = (Inr v, (lg', x)) \<and> True" for lg x
  proof -
    obtain base where base: "on_block w lg = Inr (Some base)" using assms unfolding services_answer_def by blast
    have receipt: "on_receipt w lg' h = Inr ''success''" for lg' h using assms unfolding services_answer_def by blast
    let ?nodes = "if 0 < length nodes then nodes else [me]"
    obtain fees where fees: "chain_fee_params w (lg, x) = (Inr fees, (lg @ [GetBlock, EstimatePriorityFee], x))"
      using base by (simp add: chain_fee_params_apply Let_def)
    obtain h where "on_write w (lg @ [GetBlock, EstimatePriorityFee]) \<lparr>tx_account = me, tx_address = store, tx_function = ''storeKey'',
        tx_args = [AStr task, toContractInput high, toContractInput low, AList (map AStr ?nodes)], tx_fees = fees\<rparr> = Inr h"
      using assms unfolding services_answer_def by blast
    then show ?thesis
      by (simp add: storePromptKeyForTextRequest_def bindE_def fees write_contract_def wait_receipt_def call_def receipt ret_def Let_def)
  qed
  then show ?thesis unfolding returns_def by blast
qed

lemma seal_returns:
  assumes "services_answer w penv rid" "gcm_ok g" "web_ok g web" "rng_ok (rb_iv rnd)" "rng_ok (rb_key rnd)"
  shows "returns (chat_seal web rnd (real_client w) conv prompt) (\<lambda>v. True)"
proof -
  let ?key = "rb_key rnd 32"
  have key: "length ?key = 32" using assms(5) by (simp add: rng_ok_def)
  obtain p where p: "encryptText_chat web (rb_iv rnd) (stringify_payload conv prompt) ?key = Inr p"
    using encryptText_chat_agent [OF assms(2,3,4) key] encryptAesGcm_ok [OF assms(2,4) key] by metis
  obtain vh vl where halves: "prompt_key_halves ?key = Inr (vh, vl)" using browser_codec.split_combine [OF key] by auto
  have "\<exists>v lg'. chat_seal web rnd (real_client w) conv prompt (lg, x) = (Inr v, (lg', x)) \<and> True" for lg x
  proof -
    obtain high low more where "on_cofhe_encrypt w lg [Uint128 vh, Uint128 vl] = Inr (high # low # more)"
      using assms(1) unfolding services_answer_def by blast
    then show ?thesis
      by (simp add: chat_seal_def generateKey_browser_def p encryptPromptKeyForTextRequest_def halves cofhe_encrypt_def
          bindE_def catchE_def ret_def lift_def Let_def)
  qed
  then show ?thesis unfolding returns_def by blast
qed

lemma send_accepted:
  assumes "services_answer w penv rid" "rid \<noteq> []" "obj_get ''verifiers'' data = Some (JArr vs)" "sp_error x = None"
  shows "wp (chat_send w penv fits aid data body) (\<lambda>v lg x. sp_error x = None \<and> ch_active (sp_chat x) = rid) (\<lambda>e lg x. False) lg x"
proof -
  obtain submitted where job: "on_axios w lg (Axios ''POST'' (paymentApiClient penv) ''/v1/jobs/submit'' body) = Inr submitted"
    "obj_get ''job_id'' submitted = Some (JStr rid)" using assms(1) unfolding services_answer_def by blast
  have "data \<noteq> JNull" using assms(3) by (auto simp: obj_get_def)
  then obtain leader where lv: "leader_and_verifiers data
      = Inr (leader, join '', '' (map (\<lambda>v. if v = JNull then [] else json_display v) vs))"
    using assms(3) by (simp add: leader_and_verifiers_def json_prop_def)
  have "submitted \<noteq> JNull" using job(2) by (auto simp: obj_get_def)
  with job(2) have jid: "json_prop ''job_id'' submitted = Inr (Some (JStr rid))" by (simp add: json_prop_def)
  show ?thesis
    unfolding chat_send_def set_stage_def on_chat_def job_submit_def axios_post_def Let_def
    using assms(2,4) by (simp add: wp_simps job jid lv json_truthy_def node_str_def)
qed

lemma after_store_accepted:
  assumes "services_answer w penv rid" "rid \<noteq> []" "obj_get ''verifiers'' data = Some (JArr vs)" "\<not> py_escrow py" "sp_error x = None"
  shows "wp (chat_after_store w penv fits aid cn m py conv prompt err packed key task (Some data) tx)
    (\<lambda>v lg x. sp_error x = None \<and> ch_active (sp_chat x) = rid) (\<lambda>e lg x. False) lg x"
  unfolding chat_after_store_def Let_def on_chat_def set_stage_def option.case
  by (simp only: wp_then wp_basic wp_if)
    (rule ifI; rule wp_returns [OF upload_returns [OF assms(1)]]; simp only: wp_then wp_basic wp_bind assms(4) if_False sum.case;
     rule send_accepted [OF assms(1-3)]; simp add: assms(5))

text \<open>Every step answered: the page then waits for the job of the submission, and shows no error\<close>

lemma submit_accepted:
  assumes "chat_refusal penv cn isReady (text_trim (sp_prompt page)) = None" "cn_wallet cn = Some (Some me)" "\<not> py_escrow py"
    "services_answer w penv rid" "rid \<noteq> []" "gcm_ok g" "web_ok g web" "rng_ok (rb_iv rnd)" "rng_ok (rb_key rnd)"
  shows "wp (handleChatSubmit w web penv fits rnd cn (real_client w) isReady m py)
    (\<lambda>v lg x. sp_error x = None \<and> ch_active (sp_chat x) = rid) (\<lambda>e lg x. False) lg page"
proof -
  let ?Q = "\<lambda>v lg x. sp_error x = None \<and> ch_active (sp_chat x) = rid" and ?E = "\<lambda>e lg x. False"
  let ?task = "generateTaskId (rb_task rnd)" and ?store = "the (penv ''VITE_PROMPT_KEY_STORE_ADDRESS'')"
  have stored: "wp (bindE (storePromptKeyForTextRequest w (Some me) ?task ?store (pk_highInput key) (pk_lowInput key) nodes)
      (chat_after_store w penv fits (rb_assistant rnd) cn m py conv prompt err packed key ?task (Some data))) ?Q ?E lg x"
    if "obj_get ''verifiers'' data = Some (JArr vs)" "sp_error x = None" for packed key nodes data vs lg x conv prompt err
    by (rule wp_returns [OF store_returns [OF assms(4)]], rule after_store_accepted [OF assms(4,5) that(1) assms(3) that(2)])
  have sealed: "wp (case v of (packed, key) \<Rightarrow>
      thenE (update (\<lambda>p. p\<lparr>sp_chat := updateAssistantMetadata (rb_assistant rnd)
          (\<lambda>md. md\<lparr>md_taskId := Some ?task, md_modelId := Some (tm_id m)\<rparr>) (sp_chat p)\<rparr>))
      (bindE (quorum_preview w penv (tm_id m) (the (cn_address cn))) (\<lambda>(preview, allowedNodes).
        bindE (storePromptKeyForTextRequest w (Some me) ?task ?store (pk_highInput key) (pk_lowInput key) allowedNodes)
          (chat_after_store w penv fits (rb_assistant rnd) cn m py conv prompt err packed key ?task preview)))) ?Q ?E lg x"
    if "sp_error x = None" for v lg x conv prompt err
  proof -
    obtain packed key where v: "v = (packed, key)" by (cases v)
    show ?thesis
      unfolding v prod.case wp_then wp_update
    proof (rule wp_returns [OF preview_returns [OF assms(4)]])
      fix pn :: "json option \<times> string list" and lg
      assume "case pn of (preview, nodes) \<Rightarrow> \<exists>data vs. preview = Some data \<and> obj_get ''verifiers'' data = Some (JArr vs)"
      then obtain data vs nodes where pn: "pn = (Some data, nodes)" "obj_get ''verifiers'' data = Some (JArr vs)" by (cases pn) auto
      show "wp (case pn of (preview, allowedNodes) \<Rightarrow>
          bindE (storePromptKeyForTextRequest w (Some me) ?task ?store (pk_highInput key) (pk_lowInput key) allowedNodes)
            (chat_after_store w penv fits (rb_assistant rnd) cn m py conv prompt err packed key ?task preview)) ?Q ?E lg
          (x\<lparr>sp_chat := updateAssistantMetadata (rb_assistant rnd)
            (\<lambda>md. md\<lparr>md_taskId := Some ?task, md_modelId := Some (tm_id m)\<rparr>) (sp_chat x)\<rparr>)"
        unfolding pn(1) prod.case by (rule stored [OF pn(2)]) (simp add: that)
    qed
  qed
  have try_: "wp (chat_try w web penv fits rnd cn (real_client w) m py conv prompt err) ?Q ?E lg x" if "sp_error x = None" for conv prompt err lg x
    unfolding chat_try_def Let_def on_chat_def set_stage_def assms(2) option.sel wp_then wp_update
    by (rule wp_returns [OF seal_returns [OF assms(4,6-9)]], rule sealed) (simp add: that)
  show ?thesis
    unfolding handleChatSubmit_def Let_def set_error_def on_chat_def
    by (simp only: wp_bind wp_then wp_basic wp_finally wp_catch id_apply assms(1) option.case)
      (rule wp_conseq [OF try_], simp_all)
qed

end
