(* ===== verification/Risk_Submit.thy ===== *)
theory Risk_Submit
  imports Chat_Submit
begin

section \<open>Submitting a risk request\<close>

text \<open>
  The store of \<open>frontend/src/stores/inferenceStore.ts\<close>, and \<open>handleRiskSubmit\<close> and \<open>handleFeedback\<close> of
  \<open>frontend/src/pages/InferenceNewPage.tsx\<close>: four features are encrypted, stored in the input vault, read
  back, and submitted with one sharing permit per node. The exported permit is the answer of the call
  that creates it.
\<close>

subsection \<open>Models and the store\<close>

datatype risk_model_key = R_llama3_70b | R_gemini_pro | R_opt_125m

record model_binding =
  mb_modelId :: string
  mb_provider :: string
  mb_model :: string
  mb_baseFee :: int

definition MODEL_BINDINGS :: "risk_model_key \<Rightarrow> model_binding" where
  "MODEL_BINDINGS k = (case k of
      R_llama3_70b \<Rightarrow> \<lparr>mb_modelId = ''groq:llama-3.3-70b-versatile'', mb_provider = ''groq'',
        mb_model = ''llama-3.3-70b-versatile'', mb_baseFee = 10\<rparr>
    | R_gemini_pro \<Rightarrow> \<lparr>mb_modelId = ''gemini:gemini-2.5-flash'', mb_provider = ''gemini'',
        mb_model = ''gemini-2.5-flash'', mb_baseFee = 8\<rparr>
    | R_opt_125m \<Rightarrow> \<lparr>mb_modelId = ''facebook/opt-125m'', mb_provider = ''local'',
        mb_model = ''facebook/opt-125m'', mb_baseFee = 2\<rparr>)"

record inference_store =
  st_modelId :: risk_model_key
  st_features :: risk_features
  st_coverageEnabled :: bool
  st_isEncrypting :: bool
  st_isSubmitting :: bool
  st_requestId :: "json option"
  st_error :: "string option"

definition initialState :: inference_store where
  "initialState = \<lparr>st_modelId = R_gemini_pro,
     st_features = \<lparr>rf_creditScore = 720, rf_loanAmount = 25000, rf_accountAge = 1200, rf_prevDefaults = 2\<rparr>,
     st_coverageEnabled = False, st_isEncrypting = False, st_isSubmitting = False, st_requestId = None, st_error = None\<rparr>"

datatype store_action =
    SetModelId risk_model_key | SetCreditScore rat | SetLoanAmount rat | SetAccountAge rat | SetPrevDefaults rat
  | SetCoverageEnabled bool | SetIsEncrypting bool | SetIsSubmitting bool | SetRequestId "json option"
  | SetError "string option" | Reset

definition store_act :: "store_action \<Rightarrow> inference_store \<Rightarrow> inference_store" where
  "store_act a s = (case a of
      SetModelId k \<Rightarrow> s\<lparr>st_modelId := k\<rparr>
    | SetCreditScore v \<Rightarrow> s\<lparr>st_features := (st_features s)\<lparr>rf_creditScore := v\<rparr>\<rparr>
    | SetLoanAmount v \<Rightarrow> s\<lparr>st_features := (st_features s)\<lparr>rf_loanAmount := v\<rparr>\<rparr>
    | SetAccountAge v \<Rightarrow> s\<lparr>st_features := (st_features s)\<lparr>rf_accountAge := v\<rparr>\<rparr>
    | SetPrevDefaults v \<Rightarrow> s\<lparr>st_features := (st_features s)\<lparr>rf_prevDefaults := v\<rparr>\<rparr>
    | SetCoverageEnabled b \<Rightarrow> s\<lparr>st_coverageEnabled := b\<rparr>
    | SetIsEncrypting b \<Rightarrow> s\<lparr>st_isEncrypting := b\<rparr>
    | SetIsSubmitting b \<Rightarrow> s\<lparr>st_isSubmitting := b\<rparr>
    | SetRequestId r \<Rightarrow> s\<lparr>st_requestId := r\<rparr>
    | SetError e \<Rightarrow> s\<lparr>st_error := e\<rparr>
    | Reset \<Rightarrow> initialState)"

record risk_page =
  rp_store :: inference_store
  rp_history :: history
  rp_page :: "string option"

definition dispatch :: "store_action \<Rightarrow> (ext, risk_page, unit) io" where
  "dispatch a = update (\<lambda>p. p\<lparr>rp_store := store_act a (rp_store p)\<rparr>)"

subsection \<open>Steps\<close>

definition totalDisplay :: "inference_store \<Rightarrow> int" where
  "totalDisplay s = mb_baseFee (MODEL_BINDINGS (st_modelId s)) + (if st_coverageEnabled s then 2 else 0)"

definition risk_refusal ::
  "(string \<Rightarrow> string option) \<Rightarrow> connection \<Rightarrow> bool \<Rightarrow> inference_store \<Rightarrow> string option" where
  "risk_refusal penv cn isReady s =
     (if rf_creditScore (st_features s) < 300 \<or> rf_creditScore (st_features s) > 850
        then Some ''Invalid credit score. Must be between 300 and 850.''
      else if \<not> cn_cofhe cn \<or> \<not> isReady \<or> \<not> truthy (cn_address cn)
        then Some ''Connect your wallet and wait for CoFHE to initialize.''
      else if cn_wallet cn = None \<or> \<not> cn_public cn then Some ''Wallet client is not available yet.''
      else if \<not> truthy (penv ''VITE_BLINDFERENCE_INPUT_VAULT_ADDRESS'')
        then Some ''VITE_BLINDFERENCE_INPUT_VAULT_ADDRESS is not configured.''
      else None)"

text \<open>\<open>Promise.all\<close>: every permit is asked for, and the first failure among the answers is thrown\<close>

definition settled_one :: "('c, 'x, 'a) io \<Rightarrow> ('c, 'x, js_err + 'a) io" where
  "settled_one m = catchE (bindE m (\<lambda>v. ret (Inr v))) (\<lambda>e. ret (Inl e))"

fun settle :: "(js_err + 'a) list \<Rightarrow> js_err + 'a list" where
  "settle [] = Inr []"
| "settle (Inl e # rs) = Inl e"
| "settle (Inr v # rs) = map_sum id (Cons v) (settle rs)"

definition share_with :: "world \<Rightarrow> string \<Rightarrow> string \<Rightarrow> string \<Rightarrow> (ext, 'x, json) io" where
  "share_with w modelId address nodeAddress =
     bindE (clock w) (\<lambda>t. bindE (clock w) (\<lambda>t'.
     bindE (create_sharing w address nodeAddress
              (''Blindference '' @ modelId @ '' '' @ nat_str t @ '' -> '' @ nodeAddress) (t' div 1000 + 30 * 24 * 3600)) (\<lambda>permit.
     ret (JObj [(''node'', JStr nodeAddress), (''permit'', JStr permit)]))))"

fun share_all :: "world \<Rightarrow> string \<Rightarrow> string \<Rightarrow> string list \<Rightarrow> (ext, 'x, (js_err + json) list) io" where
  "share_all w modelId address [] = ret []"
| "share_all w modelId address (n # ns) =
     bindE (settled_one (share_with w modelId address n)) (\<lambda>r.
     bindE (share_all w modelId address ns) (\<lambda>rs. ret (r # rs)))"

text \<open>The inputs submitted: the handles are the vault's\<close>

definition vault_backed :: "encrypted_input list \<Rightarrow> int \<times> int \<times> int \<times> int \<Rightarrow> json list" where
  "vault_backed encrypted handles = (case handles of (c, l, a, p) \<Rightarrow>
     map (\<lambda>(item, h). JObj [(''ctHash'', JStr (int_str h)), (''utype'', JNum (of_int (utype item))), (''signature'', JStr (signature item))])
       (zip encrypted [c, l, a, p]))"

definition risk_body ::
  "inference_store \<Rightarrow> string \<Rightarrow> string \<Rightarrow> string \<Rightarrow> string \<Rightarrow> encrypted_input list \<Rightarrow> stored_vault_inputs \<Rightarrow> json \<Rightarrow> json list \<Rightarrow> json" where
  "risk_body s address vault loanId inputVaultTx encrypted stored preview permits =
     (let m = MODEL_BINDINGS (st_modelId s) in
      JObj
       ([(''model_id'', JStr (mb_modelId m)), (''encrypted_input'', JArr (vault_backed encrypted (vault_handles stored))),
         (''permits'', JArr permits)]
        @ opt_field ''leader_address'' (obj_get ''leader'' preview) @ opt_field ''verifier_addresses'' (obj_get ''verifiers'' preview) @
        [(''feature_types'', JArr [JStr ''uint32'', JStr ''uint64'', JStr ''uint32'', JStr ''uint8'']),
         (''loan_id'', JStr loanId),
         (''coverage_type'', if st_coverageEnabled s then JStr ''HALLUCINATION'' else JNull),
         (''max_fee_gnk'', JNum (of_int (totalDisplay s))), (''developer_address'', JStr address), (''min_tier'', JNum 0),
         (''zdr_required'', JBool False), (''verifier_count'', JNum 2),
         (''metadata'', JObj
           [(''coverage_requested'', JBool (st_coverageEnabled s)), (''encryption_mode'', JStr ''cofhe''),
            (''input_vault_address'', JStr vault), (''input_vault_tx'', JStr inputVaultTx),
            (''input_vault_owner'', JStr (vault_owner stored)), (''input_vault_stored_at'', JStr (int_str (vault_storedAt stored))),
            (''vertical'', JStr ''blindference-risk-demo''), (''provider'', JStr (mb_provider m)), (''model'', JStr (mb_model m))])]))"

definition risk_entry :: "inference_store \<Rightarrow> string \<Rightarrow> json option \<Rightarrow> nat \<Rightarrow> hist_entry" where
  "risk_entry s loanId requestId now =
     (let f = st_features s; c = number_str (rf_creditScore f); l = number_str (rf_loanAmount f);
          a = number_str (rf_accountAge f); d = number_str (rf_prevDefaults f) in
      \<lparr>he_id = loanId, he_title = text_of_string (''Risk: '' @ c @ ''/'' @ l @ ''/'' @ a @ ''/'' @ d),
       he_prompt = text_of_string (''Risk scoring: credit='' @ c @ '', loan='' @ l @ '', age='' @ a @ '', defaults='' @ d),
       he_mode = ''risk'', he_model = mb_modelId (MODEL_BINDINGS (st_modelId s)), he_status = S_processing,
       he_requestId = json_string requestId, he_outputCID = None, he_keyHigh = None, he_keyLow = None,
       he_decryptedContent = None, he_errorMsg = None, he_timestamp = now\<rparr>)"

definition risk_error :: "js_err \<Rightarrow> string" where
  "risk_error e = (case e of
      AxiosErr (Some (JStr detail)) m \<Rightarrow> if trim detail \<noteq> [] then detail else m
    | _ \<Rightarrow> error_message_or e ''Failed to submit request.'')"

subsection \<open>\<open>handleRiskSubmit\<close>\<close>

text \<open>From the stored handles on: preview, permits, submission, history, navigation\<close>

definition risk_after_read ::
  "world \<Rightarrow> (string \<Rightarrow> string option) \<Rightarrow> (hist_entry list \<Rightarrow> bool) \<Rightarrow> inference_store \<Rightarrow> string \<Rightarrow> string \<Rightarrow> string \<Rightarrow> string
   \<Rightarrow> encrypted_input list \<Rightarrow> stored_vault_inputs \<Rightarrow> (ext, risk_page, unit) io" where
  "risk_after_read w penv fits s address vault loanId inputVaultTx encrypted stored =
     (let modelId = mb_modelId (MODEL_BINDINGS (st_modelId s)) in
      bindE (api_getQuorumPreview w penv (preview_params modelId)) (\<lambda>preview.
      bindE (lift (preview_nodes preview)) (\<lambda>quorumNodes.
      bindE (bindE (share_all w modelId address quorumNodes) (\<lambda>rs. lift (settle rs))) (\<lambda>permits.
      thenE (dispatch (SetIsEncrypting False))
      (thenE (dispatch (SetIsSubmitting True))
      (bindE (api_submit w penv (risk_body s address vault loanId inputVaultTx encrypted stored preview permits)) (\<lambda>answer.
       bindE (lift (json_prop ''request_id'' answer)) (\<lambda>requestId.
       bindE (clock w) (\<lambda>now.
       thenE (update (\<lambda>p. p\<lparr>rp_history := addHistoryEntry fits (risk_entry s loanId requestId now) (rp_history p)\<rparr>))
      (thenE (dispatch (SetRequestId requestId))
       (update (\<lambda>p. p\<lparr>rp_page := Some (''/inference/'' @ node_str requestId)\<rparr>))))))))))))"

definition risk_try ::
  "world \<Rightarrow> (string \<Rightarrow> string option) \<Rightarrow> (hist_entry list \<Rightarrow> bool) \<Rightarrow> connection \<Rightarrow> risk_page cofhe \<Rightarrow> inference_store
   \<Rightarrow> (ext, risk_page, unit) io" where
  "risk_try w penv fits cn client s =
     (let address = the (cn_address cn); vault = the (penv ''VITE_BLINDFERENCE_INPUT_VAULT_ADDRESS'') in
      thenE (dispatch (SetError None))
      (thenE (dispatch (SetIsEncrypting True))
      (bindE (clock w) (\<lambda>t.
       let loanId = ''loan_'' @ nat_str t in
       bindE (encryptRiskFeatures client (st_features s)) (\<lambda>encrypted.
       bindE (storeEncryptedRiskInputsInVault w (the (cn_wallet cn)) encrypted loanId vault) (\<lambda>inputVaultTx.
       bindE (readStoredRiskInputHandles w loanId vault) (\<lambda>stored.
       if to_lower (vault_owner stored) \<noteq> to_lower address
       then throw (ErrorObj ''BlindferenceInputVault stored handles for a different owner than the connected wallet.'')
       else risk_after_read w penv fits s address vault loanId inputVaultTx encrypted stored)))))))"

definition handleRiskSubmit ::
  "world \<Rightarrow> (string \<Rightarrow> string option) \<Rightarrow> (hist_entry list \<Rightarrow> bool) \<Rightarrow> connection \<Rightarrow> risk_page cofhe \<Rightarrow> bool
   \<Rightarrow> (ext, risk_page, unit) io" where
  "handleRiskSubmit w penv fits cn client isReady =
     bindE (getting rp_store) (\<lambda>s.
     case risk_refusal penv cn isReady s of
       Some msg \<Rightarrow> dispatch (SetError (Some msg))
     | None \<Rightarrow>
         finally_do (\<lambda>p. p\<lparr>rp_store := store_act (SetIsEncrypting False) (store_act (SetIsSubmitting False) (rp_store p))\<rparr>)
           (catchE (risk_try w penv fits cn client s) (\<lambda>e. dispatch (SetError (Some (risk_error e))))))"

subsection \<open>\<open>handleFeedback\<close>\<close>

definition handleFeedback ::
  "world \<Rightarrow> (string \<Rightarrow> string option) \<Rightarrow> string option \<Rightarrow> string \<Rightarrow> bool \<Rightarrow> (ext, 'x, unit) io" where
  "handleFeedback w penv address requestId up =
     catchE
       (thenE (coverage_submitFeedback w penv requestId (JObj
          ([(''developer_address'', JStr (nullish address [])), (''rating'', JStr (if up then ''up'' else ''down''))]
           @ opt_field ''notes'' (if up then Some (JStr ''User believes the leader output is correct despite quorum rejection.'') else None))))
        (ret ()))
       (\<lambda>e. ret ())"

subsection \<open>Only stored handles are submitted\<close>

definition req_post :: "ext \<Rightarrow> bool" where
  "req_post c = (case c of Axios verb base path body \<Rightarrow> path = ''/v1/inference/requests'' | _ \<Rightarrow> False)"

abbreviation no_req :: "ext \<Rightarrow> bool" where
  "no_req c \<equiv> \<not> req_post c"

lemma req_post_simps [simp]:
  "req_post (Axios verb base path body) \<longleftrightarrow> path = ''/v1/inference/requests''"
  "\<not> req_post GetBlock" "\<not> req_post EstimatePriorityFee" "\<not> req_post GetGasPrice" "\<not> req_post (WriteContract tx)"
  "\<not> req_post (WaitReceipt h)" "\<not> req_post (CofheEncrypt es)" "\<not> req_post (CofheSharing i r l t)" "\<not> req_post Clock"
  "\<not> req_post (ReadContract a f xs)"
  by (simp_all add: req_post_def)

definition vault_tx :: "string \<Rightarrow> string \<Rightarrow> string \<Rightarrow> encrypted_input list \<Rightarrow> fee_params \<Rightarrow> contract_tx" where
  "vault_tx me vault loanId encrypted fees = \<lparr>tx_account = me, tx_address = vault, tx_function = ''storeEncryptedInputs'',
     tx_args = AStr loanId # map toContractInput encrypted, tx_fees = fees\<rparr>"

definition read_call :: "string \<Rightarrow> string \<Rightarrow> ext" where
  "read_call vault loanId = ReadContract vault ''storedInputHandles'' [AStr loanId]"

definition stored_answer :: "stored_vault_inputs \<Rightarrow> abi_value list" where
  "stored_answer v = (case vault_handles v of (c, l, a, p) \<Rightarrow> [AStr (vault_owner v), AInt (vault_storedAt v), AInt c, AInt l, AInt a, AInt p])"

text \<open>The requests posted since \<open>lg\<close>: none, or one whose handles the vault answered for the loan it had just
  confirmed, as the connected wallet's\<close>

definition requests_backed ::
  "world \<Rightarrow> (string \<Rightarrow> string option) \<Rightarrow> string option \<Rightarrow> string \<Rightarrow> string \<Rightarrow> inference_store \<Rightarrow> ext list \<Rightarrow> ext list \<Rightarrow> bool" where
  "requests_backed w penv wallet address vault s lg lg' =
    (\<exists>new. lg' = lg @ new \<and> (filter req_post new = [] \<or>
      (\<exists>me before loanId encrypted h confirmed_log stored preview permits.
         wallet = Some me \<and> length encrypted = 4 \<and>
         confirmed w (vault_tx me vault loanId encrypted) (lg @ before) h confirmed_log \<and>
         on_read w confirmed_log (read_call vault loanId) = Inr (stored_answer stored) \<and>
         to_lower (vault_owner stored) = to_lower address \<and>
         filter req_post new = [Axios ''POST'' (apiClient penv) ''/v1/inference/requests''
           (JsonBody (risk_body s address vault loanId h encrypted stored preview permits))])))"

lemma no_req_filter: "list_all no_req new \<longleftrightarrow> filter req_post new = []"
  by (induction new) auto

lemma backed_quiet: "list_all no_req new \<Longrightarrow> requests_backed w penv wallet address vault s lg (lg @ new)"
  by (auto simp: requests_backed_def no_req_filter)

lemma share_all_calls: "adds no_req (share_all w mid a ns)" "keeps (share_all w mid a ns)"
  by (induction ns) (auto simp: settled_one_def share_with_def clock_def create_sharing_def Let_def intro!: adds_rules keeps_rules)

lemma risk_preview_calls: "adds no_req (api_getQuorumPreview w penv q)" "keeps (api_getQuorumPreview w penv q)"
  unfolding api_defs Let_def by (intro adds_rules keeps_rules; simp)+

lemma vault_calls:
  "adds no_req (storeEncryptedRiskInputsInVault w account inputs loanId vault)"
  "keeps (storeEncryptedRiskInputsInVault w account inputs loanId vault)"
  unfolding storeEncryptedRiskInputsInVault_def chain_fee_params_def call_defs
  by (intro adds_rules keeps_rules; simp)+

lemma features_calls: "adds no_req (encryptRiskFeatures (real_client w) f)" "keeps (encryptRiskFeatures (real_client w) f)"
  unfolding encryptRiskFeatures_def real_simps cofhe_encrypt_def by (intro adds_rules keeps_rules; simp)+

text \<open>After the read, one request at most\<close>

lemma after_read_requests:
  "either_way (\<lambda>lg'. \<exists>rest. lg' = lg @ rest \<and> (filter req_post rest = [] \<or> (\<exists>preview permits. filter req_post rest =
        [Axios ''POST'' (apiClient penv) ''/v1/inference/requests'' (JsonBody (risk_body s address vault loanId h encrypted stored preview permits))])))
     (risk_after_read w penv fits s address vault loanId h encrypted stored) lg p"
  (is "either_way ?R _ _ _")
proof -
  have quiet: "?R (lg @ new)" if "list_all no_req new" for new using that by (auto simp: no_req_filter)
  have sent: "?R (lg @ new @ Axios ''POST'' (apiClient penv) ''/v1/inference/requests''
      (JsonBody (risk_body s address vault loanId h encrypted stored preview permits)) # rest)"
    if "list_all no_req new" "list_all no_req rest" for new rest preview permits
    using that by (auto simp: no_req_filter)
  show ?thesis
    unfolding risk_after_read_def Let_def dispatch_def api_submit_def axios_post_def clock_def
  proof (simp only: wp_bind [of "api_getQuorumPreview w penv q" for q], rule wp_external [OF risk_preview_calls], goal_cases)
    case (1 preview new)
    show ?case
    proof (cases "preview_nodes preview")
      case (Inl e)
      with 1 show ?thesis by (simp add: wp_simps no_req_filter)
    next
      case (Inr nodes)
      show ?thesis
      proof (simp only: wp_bind [of "lift r" for r] wp_lift Inr sum.case wp_bind [of "bindE m k" for m k] wp_bind [of "share_all w mid a ns" for mid a ns],
          rule wp_external [OF share_all_calls], goal_cases)
        case (1 rs new')
        with \<open>list_all no_req new\<close> have both: "list_all no_req (new @ new')" by simp
        show ?case
          using quiet [OF both] sent [OF both, of "[]"] sent [OF both, of "[Clock]"]
          by (auto simp: wp_simps split: sum.split)
      next
        case (2 e new')
        with \<open>list_all no_req new\<close> show ?case using quiet [of "new @ new'"] by simp
      qed
    qed
  next
    case (2 e new)
    then show ?case by (rule quiet)
  qed
qed

lemma read_wp:
  "wp (readStoredRiskInputHandles w loanId vault)
     (\<lambda>stored lg' x'. x' = x \<and> lg' = lg @ [read_call vault loanId] \<and> on_read w lg (read_call vault loanId) = Inr (stored_answer stored))
     (\<lambda>e lg' x'. x' = x \<and> lg' = lg @ [read_call vault loanId]) lg x"
proof (cases "on_read w lg (read_call vault loanId)")
  case (Inl e)
  then show ?thesis
    by (simp add: readStoredRiskInputHandles_def read_contract_def Let_def wp_simps read_call_def)
next
  case (Inr vs)
  then show ?thesis
    unfolding readStoredRiskInputHandles_def read_contract_def Let_def
    by (auto simp: wp_simps read_call_def stored_answer_def split: list.split abi_value.split)
qed

lemma vault_wp:
  "wp (storeEncryptedRiskInputsInVault w account inputs loanId vault)
     (\<lambda>h lg' x'. x' = x \<and> (\<exists>new. lg' = lg @ new \<and> list_all no_req new) \<and>
        (\<exists>me. account = Some me \<and> length inputs = 4 \<and> confirmed w (vault_tx me vault loanId inputs) lg h lg'))
     (\<lambda>e lg' x'. x' = x \<and> (\<exists>new. lg' = lg @ new \<and> list_all no_req new)) lg x"
proof -
  let ?m = "storeEncryptedRiskInputsInVault w account inputs loanId vault"
  have "wp ?m (\<lambda>v lg' x'. x' = x \<and> (\<exists>new. lg' = lg @ new \<and> list_all no_req new))
     (\<lambda>e lg' x'. x' = x \<and> (\<exists>new. lg' = lg @ new \<and> list_all no_req new)) lg x"
    by (rule wp_external [OF vault_calls]) auto
  moreover have "wp ?m (\<lambda>h lg' x'. \<exists>me. account = Some me \<and> length inputs = 4 \<and> confirmed w (vault_tx me vault loanId inputs) lg h lg')
     (\<lambda>e lg' x'. True) lg x"
    unfolding wp_def vault_tx_def [abs_def] by (auto split: prod.splits sum.splits dest!: vault_confirmed)
  ultimately show ?thesis by (rule wp_conseq [OF wp_conj]) auto
qed

lemma backed_after:
  assumes "list_all no_req before" "wallet = Some me" "length encrypted = 4"
    and "confirmed w (vault_tx me vault loanId encrypted) (lg @ before) h (lg @ before @ mid)" "list_all no_req mid"
    and "on_read w (lg @ before @ mid) (read_call vault loanId) = Inr (stored_answer stored)"
    and "to_lower (vault_owner stored) = to_lower address"
    and "filter req_post rest = [] \<or> (\<exists>preview permits. filter req_post rest = [Axios ''POST'' (apiClient penv) ''/v1/inference/requests''
           (JsonBody (risk_body s address vault loanId h encrypted stored preview permits))])"
  shows "requests_backed w penv wallet address vault s lg ((lg @ before @ mid @ [read_call vault loanId]) @ rest)"
proof -
  have quiet: "filter req_post (before @ mid @ [read_call vault loanId] @ rest) = filter req_post rest"
    using assms(1,5) by (simp add: no_req_filter read_call_def)
  from assms(8) show ?thesis
  proof (elim disjE exE)
    assume "filter req_post rest = []"
    with quiet show ?thesis unfolding requests_backed_def
      by (intro exI [of _ "before @ mid @ [read_call vault loanId] @ rest"]) simp
  next
    fix preview permits
    assume "filter req_post rest = [Axios ''POST'' (apiClient penv) ''/v1/inference/requests''
           (JsonBody (risk_body s address vault loanId h encrypted stored preview permits))]"
    with quiet assms show ?thesis unfolding requests_backed_def
      by (intro exI [of _ "before @ mid @ [read_call vault loanId] @ rest"] conjI disjI2 exI [of _ me] exI [of _ before]
          exI [of _ loanId] exI [of _ encrypted] exI [of _ h] exI [of _ "lg @ before @ mid"] exI [of _ stored]
          exI [of _ preview] exI [of _ permits]) simp_all
  qed
qed

lemma risk_try_requests:
  "either_way (requests_backed w penv (the (cn_wallet cn)) (the (cn_address cn)) (the (penv ''VITE_BLINDFERENCE_INPUT_VAULT_ADDRESS'')) s lg)
     (risk_try w penv fits cn (real_client w) s) lg p"
  (is "either_way ?R _ _ _")
proof -
  let ?vault = "the (penv ''VITE_BLINDFERENCE_INPUT_VAULT_ADDRESS'')" and ?address = "the (cn_address cn)"
  have store: "either_way ?R (bindE (storeEncryptedRiskInputsInVault w (the (cn_wallet cn)) encrypted loanId ?vault) (\<lambda>h.
      bindE (readStoredRiskInputHandles w loanId ?vault) (\<lambda>stored.
      if to_lower (vault_owner stored) \<noteq> to_lower ?address then throw e
      else risk_after_read w penv fits s ?address ?vault loanId h encrypted stored))) (lg @ new) x"
    if new: "list_all no_req new" for encrypted loanId e new x
    unfolding wp_bind
  proof (rule wp_conseq [OF vault_wp], goal_cases)
    case (1 h lg1 x1)
    then obtain me mid where facts: "the (cn_wallet cn) = Some me" "length encrypted = 4" "list_all no_req mid" "lg1 = lg @ new @ mid"
        "confirmed w (vault_tx me ?vault loanId encrypted) (lg @ new) h (lg @ new @ mid)" by auto
    have quiet: "?R ((lg @ new @ mid) @ [read_call ?vault loanId])"
      using backed_quiet [of "new @ mid @ [read_call ?vault loanId]"] new facts(3) by (simp add: read_call_def)
    show ?case
      unfolding facts(4)
    proof (rule wp_conseq [OF read_wp], goal_cases)
      case (1 stored lg2 x2)
      then have read: "on_read w (lg @ new @ mid) (read_call ?vault loanId) = Inr (stored_answer stored)"
        and lg2: "lg2 = lg @ new @ mid @ [read_call ?vault loanId]" by auto
      show ?case
      proof (cases "to_lower (vault_owner stored) = to_lower ?address")
        case True
        note here = backed_after [OF new facts(1,2,5,3) read True]
        show ?thesis unfolding lg2 using True
          by (simp only: not_True_eq_False simp_thms if_False)
            (rule wp_conseq [OF after_read_requests]; elim exE conjE; simp only:; rule here; assumption)
      next
        case False
        with quiet show ?thesis by (simp add: wp_simps lg2)
      qed
    next
      case (2 e lg2 x2)
      with quiet show ?case by simp
    qed
  next
    case (2 e lg1 x1)
    then show ?case using new backed_quiet [of "new @ m" for m] by auto
  qed
  show ?thesis
    unfolding risk_try_def Let_def dispatch_def clock_def
    by (simp only: wp_then wp_basic wp_bind [of "call a c" for a c] wp_call sum.case
        wp_bind [of "encryptRiskFeatures (real_client w) f" for f])
      (rule wp_external [OF features_calls], simp only: append_assoc, rule store, simp, simp only: append_assoc, rule backed_quiet, simp)
qed

text \<open>C12: a risk request carries only handles the vault holds for the wallet. Whatever the services answer,
  one submission posts at most one request, and only after the transaction that stores its four
  encrypted features was confirmed and the vault answered, for that loan, an owner equal to the connected
  address up to case; the handles, owner, time and transaction it names are those.\<close>

theorem risk_requests_backed:
  shows "case handleRiskSubmit w penv fits cn (real_client w) isReady (lg, page) of (r, (lg', page')) \<Rightarrow>
    requests_backed w penv (the (cn_wallet cn)) (the (cn_address cn)) (the (penv ''VITE_BLINDFERENCE_INPUT_VAULT_ADDRESS''))
      (rp_store page) lg lg'"
proof -
  have "either_way (requests_backed w penv (the (cn_wallet cn)) (the (cn_address cn)) (the (penv ''VITE_BLINDFERENCE_INPUT_VAULT_ADDRESS''))
      (rp_store page) lg) (handleRiskSubmit w penv fits cn (real_client w) isReady) lg page"
    using backed_quiet [of "[]", simplified]
    by (simp add: handleRiskSubmit_def dispatch_def wp_simps risk_try_requests split: option.split)
  then show ?thesis by (auto simp: wp_def split: prod.splits sum.splits)
qed

subsection \<open>How a submission ends\<close>

definition risk_running :: "risk_page \<Rightarrow> risk_page \<Rightarrow> bool" where
  "risk_running p x = (rp_history x = rp_history p \<and> rp_page x = rp_page p \<and> st_features (rp_store x) = st_features (rp_store p)
     \<and> st_requestId (rp_store x) = st_requestId (rp_store p) \<and> st_error (rp_store x) = None)"

definition risk_ended :: "(hist_entry list \<Rightarrow> bool) \<Rightarrow> risk_page \<Rightarrow> risk_page \<Rightarrow> bool" where
  "risk_ended fits p x = (st_features (rp_store x) = st_features (rp_store p) \<and>
     (case st_error (rp_store x) of
        Some msg \<Rightarrow> rp_history x = rp_history p \<and> rp_page x = rp_page p \<and> st_requestId (rp_store x) = st_requestId (rp_store p)
      | None \<Rightarrow> \<exists>loanId now. rp_history x = addHistoryEntry fits (risk_entry (rp_store p) loanId (st_requestId (rp_store x)) now) (rp_history p)
          \<and> rp_page x = Some (''/inference/'' @ node_str (st_requestId (rp_store x)))))"

lemma risk_after_read_state:
  assumes "risk_running p x" "s = rp_store p"
  shows "wp (risk_after_read w penv fits s address vault loanId h encrypted stored)
     (\<lambda>v lg x. risk_ended fits p x) (\<lambda>e lg x. risk_running p x) lg x"
proof -
  have sends: "wp (thenE (dispatch (SetIsEncrypting False)) (thenE (dispatch (SetIsSubmitting True))
      (bindE (api_submit w penv body) (\<lambda>answer. bindE (lift (json_prop ''request_id'' answer)) (\<lambda>requestId. bindE (clock w) (\<lambda>now.
       thenE (update (\<lambda>p. p\<lparr>rp_history := addHistoryEntry fits (risk_entry s loanId requestId now) (rp_history p)\<rparr>))
      (thenE (dispatch (SetRequestId requestId)) (update (\<lambda>p. p\<lparr>rp_page := Some (''/inference/'' @ node_str requestId)\<rparr>)))))))))
      (\<lambda>v lg x. risk_ended fits p x) (\<lambda>e lg x. risk_running p x) lg x" for body lg
    using assms unfolding api_submit_def axios_post_def clock_def dispatch_def Let_def
    by (auto simp: wp_simps store_act_def risk_running_def risk_ended_def split: sum.split)
  show ?thesis
    unfolding risk_after_read_def Let_def
    by (simp only: wp_bind [of "api_getQuorumPreview w penv q" for q] wp_bind [of "lift r" for r] wp_bind [of "bindE m k" for m k])
      (rule wp_keeps [OF risk_preview_calls(2)], simp only: wp_lift split: sum.split, intro conjI allI impI,
       rule assms(1), rule wp_keeps [OF keeps_bind [OF share_all_calls(2) keeps_base(3)]], rule sends, rule assms(1), rule assms(1))
qed

text \<open>Every risk submission ends, and says how. The handler never throws and always leaves both busy
  flags down. A refusal only sets its reason. Otherwise either an error is shown and history, page and
  request id are as before, or the history has gained the entry of this loan and the page is that of the
  request id answered; the form is never changed. The page is built from whatever id was answered, a
  missing one included.\<close>

lemma risk_submit_ends:
  shows "case handleRiskSubmit w penv fits cn (real_client w) isReady (lg, page) of (r, (lg', page')) \<Rightarrow> r = Inr () \<and>
    (case risk_refusal penv cn isReady (rp_store page) of
       Some msg \<Rightarrow> lg' = lg \<and> page' = page\<lparr>rp_store := (rp_store page)\<lparr>st_error := Some msg\<rparr>\<rparr>
     | None \<Rightarrow> \<not> st_isEncrypting (rp_store page') \<and> \<not> st_isSubmitting (rp_store page') \<and> risk_ended fits page page')"
proof (cases "risk_refusal penv cn isReady (rp_store page)")
  case (Some msg)
  then show ?thesis by (simp add: handleRiskSubmit_def dispatch_def store_act_def)
next
  case None
  let ?E = "\<lambda>m. wp m (\<lambda>v lg x. risk_ended fits page x) (\<lambda>e lg x. risk_running page x)"
  have start: "risk_running page (page\<lparr>rp_store := store_act (SetIsEncrypting True) (store_act (SetError None) (rp_store page))\<rparr>)"
    by (simp add: risk_running_def store_act_def)
  have body: "?E (bindE (encryptRiskFeatures (real_client w) f) (\<lambda>encrypted.
      bindE (storeEncryptedRiskInputsInVault w account encrypted loanId vault) (\<lambda>h.
      bindE (readStoredRiskInputHandles w loanId vault) (\<lambda>stored.
      if to_lower (vault_owner stored) \<noteq> to_lower address then throw e
      else risk_after_read w penv fits (rp_store page) address vault loanId h encrypted stored)))) lg x"
    if run: "risk_running page x" for f account loanId vault address e lg x
    unfolding wp_bind
    by (rule wp_keeps [OF features_calls(2)], rule wp_keeps [OF vault_calls(2)], rule wp_conseq [OF read_wp])
      (auto simp: wp_simps run risk_after_read_state [OF run])
  have ends: "risk_ended fits page (x\<lparr>rp_store := store_act (SetIsEncrypting False) (store_act (SetIsSubmitting False) (rp_store x))\<rparr>)
      \<longleftrightarrow> risk_ended fits page x" for x
    by (simp add: risk_ended_def store_act_def split: option.split)
  have fails: "risk_running page x \<Longrightarrow> risk_ended fits page (x\<lparr>rp_store := store_act (SetIsEncrypting False)
      (store_act (SetIsSubmitting False) (store_act (SetError (Some msg)) (rp_store x)))\<rparr>)" for x msg
    by (simp add: risk_running_def risk_ended_def store_act_def)
  have flags: "\<not> st_isEncrypting (store_act (SetIsEncrypting False) (store_act (SetIsSubmitting False) s))"
      "\<not> st_isSubmitting (store_act (SetIsEncrypting False) (store_act (SetIsSubmitting False) s))" for s
    by (simp_all add: store_act_def)
  have "wp (handleRiskSubmit w penv fits cn (real_client w) isReady)
      (\<lambda>v lg x. \<not> st_isEncrypting (rp_store x) \<and> \<not> st_isSubmitting (rp_store x) \<and> risk_ended fits page x) (\<lambda>e lg x. False) lg page"
    unfolding handleRiskSubmit_def risk_try_def Let_def dispatch_def clock_def
    by (simp only: wp_bind [of "getting g" for g] wp_basic None option.case wp_finally wp_catch wp_then
        wp_bind [of "call a c" for a c] wp_call sum.case)
      (rule wp_conseq [OF body], simp_all add: start ends fails flags)
  with None show ?thesis by (auto simp: wp_def split: prod.splits sum.splits)
qed

end
