(* ===== verification/Cofhe_Hook.thy ===== *)
theory Cofhe_Hook
  imports Text_Key
begin

section \<open>The CoFHE client of a page\<close>

text \<open>
  \<open>frontend/src/hooks/useCofheClient.ts\<close> as a machine. An effect runs \<open>initCofhe\<close> for the wallet of its
  render whenever the wallet, the public client or the retry counter changes; connecting is in flight
  until it answers. The effect's \<open>cancelled\<close> flag is read only before \<open>initCofhe\<close> is called, in the same
  turn, so it never stops a run. The configuration and the connection are the library's: a run ends
  with an answer or an error.
\<close>

datatype cofhe_instance = Mock_Client | Connected string

record cofhe_hook =
  ck_wallet :: "string option"
  ck_public :: bool
  ck_retry :: nat
  ck_client :: "cofhe_instance option"
  ck_ready :: bool
  ck_error :: "string option"
  ck_flying :: "string list"

definition hook_mounted :: "cofhe_hook" where
  "hook_mounted = \<lparr>ck_wallet = None, ck_public = False, ck_retry = 0, ck_client = None, ck_ready = False,
     ck_error = None, ck_flying = []\<rparr>"

text \<open>\<open>initCofhe\<close> up to its first \<open>await\<close>\<close>

definition init_start :: "bool \<Rightarrow> cofhe_hook \<Rightarrow> cofhe_hook" where
  "init_start use_mock s =
     (case ck_wallet s of
        Some walletClient \<Rightarrow>
          if \<not> ck_public s
          then s\<lparr>ck_client := None, ck_ready := False, ck_error := Some ''Wallet not connected''\<rparr>
          else if use_mock then s\<lparr>ck_client := Some Mock_Client, ck_ready := True, ck_error := None\<rparr>
          else s\<lparr>ck_error := None, ck_ready := False, ck_flying := ck_flying s @ [walletClient]\<rparr>
      | None \<Rightarrow> s\<lparr>ck_client := None, ck_ready := False, ck_error := Some ''Wallet not connected''\<rparr>)"

text \<open>... and after the connection of a wallet answered\<close>

definition init_finish :: "string \<Rightarrow> js_err + unit \<Rightarrow> cofhe_hook \<Rightarrow> cofhe_hook" where
  "init_finish walletClient ans s =
     (let s = s\<lparr>ck_flying := remove1 walletClient (ck_flying s)\<rparr> in
      case ans of
        Inr _ \<Rightarrow> s\<lparr>ck_client := Some (Connected walletClient), ck_ready := True, ck_error := None\<rparr>
      | Inl e \<Rightarrow> s\<lparr>ck_client := None, ck_ready := False, ck_error := Some
          (error_message_or e ''Failed to initialize CoFHE. Ensure your wallet is on Arbitrum Sepolia.'')\<rparr>)"

definition change_wallet :: "bool \<Rightarrow> string option \<Rightarrow> bool \<Rightarrow> cofhe_hook \<Rightarrow> cofhe_hook" where
  "change_wallet use_mock wallet public s = init_start use_mock (s\<lparr>ck_wallet := wallet, ck_public := public\<rparr>)"

definition retry :: "bool \<Rightarrow> cofhe_hook \<Rightarrow> cofhe_hook" where
  "retry use_mock s = init_start use_mock (s\<lparr>ck_retry := ck_retry s + 1\<rparr>)"

inductive cofhe_step :: "bool \<Rightarrow> cofhe_hook \<Rightarrow> cofhe_hook \<Rightarrow> bool" for use_mock where
  wallet_changes: "cofhe_step use_mock s (change_wallet use_mock wallet public s)"
| retried: "cofhe_step use_mock s (retry use_mock s)"
| connected: "walletClient \<in> set (ck_flying s) \<Longrightarrow> cofhe_step use_mock s (init_finish walletClient ans s)"

inductive cofhe_reachable :: "bool \<Rightarrow> cofhe_hook \<Rightarrow> bool" for use_mock where
  first: "cofhe_reachable use_mock (init_start use_mock hook_mounted)"
| later: "cofhe_reachable use_mock s \<Longrightarrow> cofhe_step use_mock s s' \<Longrightarrow> cofhe_reachable use_mock s'"

inductive_cases cofhe_stepE: "cofhe_step use_mock s s'"

subsection \<open>What the flags say\<close>

definition flags_ok :: "bool \<Rightarrow> cofhe_hook \<Rightarrow> bool" where
  "flags_ok use_mock s =
     ((if ck_ready s then ck_client s \<noteq> None \<and> ck_error s = None else True)
      \<and> (if use_mock then ck_flying s = [] \<and> (ck_client s = None \<or> ck_client s = Some Mock_Client)
         else ck_client s \<noteq> Some Mock_Client))"

lemma init_start_ok: "flags_ok use_mock s \<Longrightarrow> flags_ok use_mock (init_start use_mock s)"
  by (auto simp: flags_ok_def init_start_def split: option.splits if_splits)

lemma step_ok: "cofhe_step use_mock s s' \<Longrightarrow> flags_ok use_mock s \<Longrightarrow> flags_ok use_mock s'"
proof (erule cofhe_stepE)
  fix wallet public assume "flags_ok use_mock s" "s' = change_wallet use_mock wallet public s"
  moreover from this(1) have "flags_ok use_mock (s\<lparr>ck_wallet := wallet, ck_public := public\<rparr>)" by (simp add: flags_ok_def)
  ultimately show ?thesis by (simp add: change_wallet_def init_start_ok)
next
  assume "flags_ok use_mock s" "s' = retry use_mock s"
  moreover from this(1) have "flags_ok use_mock (s\<lparr>ck_retry := ck_retry s + 1\<rparr>)" by (simp add: flags_ok_def)
  ultimately show ?thesis by (simp add: retry_def init_start_ok)
next
  fix walletClient ans assume "flags_ok use_mock s" "s' = init_finish walletClient ans s" "walletClient \<in> set (ck_flying s)"
  then show ?thesis by (auto simp: flags_ok_def init_finish_def Let_def split: sum.splits if_splits)
qed

text \<open>C30: the flags of the CoFHE hook are consistent in every reachable state, whatever wallets come and
  go and in whatever order connections answer: a hook that says it is ready holds a client and shows no
  error, and the mock client appears exactly in mock mode, where nothing is ever in flight.\<close>

theorem cofhe_flags_consistent:
  assumes "cofhe_reachable use_mock s"
  shows "flags_ok use_mock s"
  using assms
proof (induction rule: cofhe_reachable.induct)
  case first
  show ?case by (simp add: init_start_def hook_mounted_def flags_ok_def)
next
  case (later s s')
  then show ?case using step_ok by blast
qed

lemma reach_change: "cofhe_reachable use_mock s \<Longrightarrow> cofhe_reachable use_mock (change_wallet use_mock wallet public s)"
  by (rule later [OF _ wallet_changes])

lemma reach_connected:
  "cofhe_reachable use_mock s \<Longrightarrow> walletClient \<in> set (ck_flying s) \<Longrightarrow> cofhe_reachable use_mock (init_finish walletClient ans s)"
  by (rule later [OF _ connected])

theorem cofhe_flags_consistent_witness:
  "\<exists>s. cofhe_reachable False s \<and> ck_ready s \<and> ck_client s = Some (Connected ''0xa'') \<and> flags_ok False s"
proof -
  let ?s1 = "change_wallet False (Some ''0xa'') True (init_start False hook_mounted)"
  let ?s = "init_finish ''0xa'' (Inr ()) ?s1"
  have "cofhe_reachable False ?s"
    by (rule reach_connected [OF reach_change [OF first]]) (simp add: change_wallet_def init_start_def hook_mounted_def)
  moreover have "ck_ready ?s" "ck_client ?s = Some (Connected ''0xa'')"
    by (simp_all add: init_finish_def Let_def)
  ultimately show ?thesis using cofhe_flags_consistent by blast
qed

subsection \<open>A run is never cancelled\<close>

text \<open>C36: changing the wallet does not cancel the connection of the previous one. For any two wallets, and
  whether or not the second one is connected at all, there is a run in which the page's wallet is the
  second (or none), the hook is ready, and its client is connected as the first.\<close>

theorem stale_client_ready:
  shows "\<exists>s. cofhe_reachable False s \<and> ck_wallet s = now \<and> ck_ready s \<and> ck_error s = None \<and> ck_client s = Some (Connected old)"
proof -
  let ?s1 = "change_wallet False (Some old) True (init_start False hook_mounted)"
  let ?s2 = "change_wallet False now True ?s1"
  let ?s3 = "init_finish old (Inr ()) ?s2"
  have "cofhe_reachable False ?s2" by (intro reach_change first)
  moreover have "old \<in> set (ck_flying ?s2)"
    by (cases now) (simp_all add: change_wallet_def init_start_def hook_mounted_def)
  ultimately have "cofhe_reachable False ?s3" by (rule reach_connected)
  moreover have "ck_wallet ?s3 = now" "ck_ready ?s3" "ck_error ?s3 = None" "ck_client ?s3 = Some (Connected old)"
    by (cases now; simp add: init_finish_def change_wallet_def init_start_def hook_mounted_def Let_def)+
  ultimately show ?thesis by blast
qed

end
