(* ===== verification/Wizard.thy ===== *)
theory Wizard
  imports Chat_Submit
begin

section \<open>The text wizard\<close>

text \<open>
  \<open>frontend/src/components/inference/TextInferenceWizard.tsx\<close>: \<open>handleSubmit\<close> with its models, upload
  and labels. The wizard's state holds the turns it keeps in \<open>localStorage\<close> (only the user's; \<open>fits\<close> is
  the quota) and the page navigated to. Its \<open>withTimeout\<close>, \<open>generateKey\<close> and \<open>generateTaskId\<close> are those of
  the chat page; it seals with a 16-byte IV.
\<close>

subsection \<open>Models, labels and state\<close>

datatype wizard_model_key = W_qwen_7b | W_groq_llama_70b | W_gemini_flash

definition WIZARD_MODEL_OPTIONS :: "wizard_model_key \<Rightarrow> text_model" where
  "WIZARD_MODEL_OPTIONS k = (case k of
      W_qwen_7b \<Rightarrow> \<lparr>tm_id = ''qwen2.5-7b'', tm_label = ''Qwen2.5 7B (Local)'', tm_provider = ''local'', tm_model = ''qwen2.5-7b''\<rparr>
    | W_groq_llama_70b \<Rightarrow> \<lparr>tm_id = ''groq:llama-3.3-70b-versatile'', tm_label = ''Groq Llama 70B'',
        tm_provider = ''groq'', tm_model = ''llama-3.3-70b-versatile''\<rparr>
    | W_gemini_flash \<Rightarrow> \<lparr>tm_id = ''gemini:gemini-2.5-flash'', tm_label = ''Gemini 2.5 Flash'',
        tm_provider = ''gemini'', tm_model = ''gemini-2.5-flash''\<rparr>)"

definition resolveDefaultModelKey :: "(string \<Rightarrow> string option) \<Rightarrow> wizard_model_key" where
  "resolveDefaultModelKey penv =
     (if penv ''VITE_TEXT_MODEL_DEFAULT'' = Some (tm_id (WIZARD_MODEL_OPTIONS W_gemini_flash)) then W_qwen_7b else W_qwen_7b)"

datatype wizard_stage = W_idle | W_encrypting | W_uploading | W_submitting

definition buttonLabel :: "wizard_stage \<Rightarrow> string option \<Rightarrow> string" where
  "buttonLabel stage encryptStep = (case stage of
      W_encrypting \<Rightarrow> nullish encryptStep ''Encrypting Prompt...''
    | W_uploading \<Rightarrow> ''Uploading to ICL...''
    | W_submitting \<Rightarrow> ''Assigning Quorum...''
    | W_idle \<Rightarrow> ''Run Confidential Text Inference'')"

record wizard =
  wz_prompt :: utext
  wz_error :: "string option"
  wz_stage :: wizard_stage
  wz_step :: "string option"
  wz_history :: "(string \<times> utext) list"
  wz_stored :: "(string \<times> utext) list slot"
  wz_page :: "string option"

text \<open>The history of a wizard just mounted\<close>

definition wizard_history :: "(string \<times> utext) list slot \<Rightarrow> (string \<times> utext) list" where
  "wizard_history st = (case st of Stored turns \<Rightarrow> turns | Absent \<Rightarrow> [] | Malformed \<Rightarrow> [])"

definition wz_fail :: "string \<Rightarrow> (ext, wizard, unit) io" where
  "wz_fail msg = update (\<lambda>z. z\<lparr>wz_error := Some msg\<rparr>)"

definition wz_at :: "wizard_stage \<Rightarrow> string option \<Rightarrow> (ext, wizard, unit) io" where
  "wz_at st step = update (\<lambda>z. z\<lparr>wz_stage := st, wz_step := step\<rparr>)"

subsection \<open>The upload\<close>

definition uploadToICL :: "world \<Rightarrow> (string \<Rightarrow> string option) \<Rightarrow> byte list \<Rightarrow> (ext, 'x, json) io" where
  "uploadToICL w penv data =
     catchE
       (bindE (with_timeout w (js_or (penv ''VITE_PROMPT_UPLOAD_TIMEOUT_MS'') ''30000'') upload_timeout_message
          (api_uploadPromptBlob w penv data default_blob_name)) (\<lambda>answer.
        let cid = opt_prop ''cid'' (Some answer) in
        if \<not> json_truthy cid then throw (ErrorObj (''Unexpected ICL upload response: '' @ json_stringify answer))
        else ret (the cid)))
       (\<lambda>e. case e of
          AxiosErr (Some (JStr detail)) m \<Rightarrow> throw (ErrorObj (if trim detail \<noteq> [] then detail else m))
        | _ \<Rightarrow> throw (ErrorObj (error_message_or e ''Encrypted prompt upload failed before the request completed.'')))"

subsection \<open>The submission\<close>

text \<open>The guards: the message of the first that refuses\<close>

definition wizard_refusal :: "(string \<Rightarrow> string option) \<Rightarrow> connection \<Rightarrow> bool \<Rightarrow> utext \<Rightarrow> string option" where
  "wizard_refusal penv cn isReady normalizedPrompt =
     (if normalizedPrompt = [] then Some ''Please enter a prompt first.''
      else if \<not> isReady \<or> \<not> truthy (cn_address cn) then Some ''Connect your wallet and wait for CoFHE to initialize.''
      else if \<not> cn_cofhe cn then Some ''CoFHE client not initialized.''
      else if \<not> cn_public cn \<or> cn_wallet cn = None then Some ''Wallet client is not available yet.''
      else if \<not> truthy (penv ''VITE_PROMPT_KEY_STORE_ADDRESS'')
        then Some ''VITE_PROMPT_KEY_STORE_ADDRESS is not configured.''
      else None)"

definition seal_timeout_message :: string where
  "seal_timeout_message =
     ''CoFHE encryption timed out after 120s. This may happen if the ZK proof generation is slow. Please try again.''"

definition wizard_seal ::
  "world \<Rightarrow> web_crypto \<Rightarrow> random_bytes \<Rightarrow> wizard cofhe \<Rightarrow> (string \<times> utext) list \<Rightarrow> utext
   \<Rightarrow> (ext, wizard, byte list \<times> prompt_key_payload) io" where
  "wizard_seal w web rnd client conversation normalizedPrompt =
     (let payloadString = stringify_payload conversation normalizedPrompt;
          promptKey = generateKey_browser (rb_key rnd) in
      bindE (lift (encryptText_wizard web (rb_iv rnd) payloadString promptKey)) (\<lambda>encryptedPrompt.
      let packedPrompt = packPayload_wizard encryptedPrompt in
      thenE (wz_at W_encrypting (Some ''CoFHE ZK proof generation (~10-30s)...''))
      (bindE (with_timeout w ''120000'' seal_timeout_message (encryptPromptKeyForTextRequest client promptKey))
        (\<lambda>encryptedPromptKey. ret (packedPrompt, encryptedPromptKey)))))"

text \<open>Whether the preview named a quorum, and the nodes allowed to decrypt\<close>

definition wizard_preview ::
  "world \<Rightarrow> (string \<Rightarrow> string option) \<Rightarrow> string \<Rightarrow> string \<Rightarrow> (ext, 'x, bool \<times> string list) io" where
  "wizard_preview w penv modelId address =
     catchE (bindE (api_getQuorumPreview w penv (preview_params modelId)) (\<lambda>data.
       bindE (lift (preview_nodes data)) (\<lambda>nodes. ret (True, nodes))))
     (\<lambda>quorumErr. ret (False, [address]))"

definition wizard_job_body ::
  "text_model \<Rightarrow> string \<Rightarrow> json \<Rightarrow> prompt_key_payload \<Rightarrow> string \<Rightarrow> nat \<Rightarrow> string \<Rightarrow> string \<Rightarrow> (string \<times> utext) list
   \<Rightarrow> axios_body" where
  "wizard_job_body m address promptCID key taskId prompt_length storeTx store conversation =
     JobBody (JObj
        [(''user_address'', JStr address), (''prompt_cid'', promptCID), (''model_id'', JStr (tm_id m)),
         (''encrypted_prompt_key_high'', JStr (pk_high key)), (''encrypted_prompt_key_low'', JStr (pk_low key)),
         (''payment_mode'', JStr ''credits''), (''payment_currency'', JStr ''cusdc''), (''insurance_opt_in'', JBool False),
         (''task_id'', JStr taskId), (''min_tier'', JNum 0), (''zdr_required'', JBool False), (''verifier_count'', JNum 2),
         (''metadata'', JObj
           [(''cofhe_prompt_key_inputs'', cofhe_prompt_key_inputs key), (''prompt_length'', js_num prompt_length),
            (''vertical'', JStr ''blindference-text-demo''), (''provider'', JStr (tm_provider m)), (''model'', JStr (tm_model m)),
            (''prompt_key_store_tx'', JStr storeTx), (''prompt_key_store_status'', JStr ''stored_by_user''),
            (''prompt_key_store_address'', JStr store),
            (''has_conversation_history'', JBool (0 < length conversation))])]) conversation"

text \<open>\<open>('job_id' in payload && ... && payload.job_id) || ('request_id' in payload && ...)\<close>; \<open>in\<close> refuses a
  primitive\<close>

definition wizard_request_id :: "json \<Rightarrow> js_err + string" where
  "wizard_request_id answer =
     (let named = (\<lambda>k. case obj_get k answer of Some (JStr s) \<Rightarrow> (if s \<noteq> [] then Some s else None) | _ \<Rightarrow> None) in
      case answer of
        JNull \<Rightarrow> Inl (ErrorObj ''Cannot use in operator to search for job_id'')
      | JBool _ \<Rightarrow> Inl (ErrorObj ''Cannot use in operator to search for job_id'')
      | JNum _ \<Rightarrow> Inl (ErrorObj ''Cannot use in operator to search for job_id'')
      | JStr _ \<Rightarrow> Inl (ErrorObj ''Cannot use in operator to search for job_id'')
      | _ \<Rightarrow> (case named ''job_id'' of
            Some s \<Rightarrow> Inr s
          | None \<Rightarrow> (case named ''request_id'' of
                Some s \<Rightarrow> Inr s
              | None \<Rightarrow> Inl (ErrorObj ''The ICL response did not include a request identifier.''))))"

definition wizard_no_nodes_message :: string where
  "wizard_no_nodes_message =
     ''Encrypted key stored on-chain successfully, but no inference nodes are available. ''
     @ ''Start at least 3 blindference-node instances (1 leader + 2 verifiers) to form a quorum.''"

text \<open>The turn kept for the next one, and the page to go to\<close>

definition wizard_persist ::
  "((string \<times> utext) list \<Rightarrow> bool) \<Rightarrow> (string \<times> utext) list \<Rightarrow> utext \<Rightarrow> string \<Rightarrow> wizard \<Rightarrow> wizard" where
  "wizard_persist fits messageHistory normalizedPrompt requestId z =
     (let nextHistory = messageHistory @ [(''user'', normalizedPrompt)] in
      z\<lparr>wz_history := nextHistory, wz_stored := (if fits nextHistory then Stored nextHistory else wz_stored z),
        wz_page := Some (''/inference/'' @ requestId)\<rparr>)"

definition wizard_after_store ::
  "world \<Rightarrow> (string \<Rightarrow> string option) \<Rightarrow> ((string \<times> utext) list \<Rightarrow> bool) \<Rightarrow> connection \<Rightarrow> text_model
   \<Rightarrow> (string \<times> utext) list \<Rightarrow> utext \<Rightarrow> byte list \<Rightarrow> string \<Rightarrow> prompt_key_payload \<Rightarrow> bool \<Rightarrow> string \<Rightarrow> (ext, wizard, unit) io" where
  "wizard_after_store w penv fits cn m conversation normalizedPrompt packedPrompt taskId key have_quorum storeTx =
     thenE (wz_at W_uploading None)
     (bindE (uploadToICL w penv packedPrompt) (\<lambda>promptCID.
      if \<not> have_quorum then thenE (wz_fail wizard_no_nodes_message) (update (\<lambda>z. z\<lparr>wz_stage := W_idle\<rparr>))
      else
        thenE (update (\<lambda>z. z\<lparr>wz_stage := W_submitting\<rparr>))
        (bindE (job_submit w penv (wizard_job_body m (the (cn_address cn)) promptCID key taskId (text_length normalizedPrompt)
                  storeTx (the (penv ''VITE_PROMPT_KEY_STORE_ADDRESS'')) conversation)) (\<lambda>payload.
         bindE (lift (wizard_request_id payload)) (\<lambda>requestId.
         update (wizard_persist fits conversation normalizedPrompt requestId))))))"

definition wizard_error :: "js_err \<Rightarrow> string" where
  "wizard_error e = (case e of
      AxiosErr (Some (JStr detail)) m \<Rightarrow> if trim detail \<noteq> [] then detail else m
    | _ \<Rightarrow> error_message_or e ''Failed to submit text inference request.'')"

definition handleSubmit_wizard ::
  "world \<Rightarrow> web_crypto \<Rightarrow> (string \<Rightarrow> string option) \<Rightarrow> ((string \<times> utext) list \<Rightarrow> bool) \<Rightarrow> random_bytes
   \<Rightarrow> connection \<Rightarrow> wizard cofhe \<Rightarrow> bool \<Rightarrow> text_model \<Rightarrow> (ext, wizard, unit) io" where
  "handleSubmit_wizard w web penv fits rnd cn client isReady m =
     bindE (getting id) (\<lambda>z.
     let normalizedPrompt = text_trim (wz_prompt z); conversation = wz_history z in
     case wizard_refusal penv cn isReady normalizedPrompt of
       Some msg \<Rightarrow> wz_fail msg
     | None \<Rightarrow>
         finally_do (\<lambda>z. z\<lparr>wz_step := None, wz_stage := W_idle\<rparr>)
          (catchE
            (thenE (update (\<lambda>z. z\<lparr>wz_error := None\<rparr>))
            (thenE (wz_at W_encrypting (Some ''AES-256-GCM encrypting prompt...''))
            (bindE (wizard_seal w web rnd client conversation normalizedPrompt) (\<lambda>(packedPrompt, key).
             let taskId = generateTaskId (rb_task rnd) in
             thenE (wz_at W_encrypting (Some ''Storing encrypted key on-chain...''))
            (bindE (wizard_preview w penv (tm_id m) (the (cn_address cn))) (\<lambda>(have_quorum, allowedNodes).
             bindE (storePromptKeyForTextRequest w (the (cn_wallet cn)) taskId (the (penv ''VITE_PROMPT_KEY_STORE_ADDRESS''))
                 (pk_highInput key) (pk_lowInput key) allowedNodes)
               (wizard_after_store w penv fits cn m conversation normalizedPrompt packedPrompt taskId key have_quorum)))))))
            (\<lambda>submitError. thenE (update (\<lambda>z. z\<lparr>wz_step := None\<rparr>)) (wz_fail (wizard_error submitError)))))"

subsection \<open>No job without a confirmed key\<close>

lemma wizard_seal_calls: "adds no_post (wizard_seal w web rnd (real_client w) conv prompt)"
  unfolding wizard_seal_def encryptPromptKeyForTextRequest_def real_simps cofhe_encrypt_def wz_at_def Let_def
  by (intro adds_rules; simp)

lemma wizard_preview_calls: "adds no_post (wizard_preview w penv mid a)" "keeps (wizard_preview w penv mid a)"
  unfolding wizard_preview_def api_defs Let_def by (intro adds_rules keeps_rules; simp)+

lemma uploadToICL_calls: "adds no_post (uploadToICL w penv b)" "keeps (uploadToICL w penv b)"
  unfolding uploadToICL_def api_defs axios_post_def Let_def
  by (intro adds_rules keeps_rules; auto simp: adds_rules keeps_rules split: js_err.split option.split json.split)+

text \<open>The job a wizard posts\<close>

definition wizard_job ::
  "(string \<Rightarrow> string option) \<Rightarrow> connection \<Rightarrow> text_model \<Rightarrow> (string \<times> utext) list \<Rightarrow> utext \<Rightarrow> string
   \<Rightarrow> prompt_key_payload \<Rightarrow> string \<Rightarrow> axios_body \<Rightarrow> bool" where
  "wizard_job penv cn m conv prompt taskId key h body =
     (\<exists>cid. body = wizard_job_body m (the (cn_address cn)) cid key taskId (text_length prompt) h
        (the (penv ''VITE_PROMPT_KEY_STORE_ADDRESS'')) conv)"

lemma wizard_after_store_posts:
  assumes B: "\<And>cid. B (wizard_job_body m (the (cn_address cn)) cid key taskId (text_length prompt) storeTx
      (the (penv ''VITE_PROMPT_KEY_STORE_ADDRESS'')) conv)"
  shows "either_way (posts_last penv B lg) (wizard_after_store w penv fits cn m conv prompt packed taskId key q storeTx) lg z"
proof -
  have post: "posts_last penv B lg ((lg @ new) @ [job_call penv (wizard_job_body m (the (cn_address cn)) cid key taskId
      (text_length prompt) storeTx (the (penv ''VITE_PROMPT_KEY_STORE_ADDRESS'')) conv)])" if "list_all no_post new" for new cid
    by (rule posts_later [OF that posts_now [of B, OF B]])
  show ?thesis
    unfolding wizard_after_store_def wz_at_def wz_fail_def job_submit_def axios_post_def Let_def
    by (simp only: wp_then wp_bind wp_basic)
      (rule wp_external [OF uploadToICL_calls],
       auto simp: wp_simps posts_quiet post [unfolded job_call_def append_assoc] split: sum.split)
qed

interpretation wizard_gate: key_gate penv "wizard_job penv cn m conv prompt task"
    "\<lambda>key. wizard_after_store w penv fits cn m conv prompt packed task key"
  for penv cn m conv prompt task w fits packed
  by unfold_locales (rule wizard_after_store_posts, auto simp: wizard_job_def)

text \<open>C18: the wizard posts a job only behind the same gate: at most one, as its last call, after the
  confirmed transaction that stores its key for its task, for at least one node; the job names that
  task, key and transaction.\<close>

theorem wizard_job_after_key:
  shows "case handleSubmit_wizard w web penv fits rnd cn (real_client w) isReady m (lg, z) of (r, (lg', z')) \<Rightarrow>
    post_after_store w penv (the (cn_wallet cn)) (the (penv ''VITE_PROMPT_KEY_STORE_ADDRESS'')) (generateTaskId (rb_task rnd))
      (wizard_job penv cn m (wz_history z) (text_trim (wz_prompt z)) (generateTaskId (rb_task rnd))) lg lg'"
proof -
  have "either_way (post_after_store w penv (the (cn_wallet cn)) (the (penv ''VITE_PROMPT_KEY_STORE_ADDRESS'')) (generateTaskId (rb_task rnd))
      (wizard_job penv cn m (wz_history z) (text_trim (wz_prompt z)) (generateTaskId (rb_task rnd))) lg)
      (handleSubmit_wizard w web penv fits rnd cn (real_client w) isReady m) lg z"
  proof (cases "wizard_refusal penv cn isReady (text_trim (wz_prompt z))")
    case (Some msg)
    then show ?thesis using quiet_after [of "[]", simplified] by (simp add: handleSubmit_wizard_def wz_fail_def wp_simps)
  next
    case None
    show ?thesis
      unfolding handleSubmit_wizard_def wz_at_def wz_fail_def Let_def
      by (simp only: wp_then wp_basic wp_bind [of "getting id"] id_apply None option.case wp_finally wp_catch
            wp_bind [of "wizard_seal w web rnd (real_client w) (wz_history z) (text_trim (wz_prompt z))"])
        (rule wp_conseq [OF wp_adds [OF wizard_seal_calls]],
         elim exE conjE, simp only: wp_case_prod wp_then wp_basic split: prod.split, intro allI impI,
         rule wizard_gate.preview_store_post [OF _ wizard_preview_calls], assumption,
         elim exE conjE, simp only:, rule quiet_after, assumption)
  qed
  then show ?thesis by (auto simp: wp_def split: prod.splits sum.splits)
qed

subsection \<open>How a submission ends\<close>

definition wz_running :: "wizard \<Rightarrow> wizard \<Rightarrow> bool" where
  "wz_running z x = (wz_prompt x = wz_prompt z \<and> wz_history x = wz_history z \<and> wz_stored x = wz_stored z
     \<and> wz_page x = wz_page z \<and> wz_error x = None)"

lemma wz_running_steps [simp]:
  "wz_running z x \<Longrightarrow> wz_running z (x\<lparr>wz_stage := st\<rparr>)"
  "wz_running z x \<Longrightarrow> wz_running z (x\<lparr>wz_stage := st, wz_step := step\<rparr>)"
  "wz_running z (z\<lparr>wz_error := None\<rparr>)"
  by (simp_all add: wz_running_def)

definition wz_ended :: "((string \<times> utext) list \<Rightarrow> bool) \<Rightarrow> wizard \<Rightarrow> wizard \<Rightarrow> bool" where
  "wz_ended fits z x = (wz_prompt x = wz_prompt z \<and>
     (case wz_error x of
        Some msg \<Rightarrow> wz_history x = wz_history z \<and> wz_stored x = wz_stored z \<and> wz_page x = wz_page z
      | None \<Rightarrow> wz_history x = wz_history z @ [(''user'', text_trim (wz_prompt z))]
          \<and> wz_stored x = (if fits (wz_history x) then Stored (wz_history x) else wz_stored z)
          \<and> (\<exists>requestId. requestId \<noteq> [] \<and> wz_page x = Some (''/inference/'' @ requestId))))"

lemma request_id_named: "wizard_request_id answer = Inr rid \<Longrightarrow> rid \<noteq> []"
  by (auto simp: wizard_request_id_def Let_def split: json.splits option.splits if_splits)

lemma wizard_seal_state:
  "wz_running z x \<Longrightarrow> wp (wizard_seal w web rnd (real_client w) conv prompt) (\<lambda>v lg x'. wz_running z x') (\<lambda>e lg x'. wz_running z x') lg x"
  unfolding wizard_seal_def wz_at_def Let_def
  by (simp only: wp_bind wp_then wp_basic wp_lift)
    (auto split: sum.split intro!: wp_keeps [OF keeps_with_timeout] simp: encryptPromptKeyForTextRequest_def real_simps cofhe_encrypt_def keeps_rules)

lemma wizard_after_store_state:
  assumes "wz_running z x" "conv = wz_history z" "prompt = text_trim (wz_prompt z)"
  shows "wp (wizard_after_store w penv fits cn m conv prompt packed taskId key q storeTx)
    (\<lambda>v lg x. wz_ended fits z x) (\<lambda>e lg x. wz_running z x) lg x"
  unfolding wizard_after_store_def wz_at_def wz_fail_def job_submit_def axios_post_def Let_def
  using assms
  by (simp only: wp_then wp_bind wp_basic) (rule wp_keeps [OF uploadToICL_calls(2)],
      auto simp: wp_simps wz_ended_def wz_running_def wizard_persist_def Let_def dest: request_id_named split: sum.split)

text \<open>Every submission of the wizard ends, and says how. The handler never throws and leaves the
  wizard idle, without a step. A refusal shows its reason and changes and calls nothing else. Otherwise
  either an error is shown and neither the kept turns nor the page have changed, or no error is shown,
  the prompt has been appended to the turns (and stored, if it fits) and the page is that of a request.\<close>

lemma wizard_submit_ends:
  shows "case handleSubmit_wizard w web penv fits rnd cn (real_client w) isReady m (lg, z) of (r, (lg', z')) \<Rightarrow> r = Inr () \<and>
    (case wizard_refusal penv cn isReady (text_trim (wz_prompt z)) of
       Some msg \<Rightarrow> lg' = lg \<and> z' = z\<lparr>wz_error := Some msg\<rparr>
     | None \<Rightarrow> wz_stage z' = W_idle \<and> wz_step z' = None \<and> wz_ended fits z z')"
proof (cases "wizard_refusal penv cn isReady (text_trim (wz_prompt z))")
  case (Some msg)
  then show ?thesis by (simp add: handleSubmit_wizard_def Let_def wz_fail_def)
next
  case None
  have fails: "wz_running z x \<Longrightarrow> wz_ended fits z (x\<lparr>wz_error := Some msg\<rparr>)" for x msg
    by (simp add: wz_running_def wz_ended_def)
  have idle: "wz_ended fits z (x\<lparr>wz_step := s, wz_stage := st\<rparr>) \<longleftrightarrow> wz_ended fits z x" for x s st
    by (simp add: wz_ended_def split: option.split)
  let ?tail = "\<lambda>m. wp m (\<lambda>v lg x. wz_ended fits z x) (\<lambda>e lg x. wz_running z x)"
  have tail: "?tail (bindE (wizard_preview w penv mid a) (\<lambda>(q, nodes).
      bindE (storePromptKeyForTextRequest w account task store (pk_highInput key) (pk_lowInput key) nodes)
        (wizard_after_store w penv fits cn m (wz_history z) (text_trim (wz_prompt z)) packed task key q))) lg x"
    if "wz_running z x" for mid a account task store key packed lg x
    unfolding wp_bind
    by (rule wp_keeps [OF wizard_preview_calls(2)], simp only: wp_case_prod wp_bind split: prod.split, intro allI impI)
      (rule wp_keeps [OF store_calls(2)], simp_all add: that wizard_after_store_state)
  have "wp (handleSubmit_wizard w web penv fits rnd cn (real_client w) isReady m)
      (\<lambda>v lg x. wz_stage x = W_idle \<and> wz_step x = None \<and> wz_ended fits z x) (\<lambda>e lg x. False) lg z"
    unfolding handleSubmit_wizard_def wz_at_def wz_fail_def Let_def
    by (simp only: wp_then wp_basic wp_bind [of "getting id"] id_apply None option.case wp_finally wp_catch
            wp_bind [of "wizard_seal w web rnd (real_client w) (wz_history z) (text_trim (wz_prompt z))"])
      (rule wp_conseq [OF wizard_seal_state [where z = z]], simp,
       simp only: wp_case_prod wp_then wp_basic split: prod.split, intro allI impI,
       rule wp_conseq [OF tail], simp_all add: idle fails)
  with None show ?thesis by (auto simp: wp_def split: prod.splits sum.splits)
qed

end
