(* ===== verification/Credits.thy ===== *)
theory Credits
  imports Escrow Agent_Client
begin

section \<open>Credits, deposits and packages\<close>

text \<open>
  \<open>frontend/src/hooks/useCredits.ts\<close>, \<open>useBlindFaucet.ts\<close>, \<open>components/DepositModal.tsx\<close> and the handlers of
  \<open>pages/BuyCreditsPage.tsx\<close>. Each builds its fees as \<open>chain_fee_params\<close> does. An error shown may be any
  JSON the service put in \<open>detail\<close>. \<open>parse_units\<close> is viem's \<open>parseUnits(_, 18)\<close>.
\<close>

subsection \<open>Errors and defaults\<close>

text \<open>\<open>err.response?.data?.detail || err.message || fallback\<close>\<close>

definition detail_or_message :: "js_err \<Rightarrow> string \<Rightarrow> json" where
  "detail_or_message e fallback = (case e of
      AxiosErr (Some d) m \<Rightarrow> if json_truthy (Some d) then d else JStr (any_message_or e fallback)
    | _ \<Rightarrow> JStr (any_message_or e fallback))"

text \<open>\<open>err.response?.data?.detail || (err instanceof Error ? err.message : fallback)\<close>\<close>

definition detail_or_error :: "js_err \<Rightarrow> string \<Rightarrow> json" where
  "detail_or_error e fallback = (case e of
      AxiosErr (Some d) m \<Rightarrow> if json_truthy (Some d) then d else JStr m
    | _ \<Rightarrow> JStr (error_message_or e fallback))"

text \<open>\<open>err.response?.data?.detail || fallback\<close>\<close>

definition detail_or :: "js_err \<Rightarrow> string \<Rightarrow> json" where
  "detail_or e fallback = (case e of
      AxiosErr (Some d) m \<Rightarrow> if json_truthy (Some d) then d else JStr fallback
    | _ \<Rightarrow> JStr fallback)"

definition json_or :: "json option \<Rightarrow> json \<Rightarrow> json" where
  "json_or v fallback = (if json_truthy v then the v else fallback)"

subsection \<open>\<open>useCredits\<close>\<close>

record balances =
  ub_cusdc :: json
  ub_blind :: json
  ub_loading :: bool
  ub_error :: "string option"

definition balances_init :: balances where
  "balances_init = \<lparr>ub_cusdc = JStr ''0'', ub_blind = JStr ''0'', ub_loading = False, ub_error = None\<rparr>"

text \<open>The balances of an answer; a TypeError on \<open>null\<close>\<close>

definition balances_of :: "json \<Rightarrow> js_err + balances" where
  "balances_of data = (case json_prop ''balance_cusdc'' data of
      Inl e \<Rightarrow> Inl e
    | Inr c \<Rightarrow> Inr \<lparr>ub_cusdc = json_or c (JStr ''0''), ub_blind = json_or (obj_get ''balance_blind'' data) (JStr ''0''),
        ub_loading = False, ub_error = None\<rparr>)"

definition fetchBalance :: "world \<Rightarrow> (string \<Rightarrow> string option) \<Rightarrow> string option \<Rightarrow> (ext, balances, unit) io" where
  "fetchBalance w penv address =
     (if \<not> truthy address then ret ()
      else
        thenE (update (\<lambda>b. b\<lparr>ub_loading := True, ub_error := None\<rparr>))
        (catchE
          (bindE (credits_getBalance w penv (the address)) (\<lambda>data.
           bindE (lift (balances_of data)) (\<lambda>b. update (\<lambda>_. b))))
          (\<lambda>err. update (\<lambda>b. b\<lparr>ub_loading := False, ub_error := Some (error_message_or err ''Failed to fetch balance'')\<rparr>))))"

text \<open>A message of the stream: its data parsed, or malformed; a failed stream fetches once\<close>

definition stream_message :: "json option \<Rightarrow> balances \<Rightarrow> balances" where
  "stream_message data b = (case data of
      None \<Rightarrow> b
    | Some j \<Rightarrow> (case balances_of j of Inl e \<Rightarrow> b | Inr b' \<Rightarrow> b'))"

definition stream_error :: "world \<Rightarrow> (string \<Rightarrow> string option) \<Rightarrow> string option \<Rightarrow> (ext, balances, unit) io" where
  "stream_error w penv address = fetchBalance w penv address"

subsection \<open>\<open>useBlindFaucet\<close>\<close>

definition FAUCET_ADDRESS :: "(string \<Rightarrow> string option) \<Rightarrow> string" where
  "FAUCET_ADDRESS penv = js_or (penv ''VITE_FAUCET_ADDRESS'') ''0xb55e8A064B9abBfFA588063e5DF69Fa1f1175616''"

record faucet =
  fc_loading :: bool
  fc_error :: "string option"
  fc_success :: "string option"
  fc_last :: "abi_value list option"

definition fetchLastDripTime :: "world \<Rightarrow> (string \<Rightarrow> string option) \<Rightarrow> connection \<Rightarrow> (ext, faucet, unit) io" where
  "fetchLastDripTime w penv cn =
     (if \<not> truthy (cn_address cn) \<or> \<not> cn_public cn \<or> FAUCET_ADDRESS penv = [] then ret ()
      else catchE
        (bindE (read_contract w (FAUCET_ADDRESS penv) ''lastDripTime'' [AStr (the (cn_address cn))]) (\<lambda>v.
         update (\<lambda>f. f\<lparr>fc_last := Some v\<rparr>)))
        (\<lambda>e. update (\<lambda>f. f\<lparr>fc_last := None\<rparr>)))"

text \<open>Fees, one write, its receipt, and an error unless it says \<open>success\<close>\<close>

definition confirmed_write :: "world \<Rightarrow> (fee_params \<Rightarrow> contract_tx) \<Rightarrow> string \<Rightarrow> (ext, 'x, string) io" where
  "confirmed_write w tx failure =
     bindE (chain_fee_params w) (\<lambda>feeParams.
     bindE (write_contract w (tx feeParams)) (\<lambda>txHash.
     bindE (wait_receipt w txHash) (\<lambda>status.
     if status \<noteq> ''success'' then throw (ErrorObj failure) else ret txHash)))"

definition drip_tx :: "(string \<Rightarrow> string option) \<Rightarrow> string \<Rightarrow> fee_params \<Rightarrow> contract_tx" where
  "drip_tx penv address fees = \<lparr>tx_account = address, tx_address = FAUCET_ADDRESS penv, tx_function = ''drip'', tx_args = [],
     tx_fees = fees\<rparr>"

definition drip :: "world \<Rightarrow> (string \<Rightarrow> string option) \<Rightarrow> connection \<Rightarrow> (ext, faucet, unit) io" where
  "drip w penv cn =
     (if \<not> connected cn then update (\<lambda>f. f\<lparr>fc_error := Some ''Connect your wallet first''\<rparr>)
      else if FAUCET_ADDRESS penv = [] then update (\<lambda>f. f\<lparr>fc_error := Some ''Faucet address not configured''\<rparr>)
      else
        thenE (update (\<lambda>f. f\<lparr>fc_loading := True, fc_error := None, fc_success := None\<rparr>))
        (finally_do (\<lambda>f. f\<lparr>fc_loading := False\<rparr>)
          (catchE
            (thenE (confirmed_write w (drip_tx penv (the (cn_address cn))) ''Faucet drip failed on-chain'')
            (thenE (update (\<lambda>f. f\<lparr>fc_success := Some ''BLIND tokens dripped successfully!''\<rparr>))
             (fetchLastDripTime w penv cn)))
            (\<lambda>err. update (\<lambda>f. f\<lparr>fc_error := Some (any_message_or err ''Faucet drip failed'')\<rparr>)))))"

subsection \<open>\<open>BuyCreditsPage\<close>\<close>

record credits_page =
  bp_packages :: "json option"
  bp_loading :: bool
  bp_error :: "json option"
  bp_purchasing :: "string option"
  bp_success :: "string option"
  bp_approving :: bool
  bp_balances :: balances

record credit_package =
  cp_id :: string
  cp_name :: string
  cp_price_blind_wei :: string

definition BLIND_TOKEN_ADDRESS :: "(string \<Rightarrow> string option) \<Rightarrow> string" where
  "BLIND_TOKEN_ADDRESS penv = js_or (penv ''VITE_BLIND_TOKEN_ADDRESS'') []"

definition PAYMENT_WALLET_ADDRESS :: "(string \<Rightarrow> string option) \<Rightarrow> string" where
  "PAYMENT_WALLET_ADDRESS penv = js_or (penv ''VITE_PAYMENT_WALLET_ADDRESS'') []"

definition bp_fail :: "json \<Rightarrow> (ext, credits_page, unit) io" where
  "bp_fail msg = update (\<lambda>p. p\<lparr>bp_error := Some msg\<rparr>)"

text \<open>The packages, fetched on mount; the answer to an unmounted page is dropped\<close>

definition load_packages :: "world \<Rightarrow> (string \<Rightarrow> string option) \<Rightarrow> bool \<Rightarrow> (ext, credits_page, unit) io" where
  "load_packages w penv cancelled =
     finally_do (\<lambda>p. if cancelled then p else p\<lparr>bp_loading := False\<rparr>)
      (catchE
        (bindE (credits_getPackages w penv) (\<lambda>data.
         if cancelled then ret ()
         else bindE (lift (json_prop ''packages'' data)) (\<lambda>ps. update (\<lambda>p. p\<lparr>bp_packages := ps\<rparr>))))
        (\<lambda>err. if cancelled then ret () else bp_fail (detail_or err ''Failed to load packages'')))"

definition approve_tx :: "(string \<Rightarrow> string option) \<Rightarrow> string \<Rightarrow> fee_params \<Rightarrow> contract_tx" where
  "approve_tx penv address fees = \<lparr>tx_account = address, tx_address = BLIND_TOKEN_ADDRESS penv, tx_function = ''approve'',
     tx_args = [AStr (PAYMENT_WALLET_ADDRESS penv), AInt (2 ^ 256 - 1)], tx_fees = fees\<rparr>"

definition handleApprove :: "world \<Rightarrow> (string \<Rightarrow> string option) \<Rightarrow> connection \<Rightarrow> (ext, credits_page, unit) io" where
  "handleApprove w penv cn =
     (if \<not> connected cn then bp_fail (JStr ''Connect your wallet first'')
      else if BLIND_TOKEN_ADDRESS penv = [] \<or> PAYMENT_WALLET_ADDRESS penv = []
        then bp_fail (JStr ''BLIND token or payment wallet not configured'')
      else
        thenE (update (\<lambda>p. p\<lparr>bp_approving := True, bp_error := None\<rparr>))
        (finally_do (\<lambda>p. p\<lparr>bp_approving := False\<rparr>)
          (catchE
            (thenE (confirmed_write w (approve_tx penv (the (cn_address cn))) ''Approval failed on-chain'')
             (update (\<lambda>p. p\<lparr>bp_success := Some ''BLIND approval successful! You can now purchase packages.''\<rparr>)))
            (\<lambda>err. bp_fail (detail_or_message err ''Approval failed'')))))"

definition transfer_tx :: "(string \<Rightarrow> string option) \<Rightarrow> string \<Rightarrow> int \<Rightarrow> fee_params \<Rightarrow> contract_tx" where
  "transfer_tx penv address amount fees = \<lparr>tx_account = address, tx_address = BLIND_TOKEN_ADDRESS penv, tx_function = ''transfer'',
     tx_args = [AStr (PAYMENT_WALLET_ADDRESS penv), AInt amount], tx_fees = fees\<rparr>"

text \<open>The price is read when the arguments of the write are built, after the fees\<close>

definition send_price ::
  "world \<Rightarrow> (string \<Rightarrow> string option) \<Rightarrow> string \<Rightarrow> string \<Rightarrow> (ext, 'x, string) io" where
  "send_price w penv address price =
     bindE (chain_fee_params w) (\<lambda>feeParams.
     bindE (lift (js_BigInt price)) (\<lambda>amount.
     bindE (write_contract w (transfer_tx penv address amount feeParams)) (\<lambda>txHash.
     bindE (wait_receipt w txHash) (\<lambda>status.
     if status \<noteq> ''success'' then throw (ErrorObj ''BLIND transfer failed on-chain'') else ret txHash))))"

definition handlePurchase ::
  "world \<Rightarrow> (string \<Rightarrow> string option) \<Rightarrow> connection \<Rightarrow> credit_package \<Rightarrow> (ext, credits_page, unit) io" where
  "handlePurchase w penv cn pkg =
     (if \<not> connected cn then bp_fail (JStr ''Connect your wallet first'')
      else if BLIND_TOKEN_ADDRESS penv = [] \<or> PAYMENT_WALLET_ADDRESS penv = []
        then bp_fail (JStr ''BLIND token or payment wallet not configured'')
      else
        thenE (update (\<lambda>p. p\<lparr>bp_purchasing := Some (cp_id pkg), bp_error := None, bp_success := None\<rparr>))
        (finally_do (\<lambda>p. p\<lparr>bp_purchasing := None\<rparr>)
          (catchE
            (bindE (send_price w penv (the (cn_address cn)) (cp_price_blind_wei pkg)) (\<lambda>txHash.
             bindE (credits_purchasePackage w penv (cp_id pkg) txHash) (\<lambda>data.
             bindE (lift (json_prop ''credits_awarded_cusdc'' data)) (\<lambda>awarded.
             thenE (update (\<lambda>p. p\<lparr>bp_success := Some (''Purchased '' @ cp_name pkg @ ''! Awarded ''
                 @ (case awarded of None \<Rightarrow> ''undefined'' | Some j \<Rightarrow> json_display j) @ '' cUSDC-equivalent credits.'')\<rparr>))
              (zoom bp_balances (\<lambda>b p. p\<lparr>bp_balances := b\<rparr>) (fetchBalance w penv (cn_address cn)))))))
            (\<lambda>err. bp_fail (detail_or_message err ''Purchase failed'')))))"

definition needsApproval :: "int option \<Rightarrow> json option \<Rightarrow> js_err + bool" where
  "needsApproval allowance packages = (case allowance of
      None \<Rightarrow> Inr False
    | Some a \<Rightarrow>
        (case packages of
           None \<Rightarrow> Inl (ErrorObj ''Cannot read properties of undefined (reading 0)'')
         | Some JNull \<Rightarrow> Inl (ErrorObj ''Cannot read properties of null (reading 0)'')
         | Some ps \<Rightarrow>
             let price = (case ps of JArr (p # _) \<Rightarrow> obj_get ''price_blind_wei'' p | _ \<Rightarrow> None) in
             map_sum id (\<lambda>v. a < v) (BigInt_json (Some (json_or price (JStr ''100000000000000000000''))))))"

subsection \<open>\<open>DepositModal\<close>\<close>

datatype deposit_token = T_cusdc | T_blind

datatype deposit_status = D_idle | D_sending | D_confirming | D_done | D_error

record deposit =
  dp_token :: deposit_token
  dp_amount :: string
  dp_status :: deposit_status
  dp_error :: "json option"
  dp_succeeded :: bool

definition ICL_WALLET_ADDRESS :: "(string \<Rightarrow> string option) \<Rightarrow> string" where
  "ICL_WALLET_ADDRESS penv = js_or (penv ''VITE_ICL_WALLET_ADDRESS'') []"

definition dp_refuse :: "deposit_status option \<Rightarrow> string \<Rightarrow> (ext, deposit, unit) io" where
  "dp_refuse st msg = update (\<lambda>d. d\<lparr>dp_error := Some (JStr msg), dp_status := nullish st (dp_status d)\<rparr>)"

definition deposit_tx :: "(string \<Rightarrow> string option) \<Rightarrow> string \<Rightarrow> int \<Rightarrow> fee_params \<Rightarrow> contract_tx" where
  "deposit_tx penv address amount fees = \<lparr>tx_account = address, tx_address = BLIND_TOKEN_ADDRESS penv, tx_function = ''transfer'',
     tx_args = [AStr (ICL_WALLET_ADDRESS penv), AInt amount], tx_fees = fees\<rparr>"

text \<open>\<open>for (let attempt = 1; attempt <= 5; attempt++)\<close>, with the number of attempts left\<close>

fun notify_loop :: "world \<Rightarrow> (string \<Rightarrow> string option) \<Rightarrow> string \<Rightarrow> nat \<Rightarrow> js_err \<Rightarrow> (ext, deposit, unit) io" where
  "notify_loop w penv txHash 0 lastErr = throw lastErr"
| "notify_loop w penv txHash (Suc n) lastErr =
     bindE (catchE (bindE (credits_notifyDeposit w penv txHash) (\<lambda>data. ret None)) (\<lambda>err. ret (Some err))) (\<lambda>failed.
     case failed of
       None \<Rightarrow> update (\<lambda>d. d\<lparr>dp_status := D_done, dp_succeeded := True\<rparr>)
     | Some err \<Rightarrow> thenE (if 0 < n then sleep 3000 else ret ()) (notify_loop w penv txHash n err))"

text \<open>The guards: the status and the message of the first that refuses\<close>

definition deposit_refusal ::
  "(string \<Rightarrow> string option) \<Rightarrow> connection \<Rightarrow> deposit_token \<Rightarrow> (deposit_status option \<times> string) option" where
  "deposit_refusal penv cn tok =
     (if \<not> truthy (cn_address cn) \<or> cn_wallet cn = None then Some (None, ''Connect your wallet first'')
      else if ICL_WALLET_ADDRESS penv = [] then Some (None, ''ICL wallet address not configured'')
      else if tok = T_cusdc then Some (Some D_error,
       ''cUSDC is a confidential token and cannot be deposited via standard transfer. Please use the CLI wrap script (wrap_usdc.ts) to convert USDC to cUSDC.'')
      else None)"

definition deposit_send ::
  "world \<Rightarrow> (string \<Rightarrow> string option) \<Rightarrow> connection \<Rightarrow> int \<Rightarrow> (ext, deposit, unit) io" where
  "deposit_send w penv cn wei =
     bindE (chain_fee_params w) (\<lambda>feeParams.
     bindE (write_contract w (deposit_tx penv (the (cn_address cn)) wei feeParams)) (\<lambda>txHash.
     thenE (update (\<lambda>d. d\<lparr>dp_status := D_confirming\<rparr>))
     (thenE (sleep 7000)
      (notify_loop w penv txHash 5 (ThrownValue ''undefined'')))))"

definition handleDeposit ::
  "world \<Rightarrow> (string \<Rightarrow> string option) \<Rightarrow> (string \<Rightarrow> js_err + int) \<Rightarrow> connection \<Rightarrow> (ext, deposit, unit) io" where
  "handleDeposit w penv parse_units cn =
     bindE (getting id) (\<lambda>d.
     case deposit_refusal penv cn (dp_token d) of
       Some refused \<Rightarrow> dp_refuse (fst refused) (snd refused)
     | None \<Rightarrow>
       thenE (update (\<lambda>d. d\<lparr>dp_status := D_sending, dp_error := None\<rparr>))
        (catchE
          (bindE (lift (parse_units (dp_amount d))) (\<lambda>wei.
           if BLIND_TOKEN_ADDRESS penv = [] then dp_refuse (Some D_error) ''BLIND token address not configured''
           else if \<not> cn_public cn then dp_refuse (Some D_error) ''Public client not available''
           else deposit_send w penv cn wei))
          (\<lambda>err. update (\<lambda>d. d\<lparr>dp_status := D_error, dp_error := Some (detail_or_error err ''Deposit failed'')\<rparr>))))"

subsection \<open>A purchase pays first\<close>

definition purchase_call :: "(string \<Rightarrow> string option) \<Rightarrow> string \<Rightarrow> string \<Rightarrow> ext" where
  "purchase_call penv packageId txHash = Axios ''POST'' (paymentApiClient penv) ''/v1/credits/purchase-package''
     (JsonBody (JObj [(''package_id'', JStr packageId), (''tx_hash'', JStr txHash)]))"

definition is_purchase :: "ext \<Rightarrow> bool" where
  "is_purchase c = (case c of Axios verb base path body \<Rightarrow> path = ''/v1/credits/purchase-package'' | _ \<Rightarrow> False)"

abbreviation no_purchase :: "ext \<Rightarrow> bool" where
  "no_purchase c \<equiv> \<not> is_purchase c"

lemma is_purchase_simps [simp]:
  "is_purchase (Axios verb base path body) \<longleftrightarrow> path = ''/v1/credits/purchase-package''"
  "\<not> is_purchase GetBlock" "\<not> is_purchase EstimatePriorityFee" "\<not> is_purchase GetGasPrice"
  "\<not> is_purchase (WriteContract tx)" "\<not> is_purchase (WaitReceipt h)"
  by (simp_all add: is_purchase_def)

lemma send_price_calls: "adds no_purchase (send_price w penv a price)" "keeps (send_price w penv a price)"
  unfolding send_price_def chain_fee_params_def call_defs by (intro adds_rules keeps_rules; simp)+

lemma send_price_wp:
  "wp (send_price w penv a price)
     (\<lambda>h lg' x'. x' = x \<and> (\<exists>new. lg' = lg @ new \<and> list_all no_purchase new) \<and>
        (\<exists>amount. js_BigInt price = Inr amount \<and> confirmed w (transfer_tx penv a amount) lg h lg'))
     (\<lambda>e lg' x'. x' = x \<and> (\<exists>new. lg' = lg @ new \<and> list_all no_purchase new)) lg x"
proof -
  let ?m = "send_price w penv a price"
  have "wp ?m (\<lambda>v lg' x'. x' = x \<and> (\<exists>new. lg' = lg @ new \<and> list_all no_purchase new))
     (\<lambda>e lg' x'. x' = x \<and> (\<exists>new. lg' = lg @ new \<and> list_all no_purchase new)) lg x"
    by (rule wp_external [OF send_price_calls]) auto
  moreover have "wp ?m (\<lambda>h lg' x'. \<exists>amount. js_BigInt price = Inr amount \<and> confirmed w (transfer_tx penv a amount) lg h lg') (\<lambda>e lg' x'. True) lg x"
  proof (cases "js_BigInt price")
    case (Inl e)
    then show ?thesis
      unfolding send_price_def by (simp add: wp_bind wp_lift) (rule wp_any; simp)
  next
    case (Inr amount)
    have eq: "?m = bindE (chain_fee_params w) (\<lambda>f. bindE (write_contract w (transfer_tx penv a amount f)) (\<lambda>hash.
      bindE (wait_receipt w hash) (\<lambda>status. if status \<noteq> ''success'' then throw (ErrorObj ''BLIND transfer failed on-chain'') else ret hash)))"
      unfolding send_price_def Inr by (simp add: fun_eq_iff bindE_def)
    have sent: "confirmed w (transfer_tx penv a amount) lg h lg'" if "?m (lg, x) = (Inr h, (lg', x'))" for h lg' x'
      using send_confirmed [OF that [unfolded eq]] by simp
    obtain r lg' x' where run: "?m (lg, x) = (r, (lg', x'))" by (metis surj_pair)
    show ?thesis
    proof (cases r)
      case (Inr h)
      with run sent \<open>js_BigInt price = Inr amount\<close> show ?thesis by (simp add: wp_def)
    next
      case (Inl e)
      with run show ?thesis by (simp add: wp_def)
    qed
  qed
  ultimately show ?thesis by (rule wp_conseq [OF wp_conj]) auto
qed

text \<open>The purchases notified since \<open>lg\<close>: none, or one, after the confirmed transfer it names\<close>

definition paid_first :: "world \<Rightarrow> (string \<Rightarrow> string option) \<Rightarrow> string \<Rightarrow> credit_package \<Rightarrow> ext list \<Rightarrow> ext list \<Rightarrow> bool" where
  "paid_first w penv a pkg lg lg' =
     (\<exists>amount h paid rest. js_BigInt (cp_price_blind_wei pkg) = Inr amount \<and> confirmed w (transfer_tx penv a amount) lg h paid
        \<and> lg' = paid @ purchase_call penv (cp_id pkg) h # rest \<and> list_all no_purchase rest)"

definition nothing_bought :: "ext list \<Rightarrow> ext list \<Rightarrow> bool" where
  "nothing_bought lg lg' = (\<exists>new. lg' = lg @ new \<and> list_all no_purchase new)"

lemma balance_calls: "adds no_purchase (fetchBalance w penv a)"
  unfolding fetchBalance_def api_defs axios_get_def Let_def by (intro adds_rules; simp)

text \<open>C24: a purchase pays before it is claimed. Whatever the chain and the service answer, buying a package
  never throws and ends with nothing marked as being bought. If the success message is shown, the exact
  price was transferred once to the payment wallet in a confirmed transaction and that transaction was
  reported for that package; if it is not, an error is. A purchase is never reported without such a
  transfer.\<close>

theorem purchase_pays_first:
  shows "case handlePurchase w penv cn pkg (lg, p) of (r, (lg', p')) \<Rightarrow> r = Inr () \<and>
    (if connected cn \<and> BLIND_TOKEN_ADDRESS penv \<noteq> [] \<and> PAYMENT_WALLET_ADDRESS penv \<noteq> []
     then bp_purchasing p' = None \<and>
       (case bp_success p' of
          Some msg \<Rightarrow> bp_error p' = None \<and> paid_first w penv (the (cn_address cn)) pkg lg lg'
        | None \<Rightarrow> bp_error p' \<noteq> None \<and> (paid_first w penv (the (cn_address cn)) pkg lg lg' \<or> nothing_bought lg lg'))
     else lg' = lg \<and> bp_error p' \<noteq> None)"
proof (cases "connected cn \<and> BLIND_TOKEN_ADDRESS penv \<noteq> [] \<and> PAYMENT_WALLET_ADDRESS penv \<noteq> []")
  case False
  then show ?thesis by (auto simp: handlePurchase_def bp_fail_def)
next
  case True
  then have set: "Escrow.connected cn = True" "(BLIND_TOKEN_ADDRESS penv = []) = False" "(PAYMENT_WALLET_ADDRESS penv = []) = False" by simp_all
  have fetch: "wp (fetchBalance w penv c) (\<lambda>v lg' b. \<exists>new. lg' = lg @ new \<and> list_all no_purchase new) (\<lambda>e lg' b. False) lg b" for c lg b
  proof -
    have "wp (fetchBalance w penv c) (\<lambda>v lg' b. True) (\<lambda>e lg' b. False) lg b"
      unfolding fetchBalance_def api_defs axios_get_def Let_def by (simp add: wp_simps split: sum.split)
    from wp_conj [OF this wp_adds [OF balance_calls]] show ?thesis by (rule wp_conseq) auto
  qed
  have "wp (handlePurchase w penv cn pkg)
     (\<lambda>v lg' p'. bp_purchasing p' = None \<and>
       (case bp_success p' of
          Some msg \<Rightarrow> bp_error p' = None \<and> paid_first w penv (the (cn_address cn)) pkg lg lg'
        | None \<Rightarrow> bp_error p' \<noteq> None \<and> (paid_first w penv (the (cn_address cn)) pkg lg lg' \<or> nothing_bought lg lg')))
     (\<lambda>e lg' p'. False) lg p"
    unfolding handlePurchase_def bp_fail_def
  proof (simp only: set if_False wp_then wp_basic wp_finally wp_catch simp_thms wp_bind [of "send_price w penv a c" for a c],
      rule wp_conseq [OF send_price_wp], goal_cases)
    case (1 h paid x)
    then obtain amount new where facts: "js_BigInt (cp_price_blind_wei pkg) = Inr amount"
        "confirmed w (transfer_tx penv (the (cn_address cn)) amount) lg h paid" "paid = lg @ new" "list_all no_purchase new" by auto
    have now: "paid_first w penv (the (cn_address cn)) pkg lg (paid @ purchase_call penv (cp_id pkg) h # rest)"
      if "list_all no_purchase rest" for rest
      unfolding paid_first_def using facts(1,2) that by blast
    show ?case
      unfolding credits_purchasePackage_def axios_post_def Let_def
      by (simp add: wp_simps 1 now [of "[]", unfolded purchase_call_def] split: sum.split)
        (intro allI impI, rule wp_conseq [OF fetch], auto simp: now [unfolded purchase_call_def])
  next
    case (2 e lg1 x)
    then show ?case by (simp add: nothing_bought_def)
  qed
  with True show ?thesis by (auto simp: wp_def split: prod.splits sum.splits)
qed

subsection \<open>A deposit is bounded\<close>

definition deposit_notice :: "(string \<Rightarrow> string option) \<Rightarrow> string \<Rightarrow> ext" where
  "deposit_notice penv txHash = Axios ''POST'' (paymentApiClient penv) ''/v1/deposit'' (JsonBody (JObj [(''tx_hash'', JStr txHash)]))"

lemma notify_step:
  "notify_loop w penv h (Suc n) lastErr (lg, d) =
     (case on_axios w lg (deposit_notice penv h) of
        Inr _ \<Rightarrow> (Inr (), (lg @ [deposit_notice penv h], d\<lparr>dp_status := D_done, dp_succeeded := True\<rparr>))
      | Inl e \<Rightarrow> notify_loop w penv h n e (lg @ deposit_notice penv h # (if 0 < n then [Sleep 3000] else []), d))"
  by (auto simp: credits_notifyDeposit_def axios_post_def deposit_notice_def sleep_def catchE_def bindE_def thenE_def Let_def
      split: sum.splits)

declare notify_loop.simps [simp del]

text \<open>\<open>k\<close> failed notifications, each followed by its pause\<close>

definition retries :: "(string \<Rightarrow> string option) \<Rightarrow> string \<Rightarrow> nat \<Rightarrow> ext list" where
  "retries penv h k = concat (replicate k [deposit_notice penv h, Sleep 3000])"

lemma retries_Suc: "retries penv h (Suc k) = deposit_notice penv h # Sleep 3000 # retries penv h k"
  by (simp add: retries_def)

lemma retries_0 [simp]: "retries penv h 0 = []"
  by (simp add: retries_def)

lemma length_retries [simp]: "length (retries penv h k) = 2 * k"
  by (induction k) (simp_all add: retries_Suc)

text \<open>The loop stops at the first notification accepted, or throws the error of the last\<close>

lemma notify_loop_outcome:
  "\<exists>k \<le> n. case notify_loop w penv h (Suc n) lastErr (lg, d) of (r, (lg', d')) \<Rightarrow>
     lg' = lg @ retries penv h k @ [deposit_notice penv h] \<and>
     (\<forall>j < k. \<exists>e. on_axios w (lg @ retries penv h j) (deposit_notice penv h) = Inl e) \<and>
     (case on_axios w (lg @ retries penv h k) (deposit_notice penv h) of
        Inr v \<Rightarrow> r = Inr () \<and> d' = d\<lparr>dp_status := D_done, dp_succeeded := True\<rparr>
      | Inl e \<Rightarrow> k = n \<and> r = Inl e \<and> d' = d)"
proof (induction n arbitrary: lg lastErr)
  case 0
  show ?case unfolding notify_step by (rule exI [of _ 0]) (simp add: notify_loop.simps(1) split: sum.split)
next
  case (Suc n)
  show ?case
  proof (cases "on_axios w lg (deposit_notice penv h)")
    case (Inr v)
    then show ?thesis unfolding notify_step by (intro exI [of _ 0]) simp
  next
    case (Inl e)
    let ?lg = "lg @ [deposit_notice penv h, Sleep 3000]"
    from Inl have first: "notify_loop w penv h (Suc (Suc n)) lastErr (lg, d) = notify_loop w penv h (Suc n) e (?lg, d)"
      by (subst notify_step) simp
    from Suc.IH [of ?lg e] obtain k where k: "k \<le> n" "case notify_loop w penv h (Suc n) e (?lg, d) of (r, (lg', d')) \<Rightarrow>
     lg' = ?lg @ retries penv h k @ [deposit_notice penv h] \<and>
     (\<forall>j < k. \<exists>e. on_axios w (?lg @ retries penv h j) (deposit_notice penv h) = Inl e) \<and>
     (case on_axios w (?lg @ retries penv h k) (deposit_notice penv h) of
        Inr v \<Rightarrow> r = Inr () \<and> d' = d\<lparr>dp_status := D_done, dp_succeeded := True\<rparr>
      | Inl e \<Rightarrow> k = n \<and> r = Inl e \<and> d' = d)" by (elim exE conjE)
    obtain r lg' d' where run: "notify_loop w penv h (Suc n) e (?lg, d) = (r, (lg', d'))" by (metis surj_pair)
    have refused: "\<exists>e. on_axios w (lg @ retries penv h j) (deposit_notice penv h) = Inl e" if "j < Suc k" for j
      using that k(2) Inl unfolding run by (cases j) (simp_all add: retries_Suc)
    from k refused show ?thesis
      unfolding first run by (intro exI [of _ "Suc k"]) (simp add: retries_Suc split: sum.splits)
  qed
qed

lemma fees_any:
  "chain_fee_params w (lg, x) = (fst (chain_fee_params w (lg, ())), (fst (snd (chain_fee_params w (lg, ()))), x))"
  by (auto simp: chain_fee_params_apply Let_def split: sum.split option.split)

lemma fees_length: "length (fst (snd (chain_fee_params w (lg, ())))) \<le> length lg + 3"
  by (auto simp: chain_fee_params_apply Let_def split: sum.split option.split)

text \<open>The guards passed by a deposit that is sent, in the page and in its \<open>try\<close>\<close>

definition deposit_allowed ::
  "(string \<Rightarrow> string option) \<Rightarrow> (string \<Rightarrow> js_err + int) \<Rightarrow> connection \<Rightarrow> deposit \<Rightarrow> bool" where
  "deposit_allowed penv parse_units cn d =
     (truthy (cn_address cn) \<and> cn_wallet cn \<noteq> None \<and> ICL_WALLET_ADDRESS penv \<noteq> [] \<and> dp_token d \<noteq> T_cusdc
      \<and> \<not> isl (parse_units (dp_amount d)) \<and> BLIND_TOKEN_ADDRESS penv \<noteq> [] \<and> cn_public cn)"

definition deposit_failed :: "js_err \<Rightarrow> deposit \<Rightarrow> deposit" where
  "deposit_failed e d = d\<lparr>dp_status := D_error, dp_error := Some (detail_or_error e ''Deposit failed'')\<rparr>"

text \<open>The hash \<open>h\<close> notified from \<open>lg\<close> on: up to five times, as long as the service refuses\<close>

definition notified ::
  "world \<Rightarrow> (string \<Rightarrow> string option) \<Rightarrow> string \<Rightarrow> ext list \<Rightarrow> ext list \<Rightarrow> deposit \<Rightarrow> deposit \<Rightarrow> bool" where
  "notified w penv h lg lg' d d' =
     (\<exists>k \<le> 4. lg' = lg @ retries penv h k @ [deposit_notice penv h]
        \<and> (\<forall>j < k. \<exists>e. on_axios w (lg @ retries penv h j) (deposit_notice penv h) = Inl e)
        \<and> (case on_axios w (lg @ retries penv h k) (deposit_notice penv h) of
             Inr v \<Rightarrow> d' = d\<lparr>dp_status := D_done, dp_error := None, dp_succeeded := True\<rparr>
           | Inl e \<Rightarrow> k = 4 \<and> d' = deposit_failed e d))"

lemma notified_length: "notified w penv h lg lg' d d' \<Longrightarrow> length lg' \<le> length lg + 9"
  by (auto simp: notified_def)

text \<open>What \<open>handleDeposit\<close> does with the outcome of the loop\<close>

lemma loop_notified:
  assumes "notify_loop w penv h 5 err (lg, d\<lparr>dp_status := D_confirming, dp_error := None\<rparr>) = (r, (lg', x))"
  shows "case r of Inr u \<Rightarrow> notified w penv h lg lg' d x | Inl e \<Rightarrow> notified w penv h lg lg' d (deposit_failed e x)"
proof -
  let ?d = "d\<lparr>dp_status := D_confirming, dp_error := None\<rparr>"
  have five: "Suc 4 = (5::nat)" by simp
  obtain k where k: "k \<le> 4" "lg' = lg @ retries penv h k @ [deposit_notice penv h]"
      "\<forall>j < k. \<exists>e. on_axios w (lg @ retries penv h j) (deposit_notice penv h) = Inl e"
    and answer: "case on_axios w (lg @ retries penv h k) (deposit_notice penv h) of
        Inr v \<Rightarrow> r = Inr () \<and> x = ?d\<lparr>dp_status := D_done, dp_succeeded := True\<rparr>
      | Inl e \<Rightarrow> k = 4 \<and> r = Inl e \<and> x = ?d"
    using notify_loop_outcome [where n = 4 and lg = lg and d = ?d and lastErr = err and w = w and penv = penv and h = h,
        unfolded five assms prod.case] by (elim exE conjE)
  show ?thesis
  proof (cases "on_axios w (lg @ retries penv h k) (deposit_notice penv h)")
    case (Inl e)
    with answer have "r = Inl e" "k = 4" "x = ?d" by simp_all
    with k Inl show ?thesis unfolding notified_def by (auto simp: deposit_failed_def intro!: exI [of _ 4])
  next
    case (Inr v)
    with answer have "r = Inr ()" "x = d\<lparr>dp_status := D_done, dp_error := None, dp_succeeded := True\<rparr>" by simp_all
    with k Inr show ?thesis unfolding notified_def by (auto intro!: exI [of _ k])
  qed
qed

lemma refusal_iff:
  "deposit_refusal penv cn tok = None \<longleftrightarrow>
     truthy (cn_address cn) \<and> cn_wallet cn \<noteq> None \<and> ICL_WALLET_ADDRESS penv \<noteq> [] \<and> tok \<noteq> T_cusdc"
  by (auto simp: deposit_refusal_def)

lemma deposit_refused:
  assumes "\<not> deposit_allowed penv parse_units cn d"
  shows "case handleDeposit w penv parse_units cn (lg, d) of (r, (lg', d')) \<Rightarrow>
    r = Inr () \<and> lg' = lg \<and> dp_error d' \<noteq> None \<and> dp_status d' \<in> {dp_status d, D_error} \<and> dp_succeeded d' = dp_succeeded d"
proof (cases "deposit_refusal penv cn (dp_token d)")
  case (Some refused)
  moreover have "fst refused = None \<or> fst refused = Some D_error" using Some by (auto simp: deposit_refusal_def split: if_splits)
  ultimately show ?thesis by (auto simp: handleDeposit_def dp_refuse_def getting_def bindE_def update_def nullish_def)
next
  case None
  with assms refusal_iff [of penv cn "dp_token d"] show ?thesis
    by (cases "parse_units (dp_amount d)")
      (auto simp: handleDeposit_def dp_refuse_def getting_def bindE_def thenE_def update_def catchE_def lift_def nullish_def
        deposit_allowed_def)
qed

text \<open>C32: what a deposit does, call by call. The handler never throws and makes at most fourteen calls. A deposit that a
  guard refuses makes none and shows an error. Otherwise the fees are read; if that fails its error is shown.
  Then exactly one transfer is asked for, of the amount typed (as \<open>parseUnits\<close> reads it) to the wallet of the
  service. If the wallet refuses it, nothing more is called and the error is shown. If it accepts, its hash is
  notified after one pause of seven seconds, up to five times, once more after each refusal: the modal shows done exactly when
  one of them is accepted, which is the last call, and the error of the fifth otherwise. No receipt is ever waited for: a
  reverted transfer is notified like a successful one.\<close>

theorem deposit_outcome:
  shows "case handleDeposit w penv parse_units cn (lg, d) of (r, (lg', d')) \<Rightarrow> r = Inr () \<and> length lg' \<le> length lg + 14 \<and>
    (if deposit_allowed penv parse_units cn d then
       (case chain_fee_params w (lg, ()) of
          (Inl e, (priced, _)) \<Rightarrow> lg' = priced \<and> d' = deposit_failed e d
        | (Inr fees, (priced, _)) \<Rightarrow>
            (let tx = \<lparr>tx_account = the (cn_address cn), tx_address = BLIND_TOKEN_ADDRESS penv, tx_function = ''transfer'',
                tx_args = [AStr (ICL_WALLET_ADDRESS penv), AInt (projr (parse_units (dp_amount d)))], tx_fees = fees\<rparr> in
             case on_write w priced tx of
               Inl e \<Rightarrow> lg' = priced @ [WriteContract tx] \<and> d' = deposit_failed e d
             | Inr h \<Rightarrow> notified w penv h (priced @ [WriteContract tx, Sleep 7000]) lg' d d'))
     else lg' = lg \<and> dp_error d' \<noteq> None \<and> dp_status d' \<in> {dp_status d, D_error} \<and> dp_succeeded d' = dp_succeeded d)"
proof (cases "deposit_allowed penv parse_units cn d")
  case False
  then show ?thesis using deposit_refused [OF False, where w = w and lg = lg] by (auto split: prod.splits)
next
  case True
  then obtain wei where wei: "parse_units (dp_amount d) = Inr wei" by (cases "parse_units (dp_amount d)") (auto simp: deposit_allowed_def)
  have open_: "deposit_refusal penv cn (dp_token d) = None" "(BLIND_TOKEN_ADDRESS penv = []) = False" "cn_public cn = True"
    using True by (simp_all add: refusal_iff deposit_allowed_def)
  let ?d = "d\<lparr>dp_status := D_sending, dp_error := None\<rparr>"
  have run: "handleDeposit w penv parse_units cn (lg, d) =
      (case deposit_send w penv cn wei (lg, ?d) of
         (Inr u, s) \<Rightarrow> (Inr u, s) | (Inl e, (lg', x)) \<Rightarrow> (Inr (), (lg', deposit_failed e x)))"
    by (simp add: handleDeposit_def getting_def bindE_def thenE_def update_def catchE_def lift_def open_ wei deposit_failed_def
        split: prod.split sum.split)
  obtain fr priced where fees: "chain_fee_params w (lg, ()) = (fr, (priced, ()))" by (metis surj_pair unit.exhaust)
  have short: "length priced \<le> length lg + 3" using fees_length [of w lg] fees by simp
  have read: "chain_fee_params w (lg, x) = (fr, (priced, x))" for x :: deposit using fees_any [of w lg x] fees by simp
  show ?thesis
  proof (cases fr)
    case (Inl e)
    have "deposit_send w penv cn wei (lg, ?d) = (Inl e, (priced, ?d))" by (simp add: deposit_send_def bindE_def read Inl)
    with True fees Inl short show ?thesis by (simp add: run deposit_failed_def)
  next
    case (Inr fp)
    let ?tx = "deposit_tx penv (the (cn_address cn)) wei fp"
    show ?thesis
    proof (cases "on_write w priced ?tx")
      case (Inl e)
      then have "deposit_send w penv cn wei (lg, ?d) = (Inl e, (priced @ [WriteContract ?tx], ?d))"
        by (simp add: deposit_send_def bindE_def read \<open>fr = Inr fp\<close> write_contract_def call_def)
      with True fees \<open>fr = Inr fp\<close> short Inl show ?thesis by (simp add: run deposit_failed_def wei deposit_tx_def)
    next
      case (Inr h)
      let ?start = "priced @ [WriteContract ?tx, Sleep 7000]"
      obtain r lg' x where loop: "notify_loop w penv h 5 (ThrownValue ''undefined'') (?start, d\<lparr>dp_status := D_confirming, dp_error := None\<rparr>)
          = (r, (lg', x))" by (metis surj_pair)
      have swap: "d\<lparr>dp_status := D_confirming, dp_error := None\<rparr> = d\<lparr>dp_error := None, dp_status := D_confirming\<rparr>" by simp
      from loop have "deposit_send w penv cn wei (lg, ?d) = (r, (lg', x))"
        using Inr unfolding swap
        by (simp add: deposit_send_def bindE_def read \<open>fr = Inr fp\<close> write_contract_def call_def thenE_def update_def sleep_def)
      with loop_notified [OF loop] True fees \<open>fr = Inr fp\<close> short Inr show ?thesis
        by (auto simp: run wei deposit_tx_def dest: notified_length split: sum.splits)
    qed
  qed
qed

end
