(* ===== verification/Bounds.thy ===== *)
theory Bounds
  imports Agent_Flow Wizard Credits
begin

section \<open>Every operation returns\<close>

text \<open>
  How many calls the operations that talk to several services make at most, whatever is answered.
\<close>

lemma bounded_calls [bounded_rules]:
  "bounded 1 (axios_get w base path)" "bounded 1 (axios_post w base path body)" "bounded 1 (axios_get_params w base path params)"
  "bounded 1 (write_contract w tx)" "bounded 1 (wait_receipt w h)" "bounded 1 (read_contract w addr f as)"
  "bounded 1 (cofhe_connect w)" "bounded 1 (cofhe_encrypt w es)" "bounded 1 (cofhe_decrypt w i)" "bounded 1 (get_permit w)"
  "bounded 1 (remove_permit w)" "bounded 1 (clock w)" "bounded 1 (sleep ms)" "bounded 1 (fetch net req)"
  "bounded 1 (sdk_init w wallet)" "bounded 1 (escrow_create w spec)" "bounded 1 (escrow_fund w wallet i n)"
  by (simp_all add: bounded_def call_defs axios_get_params_def fetch_def)

lemma bounded_with_timeout [bounded_rules]: "bounded n m \<Longrightarrow> bounded n (with_timeout w ms message m)"
  by (rule boundedI) (auto simp: with_timeout_def split: prod.splits if_splits dest: boundedD)

lemma bounded_fees [bounded_rules]: "bounded 3 (chain_fee_params w)"
  unfolding bounded_def by (auto simp: chain_fee_params_apply Let_def split: sum.splits option.splits)

subsection \<open>The agent\<close>

lemma bounded_poll: "bounded (2 * n) (pollJobStatus w a jobId m n)"
proof (induction n)
  case 0
  show ?case by (simp only: pollJobStatus.simps mult_0_right) (rule bounded_rules)
next
  case (Suc n)
  show ?case
    by (simp only: pollJobStatus.simps) (rule bounded_mono, (rule bounded_rules Suc)+, simp)
qed

lemma bounded_gateways: "bounded (length gs) (gateway_loop net cid attempts gs errors)"
proof (induction gs arbitrary: errors)
  case Nil
  show ?case by (simp only: gateway_loop.simps list.size) (rule bounded_rules)
next
  case (Cons g gs)
  have "bounded 1 (try_gateway net url errors)" for url
    unfolding try_gateway_def by (rule bounded_mono, (rule bounded_rules)+, simp)
  with Cons show ?case
    by (simp only: gateway_loop.simps) (rule bounded_mono, (rule bounded_rules | assumption)+, simp)
qed

lemma bounded_download: "bounded 5 (downloadFromIpfs net penv cid gateway)"
  unfolding downloadFromIpfs_def
  by (rule bounded_mono [OF bounded_gateways]) (simp add: gateways_def DEFAULT_IPFS_GATEWAYS_def Let_def)

lemma bounded_prepare: "bounded 7 (infer_prepare w g rng a options taskId)"
  unfolding infer_prepare_def uploadToIcl_def storePromptKey_def Let_def
  by (rule bounded_mono, (rule bounded_rules)+, simp)

lemma bounded_finish: "bounded 132 (infer_finish w g penv a taskId jobId)"
  unfolding infer_finish_def agent_decryptOutputKey_def fresh_permit_def downloadAndDecryptOutput_def Let_def
  by (rule bounded_mono, (rule bounded_poll bounded_download bounded_rules)+, simp)

lemma bounded_infer: "bounded 142 (infer w created g rng random_byte penv a options)"
  unfolding infer_def initCofhe_def Let_def
  by (rule bounded_mono, (rule bounded_prepare bounded_finish bounded_rules)+, simp)

subsection \<open>The pages\<close>

lemma bounded_encrypt_key [bounded_rules]: "bounded 2 (encryptPromptKeyForTextRequest (real_client w) key)"
  unfolding encryptPromptKeyForTextRequest_def real_simps by (rule bounded_mono, (rule bounded_rules)+, simp)

lemma bounded_store [bounded_rules]: "bounded 5 (storePromptKeyForTextRequest w account taskId store high low nodes)"
  unfolding storePromptKeyForTextRequest_def Let_def by (rule bounded_mono, (rule bounded_rules)+, simp)

lemma bounded_escrow [bounded_rules]: "bounded 3 (createEscrow w penv usdc cn n jobId)"
  unfolding createEscrow_def cached_sdk_def getReineiraSdk_def Let_def by (rule bounded_mono, (rule bounded_rules)+, simp)

lemma bounded_api [bounded_rules]: "bounded 1 (api_getQuorumPreview w penv q)" "bounded 1 (api_uploadPromptBlob w penv b f)"
  "bounded 1 (job_submit w penv body)"
  by (simp_all add: bounded_def api_defs axios_post_def Let_def)

lemma bounded_chat: "bounded 14 (handleChatSubmit w web penv fits rnd cn (real_client w) isReady m py)"
  unfolding handleChatSubmit_def chat_try_def chat_seal_def quorum_preview_def chat_after_store_def chat_upload_def chat_escrow_def
    chat_send_def give_up_def set_error_def set_stage_def on_chat_def Let_def
  by (rule bounded_mono, (rule bounded_rules)+, simp)

lemma bounded_upload_error [bounded_rules]:
  "bounded 0 (case e of AxiosErr (Some (JStr detail)) m \<Rightarrow> throw (f detail m) | _ \<Rightarrow> throw (g e))"
  by (simp add: bounded_def split: js_err.split option.split json.split)

lemma bounded_wizard: "bounded 10 (handleSubmit_wizard w web penv fits rnd cn (real_client w) isReady m)"
  unfolding handleSubmit_wizard_def wizard_seal_def wizard_preview_def wizard_after_store_def uploadToICL_def wz_fail_def wz_at_def Let_def
  by (rule bounded_mono, (rule bounded_rules)+, simp)

lemma bounded_apply: "bounded n m \<Longrightarrow> \<exists>r lg' x'. m (lg, x) = (r, (lg', x')) \<and> length lg' \<le> length lg + n"
  unfolding bounded_def by (metis prod.collapse fst_conv snd_conv)

text \<open>C22: the operations that talk to several services always return, after a bounded number of calls,
  whatever the chain, the services and the gateways answer: an \<open>infer\<close> of the agent after at most 142 (60
  polls with their pauses, 5 gateways), a chat submission after at most 14, a wizard submission after at
  most 10.\<close>

theorem operations_return:
  shows "(\<exists>r lg' x'. infer w created g rng random_byte penv a options (lg, x) = (r, (lg', x')) \<and> length lg' \<le> length lg + 142)
    \<and> (\<exists>r lg' p'. handleChatSubmit w web penv fits rnd cn (real_client w) isReady m py (lg, p) = (r, (lg', p')) \<and> length lg' \<le> length lg + 14)
    \<and> (\<exists>r lg' z'. handleSubmit_wizard w web penv fits' rnd cn (real_client w) isReady m (lg, z) = (r, (lg', z')) \<and> length lg' \<le> length lg + 10)"
  by (intro conjI bounded_apply bounded_infer bounded_chat bounded_wizard)

end
