(* ===== verification/Trace.thy ===== *)
theory Trace
  imports Chat_Submit
begin

section \<open>The execution trace\<close>

text \<open>
  The trace beside the chat (\<open>InferenceNewPage.tsx\<close>): which request it follows, whether its answer is
  decrypted, and the status of each of its six steps.
\<close>

datatype trace_key = K_encrypt | K_icl | K_leader | K_quorum | K_onchain | K_decrypt

datatype trace_status = T_pending | T_active | T_done | T_error

definition TRACE_STEPS :: "(trace_key \<times> string) list" where
  "TRACE_STEPS = [(K_encrypt, ''Input Sealed''), (K_icl, ''Inference Quorum''), (K_leader, ''Leader Run''),
     (K_quorum, ''Verifier Replay''), (K_onchain, ''Trace Anchored''), (K_decrypt, ''Local Reveal'')]"

text \<open>\<open>order.indexOf(key)\<close>\<close>

definition step_index :: "trace_key \<Rightarrow> nat" where
  "step_index key = (case key of K_encrypt \<Rightarrow> 0 | K_icl \<Rightarrow> 1 | K_leader \<Rightarrow> 2 | K_quorum \<Rightarrow> 3 | K_onchain \<Rightarrow> 4 | K_decrypt \<Rightarrow> 5)"

definition reached :: "stage option \<Rightarrow> nat" where
  "reached jobStatus = (case jobStatus of
      Some QUEUED \<Rightarrow> 1 | Some ASSIGNED \<Rightarrow> 2 | Some EXECUTING \<Rightarrow> 3 | Some VERIFYING \<Rightarrow> 4 | Some ACCEPTED \<Rightarrow> 5
    | Some REJECTED \<Rightarrow> 3 | Some DISPUTED \<Rightarrow> 3 | _ \<Rightarrow> 0)"

definition stepStatus :: "trace_key \<Rightarrow> chat_stage \<Rightarrow> string option \<Rightarrow> stage option \<Rightarrow> bool \<Rightarrow> trace_status" where
  "stepStatus key stage requestId jobStatus decrypted =
     (if \<not> truthy requestId then
        (if key = K_encrypt then
           (if stage = C_encrypting then T_active else if stage = C_uploading \<or> stage = C_submitting then T_done else T_pending)
         else if key = K_icl then
           (if stage = C_uploading then T_active else if stage = C_escrow \<or> stage = C_submitting then T_done else T_pending)
         else T_pending)
      else if key = K_decrypt then
        (if jobStatus = Some ACCEPTED \<and> decrypted then T_done
         else if jobStatus = Some ACCEPTED \<and> \<not> decrypted then T_active
         else if reached jobStatus > 5 then T_done else T_pending)
      else if step_index key < reached jobStatus then T_done
      else if step_index key = reached jobStatus then T_active
      else T_pending)"

text \<open>The keys are ordered as the steps are; the code compares their indices.\<close>

instantiation trace_key :: linorder
begin

definition less_eq_trace_key :: "trace_key \<Rightarrow> trace_key \<Rightarrow> bool" where
  "less_eq_trace_key k l = (step_index k \<le> step_index l)"

definition less_trace_key :: "trace_key \<Rightarrow> trace_key \<Rightarrow> bool" where
  "less_trace_key k l = (step_index k < step_index l)"

lemma step_index_inject: "step_index k = step_index l \<longleftrightarrow> k = l"
  by (cases k; cases l) (simp_all add: step_index_def)

instance
  by standard (auto simp: less_eq_trace_key_def less_trace_key_def step_index_inject [symmetric])

end

lemma TRACE_STEPS_ordered: "sorted_wrt (<) (map fst TRACE_STEPS)" "set (map fst TRACE_STEPS) = UNIV"
proof -
  show "sorted_wrt (<) (map fst TRACE_STEPS)" by (simp add: TRACE_STEPS_def less_trace_key_def step_index_def)
  have "k \<in> set (map fst TRACE_STEPS)" for k by (cases k) (simp_all add: TRACE_STEPS_def)
  then show "set (map fst TRACE_STEPS) = UNIV" by auto
qed

text \<open>What is done stays below what is not: of a request, every step before one done or active is done.\<close>

lemma steps_before_done:
  assumes "truthy requestId" "k < l" "stepStatus l stage requestId jobStatus decrypted \<in> {T_done, T_active}"
  shows "stepStatus k stage requestId jobStatus decrypted = T_done"
proof -
  have "reached jobStatus \<le> 5" by (simp add: reached_def split: option.splits stage.splits)
  with assms show ?thesis
    by (cases l; cases k; cases "jobStatus = Some ACCEPTED")
      (auto simp: stepStatus_def step_index_def less_trace_key_def reached_def split: if_splits)
qed

subsection \<open>What the trace follows\<close>

text \<open>\<open>[...messages].reverse().find(...)\<close>: the last answer that has a request\<close>

definition latestRequestId :: "chat_entry list \<Rightarrow> string option" where
  "latestRequestId messages =
     Option.bind (find (\<lambda>m. \<not> ce_user m \<and> truthy (ce_requestId m)) (rev messages)) ce_requestId"

definition traceRequestId :: "chat \<Rightarrow> string option" where
  "traceRequestId c = (if ch_active c \<noteq> [] then Some (ch_active c) else latestRequestId (ch_messages c))"

definition trace_decrypted :: "chat \<Rightarrow> bool" where
  "trace_decrypted c =
     (case find (\<lambda>m. \<not> ce_user m \<and> ce_requestId m = traceRequestId c) (rev (ch_messages c)) of
        None \<Rightarrow> False | Some m \<Rightarrow> ce_status m = Some S_done)"

text \<open>The statuses shown, top to bottom\<close>

definition trace_shown :: "chat_stage \<Rightarrow> chat \<Rightarrow> stage option \<Rightarrow> trace_status list" where
  "trace_shown stage c jobStatus =
     map (\<lambda>(key, label). stepStatus key stage (traceRequestId c) jobStatus (trace_decrypted c)) TRACE_STEPS"

subsection \<open>Its shape\<close>

text \<open>Six steps, \<open>n\<close> of them done, the next one active\<close>

definition progress :: "nat \<Rightarrow> trace_status list" where
  "progress n = take 6 (replicate n T_done @ [T_active] @ replicate 6 T_pending)"

lemma latestRequestId_truthy: "latestRequestId ms = None \<or> truthy (latestRequestId ms)"
  by (auto simp: latestRequestId_def find_Some_iff split: option.splits bind_splits)

lemma traceRequestId_truthy: "traceRequestId c = None \<or> truthy (traceRequestId c)"
  using latestRequestId_truthy [of "ch_messages c"] by (auto simp: traceRequestId_def truthy_def)

lemma trace_steps:
  "case traceRequestId c of
      Some rid \<Rightarrow> trace_shown stage c jobStatus =
        progress (if jobStatus = Some ACCEPTED \<and> trace_decrypted c then 6 else reached jobStatus)
    | None \<Rightarrow> trace_shown stage c jobStatus =
        (case stage of
           C_idle \<Rightarrow> replicate 6 T_pending
         | C_encrypting \<Rightarrow> progress 0
         | C_uploading \<Rightarrow> progress 1
         | C_escrow \<Rightarrow> T_pending # T_done # replicate 4 T_pending
         | C_submitting \<Rightarrow> T_done # T_done # replicate 4 T_pending)"
proof (cases "traceRequestId c")
  case None
  then show ?thesis
    by (cases stage) (simp_all add: trace_shown_def TRACE_STEPS_def stepStatus_def progress_def truthy_def eval_nat_numeral)
next
  case (Some rid)
  with traceRequestId_truthy [of c] have rid: "truthy (Some rid)" by simp
  have "map (\<lambda>(key, label). stepStatus key stage (Some rid) js d) TRACE_STEPS
      = progress (if js = Some ACCEPTED \<and> d then 6 else reached js)" for js d
  proof (cases js)
    case None
    with rid show ?thesis by (simp add: TRACE_STEPS_def stepStatus_def step_index_def reached_def progress_def eval_nat_numeral)
  next
    case (Some st)
    with rid show ?thesis
      by (cases st) (simp_all add: TRACE_STEPS_def stepStatus_def step_index_def reached_def progress_def eval_nat_numeral)
  qed
  with Some show ?thesis by (simp add: trace_shown_def)
qed

text \<open>C31: what the execution trace shows, exactly. Of a request it is a progress bar: the steps done come
  first, then one active step, then pending ones, and it is full exactly when the job is accepted and its
  answer decrypted. Before any request it follows the submission, and is such a bar only while nothing is
  submitted, sealed or uploaded: while the escrow is created the first step falls back to pending with the second one
  done, and while the job is posted two steps are done and none is active. No step is ever shown as
  an error: a job that the quorum rejected, or that is disputed, is shown like one that is executing,
  with the verifiers' step active, where the code's comment says that this step is the error.\<close>

theorem trace_shape:
  "(case traceRequestId c of
      Some rid \<Rightarrow> trace_shown stage c jobStatus =
        progress (if jobStatus = Some ACCEPTED \<and> trace_decrypted c then 6 else reached jobStatus)
    | None \<Rightarrow> trace_shown stage c jobStatus =
        (case stage of
           C_idle \<Rightarrow> replicate 6 T_pending
         | C_encrypting \<Rightarrow> progress 0
         | C_uploading \<Rightarrow> progress 1
         | C_escrow \<Rightarrow> T_pending # T_done # replicate 4 T_pending
         | C_submitting \<Rightarrow> T_done # T_done # replicate 4 T_pending))
   \<and> T_error \<notin> set (trace_shown stage c jobStatus)
   \<and> trace_shown stage c (Some REJECTED) = trace_shown stage c (Some EXECUTING)
   \<and> trace_shown stage c (Some DISPUTED) = trace_shown stage c (Some EXECUTING)"
proof -
  have shape: "case traceRequestId c of
      Some rid \<Rightarrow> trace_shown stage c js =
        progress (if js = Some ACCEPTED \<and> trace_decrypted c then 6 else reached js)
    | None \<Rightarrow> trace_shown stage c js =
        (case stage of
           C_idle \<Rightarrow> replicate 6 T_pending
         | C_encrypting \<Rightarrow> progress 0
         | C_uploading \<Rightarrow> progress 1
         | C_escrow \<Rightarrow> T_pending # T_done # replicate 4 T_pending
         | C_submitting \<Rightarrow> T_done # T_done # replicate 4 T_pending)" for js by (rule trace_steps)
  have "T_error \<notin> set (progress n)" for n
    by (auto simp: progress_def dest!: in_set_takeD)
  then have "T_error \<notin> set (trace_shown stage c jobStatus)"
    using shape [of jobStatus] by (auto simp: eval_nat_numeral progress_def split: option.splits chat_stage.splits)
  moreover have "trace_shown stage c (Some REJECTED) = trace_shown stage c (Some EXECUTING)"
    "trace_shown stage c (Some DISPUTED) = trace_shown stage c (Some EXECUTING)"
    using shape [of "Some REJECTED"] shape [of "Some DISPUTED"] shape [of "Some EXECUTING"]
    by (auto simp: reached_def split: option.splits)
  ultimately show ?thesis using shape [of jobStatus] by blast
qed

end
