(* ===== verification/Status_Display.thy ===== *)
theory Status_Display
  imports Trace
begin

section \<open>What the page of a request displays\<close>

text \<open>
  The texts and marks \<open>frontend/src/pages/InferenceStatusPage.tsx\<close> and its components
  (\<open>StatusTimeline.tsx\<close>, \<open>QuorumVisualizer.tsx\<close>, \<open>OnChainEvidence.tsx\<close>, \<open>RiskGauge.tsx\<close>) derive from a
  status; layout, icons and colours of no meaning are left out. \<open>date_parse\<close> is \<open>Date.parse\<close>.
\<close>

subsection \<open>The dispute window\<close>

text \<open>Whole hours and minutes of a span in milliseconds\<close>

definition hours_minutes :: "rat \<Rightarrow> int \<times> int" where
  "hours_minutes diff = (let hours = \<lfloor>diff / 3600000\<rfloor> in (hours, \<lfloor>(diff - 3600000 * of_int hours) / 60000\<rfloor>))"

definition time_left :: "rat \<Rightarrow> nat \<Rightarrow> rat" where
  "time_left acceptedAt now = max (acceptedAt + 72 * 60 * 60 * 1000 - of_nat now) 0"

definition timeLeft :: "(string \<Rightarrow> rat option) \<Rightarrow> string option \<Rightarrow> nat \<Rightarrow> string" where
  "timeLeft date_parse updatedAt now =
     (if \<not> truthy updatedAt then ''72h 0m''
      else case date_parse (the updatedAt) of
          None \<Rightarrow> ''NaNh NaNm''
        | Some acceptedAt \<Rightarrow> (case hours_minutes (time_left acceptedAt now) of (h, m) \<Rightarrow> int_str h @ ''h '' @ int_str m @ ''m''))"

lemma hours_minutes_exact:
  assumes "0 \<le> diff" "hours_minutes diff = (h, m)"
  shows "0 \<le> h" "0 \<le> m" "m < 60" "of_int (60 * h + m) * 60000 \<le> diff" "diff < of_int (60 * h + m + 1) * 60000"
proof -
  let ?rest = "diff - 3600000 * of_int h"
  have h: "h = \<lfloor>diff / 3600000\<rfloor>" and m: "m = \<lfloor>?rest / 60000\<rfloor>" using assms(2) by (auto simp: hours_minutes_def Let_def)
  have rest: "0 \<le> ?rest" "?rest < 3600000"
    using floor_correct [of "diff / 3600000"] by (simp_all add: h field_simps)
  show "0 \<le> h" using assms(1) by (simp add: h)
  show "0 \<le> m" using rest by (simp add: m)
  show "m < 60" using rest by (simp add: m floor_less_iff)
  show "of_int (60 * h + m) * 60000 \<le> diff" "diff < of_int (60 * h + m + 1) * 60000"
    using floor_correct [of "?rest / 60000", folded m] by (simp_all add: field_simps)
qed

text \<open>The window shown is never longer than 72 hours nor negative, and right to the minute.\<close>

lemma window_shown:
  assumes "acceptedAt \<le> of_nat now" "hours_minutes (time_left acceptedAt now) = (h, m)"
  shows "0 \<le> 60 * h + m \<and> 60 * h + m \<le> 72 * 60 \<and> m < 60
    \<and> of_int (60 * h + m) * 60000 \<le> time_left acceptedAt now \<and> time_left acceptedAt now < of_int (60 * h + m + 1) * 60000"
proof -
  have "0 \<le> time_left acceptedAt now" by (simp add: time_left_def)
  note exact = hours_minutes_exact [OF this assms(2)]
  have "time_left acceptedAt now \<le> 72 * 60 * 60000" using assms(1) by (simp add: time_left_def)
  with exact(4) have "(of_int (60 * h + m) :: rat) \<le> of_int (72 * 60)" by simp
  then have "60 * h + m \<le> 72 * 60" by (simp only: of_int_le_iff)
  with exact show ?thesis by auto
qed

subsection \<open>The status and its steps\<close>

definition getStatusDisplay :: "stage \<Rightarrow> string" where
  "getStatusDisplay st = (case st of
      QUEUED \<Rightarrow> ''In Queue'' | ASSIGNED \<Rightarrow> ''Assigning Quorum'' | EXECUTING \<Rightarrow> ''Leader Executing FHE''
    | VERIFYING \<Rightarrow> ''Verifiers Checking Result'' | ACCEPTED \<Rightarrow> ''Consensus Reached'' | REJECTED \<Rightarrow> ''Quorum Rejected''
    | DISPUTED \<Rightarrow> ''Dispute Open'' | FAILED \<Rightarrow> ''FAILED'')"

definition EXECUTION_STEPS :: "(string \<times> string) list" where
  "EXECUTION_STEPS = [(''Query Encrypted'', ''AES-GCM + CoFHE key split''), (''Agents Assigned'', ''Leader + 2 verifiers''),
     (''Enclave Execution'', ''Inference + receipts''), (''Quorum Verification'', ''Hash match consensus''),
     (''On-Chain Commitment'', ''Result anchored'')]"

datatype dot = D_current | D_completed | D_ahead

definition isCompleted_dot :: "stage \<Rightarrow> nat \<Rightarrow> bool" where
  "isCompleted_dot st i = (st = ACCEPTED \<or> (st = VERIFYING \<and> i < 4) \<or> (st = EXECUTING \<and> i < 3) \<or> (st = ASSIGNED \<and> i < 2)
     \<or> (st = QUEUED \<and> i < 1))"

definition isCurrent_dot :: "stage \<Rightarrow> nat \<Rightarrow> bool" where
  "isCurrent_dot st i = ((st = QUEUED \<and> i = 0) \<or> (st = ASSIGNED \<and> i = 1) \<or> (st = EXECUTING \<and> i = 2) \<or> (st = VERIFYING \<and> i = 3)
     \<or> (st = ACCEPTED \<and> i = 4))"

definition execution_dots :: "stage \<Rightarrow> dot list" where
  "execution_dots st = map (\<lambda>i. if isCurrent_dot st i then D_current else if isCompleted_dot st i then D_completed else D_ahead)
     [0..<length EXECUTION_STEPS]"

text \<open>The page is always one step behind the trace of the chat page: its current step is the last that
  trace shows as done. Of a request rejected, disputed or failed it shows no step at all.\<close>

lemma dots_behind_trace:
  "execution_dots st =
     (if st \<in> {REJECTED, DISPUTED, FAILED} then replicate 5 D_ahead
      else replicate (reached (Some st) - 1) D_completed @ D_current # replicate (5 - reached (Some st)) D_ahead)"
  by (cases st) (simp_all add: execution_dots_def EXECUTION_STEPS_def isCurrent_dot_def isCompleted_dot_def reached_def upt_rec numeral_eq_Suc)

subsection \<open>\<open>StatusTimeline\<close>\<close>

definition timeline_stages :: "stage list" where
  "timeline_stages = [QUEUED, ASSIGNED, EXECUTING, VERIFYING, ACCEPTED]"

definition indexOf :: "'a \<Rightarrow> 'a list \<Rightarrow> int" where
  "indexOf x xs = (if x \<in> set xs then int (length (takeWhile (\<lambda>y. y \<noteq> x) xs)) else - 1)"

definition currentIndex :: "stage \<Rightarrow> int" where
  "currentIndex st = (if st = REJECTED \<or> st = FAILED then indexOf VERIFYING timeline_stages else indexOf st timeline_stages)"

text \<open>The width of the bar in percent, and of each stage: completed, current, rejected, its timestamp\<close>

definition timeline_width :: "stage \<Rightarrow> rat" where
  "timeline_width st = of_int (max 0 (currentIndex st)) / of_nat (length timeline_stages - 1) * 100"

definition timeline :: "stage \<Rightarrow> (stage \<times> rat) list \<Rightarrow> (stage \<times> bool \<times> bool \<times> bool \<times> rat option) list" where
  "timeline st timestamps =
     map (\<lambda>(idx, s). (s, currentIndex st \<ge> idx, currentIndex st = idx \<and> st \<noteq> ACCEPTED \<and> st \<noteq> REJECTED,
         (st = REJECTED \<or> st = FAILED) \<and> idx = int (length timeline_stages) - 1, map_of timestamps s))
       (zip (map int [0..<length timeline_stages]) timeline_stages)"

text \<open>A failed request is shown as one that verifiers have checked.\<close>

lemma failed_timeline:
  "map (\<lambda>(s, completed, rest). completed) (timeline FAILED ts) = [True, True, True, True, False]"
  by (simp add: timeline_def timeline_stages_def currentIndex_def indexOf_def upt_rec)

subsection \<open>Evidence, proof and gauge\<close>

text \<open>The hashes listed as on-chain evidence\<close>

definition evidence :: "demo_status \<Rightarrow> (string \<times> string) list" where
  "evidence d =
     map (\<lambda>(l, t). (l, the t)) (filter (\<lambda>(l, t). truthy t)
      [(''Coverage Plan'', d_coverage_purchase_tx d), (''Escrow Created'', d_escrow_creation_tx d),
       (''Result Commitment'', d_result_commit_tx d), (''Dispute Submitted'', d_dispute_submission_tx d),
       (''Dispute Resolution'', d_dispute_resolution_tx d), (''Escrow Released'', d_escrow_release_tx d)])"

definition shows_evidence :: "demo_status \<Rightarrow> bool" where
  "shows_evidence d = (truthy (d_result_commit_tx d) \<or> truthy (d_escrow_creation_tx d) \<or> truthy (d_coverage_purchase_tx d)
     \<or> truthy (d_dispute_submission_tx d) \<or> truthy (d_dispute_resolution_tx d) \<or> truthy (d_escrow_release_tx d))"

lemma evidence_shown: "shows_evidence d \<longleftrightarrow> evidence d \<noteq> []"
  by (auto simp: shows_evidence_def evidence_def filter_empty_conv)

definition proof_panel :: "demo_status \<Rightarrow> (string \<times> string) list" where
  "proof_panel d =
     (if d_status d \<noteq> ACCEPTED then []
      else [(''Receipt Root'', js_or (Option.bind (d_text_result d) tr_commitment_hash) ''0x7a3b...c91d''),
            (''IPFS CID'', js_or (Option.bind (d_text_result d) tr_output_cid) ''QmX9z...2pKv''),
            (''Trace Hash'', ''0x4f2a...8b1e'')])"

text \<open>The trace hash shown does not depend on the request, and neither does anything of a risk request.\<close>

lemma proof_panel_fixed:
  assumes "d_status d = ACCEPTED"
  shows "map_of (proof_panel d) ''Trace Hash'' = Some ''0x4f2a...8b1e''"
    and "d_text_result d = None \<Longrightarrow> proof_panel d = [(''Receipt Root'', ''0x7a3b...c91d''), (''IPFS CID'', ''QmX9z...2pKv''), (''Trace Hash'', ''0x4f2a...8b1e'')]"
  using assms by (simp_all add: proof_panel_def js_or_def)

datatype gauge = Low_risk | Medium_risk | High_risk

definition getColor :: "rat \<Rightarrow> gauge" where
  "getColor s = (if s \<le> 45 then Low_risk else if s < 70 then Medium_risk else High_risk)"

definition truncateAddress :: "string \<Rightarrow> string" where
  "truncateAddress address = (if address = [] then [] else take 6 address @ ''...'' @ drop (length address - 4) address)"

definition vote_badge :: "vote option \<Rightarrow> string" where
  "vote_badge v = (case v of Some CONFIRM \<Rightarrow> ''CONFIRM'' | Some REJECT \<Rightarrow> ''REJECT'' | None \<Rightarrow> ''WAITING'')"

subsection \<open>Which result is shown\<close>

datatype result_panel = Text_result | Risk_result "rat \<times> rat \<times> rat" | Failed_result string | Rejected_result string | Computing string

definition result_panel :: "demo_status \<Rightarrow> result_panel" where
  "result_panel d =
     (if d_text_mode d \<and> d_status d = ACCEPTED then Text_result
      else if d_status d = ACCEPTED \<and> d_result d \<noteq> None then Risk_result (the (d_result d))
      else if d_status d = FAILED then Failed_result (nullish (d_failure_reason d) ''All quorum nodes failed to produce a result.'')
      else if d_status d = REJECTED then Rejected_result (nullish (d_failure_reason d) ''Mismatched execution fingerprints.'')
      else Computing (if d_status d = VERIFYING then ''Verifying Results...'' else ''Computing FHE...''))"

text \<open>A disputed request, and an accepted risk request without a result, are shown as being computed.\<close>

lemma settled_shown_as_computing:
  "d_status d = DISPUTED \<Longrightarrow> result_panel d = Computing ''Computing FHE...''"
  "d_status d = ACCEPTED \<Longrightarrow> \<not> d_text_mode d \<Longrightarrow> d_result d = None \<Longrightarrow> result_panel d = Computing ''Computing FHE...''"
  by (simp_all add: result_panel_def)

text \<open>Whether a dispute may be filed from the page\<close>

definition can_dispute :: "demo_status \<Rightarrow> bool" where
  "can_dispute d = (d_status d = ACCEPTED \<and> truthy (d_coverage_id d))"

end
