(* ===== verification/Status_Page.thy ===== *)
theory Status_Page
  imports Status_Display
begin

section \<open>The page of a request\<close>

text \<open>
  \<open>frontend/src/pages/InferenceStatusPage.tsx\<close> as a machine: the status and the CoFHE client it is given by
  its hooks, the effect that reveals an accepted answer, the button that does so by hand, the feedback,
  and what is shown. A render with new inputs and the effect that is due after it are two steps; the updates
  that the effect queues and their render are one. A decryption is in flight from its first \<open>await\<close> until it answers; \<open>opens out res\<close>
  says that decrypting the output \<open>out\<close> (\<open>Chat.decrypt_output\<close>) may answer \<open>res\<close>. Runs of the effect are numbered: a run is
  cancelled when a later one has started.
\<close>

subsection \<open>The state\<close>

type_synonym sealed_output = "string \<times> string \<times> string"

datatype reveal = Auto nat sealed_output | Manual sealed_output

record status_page =
  vp_status :: "demo_status option"
  vp_client :: "string option"
  vp_clientReady :: bool
  vp_answer :: "utext option"
  vp_answerError :: "string option"
  vp_decrypting :: bool
  vp_modal :: bool
  vp_decrypted :: bool
  vp_feedback :: "string option"
  vp_sending :: bool
  vp_run :: nat
  vp_due :: bool
  vp_flying :: "reveal list"

definition is_accepted_text :: "demo_status option \<Rightarrow> bool" where
  "is_accepted_text st = (case st of None \<Rightarrow> False | Some d \<Rightarrow> d_text_mode d \<and> d_status d = ACCEPTED)"

definition current_output :: "status_page \<Rightarrow> sealed_output option" where
  "current_output s = Option.bind (vp_status s) accepted_output"

subsection \<open>The effect\<close>

text \<open>Its dependencies; \<open>undefined\<close> and \<open>null\<close> are one value here\<close>

definition reveal_deps ::
  "status_page \<Rightarrow> string option \<times> bool \<times> bool option \<times> stage option \<times> string option \<times> string option \<times> string option" where
  "reveal_deps s =
     (let t = Option.bind (vp_status s) d_text_result in
      (vp_client s, vp_clientReady s, map_option d_text_mode (vp_status s), map_option d_status (vp_status s),
       Option.bind t tr_output_cid, Option.bind t tr_key_high, Option.bind t tr_key_low))"

text \<open>One run: forget what is not an accepted text's, then start decrypting if all is there. An answer already
  shown is kept when the text is an accepted one, whichever output it is of.\<close>

definition reveal_effect :: "status_page \<Rightarrow> status_page" where
  "reveal_effect s =
     (let s = s\<lparr>vp_run := Suc (vp_run s), vp_due := False\<rparr>;
          s = (if is_accepted_text (vp_status s) then s else s\<lparr>vp_answer := None, vp_answerError := None, vp_decrypted := False\<rparr>)
      in case current_output s of
           None \<Rightarrow> s
         | Some out \<Rightarrow>
             if vp_client s = None \<or> \<not> vp_clientReady s then s
             else s\<lparr>vp_decrypting := True, vp_answerError := None, vp_flying := vp_flying s @ [Auto (vp_run s) out]\<rparr>)"

text \<open>... and when its decryption answers: nothing is set if the run was cancelled\<close>

definition reveal_finish :: "nat \<Rightarrow> sealed_output \<Rightarrow> js_err + utext \<Rightarrow> status_page \<Rightarrow> status_page" where
  "reveal_finish run out res s =
     (let s = s\<lparr>vp_flying := remove1 (Auto run out) (vp_flying s)\<rparr> in
      if run \<noteq> vp_run s then s
      else case res of
          Inr answer \<Rightarrow> s\<lparr>vp_answer := Some answer, vp_decrypted := True, vp_decrypting := False\<rparr>
        | Inl e \<Rightarrow> s\<lparr>vp_answerError := Some (error_message_or e ''Failed to decrypt text output''), vp_decrypting := False\<rparr>)"

definition page_mounted :: "demo_status option \<Rightarrow> string option \<Rightarrow> bool \<Rightarrow> status_page" where
  "page_mounted st client ready = reveal_effect
     \<lparr>vp_status = st, vp_client = client, vp_clientReady = ready, vp_answer = None, vp_answerError = None, vp_decrypting = False,
      vp_modal = False, vp_decrypted = False, vp_feedback = None, vp_sending = False, vp_run = 0, vp_due = True, vp_flying = []\<rparr>"

text \<open>A render with the inputs the hooks return; the effect is due when a dependency has changed\<close>

definition page_inputs :: "demo_status option \<Rightarrow> string option \<Rightarrow> bool \<Rightarrow> status_page \<Rightarrow> status_page" where
  "page_inputs st client ready s =
     (let s' = s\<lparr>vp_status := st, vp_client := client, vp_clientReady := ready\<rparr> in
      s'\<lparr>vp_due := (reveal_deps s' \<noteq> reveal_deps s)\<rparr>)"

text \<open>Such a render and the effect after it, with nothing in between\<close>

definition page_update :: "demo_status option \<Rightarrow> string option \<Rightarrow> bool \<Rightarrow> status_page \<Rightarrow> status_page" where
  "page_update st client ready s =
     (let s' = page_inputs st client ready s in if vp_due s' then reveal_effect s' else s')"

subsection \<open>The button\<close>

definition text_output :: "demo_status \<Rightarrow> sealed_output option" where
  "text_output st = (case d_text_result st of
      None \<Rightarrow> None
    | Some t \<Rightarrow> if truthy (tr_output_cid t) \<and> truthy (tr_key_high t) \<and> truthy (tr_key_low t)
                then Some (the (tr_key_high t), the (tr_key_low t), the (tr_output_cid t)) else None)"

definition handleManualDecrypt :: "status_page \<Rightarrow> status_page" where
  "handleManualDecrypt s = (case vp_status s of
      None \<Rightarrow> s
    | Some st \<Rightarrow>
        if d_status st \<noteq> ACCEPTED \<or> vp_client s = None \<or> \<not> vp_clientReady s then s
        else
          let s = s\<lparr>vp_modal := True, vp_decrypting := True\<rparr> in
          case text_output st of
            None \<Rightarrow> s\<lparr>vp_answerError := Some ''Missing output handles'', vp_decrypting := False\<rparr>
          | Some out \<Rightarrow> s\<lparr>vp_flying := vp_flying s @ [Manual out]\<rparr>)"

definition manual_finish_page :: "sealed_output \<Rightarrow> js_err + utext \<Rightarrow> status_page \<Rightarrow> status_page" where
  "manual_finish_page out res s =
     (let s = s\<lparr>vp_flying := remove1 (Manual out) (vp_flying s)\<rparr> in
      case res of
        Inr answer \<Rightarrow> s\<lparr>vp_answer := Some answer, vp_decrypted := True, vp_modal := False, vp_decrypting := False\<rparr>
      | Inl e \<Rightarrow> s\<lparr>vp_answerError := Some (error_message_or e ''Decryption failed''), vp_decrypting := False\<rparr>)"

subsection \<open>What the answer panel shows\<close>

datatype answer_panel = V_none | V_sealed bool | V_decrypting | V_error string | V_answer utext | V_waiting

definition answer_shown :: "status_page \<Rightarrow> answer_panel" where
  "answer_shown s =
     (if \<not> is_accepted_text (vp_status s) then V_none
      else if \<not> vp_decrypted s then V_sealed (vp_decrypting s)
      else if vp_decrypting s then V_decrypting
      else if truthy (vp_answerError s) then V_error (the (vp_answerError s))
      else case vp_answer s of
          Some (c # cs) \<Rightarrow> V_answer (c # cs)
        | _ \<Rightarrow> V_waiting)"

text \<open>The feedback is asked for after a decryption that left no error\<close>

definition asks_feedback :: "status_page \<Rightarrow> bool" where
  "asks_feedback s = (is_accepted_text (vp_status s) \<and> (case vp_answer s of Some (c # cs) \<Rightarrow> True | _ \<Rightarrow> False)
     \<and> \<not> truthy (vp_answerError s))"

definition send_feedback ::
  "world \<Rightarrow> (string \<Rightarrow> string option) \<Rightarrow> string \<Rightarrow> string \<Rightarrow> string \<Rightarrow> string option \<Rightarrow> (ext, status_page, unit) io" where
  "send_feedback w penv requestId developer rating notes =
     thenE (update (\<lambda>s. s\<lparr>vp_sending := True\<rparr>))
     (finally_do (\<lambda>s. s\<lparr>vp_sending := False\<rparr>)
       (catchE
         (thenE (coverage_submitFeedback w penv requestId (JObj
            ([(''developer_address'', JStr developer), (''rating'', JStr rating)] @ opt_field ''notes'' (map_option JStr notes))))
          (update (\<lambda>s. s\<lparr>vp_feedback := Some rating\<rparr>)))
         (\<lambda>e. ret ())))"

subsection \<open>Steps\<close>

text \<open>\<open>by_hand\<close>: whether the button may be pressed; it is disabled while decrypting. React runs a due effect
  before the next render; decryptions may answer in between.\<close>

inductive page_reachable :: "(sealed_output \<Rightarrow> js_err + utext \<Rightarrow> bool) \<Rightarrow> bool \<Rightarrow> status_page \<Rightarrow> bool" for opens by_hand where
  mounts: "page_reachable opens by_hand (page_mounted st client ready)"
| changes: "page_reachable opens by_hand s \<Longrightarrow> \<not> vp_due s \<Longrightarrow> page_reachable opens by_hand (page_inputs st client ready s)"
| effect_runs: "page_reachable opens by_hand s \<Longrightarrow> vp_due s \<Longrightarrow> page_reachable opens by_hand (reveal_effect s)"
| revealed: "page_reachable opens by_hand s \<Longrightarrow> Auto run out \<in> set (vp_flying s) \<Longrightarrow> opens out res
    \<Longrightarrow> page_reachable opens by_hand (reveal_finish run out res s)"
| pressed: "page_reachable opens by_hand s \<Longrightarrow> by_hand \<Longrightarrow> \<not> vp_decrypting s \<Longrightarrow> page_reachable opens by_hand (handleManualDecrypt s)"
| cancelled: "page_reachable opens by_hand s \<Longrightarrow> page_reachable opens by_hand (s\<lparr>vp_modal := False\<rparr>)"
| answered: "page_reachable opens by_hand s \<Longrightarrow> Manual out \<in> set (vp_flying s) \<Longrightarrow> opens out res
    \<Longrightarrow> page_reachable opens by_hand (manual_finish_page out res s)"

lemma update_reachable:
  "page_reachable opens by_hand s \<Longrightarrow> \<not> vp_due s \<Longrightarrow> page_reachable opens by_hand (page_update st client ready s)"
  unfolding page_update_def Let_def by (auto intro: page_reachable.changes page_reachable.effect_runs)

subsection \<open>When the effect shows the answer of the request shown\<close>

definition could_reveal :: "status_page \<Rightarrow> bool" where
  "could_reveal s = (current_output s \<noteq> None \<and> vp_client s \<noteq> None \<and> vp_clientReady s)"

text \<open>Runs in flight are no later than the last one; that one, until a new effect is due, decrypts the output shown\<close>

definition run_ok :: "status_page \<Rightarrow> reveal \<Rightarrow> bool" where
  "run_ok s r = (case r of Manual out \<Rightarrow> False
     | Auto run out \<Rightarrow> run \<le> vp_run s \<and> (run = vp_run s \<and> \<not> vp_due s \<longrightarrow> current_output s = Some out))"

definition answer_ok :: "(sealed_output \<Rightarrow> js_err + utext \<Rightarrow> bool) \<Rightarrow> sealed_output option \<Rightarrow> utext option \<Rightarrow> bool" where
  "answer_ok opens current answer = (\<exists>out a. current = Some out \<and> answer = Some a \<and> opens out (Inr a))"

definition opened :: "(sealed_output \<Rightarrow> js_err + utext \<Rightarrow> bool) \<Rightarrow> utext option \<Rightarrow> bool" where
  "opened opens answer = (\<forall>a. answer = Some a \<longrightarrow> (\<exists>out. opens out (Inr a)))"

text \<open>Once the effect has run with all it needs, it is decrypting, has failed, or has set the answer of the output shown\<close>

definition answers_current :: "(sealed_output \<Rightarrow> js_err + utext \<Rightarrow> bool) \<Rightarrow> status_page \<Rightarrow> bool" where
  "answers_current opens s = (list_all (run_ok s) (vp_flying s) \<and> opened opens (vp_answer s)
     \<and> (\<not> vp_due s \<and> could_reveal s \<longrightarrow>
          vp_decrypting s \<or> vp_answerError s \<noteq> None \<or> answer_ok opens (current_output s) (vp_answer s)))"

lemma opened_none [simp]: "opened opens None"
  by (simp add: opened_def)

lemma opened_some [intro]: "opens out (Inr a) \<Longrightarrow> opened opens (Some a)"
  unfolding opened_def by blast

lemma same_deps: "reveal_deps s = reveal_deps s' \<Longrightarrow> current_output s = current_output s'"
  by (cases "vp_status s"; cases "vp_status s'")
    (auto simp: reveal_deps_def current_output_def accepted_output_def truthy_def Let_def split: option.splits)

lemma no_output: "\<not> is_accepted_text (vp_status s) \<Longrightarrow> current_output s = None"
  by (auto simp: current_output_def is_accepted_text_def accepted_output_def split: option.splits)

lemma current_output_cong [simp]:
  "current_output (s\<lparr>vp_run := n\<rparr>) = current_output s" "current_output (s\<lparr>vp_flying := f\<rparr>) = current_output s"
  "current_output (s\<lparr>vp_answer := a\<rparr>) = current_output s" "current_output (s\<lparr>vp_answerError := e\<rparr>) = current_output s"
  "current_output (s\<lparr>vp_decrypted := d\<rparr>) = current_output s" "current_output (s\<lparr>vp_decrypting := d\<rparr>) = current_output s"
  "current_output (s\<lparr>vp_modal := d\<rparr>) = current_output s" "current_output (s\<lparr>vp_due := d\<rparr>) = current_output s"
  by (simp_all add: current_output_def)

lemma list_all_remove1: "list_all P xs \<Longrightarrow> list_all P (remove1 x xs)"
  by (induction xs) auto

definition no_later :: "nat \<Rightarrow> reveal \<Rightarrow> bool" where
  "no_later n r = (case r of Manual out \<Rightarrow> False | Auto run out \<Rightarrow> run \<le> n)"

lemma effect_current:
  assumes "list_all (no_later (vp_run s)) (vp_flying s)" "opened opens (vp_answer s)"
  shows "answers_current opens (reveal_effect s)"
proof -
  have flying: "list_all (run_ok s') (vp_flying s)" if "vp_run s' = Suc (vp_run s)" for s'
    using assms(1) that by (auto simp: list_all_iff run_ok_def no_later_def split: reveal.splits)
  show ?thesis
    using assms(2) by (auto simp: answers_current_def reveal_effect_def could_reveal_def Let_def flying no_output run_ok_def
      split: option.splits if_splits)
qed

lemma mounted_current: "answers_current opens (page_mounted st client ready)"
  unfolding page_mounted_def by (rule effect_current) simp_all

lemma current_no_later: "answers_current opens s \<Longrightarrow> list_all (no_later (vp_run s)) (vp_flying s)"
  by (auto simp: answers_current_def run_ok_def no_later_def list_all_iff split: reveal.splits)

lemma inputs_current:
  assumes "answers_current opens s" "\<not> vp_due s"
  shows "answers_current opens (page_inputs st client ready s)"
proof -
  let ?s = "s\<lparr>vp_status := st, vp_client := client, vp_clientReady := ready\<rparr>"
  show ?thesis
  proof (cases "reveal_deps ?s = reveal_deps s")
    case True
    have "client = vp_client s" "ready = vp_clientReady s" using True by (simp_all add: reveal_deps_def Let_def)
    with assms same_deps [OF True] True show ?thesis
      by (auto simp: page_inputs_def answers_current_def run_ok_def could_reveal_def list_all_iff Let_def split: reveal.splits)
  next
    case False
    with assms show ?thesis
      by (auto simp: page_inputs_def answers_current_def run_ok_def list_all_iff Let_def split: reveal.splits)
  qed
qed

lemma finish_current:
  assumes "answers_current opens s" "Auto run out \<in> set (vp_flying s)" "opens out res"
  shows "answers_current opens (reveal_finish run out res s)"
proof -
  have same: "run_ok (s\<lparr>vp_flying := f, vp_answer := a, vp_decrypted := d, vp_decrypting := b\<rparr>) = run_ok s"
    "run_ok (s\<lparr>vp_flying := f, vp_answerError := e, vp_decrypting := b\<rparr>) = run_ok s" "run_ok (s\<lparr>vp_flying := f\<rparr>) = run_ok s" for f a d b e
    by (auto simp: fun_eq_iff run_ok_def split: reveal.split)
  have left: "list_all (run_ok s) (remove1 (Auto run out) (vp_flying s))"
    using assms(1) by (simp add: answers_current_def list_all_remove1)
  moreover have "current_output s = Some out" if "run = vp_run s" "\<not> vp_due s"
    using assms(1,2) that by (auto simp: answers_current_def list_all_iff run_ok_def)
  ultimately show ?thesis
    using assms(1,3)
    by (auto simp: answers_current_def reveal_finish_def could_reveal_def answer_ok_def Let_def same split: sum.split)
qed

lemma reachable_current:
  assumes "page_reachable opens by_hand s"
  shows "\<not> by_hand \<Longrightarrow> answers_current opens s"
  using assms
proof (induction rule: page_reachable.induct)
  case (effect_runs s)
  then have "answers_current opens s" "opened opens (vp_answer s)" by (simp_all add: answers_current_def)
  then show ?case by (intro effect_current [OF current_no_later])
next
  case (answered s out res)
  then show ?case by (auto simp: answers_current_def list_all_iff run_ok_def)
next
  case (cancelled s)
  have "run_ok (s\<lparr>vp_modal := False\<rparr>) = run_ok s" by (auto simp: fun_eq_iff run_ok_def split: reveal.split)
  with cancelled show ?case by (simp add: answers_current_def could_reveal_def)
qed (auto simp: mounted_current inputs_current finish_current)

text \<open>An accepted status whose effect cannot start leaves the answer where it is.\<close>

lemma answer_kept:
  assumes "answer_shown s = V_answer a" "is_accepted_text st"
  shows "answer_shown (page_update st client False s) = V_answer a"
proof -
  from assms(1) obtain c cs where shown: "vp_answer s = Some (c # cs)" "a = c # cs" "\<not> vp_decrypting s" "vp_decrypted s"
      "\<not> truthy (vp_answerError s)"
    by (auto simp: answer_shown_def split: if_splits option.splits list.splits)
  let ?s = "page_update st client False s"
  have "vp_answer ?s = vp_answer s" "vp_decrypting ?s = vp_decrypting s" "vp_decrypted ?s = vp_decrypted s"
      "vp_answerError ?s = vp_answerError s" "vp_status ?s = st"
    using assms(2) by (simp_all add: page_update_def page_inputs_def reveal_effect_def Let_def split: option.split)
  with shown assms(2) show ?thesis by (simp add: answer_shown_def)
qed

text \<open>C37: which answer the effect leaves on the page. However statuses, clients, effects and decryptions
  interleave, as long as the button is not used, an answer shown was obtained by decrypting some output. It is
  that of the accepted request shown, unless the effect of the last render is still due, the request shown has
  no complete output, the CoFHE client is missing or not ready, or the decryption failed with an empty message.
  These exceptions are real: whenever an answer is shown and no effect is due, a render with any other accepted
  status and a client that is not ready reaches a page that still shows the old answer.\<close>

theorem revealed_answer_current:
  assumes "page_reachable opens False s" "answer_shown s = V_answer a"
  shows "(\<exists>out. opens out (Inr a))
    \<and> ((\<exists>out. current_output s = Some out \<and> opens out (Inr a))
      \<or> vp_due s \<or> current_output s = None \<or> vp_client s = None \<or> \<not> vp_clientReady s \<or> vp_answerError s = Some [])
    \<and> (\<forall>st client. is_accepted_text (Some st) \<and> \<not> vp_due s \<longrightarrow>
         page_reachable opens False (page_update (Some st) client False s)
         \<and> vp_status (page_update (Some st) client False s) = Some st
         \<and> answer_shown (page_update (Some st) client False s) = V_answer a)"
proof -
  have inv: "answers_current opens s" by (rule reachable_current [OF assms(1)]) simp
  have shown: "vp_answer s = Some a" "\<not> vp_decrypting s" "\<not> truthy (vp_answerError s)"
    using assms(2) by (auto simp: answer_shown_def split: if_splits option.splits list.splits)
  have "\<exists>out. opens out (Inr a)" using inv shown(1) by (simp add: answers_current_def opened_def)
  moreover have "(\<exists>out. current_output s = Some out \<and> opens out (Inr a))
      \<or> vp_due s \<or> current_output s = None \<or> vp_client s = None \<or> \<not> vp_clientReady s \<or> vp_answerError s = Some []"
    using inv shown by (auto simp: answers_current_def could_reveal_def answer_ok_def truthy_def split: option.splits)
  moreover have "vp_status (page_update (Some st) client False s) = Some st" for st client
    by (auto simp: page_update_def page_inputs_def reveal_effect_def Let_def split: option.split)
  ultimately show ?thesis
    using update_reachable [OF assms(1)] answer_kept [OF assms(2)] by blast
qed

definition one_answer :: "sealed_output \<Rightarrow> utext \<Rightarrow> sealed_output \<Rightarrow> js_err + utext \<Rightarrow> bool" where
  "one_answer out a out' res = (out' = out \<and> res = Inr a)"

theorem revealed_answer_current_witness:
  "let s = reveal_finish 1 (''7'', ''8'', ''Qm'') (Inr [65]) (page_mounted (Some (mapJobToDemoStatus done_job)) (Some ''c'') True);
       st = mapJobToDemoStatus (done_job\<lparr>j_output_cid := Some ''Qn''\<rparr>)
   in answer_shown s = V_answer [65] \<and> (\<exists>out. current_output s = Some out \<and> one_answer (''7'', ''8'', ''Qm'') [65] out (Inr [65]))
     \<and> answer_shown (page_update (Some st) None False s) = V_answer [65]"
proof -
  let ?m = "page_mounted (Some (mapJobToDemoStatus done_job)) (Some ''c'') True"
  let ?s = "reveal_finish 1 (''7'', ''8'', ''Qm'') (Inr [65]) ?m"
  have acc: "is_accepted_text (Some (mapJobToDemoStatus done_job))"
    using done_job_output by (auto simp: is_accepted_text_def accepted_output_def split: if_splits)
  have m: "vp_flying ?m = [Auto 1 (''7'', ''8'', ''Qm'')]" "vp_run ?m = 1" "vp_answerError ?m = None"
      "vp_status ?m = Some (mapJobToDemoStatus done_job)"
    by (simp_all add: page_mounted_def reveal_effect_def current_output_def done_job_output acc Let_def)
  have reach: "page_reachable (one_answer (''7'', ''8'', ''Qm'') [65]) False ?s"
    by (rule page_reachable.revealed [OF page_reachable.mounts]) (simp_all add: m one_answer_def)
  have shown: "answer_shown ?s = V_answer [65]"
    by (simp add: answer_shown_def reveal_finish_def Let_def m acc truthy_def)
  have now: "current_output ?s = Some (''7'', ''8'', ''Qm'')" "vp_client ?s = Some ''c''" "vp_clientReady ?s" "vp_answerError ?s = None"
      "\<not> vp_due ?s"
    by (simp_all add: page_mounted_def reveal_effect_def reveal_finish_def current_output_def done_job_output acc Let_def)
  let ?st = "mapJobToDemoStatus (done_job\<lparr>j_output_cid := Some ''Qn''\<rparr>)"
  have other: "is_accepted_text (Some ?st)" using acc by (simp add: is_accepted_text_def mapJobToDemoStatus_def Let_def)
  note all = revealed_answer_current [OF reach shown, unfolded now(1)]
  have "answer_shown (page_update (Some ?st) None False ?s) = V_answer [65]"
    using all other now(5) by blast
  with all now shown show ?thesis unfolding Let_def by simp
qed

subsection \<open>The button does not keep that promise\<close>

definition by_hand_answers :: "sealed_output \<Rightarrow> string \<Rightarrow> utext \<Rightarrow> sealed_output \<Rightarrow> js_err + utext \<Rightarrow> bool" where
  "by_hand_answers out m a out' res = (out' = out \<and> (res = Inl (ErrorObj m) \<or> res = Inr a))"

lemma accepted_is_text: "accepted_output st = Some out \<Longrightarrow> is_accepted_text (Some st)"
  by (auto simp: is_accepted_text_def accepted_output_def split: if_splits)

lemma accepted_text_output: "accepted_output st = Some out \<Longrightarrow> text_output st = Some out \<and> d_status st = ACCEPTED"
  by (auto simp: text_output_def accepted_output_def split: if_splits option.splits)

text \<open>A page whose effect has failed, and the button pressed\<close>

definition failed_page :: "demo_status \<Rightarrow> sealed_output \<Rightarrow> string \<Rightarrow> status_page" where
  "failed_page st out m = reveal_finish 1 out (Inl (ErrorObj m)) (page_mounted (Some st) (Some ''c'') True)"

lemma failed_page:
  assumes "accepted_output st = Some out"
  shows "page_reachable (by_hand_answers out m a) True (failed_page st out m)"
    "failed_page st out m = \<lparr>vp_status = Some st, vp_client = Some ''c'', vp_clientReady = True, vp_answer = None,
       vp_answerError = Some m, vp_decrypting = False, vp_modal = False, vp_decrypted = False, vp_feedback = None,
       vp_sending = False, vp_run = 1, vp_due = False, vp_flying = []\<rparr>"
proof -
  have m: "vp_flying (page_mounted (Some st) (Some ''c'') True) = [Auto 1 out]"
    by (simp add: page_mounted_def reveal_effect_def current_output_def assms accepted_is_text [OF assms] Let_def)
  show "page_reachable (by_hand_answers out m a) True (failed_page st out m)"
    unfolding failed_page_def by (rule page_reachable.revealed [OF page_reachable.mounts]) (simp_all add: m by_hand_answers_def)
  show "failed_page st out m = \<lparr>vp_status = Some st, vp_client = Some ''c'', vp_clientReady = True, vp_answer = None,
       vp_answerError = Some m, vp_decrypting = False, vp_modal = False, vp_decrypted = False, vp_feedback = None,
       vp_sending = False, vp_run = 1, vp_due = False, vp_flying = []\<rparr>"
    by (simp add: failed_page_def page_mounted_def reveal_effect_def reveal_finish_def current_output_def assms
        accepted_is_text [OF assms] error_message_or_def Let_def)
qed

lemma pressed_page:
  assumes "accepted_output st = Some out"
  shows "page_reachable (by_hand_answers out m a) True (handleManualDecrypt (failed_page st out m))"
    "handleManualDecrypt (failed_page st out m) = \<lparr>vp_status = Some st, vp_client = Some ''c'', vp_clientReady = True,
       vp_answer = None, vp_answerError = Some m, vp_decrypting = True, vp_modal = True, vp_decrypted = False,
       vp_feedback = None, vp_sending = False, vp_run = 1, vp_due = False, vp_flying = [Manual out]\<rparr>"
proof -
  show "page_reachable (by_hand_answers out m a) True (handleManualDecrypt (failed_page st out m))"
    by (rule page_reachable.pressed [OF failed_page(1) [OF assms]]) (simp_all add: failed_page(2) [OF assms])
qed (simp add: handleManualDecrypt_def failed_page(2) [OF assms] accepted_text_output [OF assms])

text \<open>C38: what decrypting by hand can show. Retrying after the automatic decryption failed succeeds, and the
  page still shows the error of the first attempt, for the button does not clear it. And a decryption by
  hand is not cancelled: when another request is opened meanwhile, the page shows the answer of the first
  request as that of the second.\<close>

theorem revealing_by_hand_misleads:
  assumes "accepted_output st = Some out" "accepted_output st' = Some out'" "m \<noteq> []" "a \<noteq> []"
  shows "(\<exists>s. page_reachable (by_hand_answers out m a) True s \<and> vp_status s = Some st \<and> vp_answer s = Some a \<and> answer_shown s = V_error m)
    \<and> (\<exists>s. page_reachable (by_hand_answers out m a) True s \<and> vp_status s = Some st' \<and> answer_shown s = V_answer a)"
proof (intro conjI exI)
  let ?p = "handleManualDecrypt (failed_page st out m)"
  note reach = pressed_page(1) [OF assms(1), of m a]
  note p = pressed_page(2) [OF assms(1), of m]
  note acc = accepted_is_text [OF assms(1)] accepted_is_text [OF assms(2)]
  let ?s = "manual_finish_page out (Inr a) ?p"
  show "page_reachable (by_hand_answers out m a) True ?s"
    by (rule page_reachable.answered [OF reach]) (simp_all only: p status_page.simps list.set by_hand_answers_def, simp_all)
  show "vp_status ?s = Some st" "vp_answer ?s = Some a" "answer_shown ?s = V_error m"
    unfolding p using acc assms(3) by (simp_all add: manual_finish_page_def answer_shown_def truthy_def Let_def)
  let ?n = "page_update None (Some ''c'') True ?p"
  have n: "?n = ?p\<lparr>vp_status := None, vp_run := 2, vp_answerError := None\<rparr>"
    unfolding p by (simp add: page_update_def page_inputs_def reveal_deps_def reveal_effect_def is_accepted_text_def current_output_def Let_def)
  have to_n: "page_reachable (by_hand_answers out m a) True ?n"
    by (rule update_reachable [OF reach]) (simp add: p)
  let ?q = "page_update (Some st') (Some ''c'') True ?n"
  have q: "?q = ?p\<lparr>vp_status := Some st', vp_run := 3, vp_answerError := None, vp_flying := [Manual out, Auto 3 out']\<rparr>"
    unfolding n unfolding p using acc
    by (simp add: page_update_def page_inputs_def reveal_deps_def reveal_effect_def current_output_def assms(2) Let_def)
  have to_q: "page_reachable (by_hand_answers out m a) True ?q"
    by (rule update_reachable [OF to_n], unfold n, unfold p, simp)
  let ?t = "manual_finish_page out (Inr a) ?q"
  show "page_reachable (by_hand_answers out m a) True ?t"
    by (rule page_reachable.answered [OF to_q]) (simp_all add: q by_hand_answers_def)
  show "vp_status ?t = Some st'" by (simp add: q manual_finish_page_def Let_def)
  show "answer_shown ?t = V_answer a"
    unfolding q unfolding p using acc assms(4) by (cases a) (simp_all add: manual_finish_page_def answer_shown_def truthy_def Let_def)
qed

theorem revealing_by_hand_misleads_witness:
  "\<exists>s. page_reachable (by_hand_answers (''7'', ''8'', ''Qm'') ''offline'' [65]) True s \<and> vp_answer s = Some [65]
     \<and> answer_shown s = V_error ''offline''"
  using revealing_by_hand_misleads [OF done_job_output done_job_output, of "''offline''" "[65]"] by auto

subsection \<open>A flag that stays up\<close>

text \<open>When the status is forgotten while an answer is being decrypted, the cancelled run does not lower the flag
  it raised, and no other run does until one is started: both buttons stay disabled.\<close>

lemma decrypting_sticks:
  assumes "accepted_output st = Some out"
  shows "vp_decrypting (reveal_finish 1 out res (page_update None (Some ''c'') True (page_mounted (Some st) (Some ''c'') True)))"
proof -
  have m: "page_mounted (Some st) (Some ''c'') True = \<lparr>vp_status = Some st, vp_client = Some ''c'', vp_clientReady = True, vp_answer = None,
       vp_answerError = None, vp_decrypting = True, vp_modal = False, vp_decrypted = False, vp_feedback = None,
       vp_sending = False, vp_run = 1, vp_due = False, vp_flying = [Auto 1 out]\<rparr>"
    by (simp add: page_mounted_def reveal_effect_def current_output_def assms accepted_is_text [OF assms] Let_def)
  show ?thesis
    unfolding m by (simp add: page_update_def page_inputs_def reveal_deps_def reveal_effect_def is_accepted_text_def current_output_def reveal_finish_def Let_def)
qed

subsection \<open>Feedback\<close>

lemma feedback_ends:
  "case send_feedback w penv rid dev rating notes (lg, s) of (r, (lg', s')) \<Rightarrow> r = Inr () \<and> \<not> vp_sending s' \<and> length lg' = length lg + 1
     \<and> (vp_feedback s' = vp_feedback s \<or> vp_feedback s' = Some rating)"
proof -
  have "wp (send_feedback w penv rid dev rating notes)
     (\<lambda>v lg' s'. \<not> vp_sending s' \<and> length lg' = length lg + 1 \<and> (vp_feedback s' = vp_feedback s \<or> vp_feedback s' = Some rating))
     (\<lambda>e lg' s'. False) lg s"
    unfolding send_feedback_def coverage_submitFeedback_def axios_post_def Let_def by (simp add: wp_simps split: sum.split)
  then show ?thesis by (auto simp: wp_def split: prod.splits sum.splits)
qed

end
