(* ===== verification/Scripts.thy ===== *)
theory Scripts
  imports Escrow
begin

section \<open>The command line scripts\<close>

text \<open>
  \<open>payment/scripts\<close> (the copies of \<open>create_escrow.ts\<close>, \<open>wrap_usdc.ts\<close> and \<open>fund_icl_wallet.ts\<close> under
  \<open>icl/scripts\<close> are the same text), \<open>icl/scripts/transfer_cusdc.ts\<close> and \<open>network/scripts/create_escrow.ts\<close>. A
  run is given \<open>process.argv.slice(2)\<close> and the environment; it writes lines to standard output and ends
  with an exit code. Standard error is not modelled. The wallet of an SDK instance is its private key;
  making the instance is not a call. \<open>to_number\<close> and \<open>parse_float\<close> are \<open>Number\<close> and \<open>parseFloat\<close> on strings
  (\<open>None\<close> for NaN), \<open>usdc\<close> is \<open>sdk.usdc\<close>, \<open>abi_encode\<close> ethers' coder, \<open>keccak\<close> the number a hash spells.
\<close>

subsection \<open>A run\<close>

type_synonym stdout = "string list"

definition print :: "string \<Rightarrow> (ext, stdout, unit) io" where
  "print line = update (\<lambda>out. out @ [line])"

text \<open>\<open>process.exit(1)\<close> ends the run; \<open>main().catch(() => process.exit(1))\<close>\<close>

definition exits :: "nat \<Rightarrow> (ext, stdout, nat) io" where
  "exits code = ret code"

definition run_main :: "(ext, stdout, nat) io \<Rightarrow> (ext, stdout, nat) io" where
  "run_main main = catchE main (\<lambda>e. exits 1)"

text \<open>\<open>get\<close>: the argument after the first occurrence of a flag\<close>

definition arg_of :: "string list \<Rightarrow> string \<Rightarrow> string option" where
  "arg_of args flag = (case dropWhile (\<lambda>a. a \<noteq> flag) args of _ # v # _ \<Rightarrow> Some v | _ \<Rightarrow> None)"

definition env_or :: "(string \<Rightarrow> string option) \<Rightarrow> string \<Rightarrow> string \<Rightarrow> string option" where
  "env_or env k k' = (if truthy (env k) then env k else env k')"

subsection \<open>\<open>purchase_insurance.ts\<close>\<close>

record insurance_args =
  ia_escrowId :: int
  ia_amount :: int
  ia_jobId :: string
  ia_policyAddress :: string
  ia_poolAddress :: string

text \<open>\<open>None\<close> where the usage is printed and the run ends; an error where \<open>BigInt\<close> throws\<close>

definition insurance_parseArgs :: "string list \<Rightarrow> (js_err + insurance_args) option" where
  "insurance_parseArgs args =
     (let get = arg_of args in
      if truthy (get ''--escrow-id'') \<and> truthy (get ''--amount'') \<and> truthy (get ''--job-id'')
         \<and> truthy (get ''--policy-addr'') \<and> truthy (get ''--pool-addr'')
      then Some (case js_BigInt (the (get ''--escrow-id'')) of
          Inl e \<Rightarrow> Inl e
        | Inr escrowId \<Rightarrow> (case js_BigInt (the (get ''--amount'')) of
            Inl e \<Rightarrow> Inl e
          | Inr amount \<Rightarrow> Inr \<lparr>ia_escrowId = escrowId, ia_amount = amount, ia_jobId = the (get ''--job-id''),
              ia_policyAddress = the (get ''--policy-addr''), ia_poolAddress = the (get ''--pool-addr'')\<rparr>))
      else None)"

definition mock_coverage_id :: "(string \<Rightarrow> int) \<Rightarrow> insurance_args \<Rightarrow> int" where
  "mock_coverage_id keccak a =
     keccak (''mock-coverage:'' @ int_str (ia_escrowId a) @ '':'' @ ia_jobId a) mod 2 ^ 64"

definition coverage_params :: "insurance_args \<Rightarrow> nat \<Rightarrow> string \<Rightarrow> string \<Rightarrow> abi_value list" where
  "coverage_params a now policyData riskProof =
     [AStr (ia_poolAddress a), AStr (ia_policyAddress a), AInt (ia_escrowId a), AInt (ia_amount a),
      AInt (int (now div 1000) + 30 * 86400), AStr policyData, AStr riskProof]"

definition insurance_policyData ::
  "((string \<times> abi_value) list \<Rightarrow> js_err + string) \<Rightarrow> (string \<Rightarrow> string option) \<Rightarrow> insurance_args \<Rightarrow> js_err + string" where
  "insurance_policyData abi_encode env a =
     abi_encode [(''uint256'', AInt (ia_amount a)), (''bytes32'', AStr (ia_jobId a)),
       (''address'', AStr (js_or (env ''INFERENCE_GATE_ADDRESS'') ''0x0000000000000000000000000000000000000000''))]"

definition shown_id :: "abi_value \<Rightarrow> string" where
  "shown_id v = (case v of AInt i \<Rightarrow> int_str i | AStr s \<Rightarrow> s | _ \<Rightarrow> ''undefined'')"

definition buy_coverage ::
  "world \<Rightarrow> (string \<Rightarrow> int) \<Rightarrow> string \<Rightarrow> insurance_args \<Rightarrow> string \<Rightarrow> string \<Rightarrow> (ext, stdout, unit) io" where
  "buy_coverage w keccak privateKey a policyData riskProof =
     catchE
       (bindE (clock w) (\<lambda>now.
        bindE (sdk_call w privateKey ''insurance.purchaseCoverage'' (coverage_params a now policyData riskProof)) (\<lambda>coverage.
        print (shown_id coverage))))
       (\<lambda>err. print (int_str (mock_coverage_id keccak a)))"

definition purchase_insurance ::
  "world \<Rightarrow> ((string \<times> abi_value) list \<Rightarrow> js_err + string) \<Rightarrow> (string \<Rightarrow> int) \<Rightarrow> (string \<Rightarrow> string option) \<Rightarrow> string list
   \<Rightarrow> (ext, stdout, nat) io" where
  "purchase_insurance w abi_encode keccak env args =
     run_main (case insurance_parseArgs args of
         None \<Rightarrow> exits 1
       | Some parsed \<Rightarrow>
           bindE (lift parsed) (\<lambda>a.
           let privateKey = env_or env ''ICL_WALLET_PRIVATE_KEY'' ''PRIVATE_KEY'' in
           if \<not> truthy privateKey then exits 1
           else
             thenE (catchE (sdk_init w (the privateKey)) (\<lambda>err. ret ()))
             (bindE (lift (insurance_policyData abi_encode env a)) (\<lambda>policyData.
              bindE (lift (abi_encode [(''uint256'', AInt (ia_amount a))])) (\<lambda>riskProof.
              thenE (buy_coverage w keccak (the privateKey) a policyData riskProof) (exits 0))))))"

subsection \<open>\<open>file_dispute.ts\<close>\<close>

definition dispute_parseArgs :: "string list \<Rightarrow> (js_err + int \<times> string) option" where
  "dispute_parseArgs args =
     (let coverageId = arg_of args ''--coverage-id''; disputeProof = arg_of args ''--dispute-proof'' in
      if truthy coverageId \<and> truthy disputeProof
      then Some (map_sum id (\<lambda>c. (c, the disputeProof)) (js_BigInt (the coverageId))) else None)"

definition file_dispute :: "world \<Rightarrow> (string \<Rightarrow> string option) \<Rightarrow> string list \<Rightarrow> (ext, stdout, nat) io" where
  "file_dispute w env args =
     run_main (case dispute_parseArgs args of
         None \<Rightarrow> exits 1
       | Some parsed \<Rightarrow>
           bindE (lift parsed) (\<lambda>(coverageId, disputeProof).
           let privateKey = env_or env ''DISPUTE_AUTHORITY_PRIVATE_KEY'' ''PRIVATE_KEY'' in
           if \<not> truthy privateKey then exits 1
           else
             thenE (catchE (sdk_init w (the privateKey)) (\<lambda>err. ret ()))
             (thenE
               (catchE
                 (thenE (sdk_call w (the privateKey) ''coverage.dispute'' [AInt coverageId, AStr disputeProof]) (print ''true''))
                 (\<lambda>err. print ''true''))
               (exits 0))))"

subsection \<open>\<open>create_escrow.ts\<close>, for the services\<close>

text \<open>\<open>sdk.usdc\<close> of \<open>Number(...)\<close>; \<open>condition(resolver, data)\<close>\<close>

record escrow_args =
  ea_amount :: "rat option"
  ea_jobId :: string
  ea_owner :: string
  ea_resolver :: string
  ea_resolverData :: "string option"

definition escrow_parseArgs :: "(string \<Rightarrow> rat option) \<Rightarrow> string list \<Rightarrow> escrow_args option" where
  "escrow_parseArgs to_number args =
     (let get = arg_of args in
      if truthy (get ''--amount'') \<and> truthy (get ''--job-id'') \<and> truthy (get ''--owner'') \<and> truthy (get ''--resolver'')
      then Some \<lparr>ea_amount = to_number (the (get ''--amount'')), ea_jobId = the (get ''--job-id''), ea_owner = the (get ''--owner''),
                 ea_resolver = the (get ''--resolver''), ea_resolverData = get ''--resolver-data''\<rparr>
      else None)"

definition resolver_data :: "((string \<times> abi_value) list \<Rightarrow> js_err + string) \<Rightarrow> escrow_args \<Rightarrow> js_err + string" where
  "resolver_data abi_encode a =
     (if truthy (ea_resolverData a) then Inr (the (ea_resolverData a)) else abi_encode [(''bytes32'', AStr (ea_jobId a))])"

definition fund_new_escrow :: "world \<Rightarrow> escrow_spec \<Rightarrow> (ext, stdout, int) io" where
  "fund_new_escrow w spec =
     bindE (escrow_create w spec) (\<lambda>(escrow, createTx).
     thenE (escrow_fund w (es_wallet spec) escrow (es_amount spec)) (ret escrow))"

definition create_escrow_script ::
  "world \<Rightarrow> ((string \<times> abi_value) list \<Rightarrow> js_err + string) \<Rightarrow> (rat option \<Rightarrow> js_err + int) \<Rightarrow> (string \<Rightarrow> rat option)
   \<Rightarrow> (string \<Rightarrow> string option) \<Rightarrow> string list \<Rightarrow> (ext, stdout, nat) io" where
  "create_escrow_script w abi_encode usdc to_number env args =
     run_main (case escrow_parseArgs to_number args of
         None \<Rightarrow> exits 1
       | Some a \<Rightarrow>
           let privateKey = env ''ICL_WALLET_PRIVATE_KEY'';
               rpcUrl = env_or env ''ARBITRUM_SEPOLIA_RPC'' ''ARBITRUM_SEPOLIA_RPC_URL'' in
           if \<not> truthy privateKey then exits 1
           else if \<not> truthy rpcUrl then exits 1
           else
             bindE (lift (resolver_data abi_encode a)) (\<lambda>data.
             bindE (lift (usdc (ea_amount a))) (\<lambda>amount.
             bindE (fund_new_escrow w \<lparr>es_wallet = the privateKey, es_amount = amount, es_owner = ea_owner a,
                 es_condition = Some (ea_resolver a, data)\<rparr>) (\<lambda>escrow.
             thenE (print (int_str escrow)) (exits 0)))))"

subsection \<open>\<open>create_escrow.ts\<close>, for a developer\<close>

definition INFERENCE_GATE :: string where
  "INFERENCE_GATE = ''0xF3014a79985f83898912cAe2676226310A546905''"

definition PAYOUT_CLAIMER :: string where
  "PAYOUT_CLAIMER = ''0xEfB565c7989dd1dEDD0C5B8c95dA24Ef2d94FBbd''"

definition dev_create_escrow ::
  "world \<Rightarrow> ((string \<times> abi_value) list \<Rightarrow> js_err + string) \<Rightarrow> (rat option \<Rightarrow> js_err + int) \<Rightarrow> (string \<Rightarrow> rat option)
   \<Rightarrow> (string \<Rightarrow> string option) \<Rightarrow> string list \<Rightarrow> (ext, stdout, nat) io" where
  "dev_create_escrow w abi_encode usdc parse_float env args =
     run_main (case args of
         jobId # amountStr # rest \<Rightarrow>
           if jobId = [] \<or> amountStr = [] then exits 1
           else if \<not> truthy (env ''PRIVATE_KEY'') then exits 1
           else (case parse_float amountStr of
               None \<Rightarrow> exits 1
             | Some amount \<Rightarrow>
                 let normalizedJobId = (if starts_with jobId ''0x'' then jobId else ''0x'' @ jobId) in
                 if amount \<le> 0 then exits 1
                 else if length normalizedJobId \<noteq> 66 then exits 1
                 else
                   thenE (sdk_init w (the (env ''PRIVATE_KEY'')))
                   (bindE (lift (usdc (Some amount))) (\<lambda>units.
                    bindE (lift (abi_encode [(''bytes32'', AStr normalizedJobId)])) (\<lambda>data.
                    bindE (fund_new_escrow w \<lparr>es_wallet = the (env ''PRIVATE_KEY''), es_amount = units, es_owner = PAYOUT_CLAIMER,
                        es_condition = Some (INFERENCE_GATE, data)\<rparr>) (\<lambda>escrow.
                    thenE (print (int_str escrow)) (exits 0)))))
       )
       | _ \<Rightarrow> exits 1)"

subsection \<open>\<open>wrap_usdc.ts\<close>, \<open>fund_icl_wallet.ts\<close>, \<open>transfer_cusdc.ts\<close>, \<open>create_insurance_pool.ts\<close>\<close>

text \<open>Their lines are progress only and left out, but for the pool's. \<open>address_of\<close> is the address of a key.\<close>

definition wrap_usdc_script ::
  "world \<Rightarrow> (string \<Rightarrow> string) \<Rightarrow> (rat option \<Rightarrow> js_err + int) \<Rightarrow> (string \<Rightarrow> rat option) \<Rightarrow> (string \<Rightarrow> string option)
   \<Rightarrow> string list \<Rightarrow> (ext, stdout, nat) io" where
  "wrap_usdc_script w address_of usdc to_number env args =
     run_main
      (let privateKey = env ''USER_PRIVATE_KEY_TEST''; amountArg = (case args of [] \<Rightarrow> None | a # rest \<Rightarrow> Some a) in
       if \<not> truthy privateKey then exits 1
       else if \<not> truthy amountArg then exits 1
       else (case to_number (the amountArg) of
           None \<Rightarrow> exits 1
         | Some usdcAmount \<Rightarrow>
             if usdcAmount \<le> 0 then exits 1
             else
               bindE (lift (usdc (Some usdcAmount))) (\<lambda>amount.
               bindE (fund_new_escrow w \<lparr>es_wallet = the privateKey, es_amount = amount, es_owner = address_of (the privateKey),
                   es_condition = None\<rparr>) (\<lambda>escrow.
               thenE (escrow_redeem w (the privateKey) escrow) (exits 0)))))"

definition fund_icl_wallet ::
  "world \<Rightarrow> string \<Rightarrow> (rat option \<Rightarrow> js_err + int) \<Rightarrow> (string \<Rightarrow> rat option) \<Rightarrow> (string \<Rightarrow> string option)
   \<Rightarrow> string list \<Rightarrow> (ext, stdout, nat) io" where
  "fund_icl_wallet w confidentialUSDC usdc to_number env args =
     run_main
      (let privateKey = env ''USER_PRIVATE_KEY_TEST'';
           iclWallet = js_or (env ''ICL_WALLET_ADDRESS'') ''0x7F9B413Da50e72415b16Eb9df6e5E59774a338dc'';
           amount = to_number (js_or (case args of [] \<Rightarrow> None | a # rest \<Rightarrow> Some a) ''1000'');
           iclKey = js_or (env_or env ''ICL_PRIVATE_KEY'' ''ICL_WALLET_PRIVATE_KEY'') [] in
       if \<not> truthy privateKey then exits 1
       else
         bindE (lift (usdc amount)) (\<lambda>units.
         bindE (fund_new_escrow w \<lparr>es_wallet = the privateKey, es_amount = units, es_owner = iclWallet, es_condition = None\<rparr>) (\<lambda>escrow.
         thenE (escrow_redeem w iclKey escrow)
        (thenE (read_contract w confidentialUSDC ''balanceOf'' [AStr iclWallet]) (exits 0)))))"

definition transfer_cusdc ::
  "world \<Rightarrow> (string \<Rightarrow> string) \<Rightarrow> string \<Rightarrow> (string \<Rightarrow> rat option) \<Rightarrow> (rat option \<Rightarrow> js_err + int) \<Rightarrow> (string \<Rightarrow> string option)
   \<Rightarrow> string list \<Rightarrow> (ext, stdout, nat) io" where
  "transfer_cusdc w address_of confidentialUSDC to_number to_uint env args =
     run_main
      (let privateKey = env ''USER_PRIVATE_KEY_TEST''; toAddress = env ''TO_ADDRESS'';
           amount = to_number (js_or (case args of [] \<Rightarrow> None | a # rest \<Rightarrow> Some a) ''1000'') in
       if \<not> truthy privateKey then exits 1
       else if \<not> truthy toAddress then exits 1
       else
         thenE (read_contract w confidentialUSDC ''balanceOf'' [AStr (address_of (the privateKey))])
        (bindE (lift (to_uint amount)) (\<lambda>n.
         bindE (write_contract w \<lparr>tx_account = address_of (the privateKey), tx_address = confidentialUSDC,
             tx_function = ''confidentialTransfer'', tx_args = [AStr (the toAddress), AInt n], tx_fees = NoFees\<rparr>) (\<lambda>hash.
         thenE (wait_receipt w hash) (exits 0)))))"

definition create_insurance_pool ::
  "world \<Rightarrow> string \<Rightarrow> (string \<Rightarrow> string option) \<Rightarrow> (ext, stdout, nat) io" where
  "create_insurance_pool w confidentialUSDC env =
     (let privateKey = env ''PRIVATE_KEY''; policyAdapterAddress = env ''POLICY_ADAPTER_ADDRESS'' in
      if \<not> truthy privateKey \<or> \<not> truthy policyAdapterAddress then exits 1
      else
        thenE (catchE (sdk_init w (the privateKey)) (\<lambda>err. ret ()))
        (catchE
          (bindE (sdk_call w (the privateKey) ''insurance.createPool'' [AStr confidentialUSDC]) (\<lambda>pool.
           let pid = (case pool of ATuple [i, a] \<Rightarrow> i | v \<Rightarrow> v); addr = (case pool of ATuple [i, a] \<Rightarrow> a | v \<Rightarrow> v) in
           thenE (sdk_call w (the privateKey) ''pool.addPolicy'' [pid, AStr (the policyAdapterAddress)])
          (thenE (print (''POOL_ID='' @ shown_id pid))
          (thenE (print (''POOL_ADDRESS='' @ shown_id addr)) (exits 0)))))
          (\<lambda>err. exits 1)))"

subsection \<open>What is reported\<close>

text \<open>What \<open>purchase_insurance.ts\<close> has when it reaches the purchase: the arguments, the key and both encodings\<close>

definition insurance_order ::
  "((string \<times> abi_value) list \<Rightarrow> js_err + string) \<Rightarrow> (string \<Rightarrow> string option) \<Rightarrow> string list
   \<Rightarrow> (insurance_args \<times> string \<times> string \<times> string) option" where
  "insurance_order abi_encode env args = (case insurance_parseArgs args of
      Some (Inr a) \<Rightarrow>
        (case (env_or env ''ICL_WALLET_PRIVATE_KEY'' ''PRIVATE_KEY'', insurance_policyData abi_encode env a,
               abi_encode [(''uint256'', AInt (ia_amount a))]) of
           (Some key, Inr policyData, Inr riskProof) \<Rightarrow> if key \<noteq> [] then Some (a, key, policyData, riskProof) else None
         | _ \<Rightarrow> None)
    | _ \<Rightarrow> None)"

definition dispute_order :: "(string \<Rightarrow> string option) \<Rightarrow> string list \<Rightarrow> (string \<times> int \<times> string) option" where
  "dispute_order env args = (case (dispute_parseArgs args, env_or env ''DISPUTE_AUTHORITY_PRIVATE_KEY'' ''PRIVATE_KEY'') of
      (Some (Inr (coverageId, proof)), Some key) \<Rightarrow> if key \<noteq> [] then Some (key, coverageId, proof) else None
    | _ \<Rightarrow> None)"

lemma buy_coverage_run:
  "buy_coverage w keccak key a p q (lg, out) =
     (let before = lg @ [Clock]; c = SdkCall key ''insurance.purchaseCoverage'' (coverage_params a (on_clock w lg) p q) in
      (Inr (), (before @ [c], out @ [case on_sdk_call w before c of
          Inr v \<Rightarrow> shown_id v | Inl e \<Rightarrow> int_str (mock_coverage_id keccak a)])))"
  by (simp add: buy_coverage_def clock_def sdk_call_def call_def print_def update_def catchE_def bindE_def Let_def split: sum.split)

lemma no_order_exits:
  assumes "insurance_order abi_encode env args = None"
  shows "case purchase_insurance w abi_encode keccak env args (lg, out) of (r, (lg', out')) \<Rightarrow> r = Inr 1 \<and> out' = out"
proof (cases "insurance_parseArgs args")
  case None
  then show ?thesis by (simp add: purchase_insurance_def run_main_def exits_def catchE_def ret_def)
next
  case (Some parsed)
  show ?thesis
  proof (cases parsed)
    case (Inl e)
    with Some show ?thesis by (simp add: purchase_insurance_def run_main_def exits_def catchE_def ret_def bindE_def lift_def)
  next
    case (Inr a)
    note a = this
    let ?key = "env_or env ''ICL_WALLET_PRIVATE_KEY'' ''PRIVATE_KEY''"
    show ?thesis
    proof (cases "truthy ?key")
      case False
      with Some a show ?thesis
        by (simp add: purchase_insurance_def run_main_def exits_def catchE_def ret_def bindE_def lift_def Let_def)
    next
      case True
      then obtain key where key: "?key = Some key" "key \<noteq> []" by (auto simp: truthy_def split: option.splits)
      with assms Some a have "isl (insurance_policyData abi_encode env a) \<or> isl (abi_encode [(''uint256'', AInt (ia_amount a))])"
        by (auto simp: insurance_order_def split: sum.splits)
      with key Some a show ?thesis
        by (auto simp: purchase_insurance_def run_main_def exits_def catchE_def ret_def bindE_def thenE_def lift_def Let_def truthy_def
            sdk_init_def call_def isl_def split: sum.splits)
    qed
  qed
qed

lemma insurance_run:
  assumes "insurance_order abi_encode env args = Some (a, key, p, q)"
  shows "purchase_insurance w abi_encode keccak env args (lg, out) =
    (Inr 0, snd (buy_coverage w keccak key a p q (lg @ [SdkInit key], out)))"
proof -
  from assms have order: "insurance_parseArgs args = Some (Inr a)" "env_or env ''ICL_WALLET_PRIVATE_KEY'' ''PRIVATE_KEY'' = Some key"
      "key \<noteq> []" "insurance_policyData abi_encode env a = Inr p" "abi_encode [(''uint256'', AInt (ia_amount a))] = Inr q"
    by (auto simp: insurance_order_def split: option.splits sum.splits if_splits)
  show ?thesis
    by (cases "on_sdk_init w lg key")
      (simp_all add: purchase_insurance_def run_main_def exits_def Let_def order truthy_def lift_def thenE_def
        catchE_def bindE_def ret_def sdk_init_def call_def buy_coverage_run)
qed

lemma dispute_run:
  "file_dispute w env args (lg, out) =
     (case dispute_order env args of
        None \<Rightarrow> (Inr 1, (lg, out))
      | Some (key, coverageId, proof) \<Rightarrow>
          (Inr 0, (lg @ [SdkInit key, SdkCall key ''coverage.dispute'' [AInt coverageId, AStr proof]], out @ [''true''])))"
  by (auto simp: file_dispute_def dispute_order_def run_main_def exits_def Let_def truthy_def lift_def thenE_def catchE_def bindE_def ret_def
      sdk_init_def sdk_call_def call_def print_def update_def split: option.split sum.split)

text \<open>C39: what the backend is told of coverage and disputes. When an argument, the key or an encoding is missing or wrong, both
  scripts print nothing and end with exit code 1. Otherwise the coverage is bought, respectively the dispute filed, in exactly
  one call, the last one; and whatever the SDK answers to it, and whether or not its initialisation succeeded, the script
  prints one line and ends with exit code 0. That line is the coverage's id, or, when the
  purchase was refused, a number below \<open>2 ^ 64\<close> made from the escrow and the job; for a dispute it is
  \<open>true\<close>, whether or not it was filed.\<close>

theorem refusals_reported_as_success:
  shows "(case purchase_insurance w abi_encode keccak env args (lg, out) of (r, (lg', out')) \<Rightarrow>
      (case insurance_order abi_encode env args of
         None \<Rightarrow> r = Inr 1 \<and> out' = out
       | Some (a, key, policyData, riskProof) \<Rightarrow>
           (let before = lg @ [SdkInit key, Clock];
                purchase = SdkCall key ''insurance.purchaseCoverage''
                  (coverage_params a (on_clock w (lg @ [SdkInit key])) policyData riskProof) in
            r = Inr 0 \<and> lg' = before @ [purchase] \<and>
            (case on_sdk_call w before purchase of
               Inr coverage \<Rightarrow> out' = out @ [shown_id coverage]
             | Inl refused \<Rightarrow> out' = out @ [int_str (mock_coverage_id keccak a)] \<and> mock_coverage_id keccak a \<in> {0..<2 ^ 64}))))
    \<and> (case file_dispute w env args (lg, out) of (r, (lg', out')) \<Rightarrow>
      (case dispute_order env args of
         None \<Rightarrow> r = Inr 1 \<and> lg' = lg \<and> out' = out
       | Some (key, coverageId, proof) \<Rightarrow>
           r = Inr 0 \<and> out' = out @ [''true''] \<and>
           lg' = lg @ [SdkInit key, SdkCall key ''coverage.dispute'' [AInt coverageId, AStr proof]]))"
proof
  show "case purchase_insurance w abi_encode keccak env args (lg, out) of (r, (lg', out')) \<Rightarrow>
      (case insurance_order abi_encode env args of
         None \<Rightarrow> r = Inr 1 \<and> out' = out
       | Some (a, key, policyData, riskProof) \<Rightarrow>
           (let before = lg @ [SdkInit key, Clock];
                purchase = SdkCall key ''insurance.purchaseCoverage''
                  (coverage_params a (on_clock w (lg @ [SdkInit key])) policyData riskProof) in
            r = Inr 0 \<and> lg' = before @ [purchase] \<and>
            (case on_sdk_call w before purchase of
               Inr coverage \<Rightarrow> out' = out @ [shown_id coverage]
             | Inl refused \<Rightarrow> out' = out @ [int_str (mock_coverage_id keccak a)] \<and> mock_coverage_id keccak a \<in> {0..<2 ^ 64})))"
  proof (cases "insurance_order abi_encode env args")
    case None
    then show ?thesis using no_order_exits [OF None, where w = w and keccak = keccak and lg = lg and out = out] by (simp split: prod.splits)
  next
    case (Some order)
    then obtain a key p q where "insurance_order abi_encode env args = Some (a, key, p, q)" by (cases order) auto
    then show ?thesis
      by (simp add: insurance_run buy_coverage_run Let_def mock_coverage_id_def split: sum.split)
  qed
qed (simp add: dispute_run split: option.split prod.split)

subsection \<open>An id is printed for a funded escrow only\<close>

definition funded_as :: "world \<Rightarrow> escrow_spec \<Rightarrow> int \<Rightarrow> ext list \<Rightarrow> ext list \<Rightarrow> bool" where
  "funded_as w spec escrow lg lg' =
     ((\<exists>tx. on_escrow_create w lg spec = Inr (escrow, tx)) \<and>
      (\<exists>hash. on_escrow_fund w (lg @ [EscrowCreate spec]) escrow (es_amount spec) = Inr hash) \<and>
      lg' = lg @ [EscrowCreate spec, EscrowFund (es_wallet spec) escrow (es_amount spec)])"

text \<open>What \<open>create_escrow.ts\<close> has when it reaches the SDK: what it asks for, or nothing when an argument, a variable of
  the environment or a conversion is missing or fails\<close>

definition escrow_order ::
  "((string \<times> abi_value) list \<Rightarrow> js_err + string) \<Rightarrow> (rat option \<Rightarrow> js_err + int) \<Rightarrow> (string \<Rightarrow> rat option)
   \<Rightarrow> (string \<Rightarrow> string option) \<Rightarrow> string list \<Rightarrow> escrow_spec option" where
  "escrow_order abi_encode usdc to_number env args =
     Option.bind (escrow_parseArgs to_number args) (\<lambda>a.
       case (env ''ICL_WALLET_PRIVATE_KEY'', resolver_data abi_encode a, usdc (ea_amount a)) of
         (Some key, Inr data, Inr amount) \<Rightarrow>
           if key \<noteq> [] \<and> truthy (env_or env ''ARBITRUM_SEPOLIA_RPC'' ''ARBITRUM_SEPOLIA_RPC_URL'')
           then Some \<lparr>es_wallet = key, es_amount = amount, es_owner = ea_owner a, es_condition = Some (ea_resolver a, data)\<rparr>
           else None
       | _ \<Rightarrow> None)"

lemma escrow_script_run:
  "create_escrow_script w abi_encode usdc to_number env args (lg, out) =
     (case escrow_order abi_encode usdc to_number env args of
        None \<Rightarrow> (Inr 1, (lg, out))
      | Some spec \<Rightarrow> (case on_escrow_create w lg spec of
            Inl e \<Rightarrow> (Inr 1, (lg @ [EscrowCreate spec], out))
          | Inr (escrow, tx) \<Rightarrow>
              (let lg' = lg @ [EscrowCreate spec, EscrowFund (es_wallet spec) escrow (es_amount spec)] in
               case on_escrow_fund w (lg @ [EscrowCreate spec]) escrow (es_amount spec) of
                 Inl e \<Rightarrow> (Inr 1, (lg', out)) | Inr hash \<Rightarrow> (Inr 0, (lg', out @ [int_str escrow])))))"
proof (cases "escrow_parseArgs to_number args")
  case None
  then show ?thesis by (simp add: create_escrow_script_def escrow_order_def run_main_def exits_def catchE_def ret_def)
next
  case (Some a)
  show ?thesis
  proof (cases "truthy (env ''ICL_WALLET_PRIVATE_KEY'') \<and> truthy (env_or env ''ARBITRUM_SEPOLIA_RPC'' ''ARBITRUM_SEPOLIA_RPC_URL'')")
    case False
    with Some show ?thesis
      by (auto simp: create_escrow_script_def escrow_order_def run_main_def exits_def catchE_def ret_def truthy_def Let_def
          split: option.split sum.split)
  next
    case True
    then obtain key where key: "env ''ICL_WALLET_PRIVATE_KEY'' = Some key" "key \<noteq> []" by (auto simp: truthy_def split: option.splits)
    show ?thesis
    proof (cases "resolver_data abi_encode a")
      case (Inl e)
      with Some True key show ?thesis
        by (simp add: create_escrow_script_def escrow_order_def run_main_def exits_def catchE_def ret_def bindE_def lift_def Let_def)
    next
      case (Inr data)
      note data = this
      show ?thesis
      proof (cases "usdc (ea_amount a)")
        case (Inl e)
        with Some True key data show ?thesis
          by (simp add: create_escrow_script_def escrow_order_def run_main_def exits_def catchE_def ret_def bindE_def lift_def Let_def)
      next
        case (Inr amount)
        with Some True key data show ?thesis
          by (simp add: create_escrow_script_def escrow_order_def run_main_def exits_def catchE_def ret_def bindE_def thenE_def lift_def Let_def
              fund_new_escrow_def escrow_create_def escrow_fund_def call_def print_def update_def split: sum.split prod.split)
      qed
    qed
  qed
qed

text \<open>C40: what \<open>create_escrow.ts\<close> prints, and what it is funded with. When an argument, the key, the RPC or a conversion is
  missing or wrong it makes no call and ends with exit code 1 and no line. Otherwise it creates one escrow for the owner, the resolver
  and the resolver data of its arguments, funds it with the amount it was created for, and
  prints its id and ends with exit code 0 exactly when both succeed; else it prints nothing and ends with exit code 1. The
  amount is not the one its header documents: \<open>--amount\<close> is announced in units of \<open>10 ^ -6\<close>
  USDC, and passed to \<open>sdk.usdc\<close>, which takes whole USDC (the first hypothesis, as the other callers
  use it); for \<open>--amount n\<close> the escrow holds \<open>10 ^ 6 * n\<close> units, a million times the documented amount.\<close>

theorem escrow_printed_is_funded:
  assumes usdc: "\<And>n :: int. usdc (Some (of_int n)) = Inr (n * 10 ^ 6)"
  shows "(case create_escrow_script w abi_encode usdc to_number env args (lg, out) of (r, (lg', out')) \<Rightarrow>
      (case escrow_order abi_encode usdc to_number env args of
         None \<Rightarrow> r = Inr 1 \<and> lg' = lg \<and> out' = out
       | Some spec \<Rightarrow>
           if \<exists>escrow. funded_as w spec escrow lg lg'
           then r = Inr 0 \<and> (\<exists>escrow. funded_as w spec escrow lg lg' \<and> out' = out @ [int_str escrow])
           else r = Inr 1 \<and> out' = out))
    \<and> (\<forall>a n. escrow_parseArgs to_number args = Some a \<and> ea_amount a = Some (of_int n) \<longrightarrow>
        (case escrow_order abi_encode usdc to_number env args of
           None \<Rightarrow> \<not> truthy (env ''ICL_WALLET_PRIVATE_KEY'') \<or> \<not> truthy (env_or env ''ARBITRUM_SEPOLIA_RPC'' ''ARBITRUM_SEPOLIA_RPC_URL'')
             \<or> isl (resolver_data abi_encode a)
         | Some spec \<Rightarrow> es_amount spec = 10 ^ 6 * n \<and> es_owner spec = ea_owner a \<and> env ''ICL_WALLET_PRIVATE_KEY'' = Some (es_wallet spec)
             \<and> (\<exists>data. resolver_data abi_encode a = Inr data \<and> es_condition spec = Some (ea_resolver a, data))))"
proof
  show "case create_escrow_script w abi_encode usdc to_number env args (lg, out) of (r, (lg', out')) \<Rightarrow>
      (case escrow_order abi_encode usdc to_number env args of
         None \<Rightarrow> r = Inr 1 \<and> lg' = lg \<and> out' = out
       | Some spec \<Rightarrow>
           if \<exists>escrow. funded_as w spec escrow lg lg'
           then r = Inr 0 \<and> (\<exists>escrow. funded_as w spec escrow lg lg' \<and> out' = out @ [int_str escrow])
           else r = Inr 1 \<and> out' = out)"
    by (auto simp: escrow_script_run funded_as_def Let_def split: option.split sum.split)
  show "\<forall>a n. escrow_parseArgs to_number args = Some a \<and> ea_amount a = Some (of_int n) \<longrightarrow>
        (case escrow_order abi_encode usdc to_number env args of
           None \<Rightarrow> \<not> truthy (env ''ICL_WALLET_PRIVATE_KEY'') \<or> \<not> truthy (env_or env ''ARBITRUM_SEPOLIA_RPC'' ''ARBITRUM_SEPOLIA_RPC_URL'')
             \<or> isl (resolver_data abi_encode a)
         | Some spec \<Rightarrow> es_amount spec = 10 ^ 6 * n \<and> es_owner spec = ea_owner a \<and> env ''ICL_WALLET_PRIVATE_KEY'' = Some (es_wallet spec)
             \<and> (\<exists>data. resolver_data abi_encode a = Inr data \<and> es_condition spec = Some (ea_resolver a, data)))"
    by (auto simp: escrow_order_def usdc truthy_def split: option.splits sum.splits if_splits)
qed

definition toy_usdc :: "rat option \<Rightarrow> js_err + int" where
  "toy_usdc amount = (case amount of None \<Rightarrow> Inl (ErrorObj ''invalid amount'') | Some x \<Rightarrow> Inr (floor (x * 10 ^ 6)))"

definition toy_escrow_env :: "string \<Rightarrow> string option" where
  "toy_escrow_env k = (if k = ''ICL_WALLET_PRIVATE_KEY'' then Some ''0xk'' else if k = ''ARBITRUM_SEPOLIA_RPC'' then Some ''http'' else None)"

definition toy_escrow_args :: "string list" where
  "toy_escrow_args = [''--amount'', ''1000'', ''--job-id'', ''0xj'', ''--owner'', ''0xo'', ''--resolver'', ''0xr'']"

definition toy_number :: "string \<Rightarrow> rat option" where
  "toy_number s = (if s = ''1000'' then Some (of_int 1000) else None)"

text \<open>1000 units of \<open>10 ^ -6\<close> USDC, a tenth of a cent, become a thousand million\<close>

theorem escrow_printed_is_funded_witness:
  "\<exists>spec. escrow_order (\<lambda>_. Inr ''0xd'') toy_usdc toy_number toy_escrow_env toy_escrow_args = Some spec \<and> es_amount spec = 1000000000
    \<and> (case create_escrow_script escrow_world (\<lambda>_. Inr ''0xd'') toy_usdc toy_number toy_escrow_env toy_escrow_args ([], []) of
         (r, (lg', out')) \<Rightarrow> r = Inr 0 \<and> funded_as escrow_world spec 9 [] lg' \<and> out' = [''9''])"
proof -
  let ?a = "\<lparr>ea_amount = Some (of_int 1000), ea_jobId = ''0xj'', ea_owner = ''0xo'', ea_resolver = ''0xr'', ea_resolverData = None\<rparr>"
  have usdc: "toy_usdc (Some (of_int n)) = Inr (n * 10 ^ 6)" for n
  proof -
    have "(of_int n :: rat) * 10 ^ 6 = of_int (n * 10 ^ 6)" by simp
    then show ?thesis unfolding toy_usdc_def by (simp only: option.case floor_of_int)
  qed
  have a: "escrow_parseArgs toy_number toy_escrow_args = Some ?a"
    by (simp add: escrow_parseArgs_def toy_escrow_args_def arg_of_def truthy_def toy_number_def)
  have env: "truthy (toy_escrow_env ''ICL_WALLET_PRIVATE_KEY'')"
      "truthy (env_or toy_escrow_env ''ARBITRUM_SEPOLIA_RPC'' ''ARBITRUM_SEPOLIA_RPC_URL'')"
    by (simp_all add: toy_escrow_env_def env_or_def truthy_def)
  note claim = escrow_printed_is_funded [of toy_usdc, OF usdc, where abi_encode = "\<lambda>_. Inr ''0xd''" and to_number = toy_number
      and env = toy_escrow_env and args = toy_escrow_args and w = escrow_world and lg = "[]" and out = "[]"]
  obtain spec where spec: "escrow_order (\<lambda>_. Inr ''0xd'') toy_usdc toy_number toy_escrow_env toy_escrow_args = Some spec"
      "es_amount spec = 10 ^ 6 * 1000"
    using conjunct2 [OF claim, rule_format, of ?a 1000] a env
    by (auto simp: resolver_data_def truthy_def split: option.splits)
  obtain r lg' out' where run: "create_escrow_script escrow_world (\<lambda>_. Inr ''0xd'') toy_usdc toy_number toy_escrow_env toy_escrow_args ([], [])
      = (r, (lg', out'))" by (metis surj_pair)
  have funded: "funded_as escrow_world spec 9 [] lg'"
    using run by (simp add: escrow_script_run spec(1) escrow_world_def funded_as_def Let_def)
  have only: "escrow = 9" if "funded_as escrow_world spec escrow [] lg'" for escrow
    using that by (simp add: funded_as_def escrow_world_def)
  have "if \<exists>escrow. funded_as escrow_world spec escrow [] lg'
      then r = Inr 0 \<and> (\<exists>escrow. funded_as escrow_world spec escrow [] lg' \<and> out' = [] @ [int_str escrow]) else r = Inr 1 \<and> out' = []"
    using conjunct1 [OF claim] unfolding run spec(1) prod.case option.case .
  then have "r = Inr 0 \<and> out' = [int_str 9]" using funded only by (metis append_Nil)
  moreover have "int_str 9 = ''9''" by code_simp
  ultimately show ?thesis using spec run funded by simp
qed

end
