(* ===== verification/Node_Hooks.thy ===== *)
theory Node_Hooks
  imports Credits
begin

section \<open>The dashboards' hooks\<close>

text \<open>
  \<open>frontend/src/hooks/useNodeStats.ts\<close>, \<open>useNodeJobs.ts\<close>, \<open>useIsNodeOperator.ts\<close> and \<open>useDeveloperStats.ts\<close>
  as machines: a request is started for the address of the render, and its answer is put in the state
  when it arrives. The first three never cancel a request, the last cancels that of an earlier address.
  The numbers \<open>pages/NodeDashboardPage.tsx\<close> derives are here too, and the dispute forms
  (\<open>components/DisputeForm.tsx\<close>, \<open>DisputeModal.tsx\<close>).
\<close>

subsection \<open>Hooks that do not cancel\<close>

record 'v fetch_state =
  ft_address :: "string option"
  ft_value :: 'v
  ft_loading :: bool
  ft_error :: "json option"
  ft_flying :: "string list"

definition fetch_init :: "string option \<Rightarrow> 'v \<Rightarrow> 'v fetch_state" where
  "fetch_init address v = \<lparr>ft_address = address, ft_value = v, ft_loading = False, ft_error = None, ft_flying = []\<rparr>"

text \<open>A request for the present address, or the value without one\<close>

definition fetch_start :: "'v \<Rightarrow> 'v fetch_state \<Rightarrow> 'v fetch_state" where
  "fetch_start none s =
     (if \<not> truthy (ft_address s) then s\<lparr>ft_value := none\<rparr>
      else s\<lparr>ft_loading := True, ft_error := None, ft_flying := ft_flying s @ [the (ft_address s)]\<rparr>)"

text \<open>Its answer: the value read from the data, or what an error does; then \<open>setLoading(false)\<close>\<close>

definition fetch_finish ::
  "(json \<Rightarrow> js_err + 'v) \<Rightarrow> (js_err \<Rightarrow> 'v fetch_state \<Rightarrow> 'v fetch_state) \<Rightarrow> string \<Rightarrow> js_err + json \<Rightarrow> 'v fetch_state \<Rightarrow> 'v fetch_state" where
  "fetch_finish read on_error a ans s =
     (let s = s\<lparr>ft_flying := remove1 a (ft_flying s)\<rparr>;
          s' = (case ans of
             Inl err \<Rightarrow> on_error err s
           | Inr data \<Rightarrow> (case read data of Inl err \<Rightarrow> on_error err s | Inr v \<Rightarrow> s\<lparr>ft_value := v\<rparr>))
      in s'\<lparr>ft_loading := False\<rparr>)"

definition show_error :: "string \<Rightarrow> js_err \<Rightarrow> 'v fetch_state \<Rightarrow> 'v fetch_state" where
  "show_error fallback err s = s\<lparr>ft_error := Some (detail_or_message err fallback)\<rparr>"

text \<open>\<open>useNodeStats\<close>, \<open>useNodeJobs\<close> and \<open>useIsNodeOperator\<close>: what is asked, the start and the finish\<close>

definition node_get :: "world \<Rightarrow> (string \<Rightarrow> string option) \<Rightarrow> string \<Rightarrow> string \<Rightarrow> (ext, 'x, json) io" where
  "node_get w penv address rest = axios_get w (paymentApiClient penv) (''/v1/nodes/'' @ to_lower address @ rest)"

definition stats_request :: "world \<Rightarrow> (string \<Rightarrow> string option) \<Rightarrow> string \<Rightarrow> (ext, 'x, json) io" where
  "stats_request w penv address = node_get w penv address ''/stats''"

definition fetchStats :: "json option fetch_state \<Rightarrow> json option fetch_state" where
  "fetchStats = fetch_start None"

definition stats_finish :: "string \<Rightarrow> js_err + json \<Rightarrow> json option fetch_state \<Rightarrow> json option fetch_state" where
  "stats_finish = fetch_finish (\<lambda>data. Inr (Some data)) (show_error ''Failed to fetch stats'')"

definition jobs_request :: "world \<Rightarrow> (string \<Rightarrow> string option) \<Rightarrow> string \<Rightarrow> nat \<Rightarrow> (ext, 'x, json) io" where
  "jobs_request w penv address limit = node_get w penv address (''/jobs?limit='' @ nat_str limit)"

definition fetchJobs :: "json option fetch_state \<Rightarrow> json option fetch_state" where
  "fetchJobs = fetch_start (Some (JArr []))"

definition jobs_finish :: "string \<Rightarrow> js_err + json \<Rightarrow> json option fetch_state \<Rightarrow> json option fetch_state" where
  "jobs_finish = fetch_finish (json_prop ''jobs'') (show_error ''Failed to fetch jobs'')"

definition operator_request :: "world \<Rightarrow> (string \<Rightarrow> string option) \<Rightarrow> string \<Rightarrow> (ext, 'x, json) io" where
  "operator_request w penv address = node_get w penv address ''/exists''"

definition checkOperator :: "json option fetch_state \<Rightarrow> json option fetch_state" where
  "checkOperator = fetch_start (Some (JBool False))"

definition operator_finish :: "string \<Rightarrow> js_err + json \<Rightarrow> json option fetch_state \<Rightarrow> json option fetch_state" where
  "operator_finish = fetch_finish (json_prop ''is_operator'') (\<lambda>err s. s\<lparr>ft_value := Some (JBool False)\<rparr>)"

text \<open>The interface of such a hook: its start and its finish are those of a fetch whose errors touch neither
  the flag nor the requests in flight. Its runs: the address changes (or it is asked again), answers come.\<close>

locale fetch_hook =
  fixes start :: "'v fetch_state \<Rightarrow> 'v fetch_state" and finish :: "string \<Rightarrow> js_err + json \<Rightarrow> 'v fetch_state \<Rightarrow> 'v fetch_state"
  assumes start_flying: "ft_flying (start s) = ft_flying s @ (if truthy (ft_address s) then [the (ft_address s)] else [])"
    and start_loading: "ft_loading (start s) \<longleftrightarrow> truthy (ft_address s) \<or> ft_loading s"
    and start_address: "ft_address (start s) = ft_address s"
    and finish_flying: "ft_flying (finish a ans s) = remove1 a (ft_flying s)"
    and finish_loading: "\<not> ft_loading (finish a ans s)"
    and finish_address: "ft_address (finish a ans s) = ft_address s"
begin

fun steps :: "(string option + string \<times> (js_err + json)) list \<Rightarrow> 'v fetch_state \<Rightarrow> 'v fetch_state" where
  "steps [] s = s"
| "steps (Inl address # es) s = steps es (start (s\<lparr>ft_address := address\<rparr>))"
| "steps (Inr (a, ans) # es) s = (if a \<in> set (ft_flying s) then steps es (finish a ans s) else steps es s)"

text \<open>A spinner is shown only while a request is in flight.\<close>

lemma loading_has_request:
  "(ft_loading s \<longrightarrow> ft_flying s \<noteq> []) \<Longrightarrow> ft_loading (steps es s) \<longrightarrow> ft_flying (steps es s) \<noteq> []"
proof (induction es s rule: steps.induct)
  case (2 address es s)
  then show ?case by (auto simp: start_flying start_loading)
next
  case (3 a ans es s)
  then show ?case by (auto simp: finish_loading)
qed simp

lemma address_last: "ft_address (steps (es @ [Inl address]) s) = address"
  by (induction es s rule: steps.induct) (auto simp: start_address)

end

lemma fetch_start_hook:
  "ft_flying (fetch_start v s) = ft_flying s @ (if truthy (ft_address s) then [the (ft_address s)] else [])"
  "ft_loading (fetch_start v s) \<longleftrightarrow> truthy (ft_address s) \<or> ft_loading s" "ft_address (fetch_start v s) = ft_address s"
  by (simp_all add: fetch_start_def)

lemma fetch_finish_hook:
  assumes "\<And>e s. ft_flying (on_error e s) = ft_flying s" "\<And>e s. ft_address (on_error e s) = ft_address s"
  shows "ft_flying (fetch_finish read on_error a ans s) = remove1 a (ft_flying s)" "\<not> ft_loading (fetch_finish read on_error a ans s)"
    "ft_address (fetch_finish read on_error a ans s) = ft_address s"
  by (auto simp: fetch_finish_def assms Let_def split: sum.split)

interpretation node_stats: fetch_hook fetchStats stats_finish
  by unfold_locales (simp_all add: fetchStats_def stats_finish_def fetch_start_hook fetch_finish_hook show_error_def)

interpretation node_jobs: fetch_hook fetchJobs jobs_finish
  by unfold_locales (simp_all add: fetchJobs_def jobs_finish_def fetch_start_hook fetch_finish_hook show_error_def)

interpretation node_operator: fetch_hook checkOperator operator_finish
  by unfold_locales (simp_all add: checkOperator_def operator_finish_def fetch_start_hook fetch_finish_hook)

lemma operator_apply:
  "checkOperator s = fetch_start (Some (JBool False)) s"
  "operator_finish a ans s = fetch_finish (json_prop ''is_operator'') (\<lambda>err s. s\<lparr>ft_value := Some (JBool False)\<rparr>) a ans s"
  by (simp_all add: checkOperator_def operator_finish_def)

text \<open>A late answer for a wallet that is gone decides whether the present one is an operator.\<close>

lemma operator_answer_stale:
  assumes "a \<noteq> []" "b \<noteq> []"
  shows "node_operator.steps
      [Inl (Some a), Inl (Some b), Inr (b, Inr (JObj [(''is_operator'', JBool False)])), Inr (a, Inr (JObj [(''is_operator'', JBool True)]))]
      (fetch_init None (Some (JBool False)))
    = \<lparr>ft_address = Some b, ft_value = Some (JBool True), ft_loading = False, ft_error = None, ft_flying = []\<rparr>"
  using assms
  by (simp add: fetch_init_def operator_apply fetch_start_def fetch_finish_def truthy_def json_prop_def obj_get_def Let_def)

subsection \<open>A hook that does\<close>

text \<open>\<open>useDeveloperStats\<close>: each run of the effect is numbered, and cancelled when a later one starts\<close>

record dev_hook =
  dv_address :: "string option"
  dv_stats :: "json option"
  dv_recentJobs :: "json list"
  dv_loading :: bool
  dv_error :: "string option"
  dv_run :: nat
  dv_flying :: "(nat \<times> string) list"

definition dev_effect :: "dev_hook \<Rightarrow> dev_hook" where
  "dev_effect s =
     (let s = s\<lparr>dv_run := dv_run s + 1\<rparr> in
      if \<not> truthy (dv_address s) then s\<lparr>dv_stats := None, dv_recentJobs := []\<rparr>
      else s\<lparr>dv_loading := True, dv_error := None, dv_flying := dv_flying s @ [(dv_run s, the (dv_address s))]\<rparr>)"

definition dev_mounted :: "string option \<Rightarrow> dev_hook" where
  "dev_mounted address = dev_effect \<lparr>dv_address = address, dv_stats = None, dv_recentJobs = [], dv_loading = False, dv_error = None,
     dv_run = 0, dv_flying = []\<rparr>"

definition dev_change :: "string option \<Rightarrow> dev_hook \<Rightarrow> dev_hook" where
  "dev_change address s = (if address = dv_address s then s else dev_effect (s\<lparr>dv_address := address\<rparr>))"

definition dev_finish :: "nat \<Rightarrow> string \<Rightarrow> js_err + json \<Rightarrow> dev_hook \<Rightarrow> dev_hook" where
  "dev_finish run a ans s =
     (let s = s\<lparr>dv_flying := remove1 (run, a) (dv_flying s)\<rparr> in
      if run \<noteq> dv_run s then s
      else case ans of
          Inr data \<Rightarrow> s\<lparr>dv_stats := Some data, dv_recentJobs := [], dv_loading := False\<rparr>
        | Inl err \<Rightarrow> s\<lparr>dv_error := Some (any_message_or err ''Failed to fetch developer stats''), dv_loading := False\<rparr>)"

text \<open>What \<open>DeveloperDashboardPage\<close> shows\<close>

datatype dev_panel = Connect_wallet | Loading_stats | Stats_failed string | Stats_of "json option"

definition dev_shown :: "dev_hook \<Rightarrow> dev_panel" where
  "dev_shown s =
     (if \<not> truthy (dv_address s) then Connect_wallet
      else if dv_loading s then Loading_stats
      else if truthy (dv_error s) then Stats_failed (the (dv_error s))
      else Stats_of (dv_stats s))"

text \<open>\<open>answered a data\<close>: the service may answer that for the address\<close>

inductive dev_reachable :: "(string \<Rightarrow> json \<Rightarrow> bool) \<Rightarrow> dev_hook \<Rightarrow> bool" for answered where
  dev_mounts: "dev_reachable answered (dev_mounted address)"
| dev_changes: "dev_reachable answered s \<Longrightarrow> dev_reachable answered (dev_change address s)"
| dev_answers: "dev_reachable answered s \<Longrightarrow> (run, a) \<in> set (dv_flying s) \<Longrightarrow> (\<And>data. ans = Inr data \<Longrightarrow> answered a data) \<Longrightarrow> dev_reachable answered (dev_finish run a ans s)"

definition dev_run_ok :: "dev_hook \<Rightarrow> nat \<times> string \<Rightarrow> bool" where
  "dev_run_ok s r = (fst r \<le> dv_run s \<and> (fst r = dv_run s \<longrightarrow> dv_address s = Some (snd r)))"

definition dev_ok :: "(string \<Rightarrow> json \<Rightarrow> bool) \<Rightarrow> dev_hook \<Rightarrow> bool" where
  "dev_ok answered s =
     ((\<forall>r\<in>set (dv_flying s). dev_run_ok s r)
      \<and> (case dev_shown s of Stats_of d \<Rightarrow> \<exists>data. d = Some data \<and> answered (the (dv_address s)) data | _ \<Rightarrow> True))"

lemma dev_effect_ok:
  assumes "\<And>r. r \<in> set (dv_flying s) \<Longrightarrow> fst r \<le> dv_run s"
  shows "dev_ok answered (dev_effect s)"
proof (cases "truthy (dv_address s)")
  case True
  then obtain a where a: "dv_address s = Some a" "a \<noteq> []" by (cases "dv_address s") (auto simp: truthy_def)
  have "fst r < Suc (dv_run s)" if "r \<in> set (dv_flying s)" for r using assms [OF that] by simp
  then show ?thesis
    using a by (auto simp: dev_ok_def dev_effect_def dev_shown_def dev_run_ok_def truthy_def Let_def less_Suc_eq_le dest!: assms)
next
  case False
  then show ?thesis using assms by (fastforce simp: dev_ok_def dev_effect_def dev_shown_def dev_run_ok_def Let_def)
qed

text \<open>The statistics shown are always those of the address shown.\<close>

lemma developer_stats_current: "dev_reachable answered s \<Longrightarrow> dev_ok answered s"
proof (induction rule: dev_reachable.induct)
  case (dev_mounts address)
  then show ?case unfolding dev_mounted_def by (rule dev_effect_ok) simp
next
  case (dev_changes s address)
  then have "dev_ok answered (dev_effect (s\<lparr>dv_address := address\<rparr>))"
    by (intro dev_effect_ok) (auto simp: dev_ok_def dev_run_ok_def)
  with dev_changes show ?case by (simp add: dev_change_def)
next
  case (dev_answers s run a ans)
  let ?s = "s\<lparr>dv_flying := remove1 (run, a) (dv_flying s)\<rparr>"
  have flying: "dev_run_ok s r" if "r \<in> set (remove1 (run, a) (dv_flying s))" for r
    using dev_answers.IH that by (auto simp: dev_ok_def dest: notin_set_remove1)
  have mine: "dv_address s = Some a" if "run = dv_run s"
    using dev_answers.IH dev_answers.hyps(2) that by (auto simp: dev_ok_def dev_run_ok_def)
  show ?case
  proof (cases "run = dv_run s")
    case False
    with dev_answers.IH flying show ?thesis
      by (simp add: dev_ok_def dev_finish_def dev_run_ok_def dev_shown_def split: if_splits)
  next
    case True
    with flying mine [OF True] dev_answers.hyps(3) show ?thesis
      by (cases ans) (simp_all add: dev_ok_def dev_finish_def dev_run_ok_def dev_shown_def truthy_def any_message_nonempty)
  qed
qed

subsection \<open>Dispute forms\<close>

record dispute_form =
  df_reason :: string
  df_submitting :: bool
  df_error :: json
  df_closed :: bool

definition dispute_handleSubmit :: "world \<Rightarrow> (string \<Rightarrow> string option) \<Rightarrow> string \<Rightarrow> (ext, dispute_form, unit) io" where
  "dispute_handleSubmit w penv requestId =
     thenE (update (\<lambda>f. f\<lparr>df_submitting := True, df_error := JStr []\<rparr>))
     (finally_do (\<lambda>f. f\<lparr>df_submitting := False\<rparr>)
       (catchE
         (bindE (getting df_reason) (\<lambda>reason.
          thenE (coverage_fileDispute w penv requestId reason)
           (update (\<lambda>f. f\<lparr>df_closed := True\<rparr>))))
         (\<lambda>e. update (\<lambda>f. f\<lparr>df_error := detail_or_message e ''Failed to submit dispute. Try again.''\<rparr>))))"

text \<open>The submit button of the form\<close>

definition can_submit :: "dispute_form \<Rightarrow> bool" where
  "can_submit f = (\<not> df_submitting f \<and> trim (df_reason f) \<noteq> [])"

datatype modal_status = M_idle | M_submitting | M_success | M_error

record dispute_modal =
  dm_evidence :: string
  dm_status :: modal_status
  dm_error :: "json option"

definition modal_handleSubmit :: "(string \<Rightarrow> (ext, dispute_modal, unit) io) \<Rightarrow> (ext, dispute_modal, unit) io" where
  "modal_handleSubmit onSubmit =
     thenE (update (\<lambda>m. m\<lparr>dm_status := M_submitting, dm_error := None\<rparr>))
     (catchE
       (bindE (getting dm_evidence) (\<lambda>evidence. thenE (onSubmit evidence) (update (\<lambda>m. m\<lparr>dm_status := M_success\<rparr>))))
       (\<lambda>e. update (\<lambda>m. m\<lparr>dm_status := M_error, dm_error := Some (detail_or_message e ''Dispute submission failed'')\<rparr>)))"

text \<open>One call; the form closes exactly when the service took the dispute, and otherwise shows why not.\<close>

lemma dispute_form_ends:
  "case dispute_handleSubmit w penv rid (lg, f) of (r, (lg', f')) \<Rightarrow> r = Inr () \<and> \<not> df_submitting f' \<and>
     (let c = Axios ''POST'' (apiClient penv) (''/v1/inference/'' @ rid @ ''/dispute'') (JsonBody (JObj [(''evidence'', JStr (df_reason f))])) in
      lg' = lg @ [c] \<and>
      (case on_axios w lg c of
         Inr d \<Rightarrow> df_closed f' \<and> df_error f' = JStr []
       | Inl e \<Rightarrow> df_closed f' = df_closed f \<and> df_error f' = detail_or_message e ''Failed to submit dispute. Try again.''))"
proof -
  let ?c = "Axios ''POST'' (apiClient penv) (''/v1/inference/'' @ rid @ ''/dispute'') (JsonBody (JObj [(''evidence'', JStr (df_reason f))]))"
  have "wp (dispute_handleSubmit w penv rid)
     (\<lambda>v lg' f'. \<not> df_submitting f' \<and> lg' = lg @ [?c] \<and>
      (case on_axios w lg ?c of
         Inr d \<Rightarrow> df_closed f' \<and> df_error f' = JStr []
       | Inl e \<Rightarrow> df_closed f' = df_closed f \<and> df_error f' = detail_or_message e ''Failed to submit dispute. Try again.''))
     (\<lambda>e lg' f'. False) lg f"
    unfolding dispute_handleSubmit_def coverage_fileDispute_def axios_post_def Let_def by (simp add: wp_simps split: sum.split)
  then show ?thesis by (auto simp: wp_def Let_def split: prod.splits sum.splits)
qed

end
