(* ===== verification/Local_Pages.thy ===== *)
theory Local_Pages
  imports Wizard
begin

section \<open>What the browser keeps\<close>

text \<open>
  The pages that only deal with \<open>localStorage\<close>: the tutorial (\<open>components/tutorial/TutorialContext.tsx\<close>,
  \<open>TutorialManager.tsx\<close>, \<open>tutorialSteps.ts\<close>) as a machine, \<open>pages/SettingsPage.tsx\<close>, \<open>pages/HistoryPage.tsx\<close>
  and the popup of \<open>components/ProtocolUpdatePopup.tsx\<close>. A step is taken to be shown when the tour is
  active; which element is marked and where the tooltip stands is in \<open>Tour_View\<close>.
\<close>

subsection \<open>The tutorial\<close>

record tutorial =
  tu_enabled :: bool
  tu_seen :: bool

definition tutorial_init :: tutorial where
  "tutorial_init = \<lparr>tu_enabled = True, tu_seen = False\<rparr>"

definition loadState :: "tutorial slot \<Rightarrow> tutorial" where
  "loadState st = (case st of Stored t \<Rightarrow> t | Absent \<Rightarrow> tutorial_init | Malformed \<Rightarrow> tutorial_init)"

definition saveState :: "tutorial \<Rightarrow> tutorial slot" where
  "saveState t = Stored t"

datatype tutorial_action = SetEnabled bool | MarkInferenceSeen | ResetTutorial

definition tutorial_act :: "tutorial_action \<Rightarrow> tutorial \<Rightarrow> tutorial" where
  "tutorial_act a s = (case a of
      SetEnabled b \<Rightarrow> s\<lparr>tu_enabled := b\<rparr>
    | MarkInferenceSeen \<Rightarrow> s\<lparr>tu_seen := True, tu_enabled := False\<rparr>
    | ResetTutorial \<Rightarrow> tutorial_init)"

text \<open>The steps, without their descriptions, which are only printed\<close>

record tutorial_step =
  tp_step :: nat
  tp_title :: string
  tp_targetSelector :: string
  tp_placement :: string

abbreviation target_of :: "string \<Rightarrow> string" where
  "target_of part \<equiv> ''[data-tutorial='' @ [CHR 0x22] @ part @ [CHR 0x22] @ '']''"

definition INFERENCE_TUTORIAL_STEPS :: "tutorial_step list" where
  "INFERENCE_TUTORIAL_STEPS = map (\<lambda>(n, title, part, placement).
       \<lparr>tp_step = n, tp_title = title, tp_targetSelector = target_of part, tp_placement = placement\<rparr>)
     [(1, ''Choose Your Mode'', ''mode-toggle'', ''bottom''),
      (2, ''Select a Model'', ''model-picker'', ''top''),
      (3, ''Write Your Prompt'', ''prompt-input'', ''top''),
      (4, ''Payment Mode'', ''payment-mode'', ''top''),
      (5, ''Choose Currency'', ''currency-toggle'', ''top''),
      (6, ''Hallucination Insurance'', ''insurance-toggle'', ''top''),
      (7, ''Estimated Fee'', ''fee-display'', ''top''),
      (8, ''Send Your Request'', ''send-button'', ''top''),
      (9, ''Execution Trace'', ''execution-trace'', ''left'')]"

text \<open>The context, what is stored of it, and the manager of the inference page: the tour, and whether its
  timer is running\<close>

record tour =
  to_state :: tutorial
  to_stored :: "tutorial slot"
  to_active :: bool
  to_index :: nat
  to_timer :: bool

definition wants_tour :: "tutorial \<Rightarrow> bool" where
  "wants_tour t = (tu_enabled t \<and> \<not> tu_seen t)"

definition tour_mounted :: "tutorial slot \<Rightarrow> tour" where
  "tour_mounted st = (let t = loadState st in
     \<lparr>to_state = t, to_stored = saveState t, to_active = False, to_index = 0, to_timer = wants_tour t\<rparr>)"

text \<open>An action of the context: stored, and the timer set anew when what it depends on has changed\<close>

definition on_tutorial :: "tutorial_action \<Rightarrow> tour \<Rightarrow> tour" where
  "on_tutorial a s =
     (let t = tutorial_act a (to_state s) in
      s\<lparr>to_state := t, to_stored := saveState t, to_timer := (if t = to_state s then to_timer s else wants_tour t)\<rparr>)"

definition timer_fires :: "tour \<Rightarrow> tour" where
  "timer_fires s = s\<lparr>to_active := True, to_index := 0, to_timer := False\<rparr>"

definition handleNext :: "tour \<Rightarrow> tour" where
  "handleNext s =
     (if to_index s < length INFERENCE_TUTORIAL_STEPS - 1 then s\<lparr>to_index := to_index s + 1\<rparr>
      else on_tutorial MarkInferenceSeen (s\<lparr>to_active := False\<rparr>))"

definition handlePrev :: "tour \<Rightarrow> tour" where
  "handlePrev s = (if 0 < to_index s then s\<lparr>to_index := to_index s - 1\<rparr> else s)"

definition handleSkip :: "tour \<Rightarrow> tour" where
  "handleSkip s = on_tutorial MarkInferenceSeen (s\<lparr>to_active := False\<rparr>)"

text \<open>The page is left and entered again: the context stays, the manager starts afresh\<close>

definition remount :: "tour \<Rightarrow> tour" where
  "remount s = s\<lparr>to_active := False, to_index := 0, to_timer := wants_tour (to_state s)\<rparr>"

inductive tour_step :: "tour \<Rightarrow> tutorial_action option \<Rightarrow> tour \<Rightarrow> bool" where
  acts: "tour_step s (Some a) (on_tutorial a s)"
| fires: "to_timer s \<Longrightarrow> tour_step s None (timer_fires s)"
| nexts: "to_active s \<Longrightarrow> tour_step s None (handleNext s)"
| prevs: "to_active s \<Longrightarrow> tour_step s None (handlePrev s)"
| skips: "to_active s \<Longrightarrow> tour_step s None (handleSkip s)"
| remounts: "tour_step s None (remount s)"

inductive tour_run :: "tour \<Rightarrow> tutorial_action option list \<Rightarrow> tour \<Rightarrow> bool" where
  tour_nil: "tour_run s [] s"
| tour_cons: "tour_step s a s' \<Longrightarrow> tour_run s' as s'' \<Longrightarrow> tour_run s (a # as) s''"

lemma tutorial_act_simps [simp]:
  "tutorial_act (SetEnabled b) s = s\<lparr>tu_enabled := b\<rparr>"
  "tutorial_act MarkInferenceSeen s = s\<lparr>tu_seen := True, tu_enabled := False\<rparr>"
  "tutorial_act ResetTutorial s = tutorial_init"
  by (simp_all add: tutorial_act_def)

subsection \<open>A tour is within its steps, and stored as it is\<close>

definition tour_ok :: "tour \<Rightarrow> bool" where
  "tour_ok s = (to_index s < length INFERENCE_TUTORIAL_STEPS \<and> to_stored s = Stored (to_state s) \<and> (to_timer s \<longrightarrow> wants_tour (to_state s)))"

lemma tour_mounted_ok: "tour_ok (tour_mounted st)"
  by (simp add: tour_ok_def tour_mounted_def saveState_def INFERENCE_TUTORIAL_STEPS_def Let_def)

lemma on_tutorial_ok: "tour_ok s \<Longrightarrow> tour_ok (on_tutorial a s)"
  by (auto simp: tour_ok_def on_tutorial_def saveState_def Let_def)

lemma inactive_ok: "tour_ok s \<Longrightarrow> tour_ok (s\<lparr>to_active := b\<rparr>)"
  by (simp add: tour_ok_def)

lemma tour_step_ok: "tour_step s a s' \<Longrightarrow> tour_ok s \<Longrightarrow> tour_ok s'"
  by (induction rule: tour_step.induct)
    (auto simp: on_tutorial_ok inactive_ok handleNext_def handleSkip_def,
     auto simp: tour_ok_def timer_fires_def handlePrev_def remount_def INFERENCE_TUTORIAL_STEPS_def)

lemma tour_run_ok: "tour_run s as s' \<Longrightarrow> tour_ok s \<Longrightarrow> tour_ok s'"
  by (induction rule: tour_run.induct) (auto dest: tour_step_ok)

subsection \<open>A tour seen is not shown again\<close>

definition over :: "tour \<Rightarrow> bool" where
  "over s = (tu_seen (to_state s) \<and> \<not> to_active s \<and> \<not> to_timer s)"

lemma over_step: "tour_step s a s' \<Longrightarrow> over s \<Longrightarrow> a \<noteq> Some ResetTutorial \<Longrightarrow> over s'"
  by (induction rule: tour_step.induct)
    (auto simp: over_def on_tutorial_def remount_def wants_tour_def tutorial_act_def Let_def split: tutorial_action.splits)

text \<open>Enabling the tutorial again in the settings shows nothing: only a reset does.\<close>

lemma seen_tour_stays_over:
  "tour_run s as s' \<Longrightarrow> over s \<Longrightarrow> Some ResetTutorial \<notin> set as \<Longrightarrow> over s'"
  by (induction rule: tour_run.induct) (auto dest: over_step)

lemma skipped_is_over: "\<not> to_timer s \<Longrightarrow> over (handleSkip s)"
  by (simp add: over_def handleSkip_def on_tutorial_def wants_tour_def Let_def)

lemma reset_offers_tour: "tu_seen (to_state s) \<Longrightarrow> to_timer (on_tutorial ResetTutorial s)"
  by (cases "to_state s") (auto simp: on_tutorial_def wants_tour_def tutorial_init_def Let_def)

subsection \<open>Settings\<close>

text \<open>The browser's slots the front end uses\<close>

record local_storage =
  ls_popup_seen :: "string option"
  ls_history :: history
  ls_wizard :: "(string \<times> utext) list slot"
  ls_tutorial :: "tutorial slot"
  ls_auto_decrypt :: "string option"

definition getAutoDecryptSetting :: "local_storage \<Rightarrow> bool" where
  "getAutoDecryptSetting ls = (ls_auto_decrypt ls = Some ''true'')"

definition toggleAutoDecrypt :: "bool \<Rightarrow> local_storage \<Rightarrow> local_storage" where
  "toggleAutoDecrypt v ls = ls\<lparr>ls_auto_decrypt := Some (if v then ''true'' else ''false'')\<rparr>"

definition handleClearStorage :: "local_storage \<Rightarrow> local_storage" where
  "handleClearStorage ls = ls\<lparr>ls_popup_seen := None, ls_history := Absent\<rparr>"

lemma toggle_round_trip: "getAutoDecryptSetting (toggleAutoDecrypt v ls) = v"
  by (simp add: getAutoDecryptSetting_def toggleAutoDecrypt_def)

text \<open>Clearing empties the history and shows the popup again; the wizard's prompts, the tutorial's state and
  the decryption setting stay.\<close>

lemma clear_leaves:
  "loadHistory (ls_history (handleClearStorage ls)) = []"
  "wizard_history (ls_wizard (handleClearStorage ls)) = wizard_history (ls_wizard ls)"
  "loadState (ls_tutorial (handleClearStorage ls)) = loadState (ls_tutorial ls)"
  "getAutoDecryptSetting (handleClearStorage ls) = getAutoDecryptSetting ls"
  by (simp_all add: handleClearStorage_def loadHistory_def getAutoDecryptSetting_def)

subsection \<open>The popup\<close>

definition popup_opens :: "local_storage \<Rightarrow> bool" where
  "popup_opens ls = (\<not> truthy (ls_popup_seen ls))"

definition closePopup :: "local_storage \<Rightarrow> local_storage" where
  "closePopup ls = ls\<lparr>ls_popup_seen := Some ''true''\<rparr>"

lemma popup_once: "\<not> popup_opens (closePopup ls)" "popup_opens (handleClearStorage ls)"
  by (simp_all add: popup_opens_def closePopup_def handleClearStorage_def truthy_def)

subsection \<open>The history page\<close>

definition history_handleClear :: "bool \<Rightarrow> hist_entry list \<times> history \<Rightarrow> hist_entry list \<times> history" where
  "history_handleClear agreed s = (if \<not> agreed then s else ([], clearHistory (snd s)))"

definition history_link :: "hist_entry \<Rightarrow> string" where
  "history_link e = (if truthy (he_requestId e) then ''/inference/'' @ the (he_requestId e) else ''/'')"

text \<open>The line under a title; lengths and slices count UTF-16 code units\<close>

definition history_line :: "hist_entry \<Rightarrow> utext" where
  "history_line e =
     (case (he_status e, he_decryptedContent e) of
        (S_done, Some (c # cs)) \<Rightarrow> text_slice 120 (c # cs) @ (if text_length (c # cs) > 120 then text_of_string ''...'' else [])
      | (S_ready, _) \<Rightarrow> text_of_string ''Encrypted result waiting for decryption''
      | (S_error, _) \<Rightarrow> text_of_string (nullish (he_errorMsg e) ''Inference failed'')
      | _ \<Rightarrow> text_of_string ''Processing...'')"

end
