(* ===== verification/Chat_View.thy ===== *)
theory Chat_View
  imports Trace Risk_Submit
begin

section \<open>What the chat page displays\<close>

text \<open>
  \<open>frontend/src/components/inference/ChatView.tsx\<close>: what is inside the bubble of a message and the proof
  panel under it; and, of \<open>frontend/src/pages/InferenceNewPage.tsx\<close>, the rows beside the trace and when
  its buttons are enabled. Layout, icons and animations are left out. A displayed text is a \<open>utext\<close>,
  because the ellipsis of a cut value is the point U+2026.
\<close>

subsection \<open>The bubble of a message\<close>

datatype bubble =
    Typing
  | Decrypt_card string
  | Error_card string "string option" "string option"
  | Text_card utext "string option"

text \<open>\<open>Error_card\<close> has its text, the unverified preview and the request its feedback button is for;
  \<open>Text_card\<close> its text and the preview labelled as verified.\<close>

definition in_flight :: "chat_entry \<Rightarrow> bool" where
  "in_flight m = (ce_status m \<in> {Some S_pending, Some S_encrypting, Some S_processing, Some S_escrow})"

definition shown_preview :: "chat_entry \<Rightarrow> string option" where
  "shown_preview m = (if truthy (ce_preview m) then ce_preview m else None)"

definition bubble_of :: "chat_entry \<Rightarrow> bubble" where
  "bubble_of m =
     (if \<not> ce_user m \<and> in_flight m then Typing
      else if \<not> ce_user m \<and> ce_status m = Some S_ready then Decrypt_card (ce_id m)
      else if \<not> ce_user m \<and> ce_status m = Some S_error
        then Error_card (nullish (ce_errorMsg m) ''Something went wrong.'') (shown_preview m)
               (if truthy (ce_requestId m) then ce_requestId m else None)
      else Text_card (ce_content m) (if ce_status m = Some S_done then shown_preview m else None))"

subsection \<open>The proof panel\<close>

record proof_item =
  pi_label :: string
  pi_value :: "string option"
  pi_href :: "string option"

abbreviation item :: "string \<Rightarrow> string option \<Rightarrow> proof_item" where
  "item label v \<equiv> \<lparr>pi_label = label, pi_value = v, pi_href = None\<rparr>"

definition linked :: "string \<Rightarrow> string \<Rightarrow> string option \<Rightarrow> proof_item" where
  "linked label base v = \<lparr>pi_label = label, pi_value = v, pi_href = if truthy v then Some (base @ the v) else None\<rparr>"

definition explorer :: string where "explorer = ''https://sepolia.arbiscan.io/tx/''"

definition pinata_gateway :: string where "pinata_gateway = ''https://gateway.pinata.cloud/ipfs/''"

definition verifierCount :: "chat_meta \<Rightarrow> nat" where
  "verifierCount md = (if truthy (md_verifiers md) then length (str_split '', '' (the (md_verifiers md))) else 0)"

definition submissionItems :: "chat_meta \<Rightarrow> proof_item list" where
  "submissionItems md = filter (\<lambda>i. truthy (pi_value i))
     [item ''Task ID'' (md_taskId md),
      linked ''StoreKey Tx'' explorer (md_storeKeyTx md),
      linked ''Prompt CID'' pinata_gateway (md_promptCID md),
      item ''Request ID'' (md_requestIdDisplay md),
      item ''Leader'' (md_leader md),
      item (''Verifiers ('' @ nat_to_string 10 (verifierCount md) @ '')'') (md_verifiers md),
      item ''Model'' (md_modelId md)]"

definition resultItems :: "chat_meta \<Rightarrow> proof_item list" where
  "resultItems md = filter (\<lambda>i. truthy (pi_value i))
     [item ''Receipt Root'' (md_receiptRoot md), item ''IPFS CID'' (md_receiptsCID md), item ''Trace Hash'' (md_traceHash md)]"

text \<open>The panel is not there at all without a row.\<close>

definition UavpPanel :: "chat_meta \<Rightarrow> (proof_item list \<times> proof_item list) option" where
  "UavpPanel md = (if submissionItems md = [] \<and> resultItems md = [] then None else Some (submissionItems md, resultItems md))"

definition cut_text :: "nat \<Rightarrow> string \<Rightarrow> utext" where
  "cut_text n v = text_of_string (js_slice 0 n v) @ (if length v > n then [8230] else [])"

text \<open>A row: its label, its value cut to 24 characters, its link, and what its button copies\<close>

definition ProofRow :: "proof_item \<Rightarrow> (string \<times> utext \<times> string option \<times> string) option" where
  "ProofRow i = (if \<not> truthy (pi_value i) then None
     else Some (pi_label i, cut_text 24 (the (pi_value i)), pi_href i, the (pi_value i)))"

definition panel_of :: "chat_entry \<Rightarrow> (proof_item list \<times> proof_item list) option" where
  "panel_of m = (if \<not> ce_user m \<and> (ce_status m = Some S_done \<or> ce_status m = Some S_error) then UavpPanel (ce_meta m) else None)"

definition ChatView :: "chat_entry list \<Rightarrow> (string \<times> bool \<times> bubble \<times> (proof_item list \<times> proof_item list) option) list" where
  "ChatView entries = map (\<lambda>m. (ce_id m, ce_user m, bubble_of m, panel_of m)) entries"

subsection \<open>Beside the trace\<close>

text \<open>The answer the trace follows, and the rows of its proofs\<close>

definition trace_message :: "chat \<Rightarrow> chat_entry option" where
  "trace_message c = find (\<lambda>m. \<not> ce_user m \<and> ce_requestId m = traceRequestId c) (rev (ch_messages c))"

definition trace_items :: "chat_meta \<Rightarrow> proof_item list" where
  "trace_items md = filter (\<lambda>i. truthy (pi_value i))
     [item ''Task ID'' (md_taskId md),
      linked ''StoreKey Tx'' explorer (md_storeKeyTx md),
      linked ''Prompt CID'' pinata_gateway (md_promptCID md),
      item ''Leader'' (md_leader md), item ''Verifiers'' (md_verifiers md), item ''Model'' (md_modelId md)]"

definition trace_panel :: "chat \<Rightarrow> (string \<times> utext \<times> string option) list" where
  "trace_panel c = (if \<not> truthy (traceRequestId c) then []
     else case trace_message c of
        None \<Rightarrow> []
      | Some m \<Rightarrow> map (\<lambda>i. (pi_label i, cut_text 18 (the (pi_value i)), pi_href i)) (trace_items (ce_meta m)))"

text \<open>The line under the active leader step, and under the active quorum step\<close>

definition leader_line :: "string option \<Rightarrow> demo_status option \<Rightarrow> string option" where
  "leader_line traceId st = (case (truthy traceId, Option.bind st d_leader) of
      (True, Some l) \<Rightarrow> Some (js_slice 0 18 (lv_address l) @ ''...'') | _ \<Rightarrow> None)"

definition quorum_line :: "string option \<Rightarrow> demo_status option \<Rightarrow> string option" where
  "quorum_line traceId st = (if \<not> truthy traceId then None
     else Some (nat_to_string 10 (nullish (map_option d_confirm_count st) 0) @ ''/''
            @ nat_to_string 10 (nullish (map_option (\<lambda>s. length (d_verifiers s)) st) 2) @ '' confirmed''))"

subsection \<open>The page's controls\<close>

text \<open>The send button, and Command or Control with Enter in the text area\<close>

definition send_enabled :: "submit_page \<Rightarrow> bool \<Rightarrow> string option \<Rightarrow> bool" where
  "send_enabled page isReady address =
     (\<not> (sp_stage page \<noteq> C_idle \<or> \<not> isReady \<or> \<not> truthy address \<or> text_trim (sp_prompt page) = []))"

definition enter_sends :: "submit_page \<Rightarrow> bool \<Rightarrow> bool \<Rightarrow> bool" where
  "enter_sends page meta ctrl = ((meta \<or> ctrl) \<and> \<not> sp_stage page \<noteq> C_idle)"

definition busy_label :: "chat_stage \<Rightarrow> string" where
  "busy_label st = (if st = C_encrypting then ''Sealing...'' else if st = C_uploading then ''Uploading...''
     else if st = C_escrow then ''Escrow...'' else ''Dispatching...'')"

definition risk_enabled :: "inference_store \<Rightarrow> bool \<Rightarrow> string option \<Rightarrow> bool" where
  "risk_enabled s isReady address =
     (\<not> (st_isEncrypting s \<or> st_isSubmitting s \<or> \<not> isReady \<or> \<not> truthy address))"

definition risk_label :: "inference_store \<Rightarrow> string" where
  "risk_label s = (if st_isEncrypting s then ''Encrypting...'' else if st_isSubmitting s then ''Submitting'' else ''Run Encrypted Inference'')"

definition estimated_fee :: "inference_store \<Rightarrow> string" where
  "estimated_fee s = int_str (totalDisplay s) @ ''.00 ''"

subsection \<open>Answers come from decryptions\<close>

definition shown_answer :: "chat_entry \<Rightarrow> utext option" where
  "shown_answer m = (case bubble_of m of Text_card t v \<Rightarrow> if ce_user m then None else Some t | _ \<Rightarrow> None)"

lemma shown_answer_iff:
  assumes "ce_status m \<noteq> None"
  shows "shown_answer m = (if \<not> ce_user m \<and> ce_status m = Some S_done then Some (ce_content m) else None)"
  using assms by (cases "ce_status m"; cases "the (ce_status m)") (simp_all add: shown_answer_def bubble_of_def in_flight_def)

definition has_status :: "chat_entry \<Rightarrow> bool" where
  "has_status m = (ce_status m \<noteq> None)"

lemmas chat_operations = pushUserMessage_def updateAssistantStatus_def failAssistantMessage_def updateAssistantMetadata_def
  setActiveRequestId_def effect_progress_def effect_accept_def effect_reject_def auto_start_def auto_finish_def
  manual_finish_def show_result_def new_entry_def

lemma chat_step_status:
  "chat_step fits c c' \<Longrightarrow> \<forall>m \<in> set (ch_messages c). has_status m \<Longrightarrow> \<forall>m \<in> set (ch_messages c'). has_status m"
  by (erule chat_step.cases) (auto simp: chat_operations has_status_def Let_def split: option.splits sum.splits)

lemma chat_run_status: "chat_run fits st c \<Longrightarrow> \<forall>m \<in> set (ch_messages c). has_status m"
  by (induction rule: chat_run.induct) (simp add: chat_init_def, rule chat_step_status)

definition quiet :: "(chat_entry \<Rightarrow> chat_entry) \<Rightarrow> bool" where
  "quiet f = (\<forall>m. has_status m \<longrightarrow> has_status (f m)
     \<and> (\<not> ce_user (f m) \<and> ce_status (f m) = Some S_done
        \<longrightarrow> \<not> ce_user m \<and> ce_status m = Some S_done \<and> ce_content m = ce_content (f m)))"

lemma quiet_shown:
  assumes "quiet f" "ch_messages c' = map f (ch_messages c)" "\<forall>m \<in> set (ch_messages c). has_status m"
    "i < length (ch_messages c')" "shown_answer (ch_messages c' ! i) = Some t"
  shows "i < length (ch_messages c) \<and> shown_answer (ch_messages c ! i) = Some t"
proof -
  let ?m = "ch_messages c ! i"
  from assms have i: "i < length (ch_messages c)" and st: "has_status ?m" by auto
  from assms(1) st have q: "has_status (f ?m)"
    "\<not> ce_user (f ?m) \<and> ce_status (f ?m) = Some S_done \<Longrightarrow> \<not> ce_user ?m \<and> ce_status ?m = Some S_done \<and> ce_content ?m = ce_content (f ?m)"
    unfolding quiet_def by blast+
  from assms(2,5) i have "shown_answer (f ?m) = Some t" by simp
  with q(1) have "\<not> ce_user (f ?m) \<and> ce_status (f ?m) = Some S_done \<and> ce_content (f ?m) = t"
    by (simp add: shown_answer_iff has_status_def split: if_splits)
  with q(2) st i show ?thesis by (simp add: shown_answer_iff has_status_def)
qed

lemma quiet_id [simp]: "quiet (\<lambda>m. m)" by (simp add: quiet_def)

lemma quiet_if:
  "(\<And>m. has_status (g m) \<and> ce_status (g m) \<noteq> Some S_done) \<Longrightarrow> quiet (\<lambda>m. if P m then g m else m)"
  by (simp add: quiet_def)

lemma quiet_meta: "quiet (\<lambda>m. if P m then m else m\<lparr>ce_meta := g m\<rparr>)"
  by (simp add: quiet_def has_status_def)

lemma quiet_output:
  "quiet (\<lambda>m. if P m then m\<lparr>ce_outputCID := x, ce_keyHigh := y, ce_keyLow := z, ce_preview := v\<rparr> else m)"
  by (simp add: quiet_def has_status_def)

text \<open>Every step changes the messages quietly, adds a turn, or ends a decryption that succeeded.\<close>

inductive shaped :: "(hist_entry list \<Rightarrow> bool) \<Rightarrow> chat \<Rightarrow> chat \<Rightarrow> bool" for fits c where
  by_map: "quiet f \<Longrightarrow> ch_messages c' = map f (ch_messages c) \<Longrightarrow> shaped fits c c'"
| by_push: "shaped fits c (pushUserMessage fits u a now prompt model c)"
| by_auto: "shaped fits c (auto_finish fits rid (Inr answer) c)"
| by_hand: "shaped fits c (manual_finish fits aid (Inr answer) c)"

lemma by_same: "ch_messages c' = ch_messages c \<Longrightarrow> shaped fits c c'"
  by (rule by_map [OF quiet_id]) simp

lemma quiet_failure: "quiet (\<lambda>m. if P m then show_result (Inl e) m else m)"
  by (rule quiet_if) (simp add: has_status_def show_result_def)

lemma step_shaped:
  assumes "chat_step fits c c'"
  shows "shaped fits c c'"
  using assms
proof cases
  case (step_status st aid requestId)
  then have "quiet (\<lambda>m. if ce_id m = aid then if truthy requestId then m\<lparr>ce_status := Some st, ce_requestId := requestId\<rparr>
      else m\<lparr>ce_status := Some st\<rparr> else m)"
    by (intro quiet_if) (auto simp: has_status_def)
  then show ?thesis by (rule by_map) (simp add: step_status updateAssistantStatus_def Let_def)
next
  case (step_fail aid msg)
  have "quiet (\<lambda>m. if ce_id m = aid then m\<lparr>ce_status := Some S_error, ce_errorMsg := Some msg\<rparr> else m)"
    by (rule quiet_if) (simp add: has_status_def)
  then show ?thesis by (rule by_map) (simp add: step_fail failAssistantMessage_def)
next
  case (step_meta aid patch)
  show ?thesis by (rule by_map [OF quiet_meta [of "\<lambda>m. ce_id m \<noteq> aid" "\<lambda>m. patch (ce_meta m)"]]) (simp add: step_meta updateAssistantMetadata_def)
next
  case (step_active rid)
  then show ?thesis by (intro by_same) (simp add: setActiveRequestId_def)
next
  case (step_progress st)
  have "quiet (\<lambda>m. if \<not> waiting (ch_active c) m then m
      else if d_status st = QUEUED \<or> d_status st = ASSIGNED \<or> d_status st = EXECUTING then m\<lparr>ce_status := Some S_processing\<rparr> else m)"
    by (simp add: quiet_def has_status_def)
  note by_map [OF this]
  then show ?thesis using by_same by (cases "ch_active c = []") (simp_all add: step_progress effect_progress_def)
next
  case (step_accept auto st)
  show ?thesis
  proof (cases "accepted_output st")
    case None
    with step_accept show ?thesis by (intro by_same) (simp add: effect_accept_def)
  next
    case (Some out)
    obtain high low cid where out: "out = (high, low, cid)" by (rule prod_cases3)
    let ?g = "\<lambda>m. m\<lparr>ce_outputCID := Some cid, ce_keyHigh := Some high, ce_keyLow := Some low, ce_preview := preview_of st\<rparr>"
    have "quiet (\<lambda>m. if waiting (ch_active c) m then (?g m)\<lparr>ce_status := Some S_ready\<rparr> else m)"
      by (rule quiet_if) (simp add: has_status_def)
    note ready = by_map [OF this]
    note decrypting = by_map [OF quiet_output [of "waiting (ch_active c)" "preview_of st" "Some low" "Some high" "Some cid"]]
    show ?thesis
    proof (cases auto)
      case True
      show ?thesis by (rule decrypting) (simp add: step_accept effect_accept_def Some out Let_def True)
    next
      case False
      show ?thesis by (rule ready) (simp add: step_accept effect_accept_def Some out Let_def False)
    qed
  qed
next
  case (step_reject st)
  have "quiet (\<lambda>m. if waiting (ch_active c) m
      then m\<lparr>ce_status := Some S_error, ce_errorMsg := Some reason, ce_preview := preview_of st\<rparr> else m)" for reason
    by (rule quiet_if) (simp add: has_status_def)
  note rejected = by_map [OF this]
  show ?thesis
  proof (cases "(d_status st \<noteq> REJECTED \<and> d_status st \<noteq> FAILED) \<or> \<not> d_text_mode st")
    case True
    then show ?thesis by (intro by_same) (simp add: step_reject effect_reject_def)
  next
    case False
    then show ?thesis
      by (intro rejected [of _ "nullish (d_failure_reason st) ''Quorum rejected the leader result.''"])
        (auto simp: step_reject effect_reject_def Let_def)
  qed
next
  case (step_auto_start auto st)
  then show ?thesis by (intro by_same) (auto simp: auto_start_def split: option.splits)
next
  case (step_auto_finish rid res)
  show ?thesis
  proof (cases res)
    case (Inl e)
    show ?thesis by (rule by_map [OF quiet_failure [of "\<lambda>m. \<not> ce_user m \<and> ce_requestId m = Some rid" e]]) (simp add: step_auto_finish Inl auto_finish_def)
  qed (simp add: step_auto_finish by_auto)
next
  case (step_manual_finish aid res)
  show ?thesis
  proof (cases res)
    case (Inl e)
    show ?thesis by (rule by_map [OF quiet_failure [of "\<lambda>m. ce_id m = aid" e]]) (simp add: step_manual_finish Inl manual_finish_def)
  qed (simp add: step_manual_finish by_hand)
qed (simp add: by_push)

text \<open>C17: an answer shown was decrypted. Whatever callback or effect runs in a reachable chat, a bubble
  comes to show a text as the assistant's only when that step is the end of a decryption that returned
  exactly this text, started automatically for the bubble's request or by hand for the bubble itself;
  no status, preview, error or metadata ever becomes an answer.\<close>

theorem answer_appears_decrypted:
  assumes "chat_run fits st c" "chat_step fits c c'" "i < length (ch_messages c')"
    "shown_answer (ch_messages c' ! i) = Some t"
  shows "i < length (ch_messages c)
    \<and> (if shown_answer (ch_messages c ! i) = Some t then True
       else \<exists>rid. ce_requestId (ch_messages c ! i) = Some rid \<and> c' = auto_finish fits rid (Inr t) c
            \<or> c' = manual_finish fits (ce_id (ch_messages c ! i)) (Inr t) c)"
proof -
  note st = chat_run_status [OF assms(1)]
  from step_shaped [OF assms(2)] show ?thesis
  proof cases
    case (by_map f)
    from quiet_shown [OF this st assms(3,4)] show ?thesis by simp
  next
    case by_push
    with assms(3,4) show ?thesis
      by (auto simp: pushUserMessage_def nth_append nth_Cons shown_answer_def bubble_of_def in_flight_def new_entry_def Let_def
          split: if_splits nat.splits)
  next
    case by_auto
    with assms(3,4) st show ?thesis
      by (auto simp: auto_finish_def show_result_def shown_answer_iff has_status_def nth_map split: if_splits)
  next
    case by_hand
    with assms(3,4) st show ?thesis
      by (auto simp: manual_finish_def show_result_def shown_answer_iff has_status_def nth_map split: if_splits)
  qed
qed

theorem answer_appears_decrypted_witness:
  "shown_answer (ch_messages ready_chat ! 1) = None
    \<and> shown_answer (ch_messages (manual_finish (\<lambda>_. True) ''a'' (Inr [104]) ready_chat) ! 1) = Some [104]
    \<and> ce_id (ch_messages ready_chat ! 1) = ''a''"
proof -
  let ?c' = "manual_finish (\<lambda>_. True) ''a'' (Inr [104]) ready_chat"
  have run: "chat_run (\<lambda>_. True) Absent ready_chat"
    unfolding ready_chat_def by (rule run_step [OF asked_run]) (rule step_accept)
  have before: "shown_answer (ch_messages ready_chat ! 1) = None" "ce_id (ch_messages ready_chat ! 1) = ''a''"
    by (simp_all add: ready_messages shown_answer_def bubble_of_def in_flight_def new_entry_def)
  have after: "shown_answer (ch_messages ?c' ! 1) = Some [104]"
    by (simp add: manual_finish_def ready_messages show_result_def shown_answer_def bubble_of_def in_flight_def new_entry_def)
  have "1 < length (ch_messages ?c')" by (simp add: manual_finish_def ready_messages)
  from answer_appears_decrypted [OF run step_manual_finish this after] before after show ?thesis by simp
qed

subsection \<open>The quorum on the panel\<close>

text \<open>The panel names the quorum of the job. The page stores the verifiers of the preview joined into
  one text, and the panel counts them by splitting that text again: for verifiers named by texts that are not
  empty and hold no comma (addresses do not) the row says exactly how many the preview had and splitting its
  value gives them back in order; without verifiers there is no such row.\<close>

lemma verifiers_shown:
  assumes "obj_get ''verifiers'' preview = Some (JArr (map JStr vs))" "leader_and_verifiers preview = Inr (leader, verifiers)"
    "list_all (\<lambda>a. a \<noteq> [] \<and> CHR '','' \<notin> set a) vs"
  shows "map (\<lambda>i. (pi_label i, str_split '', '' (the (pi_value i))))
      (filter (\<lambda>i. starts_with (pi_label i) ''Verifiers ('')
        (submissionItems (md\<lparr>md_requestIdDisplay := rid, md_leader := leader, md_verifiers := Some verifiers\<rparr>)))
    = (if vs = [] then [] else [(''Verifiers ('' @ nat_to_string 10 (length vs) @ '')'', vs)])"
proof -
  have v: "verifiers = join '', '' vs"
    using assms(1,2) by (simp add: leader_and_verifiers_def comp_def split: sum.splits)
  have "vs \<noteq> [] \<Longrightarrow> str_split '', '' (join '', '' vs) = vs"
    using assms(3) by (intro split_join) (auto simp: list_all_iff)
  moreover have "truthy (Some (join '', '' vs)) \<longleftrightarrow> vs \<noteq> []"
    using assms(3) by (cases vs rule: remdups_adj.cases) (auto simp: truthy_def)
  moreover have "\<not> truthy (Some [])" by (simp add: truthy_def)
  ultimately show ?thesis
    by (simp add: submissionItems_def v verifierCount_def linked_def starts_with_def)
qed

subsection \<open>The buttons and the handlers\<close>

text \<open>The send button is enabled only when the page is idle and every guard passes but the wallet client and
  the configuration; the keys send whenever the page is idle, so the guards are needed for them.\<close>

lemma send_enabled_passes:
  assumes "send_enabled page isReady (cn_address cn)" "cn_cofhe cn"
  shows "chat_refusal penv cn isReady (text_trim (sp_prompt page)) \<in>
    {None, Some ''Wallet client is not available yet.'', Some ''VITE_PROMPT_KEY_STORE_ADDRESS is not configured.''}"
  using assms by (simp add: send_enabled_def chat_refusal_def)

lemma risk_enabled_passes:
  assumes "risk_enabled s isReady (cn_address cn)" "cn_cofhe cn"
  shows "risk_refusal penv cn isReady s \<in>
    {None, Some ''Invalid credit score. Must be between 300 and 850.'', Some ''Wallet client is not available yet.'',
     Some ''VITE_BLINDFERENCE_INPUT_VAULT_ADDRESS is not configured.''}"
  using assms by (simp add: risk_enabled_def risk_refusal_def)

text \<open>An accepted answer whose decryption failed looks like a rejected one: it offers feedback on the quorum
  and no way to decrypt it again.\<close>

lemma failed_decryption_bubble:
  assumes "\<not> ce_user m" "ce_requestId m = Some rid" "rid \<noteq> []" "decryptable m"
  shows "bubble_of (show_result (Inl e) m)
    = Error_card (error_message_or e ''Decryption failed'') (shown_preview m) (Some rid)"
  using assms by (simp add: bubble_of_def in_flight_def show_result_def shown_preview_def truthy_def nullish_def)

end
