(* ===== verification/Chat_Turns.thy ===== *)
theory Chat_Turns
  imports Status_Poll Chat
begin

section \<open>The conversation and its poll together\<close>

text \<open>
  \<open>hooks/useChat.ts\<close> calls \<open>useInferenceStatus(activeRequestId)\<close> and runs its four effects on the
  status that hook returned to the render. After a commit React runs the effects whose dependencies
  have changed, in the order of the calls, each with the values of its render. When the id changes, the poll's effect
  only schedules \<open>setStatus(null)\<close>; the chat's effects all depend on the id, so they
  run on the status of that render, the one of the previous request. \<open>next_request\<close> is the commit of a new id,
  \<open>Status_arrives\<close> that of a new status, \<open>Client_changes\<close> that of a CoFHE client that became ready or was lost;
  \<open>auto\<close> is \<open>getAutoDecryptSetting() && cofheClient && isReady\<close> when the effects run.
\<close>

record turn_state =
  tu_hook :: hook_state
  tu_chat :: chat

type_synonym decrypt_start = "string \<times> string \<times> string \<times> string"

text \<open>The dependencies besides the id and the client\<close>

definition progress_deps :: "demo_status option \<Rightarrow> stage option" where
  "progress_deps status = map_option d_status status"

definition accept_deps :: "demo_status option \<Rightarrow> stage option \<times> string option" where
  "accept_deps status = (map_option d_status status, Option.bind (Option.bind status d_text_result) tr_output_cid)"

definition reject_deps :: "demo_status option \<Rightarrow> stage option \<times> string option \<times> string option" where
  "reject_deps status = (map_option d_status status, Option.bind (Option.bind status d_text_result) tr_preview,
     Option.bind status d_failure_reason)"

text \<open>The four effects, and which of them run\<close>

definition chat_effects ::
  "(hist_entry list \<Rightarrow> bool) \<Rightarrow> bool \<Rightarrow> bool \<times> bool \<times> bool \<times> bool \<Rightarrow> demo_status option \<Rightarrow> chat \<Rightarrow> chat \<times> decrypt_start option" where
  "chat_effects fits auto runs status c = (case (runs, status) of
       (_, None) \<Rightarrow> (c, None)
     | ((r1, r2, r3, r4), Some st) \<Rightarrow>
         let c1 = (if r1 then effect_progress st c else c);
             c2 = (if r2 then effect_accept fits auto st c1 else c1);
             (c3, started) = (if r3 then auto_start auto st c2 else (c2, None)) in
         (if r4 then effect_reject fits st c3 else c3, started))"

definition next_request ::
  "(hist_entry list \<Rightarrow> bool) \<Rightarrow> bool \<Rightarrow> string \<Rightarrow> turn_state \<Rightarrow> turn_state \<times> decrypt_start option" where
  "next_request fits auto rid s =
     (if rid = ch_active (tu_chat s) then (s, None)
      else let (c, started) = chat_effects fits auto (True, True, True, True) (hs_status (tu_hook s))
             (setActiveRequestId rid (tu_chat s)) in
        (\<lparr>tu_hook = change_id rid (tu_hook s), tu_chat = c\<rparr>, started))"

datatype turn_event = Status_arrives bool demo_status | Client_changes bool

definition turn_step :: "(hist_entry list \<Rightarrow> bool) \<Rightarrow> turn_event \<Rightarrow> turn_state \<Rightarrow> turn_state \<times> decrypt_start option" where
  "turn_step fits e s = (case e of
      Status_arrives auto st \<Rightarrow>
        (let old = hs_status (tu_hook s);
             changed = accept_deps (Some st) \<noteq> accept_deps old;
             (c, started) = chat_effects fits auto (progress_deps (Some st) \<noteq> progress_deps old, changed, changed,
               reject_deps (Some st) \<noteq> reject_deps old) (Some st) (tu_chat s) in
         (\<lparr>tu_hook = (tu_hook s)\<lparr>hs_status := Some st\<rparr>, tu_chat = c\<rparr>, started))
    | Client_changes auto \<Rightarrow>
        (let (c, started) = chat_effects fits auto (False, False, True, False) (hs_status (tu_hook s)) (tu_chat s) in
         (s\<lparr>tu_chat := c\<rparr>, started)))"

subsection \<open>What the effects do to one answer\<close>

abbreviation given_output :: "demo_status \<Rightarrow> string \<times> string \<times> string \<Rightarrow> chat_entry \<Rightarrow> chat_entry" where
  "given_output st out m \<equiv> m\<lparr>ce_outputCID := Some (snd (snd out)), ce_keyHigh := Some (fst out), ce_keyLow := Some (fst (snd out)),
     ce_preview := preview_of st\<rparr>"

lemma accepted_stage: "accepted_output st = Some out \<Longrightarrow> d_status st = ACCEPTED"
  by (simp add: accepted_output_def split: if_splits)

lemma final_progress:
  "d_status st \<noteq> QUEUED \<Longrightarrow> d_status st \<noteq> ASSIGNED \<Longrightarrow> d_status st \<noteq> EXECUTING \<Longrightarrow> effect_progress st c = c"
  by (simp add: effect_progress_def on_messages_def cong: if_cong)

text \<open>A settled message is left alone, and the id of the render stays\<close>

lemma framed_settled:
  assumes "list_all2 (framed rid) ms ms'" "m \<in> set ms" "settled m" shows "m \<in> set ms'"
proof -
  from assms(1,2) obtain m' where "m' \<in> set ms'" "framed rid m m'"
    by (auto simp: list_all2_conv_all_nth in_set_conv_nth) blast
  with assms(3) show ?thesis by (simp add: framed_def waiting_def)
qed

lemma effects_keep [simp]:
  "ch_active (effect_progress st c) = ch_active c" "ch_active (effect_accept fits auto st c) = ch_active c"
  "ch_active (effect_reject fits st c) = ch_active c" "ch_decrypted (effect_progress st c) = ch_decrypted c"
  "ch_decrypted (effect_accept fits auto st c) = ch_decrypted c" "ch_decrypted (effect_reject fits st c) = ch_decrypted c"
  by (auto simp: effect_progress_def effect_accept_def effect_reject_def on_messages_def on_history_def Let_def split: option.splits)

lemma auto_start_keep [simp]:
  "ch_active (fst (auto_start auto st c)) = ch_active c" "ch_messages (fst (auto_start auto st c)) = ch_messages c"
  "set (ch_decrypted c) \<subseteq> set (ch_decrypted (fst (auto_start auto st c)))"
  by (auto simp: auto_start_def split: option.splits)

lemma effects_active [simp]: "ch_active (fst (chat_effects fits auto runs status c)) = ch_active c"
proof (cases status)
  case (Some st)
  obtain r1 r2 r3 r4 where "runs = (r1, r2, r3, r4)" by (rule prod_cases4)
  with Some show ?thesis by (auto simp: chat_effects_def Let_def auto_start_def split: option.splits)
qed (simp add: chat_effects_def)

lemma effects_settled:
  assumes "m \<in> set (ch_messages c)" "settled m"
  shows "m \<in> set (ch_messages (fst (chat_effects fits auto runs status c)))"
proof (cases status)
  case (Some st)
  obtain r1 r2 r3 r4 where runs: "runs = (r1, r2, r3, r4)" by (rule prod_cases4)
  let ?c1 = "if r1 then effect_progress st c else c"
  let ?c2 = "if r2 then effect_accept fits auto st ?c1 else ?c1"
  let ?a = "if r3 then auto_start auto st ?c2 else (?c2, None)"
  have "m \<in> set (ch_messages ?c1)" using assms by (auto intro: framed_settled [OF progress_frame])
  then have "m \<in> set (ch_messages ?c2)" using assms(2) by (auto intro: framed_settled [OF accept_frame])
  then have "m \<in> set (ch_messages (fst ?a))" by simp
  then have "m \<in> set (ch_messages (if r4 then effect_reject fits st (fst ?a) else fst ?a))"
    using assms(2) by (auto intro: framed_settled [OF reject_frame])
  moreover have "fst (chat_effects fits auto runs status c) = (if r4 then effect_reject fits st (fst ?a) else fst ?a)"
    by (simp add: chat_effects_def Some runs Let_def split: prod.split)
  ultimately show ?thesis by (simp only:)
qed (use assms in \<open>simp add: chat_effects_def\<close>)

text \<open>A request whose decryption has started is not decrypted again\<close>

lemma effects_started:
  assumes "ch_active c \<in> set (ch_decrypted c)"
  shows "snd (chat_effects fits auto runs status c) = None"
    "ch_active c \<in> set (ch_decrypted (fst (chat_effects fits auto runs status c)))"
proof -
  obtain r1 r2 r3 r4 where "runs = (r1, r2, r3, r4)" by (rule prod_cases4)
  with assms show "snd (chat_effects fits auto runs status c) = None"
    "ch_active c \<in> set (ch_decrypted (fst (chat_effects fits auto runs status c)))"
    by (auto simp: chat_effects_def Let_def auto_start_def split: option.splits)
qed

subsection \<open>The next question\<close>

definition turn_steps :: "(hist_entry list \<Rightarrow> bool) \<Rightarrow> turn_event list \<Rightarrow> turn_state \<Rightarrow> turn_state" where
  "turn_steps fits es s = fold (\<lambda>e s. fst (turn_step fits e s)) es s"

lemma turn_step_chat:
  "\<exists>auto runs status. tu_chat (fst (turn_step fits e s)) = fst (chat_effects fits auto runs status (tu_chat s))
     \<and> snd (turn_step fits e s) = snd (chat_effects fits auto runs status (tu_chat s))"
proof (cases e)
  case (Status_arrives auto st)
  then show ?thesis by (simp add: turn_step_def Let_def split: prod.split) (metis fst_conv snd_conv)
next
  case (Client_changes auto)
  then show ?thesis by (simp add: turn_step_def Let_def split: prod.split) (metis fst_conv snd_conv)
qed

lemma next_request_chat:
  assumes "rid \<noteq> ch_active (tu_chat s)"
  shows "tu_chat (fst (next_request fits auto rid s))
      = fst (chat_effects fits auto (True, True, True, True) (hs_status (tu_hook s)) (setActiveRequestId rid (tu_chat s)))"
    "tu_hook (fst (next_request fits auto rid s)) = change_id rid (tu_hook s)"
    "snd (next_request fits auto rid s)
      = snd (chat_effects fits auto (True, True, True, True) (hs_status (tu_hook s)) (setActiveRequestId rid (tu_chat s)))"
  using assms by (simp_all add: next_request_def split: prod.split)

lemma later_settled:
  "m \<in> set (ch_messages (tu_chat s)) \<Longrightarrow> settled m \<Longrightarrow> m \<in> set (ch_messages (tu_chat (turn_steps fits es s)))"
proof (induction es arbitrary: s)
  case (Cons e es)
  obtain auto runs status where "tu_chat (fst (turn_step fits e s)) = fst (chat_effects fits auto runs status (tu_chat s))"
    using turn_step_chat by blast
  with Cons show ?case by (simp add: turn_steps_def effects_settled)
qed (simp add: turn_steps_def)

lemma later_started:
  "ch_active (tu_chat s) \<in> set (ch_decrypted (tu_chat s)) \<Longrightarrow> snd (turn_step fits e (turn_steps fits es s)) = None"
proof (induction es arbitrary: s)
  case Nil
  obtain auto runs status where "snd (turn_step fits e s) = snd (chat_effects fits auto runs status (tu_chat s))"
    using turn_step_chat by blast
  with Nil show ?case by (simp add: turn_steps_def effects_started)
next
  case (Cons e' es)
  obtain auto runs status where "tu_chat (fst (turn_step fits e' s)) = fst (chat_effects fits auto runs status (tu_chat s))"
    using turn_step_chat by blast
  with Cons show ?case by (simp add: turn_steps_def effects_started)
qed

text \<open>The commit of the next id, with the accepted status of the previous request\<close>

lemma effects_manual:
  assumes "accepted_output st = Some out" "m \<in> set (ch_messages c)" "waiting (ch_active c) m" "ch_active c \<noteq> []"
  shows "(given_output st out m)\<lparr>ce_status := Some S_ready\<rparr>
    \<in> set (ch_messages (fst (chat_effects fits False (True, True, True, True) (Some st) c)))"
proof -
  obtain high low cid where out: "out = (high, low, cid)" by (rule prod_cases3)
  have "effect_progress st c = c" using accepted_stage [OF assms(1)] by (simp add: final_progress)
  then show ?thesis using assms out accepted_stage [OF assms(1)]
    by (auto simp: chat_effects_def effect_accept_def auto_start_def effect_reject_def Let_def)
qed

lemma effects_auto:
  assumes "accepted_output st = Some out" "ch_active c \<notin> set (ch_decrypted c)"
  shows "snd (chat_effects fits True (True, True, True, True) (Some st) c) = Some (ch_active c, out)"
    "ch_active c \<in> set (ch_decrypted (fst (chat_effects fits True (True, True, True, True) (Some st) c)))"
proof -
  obtain high low cid where out: "out = (high, low, cid)" by (rule prod_cases3)
  with assms show "snd (chat_effects fits True (True, True, True, True) (Some st) c) = Some (ch_active c, out)"
    "ch_active c \<in> set (ch_decrypted (fst (chat_effects fits True (True, True, True, True) (Some st) c)))"
    by (simp_all add: chat_effects_def auto_start_def Let_def)
qed

text \<open>C14: a second question is answered with the first one's output. When a request becomes the active one while the
  hook still holds the accepted status of the previous one, the answer that waits for the new request
  becomes ready at once, with the previous request's output CID and key handles, and no effect of a
  status or a client that arrives later, the request's own accepted status included, changes that message. With automatic
  decryption the previous output is decrypted as the new request's, and nothing that arrives later starts its own
  decryption. This happens in the very commit in which the hook forgets the status.\<close>

theorem next_turn_gets_old_answer:
  assumes "hs_status (tu_hook s) = Some old" "accepted_output old = Some out" "rid \<noteq> []" "rid \<noteq> ch_active (tu_chat s)"
    "rid \<notin> set (ch_decrypted (tu_chat s))" "m \<in> set (ch_messages (tu_chat s))" "waiting rid m"
  shows "(let s' = fst (next_request fits False rid s) in
      hs_status (tu_hook s') = None
      \<and> (given_output old out m)\<lparr>ce_status := Some S_ready\<rparr> \<in> set (ch_messages (tu_chat (turn_steps fits later s'))))
    \<and> (let (s', started) = next_request fits True rid s in
      started = Some (rid, out) \<and> snd (turn_step fits e (turn_steps fits later s')) = None)"
proof -
  let ?c = "setActiveRequestId rid (tu_chat s)"
  have c: "ch_active ?c = rid" "ch_messages ?c = ch_messages (tu_chat s)" "ch_decrypted ?c = ch_decrypted (tu_chat s)"
    by (simp_all add: setActiveRequestId_def)
  note commit = next_request_chat [OF assms(4)]
  have "hs_status (tu_hook (fst (next_request fits False rid s))) = None"
    using assms(3) by (simp add: commit(2) change_id_status)
  moreover have "(given_output old out m)\<lparr>ce_status := Some S_ready\<rparr>
      \<in> set (ch_messages (tu_chat (turn_steps fits later (fst (next_request fits False rid s)))))"
    using effects_manual [OF assms(2), of m ?c fits] assms(1,3,6,7) c
    by (intro later_settled) (simp_all add: commit settled_def)
  moreover have "snd (next_request fits True rid s) = Some (rid, out)"
    "snd (turn_step fits e (turn_steps fits later (fst (next_request fits True rid s)))) = None"
    using effects_auto [OF assms(2), of ?c fits] assms(1,5) c
    by (simp_all add: commit later_started)
  ultimately show ?thesis by (simp add: Let_def split: prod.split) (metis fst_conv snd_conv)
qed

definition asked_again :: turn_state where
  "asked_again = \<lparr>tu_hook = job_answer \<lparr>fl_gen = 1, fl_rid = ''job'', fl_phase = AwaitJob\<rparr> (Some done_job) (change_id ''job'' hook_init),
     tu_chat = updateAssistantStatus (\<lambda>_. True) ''b'' S_processing (Some ''job2'')
       (pushUserMessage (\<lambda>_. True) ''v'' ''b'' 9 [104] ''M'' ready_chat)\<rparr>"

lemma asked_again_chat: "ch_messages (tu_chat asked_again) = ch_messages ready_chat @
    [new_entry ''v'' True [104] ''M'' S_done 9,
     (new_entry ''b'' False [] ''M'' S_encrypting 9)\<lparr>ce_status := Some S_processing, ce_requestId := Some ''job2''\<rparr>]"
  "ch_active (tu_chat asked_again) = ''job''" "ch_decrypted (tu_chat asked_again) = []"
  by (simp_all add: asked_again_def updateAssistantStatus_def pushUserMessage_def Let_def truthy_def ready_messages)
    (simp_all add: new_entry_def ready_chat_def asked_chat_def effect_accept_def setActiveRequestId_def updateAssistantStatus_def
      pushUserMessage_def chat_init_def on_messages_def on_history_def Let_def truthy_def split: option.split)

lemma asked_again_hook: "hs_status (tu_hook asked_again) = Some (mapJobToDemoStatus done_job)"
  by (simp add: asked_again_def job_answer_def mounted_def change_id_def render_id_def id_effect_def hook_init_def Let_def)

theorem next_turn_gets_old_answer_witness:
  "list_ex (\<lambda>m. ce_requestId m = Some ''job2'' \<and> ce_status m = Some S_ready \<and> ce_outputCID m = Some ''Qm'')
     (ch_messages (tu_chat (turn_steps (\<lambda>_. True) [Status_arrives False (mapJobToDemoStatus (done_job\<lparr>j_output_cid := Some ''Qn''\<rparr>))]
       (fst (next_request (\<lambda>_. True) False ''job2'' asked_again)))))
   \<and> snd (next_request (\<lambda>_. True) True ''job2'' asked_again) = Some (''job2'', ''7'', ''8'', ''Qm'')"
proof -
  let ?m = "last (ch_messages (tu_chat asked_again))"
  have m: "?m \<in> set (ch_messages (tu_chat asked_again))" "waiting ''job2'' ?m" "ce_requestId ?m = Some ''job2''"
    by (simp_all add: asked_again_chat waiting_def settled_def new_entry_def)
  have "''job2'' \<noteq> []" "''job2'' \<noteq> ch_active (tu_chat asked_again)" "''job2'' \<notin> set (ch_decrypted (tu_chat asked_again))"
    by (simp_all add: asked_again_chat)
  note old = next_turn_gets_old_answer [OF asked_again_hook done_job_output this m(1,2), where fits = "\<lambda>_. True"
      and later = "[Status_arrives False (mapJobToDemoStatus (done_job\<lparr>j_output_cid := Some ''Qn''\<rparr>))]" and e = "Client_changes True"]
  show ?thesis unfolding list_ex_iff
  proof (intro conjI bexI)
    let ?m' = "(given_output (mapJobToDemoStatus done_job) (''7'', ''8'', ''Qm'') ?m)\<lparr>ce_status := Some S_ready\<rparr>"
    from old show "?m' \<in> set (ch_messages (tu_chat (turn_steps (\<lambda>_. True)
        [Status_arrives False (mapJobToDemoStatus (done_job\<lparr>j_output_cid := Some ''Qn''\<rparr>))] (fst (next_request (\<lambda>_. True) False ''job2'' asked_again)))))"
      by (simp add: Let_def)
  qed (use old m(3) in \<open>auto split: prod.splits\<close>)
qed

text \<open>In the same way a rejected status fails the next answer with the previous reason\<close>

lemma next_turn_gets_old_rejection:
  assumes "hs_status (tu_hook s) = Some old" "d_status old = REJECTED" "d_text_mode old" "rid \<noteq> []" "rid \<noteq> ch_active (tu_chat s)"
    "m \<in> set (ch_messages (tu_chat s))" "waiting rid m"
  shows "m\<lparr>ce_status := Some S_error, ce_errorMsg := Some (nullish (d_failure_reason old) ''Quorum rejected the leader result.''),
      ce_preview := preview_of old\<rparr> \<in> set (ch_messages (tu_chat (fst (next_request fits auto rid s))))"
proof -
  let ?c = "setActiveRequestId rid (tu_chat s)"
  have quiet: "effect_progress old ?c = ?c" "accepted_output old = None"
    using assms(2) by (simp_all add: final_progress accepted_output_def)
  then have "fst (chat_effects fits auto (True, True, True, True) (Some old) ?c) = effect_reject fits old ?c"
    by (simp add: chat_effects_def effect_accept_def auto_start_def)
  then show ?thesis using assms by (auto simp: next_request_chat effect_reject_def Let_def setActiveRequestId_def)
qed

end
