(* ===== verification/Chat_Spec.thy ===== *)
theory Chat_Spec
  imports Chat_Turns
begin

section \<open>What a conversation is\<close>

text \<open>
  An abstract specification of the chat page: a conversation is a list of questions, each with what has
  become of it, and changes in five ways. The messages of \<open>hooks/useChat.ts\<close>, with the poll's status and the
  commits of \<open>Chat_Turns\<close>, the submission of \<open>pages/InferenceNewPage.tsx\<close> step by step, and
  decryptions in flight, implement it: reading the messages off in pairs is a refinement mapping.
\<close>

subsection \<open>The specification\<close>

datatype turn = Composing | Waiting | Sealed | Answered utext | Failed string

type_synonym conversation = "(utext \<times> turn) list"

definition changes :: "(turn \<Rightarrow> turn \<Rightarrow> bool) \<Rightarrow> conversation \<Rightarrow> conversation \<Rightarrow> bool" where
  "changes R ts ts' = list_all2 (\<lambda>(q, t) (q', t'). q' = q \<and> (t' = t \<or> R t t')) ts ts'"

definition opened :: "string + utext \<Rightarrow> turn" where
  "opened res = (case res of Inr answer \<Rightarrow> Answered answer | Inl msg \<Rightarrow> Failed msg)"

inductive conv_step :: "conversation \<Rightarrow> conversation \<Rightarrow> bool" where
  asks: "conv_step ts (ts @ [(q, Composing)])"
| refused: "changes (\<lambda>t t'. t = Composing \<and> t' = Failed msg) ts ts' \<Longrightarrow> conv_step ts ts'"
| submitted: "changes (\<lambda>t t'. t = Composing \<and> t' = Waiting) ts ts' \<Longrightarrow> conv_step ts ts'"
| accepted: "changes (\<lambda>t t'. t = Waiting \<and> t' = Sealed) ts ts' \<Longrightarrow> conv_step ts ts'"
| rejected: "changes (\<lambda>t t'. t = Waiting \<and> t' = Failed msg) ts ts' \<Longrightarrow> conv_step ts ts'"
| opens: "changes (\<lambda>t t'. t \<noteq> Composing \<and> t' = opened res) ts ts' \<Longrightarrow> conv_step ts ts'"

text \<open>No turn ever goes back, and no question is changed or dropped.\<close>

definition rank :: "turn \<Rightarrow> nat" where
  "rank t = (case t of Composing \<Rightarrow> 0 | Waiting \<Rightarrow> 1 | Sealed \<Rightarrow> 2 | Answered a \<Rightarrow> 3 | Failed msg \<Rightarrow> 3)"

definition onward :: "conversation \<Rightarrow> conversation \<Rightarrow> bool" where
  "onward ts ts' = (length ts \<le> length ts'
     \<and> list_all2 (\<lambda>(q, t) (q', t'). q' = q \<and> rank t \<le> rank t') ts (take (length ts) ts'))"

lemma changes_onward:
  assumes "changes R ts ts'" "\<And>t t'. R t t' \<Longrightarrow> rank t \<le> rank t'" shows "onward ts ts'"
  using assms by (auto simp: changes_def onward_def list_all2_conv_all_nth)

lemma onward_refl: "onward ts ts"
  by (simp add: onward_def list.rel_refl_strong split: prod.splits)

lemma conv_step_onward: "conv_step ts ts' \<Longrightarrow> onward ts ts'"
proof (induction rule: conv_step.induct)
  case (asks ts q)
  then show ?case using onward_refl [of ts] by (simp add: onward_def)
next
  case (opens res ts ts')
  then show ?case by (rule changes_onward) (auto simp: rank_def opened_def split: turn.splits sum.splits)
qed (rule changes_onward, assumption, simp add: rank_def)+

lemma onward_trans: "onward ts ts' \<Longrightarrow> onward ts' ts'' \<Longrightarrow> onward ts ts''"
  by (auto simp: onward_def list_all2_conv_all_nth split: prod.splits) (metis Pair_inject le_trans order_less_le_trans prod.collapse)+

lemma conv_steps_onward: "conv_step\<^sup>*\<^sup>* ts ts' \<Longrightarrow> onward ts ts'"
  by (induction rule: rtranclp_induct) (auto intro: onward_refl onward_trans conv_step_onward)

subsection \<open>Reading a conversation off the messages\<close>

definition turn_of :: "chat_entry \<Rightarrow> turn" where
  "turn_of m =
     (if ce_status m = Some S_done then Answered (ce_content m)
      else if ce_status m = Some S_error then Failed (nullish (ce_errorMsg m) [])
      else if ce_status m = Some S_ready then Sealed
      else if truthy (ce_requestId m) then Waiting else Composing)"

fun conversation :: "chat_entry list \<Rightarrow> conversation" where
  "conversation (u # a # ms) = (ce_content u, turn_of a) # conversation ms"
| "conversation ms = []"

text \<open>Questions and answers alternate; an answer's request is not empty.\<close>

fun paired :: "chat_entry list \<Rightarrow> bool" where
  "paired (u # a # ms) = (ce_user u \<and> \<not> ce_user a \<and> ce_requestId a \<noteq> Some [] \<and> paired ms)"
| "paired [u] = False"
| "paired [] = True"

text \<open>\<open>composing\<close> is the answer whose submission is under way, \<open>opening\<close> those being decrypted by hand.\<close>

definition messages_ok :: "string list \<Rightarrow> string option \<Rightarrow> chat_entry list \<Rightarrow> bool" where
  "messages_ok opening composing ms = (paired ms \<and> distinct (map ce_id ms) \<and> set opening \<subseteq> ce_id ` set ms
     \<and> (\<forall>m \<in> set ms. ce_id m \<in> set opening \<longrightarrow> \<not> ce_user m \<and> turn_of m \<noteq> Composing)
     \<and> (\<forall>m \<in> set ms. composing = Some (ce_id m) \<longrightarrow> \<not> ce_user m \<and> turn_of m = Composing))"

definition keeps_turn :: "(turn \<Rightarrow> turn \<Rightarrow> bool) \<Rightarrow> (chat_entry \<Rightarrow> chat_entry) \<Rightarrow> chat_entry \<Rightarrow> bool" where
  "keeps_turn R f m = (ce_id (f m) = ce_id m \<and> ce_user (f m) = ce_user m
     \<and> (if ce_user m then ce_content (f m) = ce_content m
        else ce_requestId (f m) \<noteq> Some [] \<and> (turn_of (f m) = turn_of m \<or> R (turn_of m) (turn_of (f m)))))"

lemma paired_request: "paired ms \<Longrightarrow> m \<in> set ms \<Longrightarrow> \<not> ce_user m \<Longrightarrow> ce_requestId m \<noteq> Some []"
  by (induction ms rule: paired.induct) auto

lemma keeps_conversation:
  "paired ms \<Longrightarrow> \<forall>m \<in> set ms. keeps_turn R f m \<Longrightarrow>
    paired (map f ms) \<and> changes R (conversation ms) (conversation (map f ms))"
  by (induction ms rule: paired.induct) (auto simp: keeps_turn_def changes_def)

lemma keeps_messages:
  assumes "messages_ok opening composing ms" "\<forall>m \<in> set ms. keeps_turn R f m"
    "\<And>t t'. R t t' \<Longrightarrow> t' \<noteq> Composing" "composing' = None \<or> composing' = composing \<and> (\<forall>t t'. R t t' \<longrightarrow> t \<noteq> Composing)"
  shows "messages_ok opening composing' (map f ms) \<and> changes R (conversation ms) (conversation (map f ms))"
proof -
  have pair: "paired (map f ms) \<and> changes R (conversation ms) (conversation (map f ms))"
    using assms(1) by (intro keeps_conversation assms(2)) (simp add: messages_ok_def)
  have ids: "map (ce_id \<circ> f) ms = map ce_id ms" using assms(2) by (simp add: keeps_turn_def)
  have image: "ce_id ` f ` set ms = ce_id ` set ms" using assms(2) by (force simp: keeps_turn_def image_iff)
  have each: "(ce_id (f m) \<in> set opening \<longrightarrow> \<not> ce_user (f m) \<and> turn_of (f m) \<noteq> Composing)
      \<and> (composing' = Some (ce_id (f m)) \<longrightarrow> \<not> ce_user (f m) \<and> turn_of (f m) = Composing)" if "m \<in> set ms" for m
    using that assms(1) bspec [OF assms(2) that] assms(3,4) by (auto simp: keeps_turn_def messages_ok_def split: if_splits)
  have dist: "distinct (map ce_id (map f ms))" unfolding map_map ids using assms(1) by (simp add: messages_ok_def)
  have open_ids: "set opening \<subseteq> ce_id ` set (map f ms)" using assms(1) image by (simp add: messages_ok_def)
  show ?thesis unfolding messages_ok_def using pair dist open_ids each by auto
qed

subsection \<open>The effects of a commit\<close>

definition chat_ok :: "string list \<Rightarrow> string option \<Rightarrow> chat \<Rightarrow> bool" where
  "chat_ok opening composing c = messages_ok opening composing (ch_messages c)"

abbreviation shown_conversation :: "chat \<Rightarrow> conversation" where
  "shown_conversation c \<equiv> conversation (ch_messages c)"

lemma turn_of_status [simp]:
  "ce_status m = Some S_done \<Longrightarrow> turn_of m = Answered (ce_content m)"
  "ce_status m = Some S_error \<Longrightarrow> turn_of m = Failed (nullish (ce_errorMsg m) [])"
  "ce_status m = Some S_ready \<Longrightarrow> turn_of m = Sealed"
  by (simp_all add: turn_of_def)

lemma waiting_turn:
  assumes "paired ms" "m \<in> set ms" "waiting rid m"
  shows "\<not> ce_user m" "ce_requestId m = Some rid" "rid \<noteq> []" "turn_of m = Waiting" "truthy (Some rid)"
  using paired_request [OF assms(1,2)] assms(3) by (auto simp: waiting_def settled_def turn_of_def truthy_def)

lemma keeps_waiting:
  assumes "paired ms" "\<And>m. waiting rid m \<Longrightarrow> turn_of m = Waiting \<Longrightarrow> rid \<noteq> [] \<Longrightarrow> ce_requestId m = Some rid \<Longrightarrow>
      ce_id (g m) = ce_id m \<and> ce_user (g m) = ce_user m \<and> ce_requestId (g m) = ce_requestId m
      \<and> (turn_of (g m) = Waiting \<or> R Waiting (turn_of (g m)))"
  shows "\<forall>m \<in> set ms. keeps_turn R (\<lambda>m. if waiting rid m then g m else m) m"
proof
  fix m assume m: "m \<in> set ms"
  show "keeps_turn R (\<lambda>m. if waiting rid m then g m else m) m"
  proof (cases "waiting rid m")
    case True
    note waiting_turn [OF assms(1) m True]
    with assms(2) [OF True] True show ?thesis by (simp add: keeps_turn_def)
  next
    case False
    with paired_request [OF assms(1) m] show ?thesis by (simp add: keeps_turn_def)
  qed
qed

text \<open>An operation that changes the messages by such a function, with its invariant and its abstract step\<close>

lemma by_keeps:
  assumes "chat_ok opening composing c" "ch_messages c' = map f (ch_messages c)"
    "\<forall>m \<in> set (ch_messages c). keeps_turn R f m" "\<And>t t'. R t t' \<Longrightarrow> t' \<noteq> Composing"
    "composing' = None \<or> composing' = composing \<and> (\<forall>t t'. R t t' \<longrightarrow> t \<noteq> Composing)"
    "\<And>ts ts'. changes R ts ts' \<Longrightarrow> conv_step ts ts'"
  shows "chat_ok opening composing' c' \<and> conv_step (shown_conversation c) (shown_conversation c')"
  using keeps_messages [OF assms(1) [unfolded chat_ok_def] assms(3,4,5)] assms(2,6) by (simp add: chat_ok_def)

lemma chat_ok_paired: "chat_ok opening composing c \<Longrightarrow> paired (ch_messages c)"
  by (simp add: chat_ok_def messages_ok_def)

definition implements :: "string list \<Rightarrow> string option \<Rightarrow> chat \<Rightarrow> chat \<Rightarrow> bool" where
  "implements opening composing c c' = (chat_ok opening composing c \<longrightarrow>
     chat_ok opening composing c' \<and> conv_step\<^sup>*\<^sup>* (shown_conversation c) (shown_conversation c'))"

lemma implements_refl: "ch_messages c' = ch_messages c \<Longrightarrow> implements opening composing c c'"
  by (simp add: implements_def chat_ok_def)

lemma implements_trans [trans]:
  assumes "implements opening composing c c'" "implements opening composing c' c''"
  shows "implements opening composing c c''"
  unfolding implements_def
proof
  assume "chat_ok opening composing c"
  with assms(1) have first: "chat_ok opening composing c'" "conv_step\<^sup>*\<^sup>* (shown_conversation c) (shown_conversation c')"
    by (simp_all add: implements_def)
  with assms(2) have second: "chat_ok opening composing c''" "conv_step\<^sup>*\<^sup>* (shown_conversation c') (shown_conversation c'')"
    by (simp_all add: implements_def)
  from second(1) rtranclp_trans [OF first(2) second(2)]
  show "chat_ok opening composing c'' \<and> conv_step\<^sup>*\<^sup>* (shown_conversation c) (shown_conversation c'')" ..
qed

text \<open>An effect that maps the waiting answers to \<open>g\<close>\<close>

lemma effect_implements:
  assumes "ch_messages c' = map (\<lambda>m. if waiting rid m then g m else m) (ch_messages c)"
    "\<And>m. waiting rid m \<Longrightarrow> turn_of m = Waiting \<Longrightarrow> rid \<noteq> [] \<Longrightarrow> ce_requestId m = Some rid \<Longrightarrow>
      ce_id (g m) = ce_id m \<and> ce_user (g m) = ce_user m \<and> ce_requestId (g m) = ce_requestId m
      \<and> (turn_of (g m) = Waiting \<or> turn_of (g m) = t)"
    "t \<noteq> Composing" "\<And>ts ts'. changes (\<lambda>u u'. u = Waiting \<and> u' = t) ts ts' \<Longrightarrow> conv_step ts ts'"
  shows "implements opening composing c c'"
  unfolding implements_def
proof
  assume ok: "chat_ok opening composing c"
  have "\<forall>m \<in> set (ch_messages c). keeps_turn (\<lambda>u u'. u = Waiting \<and> u' = t) (\<lambda>m. if waiting rid m then g m else m) m"
    by (rule keeps_waiting [OF chat_ok_paired [OF ok]]) (use assms(2) in simp)
  from by_keeps [OF ok assms(1) this _ _ assms(4), of composing] assms(3)
  show "chat_ok opening composing c' \<and> conv_step\<^sup>*\<^sup>* (shown_conversation c) (shown_conversation c')" by auto
qed

lemma progress_implements: "implements opening composing c (effect_progress st c)"
proof (cases "ch_active c = []")
  case False
  let ?run = "d_status st = QUEUED \<or> d_status st = ASSIGNED \<or> d_status st = EXECUTING"
  show ?thesis
    by (rule effect_implements [where rid = "ch_active c" and g = "\<lambda>m. if ?run then m\<lparr>ce_status := Some S_processing\<rparr> else m"
          and t = Sealed])
      (use False in \<open>auto simp: effect_progress_def turn_of_def truthy_def intro: conv_step.accepted\<close>)
qed (simp add: effect_progress_def implements_refl)

lemma accept_implements: "implements opening composing c (effect_accept fits auto st c)"
proof (cases "accepted_output st")
  case (Some out)
  obtain high low cid where out: "out = (high, low, cid)" by (rule prod_cases3)
  let ?g = "\<lambda>m. m\<lparr>ce_outputCID := Some cid, ce_keyHigh := Some high, ce_keyLow := Some low, ce_preview := preview_of st\<rparr>"
  have same: "turn_of (?g m) = turn_of m" for m by (simp add: turn_of_def)
  show ?thesis
  proof (cases auto)
    case True
    show ?thesis
      by (rule effect_implements [where rid = "ch_active c" and g = ?g and t = Sealed])
        (simp_all add: effect_accept_def Some out Let_def True same conv_step.accepted)
  next
    case False
    show ?thesis
      by (rule effect_implements [where rid = "ch_active c" and g = "\<lambda>m. (?g m)\<lparr>ce_status := Some S_ready\<rparr>" and t = Sealed])
        (simp_all add: effect_accept_def Some out Let_def False conv_step.accepted)
  qed
qed (simp add: effect_accept_def implements_refl)

lemma reject_implements: "implements opening composing c (effect_reject fits st c)"
proof (cases "(d_status st \<noteq> REJECTED \<and> d_status st \<noteq> FAILED) \<or> \<not> d_text_mode st")
  case False
  let ?reason = "nullish (d_failure_reason st) ''Quorum rejected the leader result.''"
  show ?thesis
    by (rule effect_implements [where rid = "ch_active c" and t = "Failed ?reason"
          and g = "\<lambda>m. m\<lparr>ce_status := Some S_error, ce_errorMsg := Some ?reason, ce_preview := preview_of st\<rparr>"])
      (use False in \<open>auto simp: effect_reject_def Let_def nullish_def intro: conv_step.rejected\<close>)
qed (simp add: effect_reject_def implements_refl)

lemma effects_implement: "implements opening composing c (fst (chat_effects fits auto runs status c))"
proof (cases status)
  case (Some st)
  obtain r1 r2 r3 r4 where runs: "runs = (r1, r2, r3, r4)" by (rule prod_cases4)
  let ?c1 = "if r1 then effect_progress st c else c"
  let ?c2 = "if r2 then effect_accept fits auto st ?c1 else ?c1"
  let ?c3 = "fst (if r3 then auto_start auto st ?c2 else (?c2, None))"
  have "implements opening composing c ?c1" by (simp add: progress_implements implements_refl)
  also have "implements opening composing ?c1 ?c2" by (simp add: accept_implements implements_refl)
  also have "implements opening composing ?c2 ?c3" by (simp add: implements_refl)
  also have "implements opening composing ?c3 (if r4 then effect_reject fits st ?c3 else ?c3)"
    by (simp add: reject_implements implements_refl)
  also have "(if r4 then effect_reject fits st ?c3 else ?c3) = fst (chat_effects fits auto runs status c)"
    by (simp add: chat_effects_def Some runs Let_def split: prod.split)
  finally show ?thesis .
qed (simp add: chat_effects_def implements_refl)

subsection \<open>The page\<close>

text \<open>The conversation and its poll, the answer whose submission is under way, the answers being decrypted by
  hand, and the requests whose output is being decrypted automatically\<close>

record chat_page =
  cp_turn :: turn_state
  cp_composing :: "string option"
  cp_opening :: "string list"
  cp_fetching :: "string list"

abbreviation page_chat :: "chat_page \<Rightarrow> chat" where
  "page_chat p \<equiv> tu_chat (cp_turn p)"

definition on_page_chat :: "(chat \<Rightarrow> chat) \<Rightarrow> chat_page \<Rightarrow> chat_page" where
  "on_page_chat f p = p\<lparr>cp_turn := (cp_turn p)\<lparr>tu_chat := f (page_chat p)\<rparr>\<rparr>"

definition chat_page_init :: "history \<Rightarrow> chat_page" where
  "chat_page_init st = \<lparr>cp_turn = \<lparr>tu_hook = hook_init, tu_chat = chat_init st\<rparr>, cp_composing = None, cp_opening = [], cp_fetching = []\<rparr>"

text \<open>A commit, and the automatic decryption it starts\<close>

definition commits :: "turn_state \<times> decrypt_start option \<Rightarrow> chat_page \<Rightarrow> chat_page" where
  "commits r p = p\<lparr>cp_turn := fst r, cp_fetching := cp_fetching p @ (case snd r of None \<Rightarrow> [] | Some start \<Rightarrow> [fst start])\<rparr>"

text \<open>The send button is disabled while a submission is under way; a decrypt button belongs to an answer that is ready.\<close>

inductive page_event :: "(hist_entry list \<Rightarrow> bool) \<Rightarrow> chat_page \<Rightarrow> chat_page \<Rightarrow> bool" for fits where
  page_sends: "cp_composing p = None \<Longrightarrow> userId \<noteq> aid \<Longrightarrow> userId \<notin> ce_id ` set (ch_messages (page_chat p)) \<Longrightarrow>
    aid \<notin> ce_id ` set (ch_messages (page_chat p)) \<Longrightarrow>
    page_event fits p ((on_page_chat (pushUserMessage fits userId aid now prompt model) p)\<lparr>cp_composing := Some aid\<rparr>)"
| stages: "cp_composing p = Some aid \<Longrightarrow> st \<in> {S_encrypting, S_processing, S_escrow} \<Longrightarrow>
    page_event fits p (on_page_chat (updateAssistantStatus fits aid st None) p)"
| annotates: "page_event fits p (on_page_chat (updateAssistantMetadata aid metadataPatch) p)"
| gives_up: "cp_composing p = Some aid \<Longrightarrow>
    page_event fits p ((on_page_chat (failAssistantMessage fits aid msg) p)\<lparr>cp_composing := None\<rparr>)"
| posts: "cp_composing p = Some aid \<Longrightarrow> jobId \<noteq> [] \<Longrightarrow> p' = on_page_chat (updateAssistantStatus fits aid S_processing (Some jobId)) p \<Longrightarrow>
    page_event fits p ((commits (next_request fits auto jobId (cp_turn p')) p')\<lparr>cp_composing := None\<rparr>)"
| hears: "page_event fits p (commits (turn_step fits e (cp_turn p)) p)"
| fetched: "rid \<in> set (cp_fetching p) \<Longrightarrow>
    page_event fits p ((on_page_chat (auto_finish fits rid res) p)\<lparr>cp_fetching := remove1 rid (cp_fetching p)\<rparr>)"
| clicks: "m \<in> set (ch_messages (page_chat p)) \<Longrightarrow> \<not> ce_user m \<Longrightarrow> ce_status m = Some S_ready \<Longrightarrow>
    page_event fits p (p\<lparr>cp_opening := cp_opening p @ [ce_id m]\<rparr>)"
| decrypted: "aid \<in> set (cp_opening p) \<Longrightarrow>
    page_event fits p ((on_page_chat (manual_finish fits aid res) p)\<lparr>cp_opening := remove1 aid (cp_opening p)\<rparr>)"

inductive page_run :: "(hist_entry list \<Rightarrow> bool) \<Rightarrow> history \<Rightarrow> chat_page \<Rightarrow> bool" for fits st where
  page_opens: "page_run fits st (chat_page_init st)"
| page_goes_on: "page_run fits st p \<Longrightarrow> page_event fits p p' \<Longrightarrow> page_run fits st p'"

definition page_ok :: "chat_page \<Rightarrow> bool" where
  "page_ok p = chat_ok (cp_opening p) (cp_composing p) (page_chat p)"

definition page_conversation :: "chat_page \<Rightarrow> conversation" where
  "page_conversation p = shown_conversation (page_chat p)"

lemma page_simps [simp]:
  "page_chat (on_page_chat f p) = f (page_chat p)" "cp_composing (on_page_chat f p) = cp_composing p"
  "cp_opening (on_page_chat f p) = cp_opening p" "cp_composing (commits r p) = cp_composing p"
  "cp_opening (commits r p) = cp_opening p" "cp_turn (commits r p) = fst r"
  by (simp_all add: on_page_chat_def commits_def)

subsection \<open>The page implements the specification\<close>

lemma paired_snoc: "paired ms \<Longrightarrow> ce_user u \<Longrightarrow> \<not> ce_user a \<Longrightarrow> ce_requestId a \<noteq> Some [] \<Longrightarrow> paired (ms @ [u, a])"
  by (induction ms rule: paired.induct) auto

lemma conversation_snoc: "paired ms \<Longrightarrow> conversation (ms @ [u, a]) = conversation ms @ [(ce_content u, turn_of a)]"
  by (induction ms rule: paired.induct) auto

lemma push_ok:
  assumes "chat_ok opening None c" "userId \<noteq> aid" "userId \<notin> ce_id ` set (ch_messages c)" "aid \<notin> ce_id ` set (ch_messages c)"
  shows "chat_ok opening (Some aid) (pushUserMessage fits userId aid now prompt model c)
    \<and> conv_step (shown_conversation c) (shown_conversation (pushUserMessage fits userId aid now prompt model c))"
proof -
  let ?u = "new_entry userId True prompt model S_done now" and ?a = "new_entry aid False [] model S_encrypting now"
  have ms: "ch_messages (pushUserMessage fits userId aid now prompt model c) = ch_messages c @ [?u, ?a]"
    by (simp add: pushUserMessage_def Let_def)
  have a: "turn_of ?a = Composing" "ce_id ?a = aid" "\<not> ce_user ?a" "ce_requestId ?a = None" "ce_user ?u" "ce_id ?u = userId"
      "ce_content ?u = prompt"
    by (simp_all add: new_entry_def turn_of_def truthy_def)
  have p: "paired (ch_messages c)" using assms(1) by (rule chat_ok_paired)
  have "userId \<notin> set opening" "aid \<notin> set opening"
    using assms(1,3,4) by (auto simp: chat_ok_def messages_ok_def)
  with assms paired_snoc [OF p, of ?u ?a] a have "messages_ok opening (Some aid) (ch_messages c @ [?u, ?a])"
    by (auto simp: chat_ok_def messages_ok_def)
  moreover have "conv_step (shown_conversation c) (conversation (ch_messages c @ [?u, ?a]))"
    unfolding conversation_snoc [OF p] a by (rule conv_step.asks)
  ultimately show ?thesis unfolding chat_ok_def ms by simp
qed

lemma composing_turn:
  assumes "chat_ok opening (Some aid) c" "m \<in> set (ch_messages c)" "ce_id m = aid"
  shows "\<not> ce_user m" "turn_of m = Composing" "\<not> truthy (ce_requestId m)" "\<not> settled m"
proof -
  from assms have m: "\<not> ce_user m \<and> turn_of m = Composing" by (simp add: chat_ok_def messages_ok_def)
  then show "\<not> ce_user m" "turn_of m = Composing" by simp_all
  from m show "\<not> truthy (ce_requestId m)" "\<not> settled m"
    unfolding turn_of_def settled_def by (simp_all split: if_splits)
qed

lemma chat_ok_request: "chat_ok opening composing c \<Longrightarrow> m \<in> set (ch_messages c) \<Longrightarrow> \<not> ce_user m \<Longrightarrow> ce_requestId m \<noteq> Some []"
  using paired_request [OF chat_ok_paired] .

text \<open>An operation on one answer\<close>

lemma at_answer:
  assumes "chat_ok opening composing c" "ch_messages c' = map (\<lambda>m. if P m then g m else m) (ch_messages c)"
    "\<And>m. m \<in> set (ch_messages c) \<Longrightarrow> P m \<Longrightarrow> ce_id (g m) = ce_id m \<and> ce_user (g m) = ce_user m \<and> \<not> ce_user m
      \<and> ce_requestId (g m) \<noteq> Some [] \<and> (turn_of (g m) = turn_of m \<or> R (turn_of m) (turn_of (g m)))"
    "\<And>t t'. R t t' \<Longrightarrow> t' \<noteq> Composing"
    "composing' = None \<or> composing' = composing \<and> (\<forall>t t'. R t t' \<longrightarrow> t \<noteq> Composing)"
    "\<And>ts ts'. changes R ts ts' \<Longrightarrow> conv_step ts ts'"
  shows "chat_ok opening composing' c' \<and> conv_step (shown_conversation c) (shown_conversation c')"
proof (rule by_keeps [OF assms(1,2) _ assms(4,5,6)])
  show "\<forall>m \<in> set (ch_messages c). keeps_turn R (\<lambda>m. if P m then g m else m) m"
    using assms(3) chat_ok_request [OF assms(1)] by (simp add: keeps_turn_def)
qed

lemma stage_implements:
  assumes "chat_ok opening (Some aid) c" "st \<in> {S_encrypting, S_processing, S_escrow}"
  shows "chat_ok opening (Some aid) (updateAssistantStatus fits aid st None c)
    \<and> conv_step (shown_conversation c) (shown_conversation (updateAssistantStatus fits aid st None c))"
proof (rule at_answer [OF assms(1), where P = "\<lambda>m. ce_id m = aid" and g = "\<lambda>m. m\<lparr>ce_status := Some st\<rparr>"
      and R = "\<lambda>t t'. t = Waiting \<and> t' = Sealed"])
  fix m assume m: "m \<in> set (ch_messages c)" "ce_id m = aid"
  note composing_turn [OF assms(1) m] chat_ok_request [OF assms(1) m(1)]
  with assms(2) show "ce_id (m\<lparr>ce_status := Some st\<rparr>) = ce_id m \<and> ce_user (m\<lparr>ce_status := Some st\<rparr>) = ce_user m \<and> \<not> ce_user m
      \<and> ce_requestId (m\<lparr>ce_status := Some st\<rparr>) \<noteq> Some [] \<and> (turn_of (m\<lparr>ce_status := Some st\<rparr>) = turn_of m
        \<or> turn_of m = Waiting \<and> turn_of (m\<lparr>ce_status := Some st\<rparr>) = Sealed)"
    by (auto simp: turn_of_def)
qed (auto simp: updateAssistantStatus_def truthy_def conv_step.accepted)

lemma metadata_implements: "implements opening composing c (updateAssistantMetadata aid metadataPatch c)"
  unfolding implements_def
proof
  let ?f = "\<lambda>m. if ce_id m \<noteq> aid then m else m\<lparr>ce_meta := metadataPatch (ce_meta m)\<rparr>" and ?R = "\<lambda>t t'. t = Waiting \<and> t' = Sealed"
  assume ok: "chat_ok opening composing c"
  have f: "ch_messages (updateAssistantMetadata aid metadataPatch c) = map ?f (ch_messages c)"
    by (simp add: updateAssistantMetadata_def)
  have "\<forall>m \<in> set (ch_messages c). keeps_turn ?R ?f m"
    using chat_ok_request [OF ok] by (simp add: keeps_turn_def turn_of_def)
  then have "chat_ok opening composing (updateAssistantMetadata aid metadataPatch c)
      \<and> conv_step (shown_conversation c) (shown_conversation (updateAssistantMetadata aid metadataPatch c))"
    by (rule by_keeps [OF ok f]) (simp_all add: conv_step.accepted)
  then show "chat_ok opening composing (updateAssistantMetadata aid metadataPatch c)
      \<and> conv_step\<^sup>*\<^sup>* (shown_conversation c) (shown_conversation (updateAssistantMetadata aid metadataPatch c))"
    by blast
qed

lemma give_up_implements:
  assumes "chat_ok opening (Some aid) c"
  shows "chat_ok opening None (failAssistantMessage fits aid msg c)
    \<and> conv_step (shown_conversation c) (shown_conversation (failAssistantMessage fits aid msg c))"
proof (rule at_answer [OF assms, where P = "\<lambda>m. ce_id m = aid" and g = "\<lambda>m. m\<lparr>ce_status := Some S_error, ce_errorMsg := Some msg\<rparr>"
      and R = "\<lambda>t t'. t = Composing \<and> t' = Failed msg"])
  fix m assume m: "m \<in> set (ch_messages c)" "ce_id m = aid"
  let ?g = "m\<lparr>ce_status := Some S_error, ce_errorMsg := Some msg\<rparr>"
  show "ce_id ?g = ce_id m \<and> ce_user ?g = ce_user m \<and> \<not> ce_user m \<and> ce_requestId ?g \<noteq> Some []
      \<and> (turn_of ?g = turn_of m \<or> turn_of m = Composing \<and> turn_of ?g = Failed msg)"
    using composing_turn [OF assms m] chat_ok_request [OF assms m(1)] by (simp add: nullish_def)
qed (auto simp: failAssistantMessage_def conv_step.refused)

text \<open>An empty job id leaves the answer where it was\<close>

lemma post_implements:
  assumes "chat_ok opening (Some aid) c"
  shows "chat_ok opening None (updateAssistantStatus fits aid S_processing (Some jobId) c)
    \<and> conv_step (shown_conversation c) (shown_conversation (updateAssistantStatus fits aid S_processing (Some jobId) c))"
proof (rule at_answer [OF assms, where P = "\<lambda>m. ce_id m = aid" and R = "\<lambda>t t'. t = Composing \<and> t' = Waiting"
      and g = "\<lambda>m. if truthy (Some jobId) then m\<lparr>ce_status := Some S_processing, ce_requestId := Some jobId\<rparr>
          else m\<lparr>ce_status := Some S_processing\<rparr>"])
  fix m assume m: "m \<in> set (ch_messages c)" "ce_id m = aid"
  let ?g = "if truthy (Some jobId) then m\<lparr>ce_status := Some S_processing, ce_requestId := Some jobId\<rparr> else m\<lparr>ce_status := Some S_processing\<rparr>"
  note mine = composing_turn [OF assms m] chat_ok_request [OF assms m(1)]
  show "ce_id ?g = ce_id m \<and> ce_user ?g = ce_user m \<and> \<not> ce_user m \<and> ce_requestId ?g \<noteq> Some []
      \<and> (turn_of ?g = turn_of m \<or> turn_of m = Composing \<and> turn_of ?g = Waiting)"
    using mine by (simp add: turn_of_def truthy_def)
qed (auto simp: updateAssistantStatus_def Let_def conv_step.submitted)

lemma open_implements:
  assumes "chat_ok opening composing c" "ch_messages c' = map (\<lambda>m. if P m then show_result res m else m) (ch_messages c)"
    "\<And>m. m \<in> set (ch_messages c) \<Longrightarrow> P m \<Longrightarrow> \<not> ce_user m \<and> turn_of m \<noteq> Composing"
  shows "chat_ok opening composing c' \<and> conv_step (shown_conversation c) (shown_conversation c')"
proof (rule at_answer [OF assms(1,2)])
  let ?res = "case res of Inl e \<Rightarrow> Inl (error_message_or e ''Decryption failed'') | Inr answer \<Rightarrow> Inr answer"
  have shown: "ce_id (show_result res m) = ce_id m \<and> ce_user (show_result res m) = ce_user m
      \<and> ce_requestId (show_result res m) = ce_requestId m \<and> turn_of (show_result res m) = opened ?res" for m
    by (cases res) (simp_all add: show_result_def opened_def nullish_def)
  fix m assume m: "m \<in> set (ch_messages c)" "P m"
  show "ce_id (show_result res m) = ce_id m \<and> ce_user (show_result res m) = ce_user m \<and> \<not> ce_user m
      \<and> ce_requestId (show_result res m) \<noteq> Some []
      \<and> (turn_of (show_result res m) = turn_of m \<or> turn_of m \<noteq> Composing \<and> turn_of (show_result res m) = opened ?res)"
    using shown [of m] assms(3) [OF m] chat_ok_request [OF assms(1) m(1)] by simp
qed (auto simp: opened_def conv_step.opens split: sum.splits)

lemma fetched_implements:
  assumes "chat_ok opening composing c"
  shows "chat_ok opening composing (auto_finish fits rid res c)
    \<and> conv_step (shown_conversation c) (shown_conversation (auto_finish fits rid res c))"
proof (rule open_implements [OF assms, where res = res and P = "\<lambda>m. \<not> ce_user m \<and> ce_requestId m = Some rid"])
  fix m assume "m \<in> set (ch_messages c)" "\<not> ce_user m \<and> ce_requestId m = Some rid"
  with chat_ok_request [OF assms, of m] show "\<not> ce_user m \<and> turn_of m \<noteq> Composing"
    by (simp add: turn_of_def truthy_def)
qed (simp add: auto_finish_def)

lemma decrypted_implements:
  assumes "chat_ok opening composing c" "aid \<in> set opening"
  shows "chat_ok opening composing (manual_finish fits aid res c)
    \<and> conv_step (shown_conversation c) (shown_conversation (manual_finish fits aid res c))"
proof (rule open_implements [OF assms(1), where res = res and P = "\<lambda>m. ce_id m = aid"])
  fix m assume "m \<in> set (ch_messages c)" "ce_id m = aid"
  with assms show "\<not> ce_user m \<and> turn_of m \<noteq> Composing" by (simp add: chat_ok_def messages_ok_def)
qed (simp add: manual_finish_def)

lemma chat_ok_fewer: "chat_ok opening composing c \<Longrightarrow> set opening' \<subseteq> set opening \<Longrightarrow> chat_ok opening' composing c"
  unfolding chat_ok_def messages_ok_def by blast

lemma click_ok:
  assumes "chat_ok opening composing c" "m \<in> set (ch_messages c)" "\<not> ce_user m" "ce_status m = Some S_ready"
  shows "chat_ok (opening @ [ce_id m]) composing c"
proof -
  have only: "m' = m" if "m' \<in> set (ch_messages c)" "ce_id m' = ce_id m" for m'
    using assms(1,2) that by (auto simp: chat_ok_def messages_ok_def distinct_map inj_on_def)
  have "turn_of m \<noteq> Composing" using assms(4) by simp
  with assms(1,2,3) only show ?thesis by (auto simp: chat_ok_def messages_ok_def)
qed

lemma next_implements: "implements opening composing (tu_chat s) (tu_chat (fst (next_request fits auto rid s)))"
proof (cases "rid = ch_active (tu_chat s)")
  case False
  have "implements opening composing (tu_chat s) (setActiveRequestId rid (tu_chat s))"
    by (simp add: implements_refl setActiveRequestId_def)
  also note effects_implement
  finally show ?thesis unfolding next_request_chat [OF False] .
qed (simp add: next_request_def implements_refl)

lemma turn_implements: "implements opening composing (tu_chat s) (tu_chat (fst (turn_step fits e s)))"
proof -
  obtain auto runs status where "tu_chat (fst (turn_step fits e s)) = fst (chat_effects fits auto runs status (tu_chat s))"
    using turn_step_chat by blast
  then show ?thesis by (simp add: effects_implement)
qed

text \<open>Every event of the page is a run of the specification\<close>

lemma page_event_implements:
  assumes "page_event fits p p'" "page_ok p"
  shows "page_ok p' \<and> conv_step\<^sup>*\<^sup>* (page_conversation p) (page_conversation p')"
  using assms(1)
proof cases
  case (page_sends userId aid now prompt model)
  with push_ok [of "cp_opening p" "page_chat p" userId aid fits now prompt model] assms(2)
  show ?thesis by (auto simp: page_ok_def page_conversation_def)
next
  case (stages aid st)
  with stage_implements [of "cp_opening p" aid "page_chat p" st fits] assms(2)
  show ?thesis by (auto simp: page_ok_def page_conversation_def)
next
  case (annotates aid metadataPatch)
  with metadata_implements [of "cp_opening p" "cp_composing p" "page_chat p" aid metadataPatch] assms(2)
  show ?thesis by (simp add: page_ok_def page_conversation_def implements_def)
next
  case (gives_up aid msg)
  with give_up_implements [of "cp_opening p" aid "page_chat p" fits msg] assms(2)
  show ?thesis by (auto simp: page_ok_def page_conversation_def)
next
  case (posts aid jobId q auto)
  let ?c = "updateAssistantStatus fits aid S_processing (Some jobId) (page_chat p)"
  have q: "page_chat q = ?c" "cp_opening q = cp_opening p" using posts(4) by simp_all
  have first: "chat_ok (cp_opening p) None ?c \<and> conv_step (page_conversation p) (shown_conversation ?c)"
    using post_implements [of "cp_opening p" aid "page_chat p" fits jobId] assms(2) posts(2)
    by (simp add: page_ok_def page_conversation_def)
  have "implements (cp_opening p) None ?c (tu_chat (fst (next_request fits auto jobId (cp_turn q))))"
    using next_implements [of "cp_opening p" None "cp_turn q"] unfolding q .
  with first q posts(1) show ?thesis
    by (auto simp: page_ok_def page_conversation_def implements_def intro: converse_rtranclp_into_rtranclp)
next
  case (hears e)
  with turn_implements [of "cp_opening p" "cp_composing p" "cp_turn p" fits e] assms(2)
  show ?thesis by (simp add: page_ok_def page_conversation_def implements_def)
next
  case (fetched rid res)
  with fetched_implements [of "cp_opening p" "cp_composing p" "page_chat p" fits rid res] assms(2)
  show ?thesis by (auto simp: page_ok_def page_conversation_def)
next
  case (clicks m)
  with click_ok [of "cp_opening p" "cp_composing p" "page_chat p" m] assms(2)
  show ?thesis by (simp add: page_ok_def page_conversation_def)
next
  case (decrypted aid res)
  with decrypted_implements [of "cp_opening p" "cp_composing p" "page_chat p" aid fits res] assms(2)
  have "chat_ok (cp_opening p) (cp_composing p) (manual_finish fits aid res (page_chat p))
      \<and> conv_step (page_conversation p) (shown_conversation (manual_finish fits aid res (page_chat p)))"
    by (simp add: page_ok_def page_conversation_def)
  with decrypted chat_ok_fewer [OF _ set_remove1_subset] show ?thesis
    by (auto simp: page_ok_def page_conversation_def)
qed

lemma page_run_ok: "page_run fits st p \<Longrightarrow> page_ok p \<and> conv_step\<^sup>*\<^sup>* [] (page_conversation p)"
proof (induction rule: page_run.induct)
  case page_opens
  show ?case by (simp add: page_ok_def page_conversation_def chat_page_init_def chat_init_def chat_ok_def messages_ok_def)
next
  case (page_goes_on p p')
  with page_event_implements [OF page_goes_on(2)] show ?case by (auto intro: rtranclp_trans)
qed

text \<open>C10: the chat page implements the specification of a conversation. Whatever order the events of the page
  come in, submissions, statuses, commits of a new request, changes of the CoFHE client, automatic and manual
  decryptions, the messages stay pairs of a question and its answer with distinct ids, they read off as a
  conversation that the specification can reach, and each event is a run of the specification's steps: an
  answer is sealed or rejected only while it waits, is refused only while it is being submitted, and is
  opened only after it was submitted. So no question is changed or dropped, and no answer goes back to
  an earlier stage.\<close>

theorem page_implements_conversation:
  assumes "page_run fits st p" "page_event fits p p'"
  shows "conv_step\<^sup>*\<^sup>* [] (page_conversation p) \<and> page_ok p'
    \<and> conv_step\<^sup>*\<^sup>* (page_conversation p) (page_conversation p') \<and> onward (page_conversation p) (page_conversation p')"
  using page_run_ok [OF assms(1)] page_event_implements [OF assms(2)] conv_steps_onward by blast

definition sending_page :: chat_page where
  "sending_page = (on_page_chat (pushUserMessage (\<lambda>_. True) ''u'' ''a'' 5 [104, 105] ''M'') (chat_page_init Absent))\<lparr>cp_composing := Some ''a''\<rparr>"

definition posted_page :: chat_page where
  "posted_page = (let p = on_page_chat (updateAssistantStatus (\<lambda>_. True) ''a'' S_processing (Some ''job'')) sending_page in
     (commits (next_request (\<lambda>_. True) False ''job'' (cp_turn p)) p)\<lparr>cp_composing := None\<rparr>)"

definition sealed_page :: chat_page where
  "sealed_page = commits (turn_step (\<lambda>_. True) (Status_arrives False (mapJobToDemoStatus done_job)) (cp_turn posted_page)) posted_page"

lemma posted_chat: "page_chat posted_page = asked_chat" "hs_status (tu_hook (cp_turn posted_page)) = None"
  by (simp_all add: posted_page_def sending_page_def on_page_chat_def commits_def chat_page_init_def next_request_def asked_chat_def
      hook_init_def change_id_def render_id_def id_effect_def chat_effects_def updateAssistantStatus_def pushUserMessage_def chat_init_def Let_def)

lemma sealed_chat: "page_chat sealed_page = ready_chat"
proof -
  have "accepted_output (mapJobToDemoStatus done_job) = Some (''7'', ''8'', ''Qm'')" by (rule done_job_output)
  note stage = accepted_stage [OF this]
  show ?thesis
    by (simp add: sealed_page_def commits_def turn_step_def posted_chat Let_def chat_effects_def final_progress effect_reject_def
        auto_start_def done_job_output stage ready_chat_def accept_deps_def)
qed

theorem page_implements_conversation_witness:
  "conv_step\<^sup>*\<^sup>* [] [([104, 105], Sealed)] \<and> conv_step\<^sup>*\<^sup>* [([104, 105], Sealed)] [([104, 105], Answered [79, 75])]"
proof -
  let ?fits = "\<lambda>_ :: hist_entry list. True" and ?p = "sealed_page\<lparr>cp_opening := cp_opening sealed_page @ [''a'']\<rparr>"
  let ?m = "ch_messages ready_chat ! 1"
  let ?q = "(on_page_chat (manual_finish ?fits ''a'' (Inr [79, 75])) ?p)\<lparr>cp_opening := remove1 ''a'' (cp_opening ?p)\<rparr>"
  have "page_run ?fits Absent sending_page"
    unfolding sending_page_def
    by (rule page_goes_on [OF page_opens page_sends]) (simp_all add: chat_page_init_def chat_init_def)
  then have "page_run ?fits Absent posted_page"
    unfolding posted_page_def Let_def by (rule page_goes_on [OF _ posts [OF _ _ refl]]) (simp_all add: sending_page_def)
  then have "page_run ?fits Absent sealed_page"
    unfolding sealed_page_def by (rule page_goes_on [OF _ hears])
  moreover have "page_event ?fits sealed_page (sealed_page\<lparr>cp_opening := cp_opening sealed_page @ [ce_id ?m]\<rparr>)"
    by (rule clicks) (simp_all add: sealed_chat ready_messages new_entry_def)
  moreover have "ce_id ?m = ''a''" by (simp add: ready_messages new_entry_def)
  ultimately have run: "page_run ?fits Absent ?p" by (metis page_goes_on)
  have event: "page_event ?fits ?p ?q" by (rule decrypted) simp
  have "page_conversation ?p = [([104, 105], Sealed)]"
    by (simp add: page_conversation_def sealed_chat ready_messages new_entry_def)
  moreover have "page_conversation ?q = [([104, 105], Answered [79, 75])]"
    by (simp add: page_conversation_def on_page_chat_def sealed_chat manual_finish_def ready_messages new_entry_def show_result_def)
  ultimately show ?thesis using page_implements_conversation [OF run event] by simp
qed

end
