(* ===== verification/Js_Number.thy ===== *)
theory Js_Number
  imports Js_BigInt "HOL-Library.Log_Nat"
begin

section \<open>Numbers: doubles and their decimals\<close>

text \<open>
  The pages divide amounts as JavaScript numbers and print them with \<open>toFixed\<close>. Here \<open>fl\<close> is the
  rounding of a rational to the nearest double, ties to even (53 bits; amounts are far from overflow and
  underflow, which are left out), \<open>to_fixed\<close> is \<open>toFixed\<close> below \<open>10 ^ 21\<close>, \<open>to_locale\<close> is a bigint's
  \<open>toLocaleString\<close> in the locale \<open>en-US\<close>.
\<close>

subsection \<open>Rounding to 53 bits\<close>

definition round_even :: "rat \<Rightarrow> int" where
  "round_even r = (let f = \<lfloor>r\<rfloor>; d = r - of_int f in
     if d < 1 / 2 then f else if 1 / 2 < d then f + 1 else if even f then f else f + 1)"

definition pow2 :: "int \<Rightarrow> rat" where
  "pow2 e = (if 0 \<le> e then 2 ^ nat e else 1 / 2 ^ nat (- e))"

definition ilog2 :: "rat \<Rightarrow> int" where
  "ilog2 q = (case quotient_of q of (a, b) \<Rightarrow>
     let k = bitlen a - bitlen b in if pow2 k \<le> q then k else k - 1)"

definition fl :: "rat \<Rightarrow> rat" where
  "fl q = (if q = 0 then 0 else
     let e = ilog2 \<bar>q\<bar> - 52 in sgn q * (of_int (round_even (\<bar>q\<bar> / pow2 e)) * pow2 e))"

lemma round_even_error: "\<bar>of_int (round_even r) - r\<bar> \<le> 1 / 2"
proof -
  have "of_int \<lfloor>r\<rfloor> \<le> r" "r < of_int \<lfloor>r\<rfloor> + 1" using floor_correct [of r] by auto
  then show ?thesis by (auto simp: round_even_def Let_def abs_le_iff)
qed

lemma round_even_int [simp]: "round_even (of_int n) = n"
  by (simp add: round_even_def)

lemma pow2_pos [simp]: "0 < pow2 e"
  by (simp add: pow2_def)

lemma pow2_powi: "pow2 e = 2 powi e"
proof (cases "0 \<le> e")
  case False
  then show ?thesis by (simp add: pow2_def power_int_def power_inverse inverse_eq_divide power_one_over)
qed (simp add: pow2_def power_int_def)

lemma pow2_add: "pow2 (a + b) = pow2 a * pow2 b"
  unfolding pow2_powi by (rule power_int_add) simp

lemma pow2_1 [simp]: "pow2 1 = 2" "pow2 0 = 1" "pow2 (- 1) = 1 / 2"
  by (simp_all add: pow2_def)

lemma bitlen_pow2:
  assumes "0 < a"
  shows "pow2 (bitlen a - 1) \<le> of_int a" "of_int a < pow2 (bitlen a)"
proof -
  let ?m = "floorlog 2 (nat a)"
  have "0 < ?m" using assms by (simp add: floorlog_def)
  have b: "2 ^ (?m - 1) \<le> nat a" "nat a < 2 ^ ?m" using floorlog_bounds [of "nat a" 2] assms by auto
  have "(2 ^ (?m - 1) :: int) \<le> a" "a < 2 ^ ?m" using b assms by (simp_all add: nat_less_iff le_nat_iff)
  then have "(of_int (2 ^ (?m - 1)) :: rat) \<le> of_int a" "(of_int a :: rat) < of_int (2 ^ ?m)"
    by (simp_all only: of_int_le_iff of_int_less_iff)
  then show "pow2 (bitlen a - 1) \<le> of_int a" "of_int a < pow2 (bitlen a)"
    using \<open>0 < ?m\<close> by (simp_all add: bitlen_def pow2_def nat_diff_distrib)
qed

lemma ilog2_correct:
  assumes "0 < q"
  shows "pow2 (ilog2 q) \<le> q" "q < 2 * pow2 (ilog2 q)"
proof -
  obtain a b where ab: "quotient_of q = (a, b)" by (rule prod.exhaust)
  then have q: "q = of_int a / of_int b" "0 < b" using quotient_of_div quotient_of_denom_pos by blast+
  with assms have "0 < a" by (simp add: zero_less_divide_iff)
  let ?m = "bitlen a" and ?n = "bitlen b"
  note m = bitlen_pow2 [OF \<open>0 < a\<close>] and n = bitlen_pow2 [OF \<open>0 < b\<close>]
  have "q < 2 * pow2 (?m - ?n)"
  proof -
    have "of_int a < pow2 ?m" by (rule m)
    also have "pow2 ?m = pow2 (?n - 1) * (2 * pow2 (?m - ?n))" by (simp add: pow2_add [symmetric] flip: pow2_1(1))
    also have "\<dots> \<le> of_int b * (2 * pow2 (?m - ?n))" using n(1) by (simp add: mult_right_mono less_imp_le)
    finally have "of_int a < of_int b * (2 * pow2 (?m - ?n))" .
    with q show ?thesis by (simp add: divide_less_eq mult.commute)
  qed
  moreover have "pow2 (?m - ?n - 1) \<le> q"
  proof -
    have "pow2 (?m - ?n - 1) * of_int b \<le> pow2 (?m - ?n - 1) * pow2 ?n" using n(2) by (simp add: less_imp_le)
    also have "\<dots> = pow2 (?m - 1)" by (simp add: pow2_add [symmetric])
    also have "\<dots> \<le> of_int a" by (rule m)
    finally have "pow2 (?m - ?n - 1) * of_int b \<le> of_int a" .
    with q show ?thesis by (simp add: le_divide_eq)
  qed
  moreover have "2 * pow2 (?m - ?n - 1) = pow2 (?m - ?n)"
    by (simp add: pow2_add [symmetric] flip: pow2_1(1))
  ultimately show "pow2 (ilog2 q) \<le> q" "q < 2 * pow2 (ilog2 q)" by (auto simp: ilog2_def ab Let_def)
qed

text \<open>The relative error of a rounding is at most \<open>2 ^ -53\<close>; integers below \<open>2 ^ 53\<close> are exact.\<close>

lemma fl_error: "\<bar>fl q - q\<bar> \<le> \<bar>q\<bar> / 2 ^ 53"
proof (cases "q = 0")
  case False
  let ?e = "ilog2 \<bar>q\<bar> - 52" and ?r = "\<bar>q\<bar> / pow2 (ilog2 \<bar>q\<bar> - 52)"
  have "2 ^ 52 * pow2 ?e = pow2 (ilog2 \<bar>q\<bar>)"
    using pow2_add [of 52 ?e] by (simp add: pow2_def [of 52])
  with ilog2_correct(1) [of "\<bar>q\<bar>"] False have big: "2 ^ 52 * pow2 ?e \<le> \<bar>q\<bar>" by simp
  have "fl q - q = sgn q * (of_int (round_even ?r) * pow2 ?e - \<bar>q\<bar>)"
    using False by (simp add: fl_def Let_def right_diff_distrib sgn_mult_abs)
  also have "of_int (round_even ?r) * pow2 ?e - \<bar>q\<bar> = (of_int (round_even ?r) - ?r) * pow2 ?e"
    by (simp add: left_diff_distrib less_imp_neq [OF pow2_pos, symmetric])
  finally have "\<bar>fl q - q\<bar> = \<bar>of_int (round_even ?r) - ?r\<bar> * pow2 ?e"
    using False by (simp add: abs_mult abs_sgn_eq less_imp_le)
  also have "\<dots> \<le> 1 / 2 * pow2 ?e" by (rule mult_right_mono [OF round_even_error less_imp_le]) simp
  finally show ?thesis using big by simp
qed (simp add: fl_def)

lemma fl_int:
  assumes "\<bar>n\<bar> < 2 ^ 53"
  shows "fl (of_int n) = of_int n"
proof (cases "n = 0")
  case False
  let ?q = "of_int \<bar>n\<bar> :: rat"
  let ?e = "ilog2 ?q - 52"
  have "0 < ?q" using False by simp
  then have "pow2 (ilog2 ?q) \<le> ?q" by (rule ilog2_correct)
  also have "?q < 2 ^ 53" using assms by (simp flip: of_int_less_iff)
  finally have "pow2 (ilog2 ?q) < pow2 53" by (simp add: pow2_def)
  then have e: "?e \<le> 0" using power_int_increasing [of 53 "ilog2 ?q" "2 :: rat"] by (cases "53 \<le> ilog2 ?q") (auto simp: pow2_powi)
  have "?q / pow2 ?e = of_int (\<bar>n\<bar> * 2 ^ nat (- ?e))"
  proof (cases "?e = 0")
    case False
    with e show ?thesis by (simp add: pow2_def)
  qed simp
  then have "of_int (round_even (?q / pow2 ?e)) * pow2 ?e = ?q / pow2 ?e * pow2 ?e"
    by (simp only: round_even_int)
  also have "\<dots> = ?q" by (simp add: less_imp_neq [OF pow2_pos, symmetric])
  finally show ?thesis using False by (simp add: fl_def Let_def flip: of_int_abs) (simp add: sgn_if)
qed (simp add: fl_def)

subsection \<open>Decimals\<close>

text \<open>\<open>n\<close> units of the last of \<open>d\<close> places\<close>

definition decimal :: "nat \<Rightarrow> nat \<Rightarrow> string" where
  "decimal d n = (if d = 0 then nat_str n else nat_str (n div 10 ^ d) @ ''.'' @ fixed_digits 10 d (n mod 10 ^ d))"

text \<open>\<open>x.toFixed(d)\<close>: the units nearest to \<open>x\<close>, the larger of two\<close>

definition fixed_units :: "nat \<Rightarrow> rat \<Rightarrow> nat" where
  "fixed_units d x = nat \<lfloor>x * 10 ^ d + 1 / 2\<rfloor>"

definition to_fixed :: "nat \<Rightarrow> rat \<Rightarrow> string" where
  "to_fixed d x = (if x < 0 then ''-'' @ decimal d (fixed_units d (- x)) else decimal d (fixed_units d x))"

text \<open>\<open>n.toLocaleString()\<close>: groups of three, from the right\<close>

fun group_rev :: "string \<Rightarrow> string" where
  "group_rev (a # b # c # d # s) = a # b # c # CHR '','' # group_rev (d # s)"
| "group_rev s = s"

definition to_locale :: "int \<Rightarrow> string" where
  "to_locale i = (if i < 0 then ''-'' else []) @ rev (group_rev (rev (nat_str (nat \<bar>i\<bar>))))"

text \<open>\<open>Number(s)\<close> of a string that is decimal digits with at most one point; \<open>None\<close> for any other\<close>

definition decimal_number :: "string \<Rightarrow> rat option" where
  "decimal_number s = (case str_split ''.'' s of
      [a] \<Rightarrow> map_option (\<lambda>n. fl (of_nat n)) (parse_nat 10 a)
    | [a, b] \<Rightarrow> map_option (\<lambda>n. fl (of_nat n / 10 ^ length b)) (parse_nat 10 (a @ b))
    | _ \<Rightarrow> None)"

lemma fixed_units_near:
  assumes "0 \<le> x"
  shows "\<bar>of_nat (fixed_units d x) - x * 10 ^ d\<bar> \<le> 1 / 2"
proof -
  have "0 \<le> \<lfloor>x * 10 ^ d + 1 / 2\<rfloor>" using assms by simp
  then have "of_nat (fixed_units d x) = (of_int \<lfloor>x * 10 ^ d + 1 / 2\<rfloor> :: rat)" by (simp add: fixed_units_def)
  moreover have "of_int \<lfloor>x * 10 ^ d + 1 / 2\<rfloor> \<le> x * 10 ^ d + 1 / 2" "x * 10 ^ d + 1 / 2 < of_int \<lfloor>x * 10 ^ d + 1 / 2\<rfloor> + 1"
    using floor_correct [of "x * 10 ^ d + 1 / 2"] by auto
  ultimately show ?thesis by linarith
qed

lemma fixed_units_exact:
  assumes "\<bar>x * 10 ^ d - of_nat n\<bar> < 1 / 2"
  shows "fixed_units d x = n"
proof -
  have "of_nat n \<le> x * 10 ^ d + 1 / 2" "x * 10 ^ d + 1 / 2 < of_nat n + 1" using assms by linarith+
  then have "\<lfloor>x * 10 ^ d + 1 / 2\<rfloor> = int n" by (simp add: floor_eq_iff)
  then show ?thesis by (simp add: fixed_units_def)
qed

text \<open>The groups hide nothing: without the commas the digits are there.\<close>

lemma group_rev_filter: "CHR '','' \<notin> set s \<Longrightarrow> filter (\<lambda>c. c \<noteq> CHR '','') (group_rev s) = s"
proof (induction s rule: group_rev.induct)
  case (1 a b c d s)
  then show ?case by auto
qed (auto intro: filter_True)

lemma nat_str_no_comma: "CHR '','' \<notin> set (nat_str n)"
proof
  assume "CHR '','' \<in> set (nat_str n)"
  then have "CHR '','' \<in> digit_char ` {..<10}" using set_nat_to_string [of 10 n] by (auto simp: nat_str_def)
  from decimal_char [OF this] show False by simp
qed

lemma to_locale_digits: "filter (\<lambda>c. c \<noteq> CHR '','') (to_locale (int n)) = nat_str n"
  using group_rev_filter [of "rev (nat_str n)"] nat_str_no_comma [of n] by (simp add: to_locale_def rev_filter [symmetric])

subsection \<open>Errors of a computation\<close>

text \<open>\<open>x\<close> is \<open>v\<close> up to \<open>k\<close> parts in \<open>2 ^ 53\<close>; each operation adds to \<open>k\<close>.\<close>

definition near :: "nat \<Rightarrow> rat \<Rightarrow> rat \<Rightarrow> bool" where
  "near k x v = (0 < v \<and> k \<le> 1000 \<and> \<bar>x - v\<bar> \<le> v * of_nat k / 2 ^ 53)"

lemma near_bound:
  assumes "near k x v"
  shows "\<bar>x - v\<bar> \<le> v / 10 ^ 12"
proof -
  have "\<bar>x - v\<bar> \<le> v * of_nat k / 2 ^ 53" using assms by (simp add: near_def)
  also have "v * of_nat k / 2 ^ 53 \<le> v * 1000 / 2 ^ 53"
    using assms by (intro divide_right_mono mult_left_mono) (simp_all add: near_def)
  also have "\<dots> \<le> v / 10 ^ 12" using assms by (simp add: near_def)
  finally show ?thesis .
qed

lemma near_exact: "0 < v \<Longrightarrow> near 0 v v"
  by (simp add: near_def)

lemma near_fl:
  assumes "near k x v" "k \<le> 900"
  shows "near (k + 2) (fl x) v"
proof -
  have v: "0 < v" using assms(1) by (simp add: near_def)
  from near_bound [OF assms(1)] have "\<bar>x - v\<bar> \<le> v" by (rule order_trans) (use v in simp)
  then have "\<bar>x\<bar> \<le> 2 * v" by linarith
  then have "\<bar>x\<bar> / 2 ^ 53 \<le> 2 * v / 2 ^ 53" by (rule divide_right_mono) simp
  with fl_error [of x] have "\<bar>fl x - x\<bar> \<le> 2 * v / 2 ^ 53" by (rule order_trans)
  moreover have "\<bar>x - v\<bar> \<le> v * of_nat k / 2 ^ 53" using assms(1) by (simp add: near_def)
  moreover have "v * of_nat (k + 2) / 2 ^ 53 = 2 * v / 2 ^ 53 + v * of_nat k / 2 ^ 53" by (simp add: add_divide_distrib algebra_simps)
  ultimately have "\<bar>fl x - v\<bar> \<le> v * of_nat (k + 2) / 2 ^ 53" by linarith
  with v assms(2) show ?thesis by (simp add: near_def)
qed

lemma near_mult:
  assumes "near a x v" "near b y w" "2 * a + b \<le> 900"
  shows "near (2 * a + b) (x * y) (v * w)"
proof -
  have pos: "0 < v" "0 < w" and x: "\<bar>x - v\<bar> \<le> v * of_nat a / 2 ^ 53" and y: "\<bar>y - w\<bar> \<le> w * of_nat b / 2 ^ 53"
    using assms by (simp_all add: near_def)
  from near_bound [OF assms(2)] have "\<bar>y - w\<bar> \<le> w" by (rule order_trans) (use pos in simp)
  then have "\<bar>y\<bar> \<le> 2 * w" by linarith
  have "x * y - v * w = (x - v) * y + v * (y - w)" by (simp add: algebra_simps)
  then have "\<bar>x * y - v * w\<bar> \<le> \<bar>x - v\<bar> * \<bar>y\<bar> + v * \<bar>y - w\<bar>"
    using abs_triangle_ineq [of "(x - v) * y" "v * (y - w)"] pos by (simp add: abs_mult)
  also have "\<dots> \<le> (v * of_nat a / 2 ^ 53) * (2 * w) + v * (w * of_nat b / 2 ^ 53)"
    using x y \<open>\<bar>y\<bar> \<le> 2 * w\<close> pos by (intro add_mono mult_mono mult_left_mono) simp_all
  also have "\<dots> = v * w * of_nat (2 * a + b) / 2 ^ 53" by (simp add: add_divide_distrib algebra_simps)
  finally show ?thesis using pos assms(3) by (simp add: near_def)
qed

lemma near_div:
  assumes "near a x v" "near b y w" "2 * (a + b) \<le> 900"
  shows "near (2 * (a + b)) (x / y) (v / w)"
proof -
  have pos: "0 < v" "0 < w" and x: "\<bar>x - v\<bar> \<le> v * of_nat a / 2 ^ 53" and y: "\<bar>y - w\<bar> \<le> w * of_nat b / 2 ^ 53"
    using assms by (simp_all add: near_def)
  from near_bound [OF assms(2)] have "\<bar>y - w\<bar> \<le> w / 2" by (rule order_trans) (use pos in simp)
  then have half: "w / 2 \<le> y" "0 < y" using pos by linarith+
  have "x * w - v * y = (x - v) * w - v * (y - w)" by (simp add: algebra_simps)
  then have "\<bar>x * w - v * y\<bar> \<le> \<bar>x - v\<bar> * w + v * \<bar>y - w\<bar>"
    using abs_triangle_ineq4 [of "(x - v) * w" "v * (y - w)"] pos by (simp add: abs_mult)
  also have "\<dots> \<le> (v * of_nat a / 2 ^ 53) * w + v * (w * of_nat b / 2 ^ 53)"
    using x y pos by (intro add_mono mult_right_mono mult_left_mono) simp_all
  also have "\<dots> = v * w * of_nat (a + b) / 2 ^ 53" by (simp add: add_divide_distrib algebra_simps)
  also have "\<dots> \<le> v * (2 * y) * of_nat (a + b) / 2 ^ 53"
    using half pos by (intro divide_right_mono mult_right_mono mult_left_mono) simp_all
  finally have "\<bar>x * w - v * y\<bar> / (y * w) \<le> v * (2 * y) * of_nat (a + b) / 2 ^ 53 / (y * w)"
    using half pos by (intro divide_right_mono) simp_all
  also have "\<dots> = v / w * of_nat (2 * (a + b)) / 2 ^ 53" using half pos by (simp add: field_simps)
  also have "\<bar>x * w - v * y\<bar> / (y * w) = \<bar>x / y - v / w\<bar>"
    using half pos by (simp add: diff_frac_eq abs_divide abs_mult)
  finally show ?thesis using pos assms(3) by (simp add: near_def)
qed

text \<open>What is shown of a computation whose exact value is not close to the middle of two decimals\<close>

lemma near_units:
  assumes "near k x v" "\<bar>v * 10 ^ d - of_nat n\<bar> + v * 10 ^ d / 10 ^ 12 < 1 / 2"
  shows "to_fixed d x = decimal d n"
proof -
  have v: "0 < v" and bound: "\<bar>x - v\<bar> \<le> v / 10 ^ 12" using assms(1) near_bound by (simp_all add: near_def)
  have "\<bar>x - v\<bar> \<le> v" by (rule order_trans [OF bound]) (use v in simp)
  then have "\<not> x < 0" by linarith
  have "x * 10 ^ d - v * 10 ^ d = (x - v) * 10 ^ d" by (simp add: left_diff_distrib)
  then have "\<bar>x * 10 ^ d - v * 10 ^ d\<bar> = \<bar>x - v\<bar> * 10 ^ d" by (simp add: abs_mult)
  also have "\<dots> \<le> v / 10 ^ 12 * 10 ^ d" using bound by (rule mult_right_mono) simp
  also have "\<dots> = v * 10 ^ d / 10 ^ 12" by simp
  finally have diff: "\<bar>x * 10 ^ d - v * 10 ^ d\<bar> \<le> v * 10 ^ d / 10 ^ 12" .
  define r where "r = v * 10 ^ d / 10 ^ 12"
  have "\<bar>x * 10 ^ d - of_nat n\<bar> < 1 / 2" using diff assms(2) unfolding r_def [symmetric] by linarith
  from fixed_units_exact [OF this] \<open>\<not> x < 0\<close> show ?thesis by (simp add: to_fixed_def)
qed

end
