(* ===== verification/Credit_View.thy ===== *)
theory Credit_View
  imports Credits Chat_Submit Js_Number
begin

section \<open>Amounts as the pages show them\<close>

text \<open>
  The formatters of \<open>frontend/src/components/CreditBalance.tsx\<close>, \<open>pages/WalletPage.tsx\<close>,
  \<open>pages/BuyCreditsPage.tsx\<close> and \<open>pages/NodeDashboardPage.tsx\<close>, the fees \<open>pages/InferenceNewPage.tsx\<close>
  shows, and when the buttons of the credits page are enabled. The arithmetic is that of doubles
  (\<open>Js_Number\<close>); the bounds below say how far what is shown can be from the balance.
\<close>

subsection \<open>Formatters\<close>

definition format_units :: "nat \<Rightarrow> nat \<Rightarrow> string \<Rightarrow> json option \<Rightarrow> string" where
  "format_units scale places fallback wei = (case BigInt_json wei of
      Inl e \<Rightarrow> fallback | Inr n \<Rightarrow> to_fixed places (fl (fl (of_int n) / 10 ^ scale)))"

definition formatCusdc :: "json option \<Rightarrow> string" where
  "formatCusdc = format_units 6 6 ''0.000000''"

definition formatBlind :: "json option \<Rightarrow> string" where
  "formatBlind = format_units 18 2 ''0.00''"

definition weiToEth :: "json option \<Rightarrow> string" where
  "weiToEth = format_units 18 2 ''0''"

definition weiToEth_node :: "json option \<Rightarrow> string" where
  "weiToEth_node = format_units 18 4 ''0''"

definition formatWei :: "json option \<Rightarrow> string" where
  "formatWei wei = (case BigInt_json wei of
      Inl e \<Rightarrow> (case wei of None \<Rightarrow> ''undefined'' | Some j \<Rightarrow> json_display j) | Inr n \<Rightarrow> to_locale n)"

text \<open>The pill beside the mode switch: a spinner, or both balances\<close>

definition CreditBalance :: "balances \<Rightarrow> (string \<times> string) option" where
  "CreditBalance b = (if ub_loading b then None else Some (formatCusdc (Some (ub_cusdc b)), formatBlind (Some (ub_blind b))))"

text \<open>The wallet page: an error, or the two balances\<close>

definition wallet_balances :: "balances \<Rightarrow> (string \<times> string) option" where
  "wallet_balances b = (if truthy (ub_error b) then None else Some (formatWei (Some (ub_cusdc b)), weiToEth (Some (ub_blind b))))"

definition TruncatedHash :: "string \<Rightarrow> string" where
  "TruncatedHash hash = js_slice 0 6 hash @ ''...'' @ drop (length hash - 4) hash"

subsection \<open>The fee of a chat\<close>

text \<open>\<open>0.20\<close>, \<open>0.01\<close> and \<open>0.02\<close> are the doubles nearest to them.\<close>

definition jobPriceDisplay :: "text_model \<Rightarrow> string \<Rightarrow> string" where
  "jobPriceDisplay m currency =
     (let usd = fl (of_int (jobPriceCusdc m) / 10 ^ 6) in
      if currency = ''blind'' then to_fixed 2 (fl (fl (usd * fl (1 - fl (1 / 5))) / fl (1 / 100)))
      else to_fixed 3 usd)"

definition estimated_price :: "text_model \<Rightarrow> payment \<Rightarrow> string option" where
  "estimated_price m py =
     (if py_escrow py then Some (to_fixed 3 (fl (of_int (jobPriceCusdc m) / 10 ^ 6)))
      else map_option (\<lambda>shown. to_fixed 3 (fl (shown * fl (1 + (if py_insurance py then fl (1 / 50) else 0)))))
             (decimal_number (jobPriceDisplay m (py_currency py))))"

subsection \<open>The buttons of the credits page\<close>

definition buy_disabled :: "(string \<Rightarrow> string option) \<Rightarrow> credits_page \<Rightarrow> string option \<Rightarrow> bool \<Rightarrow> credit_package \<Rightarrow> bool" where
  "buy_disabled penv p address approval pkg =
     (bp_purchasing p = Some (cp_id pkg) \<or> \<not> truthy address \<or> BLIND_TOKEN_ADDRESS penv = [] \<or> approval)"

definition dripped :: "faucet \<Rightarrow> bool" where
  "dripped f = (case fc_last f of Some (AInt n # vs) \<Rightarrow> 0 < n | _ \<Rightarrow> False)"

definition drip_disabled :: "faucet \<Rightarrow> string option \<Rightarrow> bool" where
  "drip_disabled f address = (fc_loading f \<or> \<not> truthy address \<or> dripped f)"

definition drip_line :: "faucet \<Rightarrow> string" where
  "drip_line f = (if dripped f then ''You have already dripped BLIND tokens.'' else ''Get free BLIND tokens for testnet use.'')"

definition per_call :: "rat \<Rightarrow> rat \<Rightarrow> string" where
  "per_call price_blind total_calls = to_fixed 4 (fl (price_blind / total_calls))"

subsection \<open>How exact the balances are\<close>

lemma BigInt_nat_str [simp]: "BigInt_json (Some (JStr (nat_str n))) = Inr (int n)"
  by (simp add: BigInt_json_def bigint_of_nat_str)

lemma share_le: "0 \<le> q \<Longrightarrow> q / 2 ^ 53 \<le> (q :: rat)"
  using divide_left_mono [of 1 "2 ^ 53" q] by simp

lemma fl_nonneg: "0 \<le> q \<Longrightarrow> 0 \<le> fl q"
  using order_trans [OF fl_error [of q] share_le [of "\<bar>q\<bar>"]] by linarith

lemma shown_units: "format_units scale places fallback (Some (JStr (nat_str n)))
    = decimal places (fixed_units places (fl (fl (of_nat n) / 10 ^ scale)))"
proof -
  have "0 \<le> fl (fl (of_nat n) / 10 ^ scale)" by (intro fl_nonneg divide_nonneg_nonneg) simp_all
  then show ?thesis by (simp add: format_units_def to_fixed_def)
qed

lemma exact_units:
  assumes "n < 2 ^ 52"
  shows "fixed_units p (fl (fl (of_nat n) / 10 ^ p)) = n"
proof (rule fixed_units_exact)
  let ?q = "of_nat n / 10 ^ p :: rat"
  have "fl (of_nat n) = of_nat n" using fl_int [of "int n"] assms by simp
  have "(of_nat n :: rat) < of_nat (2 ^ 52)" using assms by (simp only: of_nat_less_iff)
  then have small: "(of_nat n :: rat) / 2 ^ 53 < 1 / 2" by simp
  have "fl ?q * 10 ^ p - of_nat n = (fl ?q - ?q) * 10 ^ p" by (simp add: left_diff_distrib)
  then have "\<bar>fl ?q * 10 ^ p - of_nat n\<bar> = \<bar>fl ?q - ?q\<bar> * 10 ^ p" by (simp add: abs_mult)
  also have "\<dots> \<le> ?q / 2 ^ 53 * 10 ^ p" using fl_error [of ?q] by (intro mult_right_mono) simp_all
  also have "\<dots> = of_nat n / 2 ^ 53" by simp
  finally show "\<bar>fl (fl (of_nat n) / 10 ^ p) * 10 ^ p - of_nat n\<bar> < 1 / 2"
    using small \<open>fl (of_nat n) = of_nat n\<close> by simp
qed

lemma units_near:
  shows "\<bar>of_nat (fixed_units p (fl (fl (of_nat n) / 10 ^ k))) / 10 ^ p - (of_nat n / 10 ^ k :: rat)\<bar>
    \<le> 1 / (2 * 10 ^ p) + of_nat n / 10 ^ k / 2 ^ 51"
proof -
  define q a b where "q = (of_nat n / 10 ^ k :: rat)" and "a = fl (of_nat n) / 10 ^ k" and "b = fl a"
  have "0 \<le> q" by (simp add: q_def)
  have "\<bar>a - q\<bar> = \<bar>fl (of_nat n) - of_nat n\<bar> / 10 ^ k" by (simp add: a_def q_def diff_divide_distrib [symmetric])
  also have "\<dots> \<le> of_nat n / 2 ^ 53 / 10 ^ k" using fl_error [of "of_nat n"] by (intro divide_right_mono) simp_all
  finally have a: "\<bar>a - q\<bar> \<le> q / 2 ^ 53" by (simp add: q_def)
  define r where "r = q / 2 ^ 53"
  have "\<bar>a - q\<bar> \<le> q" by (rule order_trans [OF a share_le [OF \<open>0 \<le> q\<close>]])
  then have "\<bar>a\<bar> \<le> 2 * q" by linarith
  have "\<bar>b - a\<bar> \<le> \<bar>a\<bar> / 2 ^ 53" by (simp only: b_def fl_error)
  also have "\<dots> \<le> 2 * q / 2 ^ 53" using \<open>\<bar>a\<bar> \<le> 2 * q\<close> by (rule divide_right_mono) simp
  also have "\<dots> = 2 * r" by (simp add: r_def)
  finally have "\<bar>b - a\<bar> \<le> 2 * r" .
  moreover have "q / 2 ^ 51 = 4 * r" "0 \<le> r" using \<open>0 \<le> q\<close> by (simp_all add: r_def)
  ultimately have "\<bar>b - q\<bar> \<le> q / 2 ^ 51" using a [folded r_def] by linarith
  moreover have "0 \<le> b" unfolding b_def a_def by (intro fl_nonneg divide_nonneg_nonneg) simp_all
  from fixed_units_near [OF this, of p] have "\<bar>of_nat (fixed_units p b) / 10 ^ p - b\<bar> \<le> 1 / (2 * 10 ^ p)"
    by (simp add: field_simps abs_divide)
  ultimately show ?thesis unfolding q_def [symmetric] a_def [symmetric] b_def [symmetric] by linarith
qed

text \<open>C33: the pill shows the balances it was given. A cUSDC balance below \<open>2 ^ 52\<close> base units is shown
  exactly, as its whole part, a point and all six places; a BLIND balance is shown with two places that are
  at most half a hundredth away from it, but for the error of the doubles, one part in \<open>2 ^ 51\<close>.\<close>

theorem pill_accurate:
  assumes "c < 2 ^ 52"
  shows "\<exists>u. CreditBalance \<lparr>ub_cusdc = JStr (nat_str c), ub_blind = JStr (nat_str b), ub_loading = False, ub_error = e\<rparr>
      = Some (nat_str (c div 10 ^ 6) @ ''.'' @ fixed_digits 10 6 (c mod 10 ^ 6),
              nat_str (u div 100) @ ''.'' @ fixed_digits 10 2 (u mod 100))
    \<and> \<bar>of_nat u / 100 - of_nat b / 10 ^ 18\<bar> \<le> (1 / 200 + of_nat b / 10 ^ 18 / 2 ^ 51 :: rat)"
proof -
  let ?u = "fixed_units 2 (fl (fl (of_nat b) / 10 ^ 18))"
  have "\<bar>of_nat ?u / 100 - of_nat b / 10 ^ 18\<bar> \<le> (1 / 200 + of_nat b / 10 ^ 18 / 2 ^ 51 :: rat)"
    using units_near [of 2 b 18] by simp
  moreover have "formatCusdc (Some (JStr (nat_str c))) = decimal 6 c"
    unfolding formatCusdc_def shown_units exact_units [OF assms] ..
  moreover have "formatBlind (Some (JStr (nat_str b))) = decimal 2 ?u"
    unfolding formatBlind_def shown_units ..
  ultimately show ?thesis
    by (intro exI [of _ ?u]) (simp add: CreditBalance_def decimal_def)
qed

theorem pill_accurate_witness:
  "\<exists>u. CreditBalance \<lparr>ub_cusdc = JStr (nat_str 57), ub_blind = JStr (nat_str (10 ^ 20)), ub_loading = False, ub_error = None\<rparr>
      = Some (''0.000057'', nat_str (u div 100) @ ''.'' @ fixed_digits 10 2 (u mod 100))
    \<and> \<bar>of_nat u / 100 - 100\<bar> \<le> (1 / 200 + 100 / 2 ^ 51 :: rat)"
proof -
  have "nat_str 0 @ ''.'' @ fixed_digits 10 6 57 = ''0.000057''" by code_simp
  then have shown: "nat_str (57 div 10 ^ 6) @ ''.'' @ fixed_digits 10 6 (57 mod 10 ^ 6) = ''0.000057''" by simp
  have "(57 :: nat) < 2 ^ 52" by simp
  from pill_accurate [OF this, of "10 ^ 20" None] show ?thesis unfolding shown by simp
qed

text \<open>The wallet page prints the same cUSDC balance without a scale: five USDC are \<open>5,000,000\<close> there and
  \<open>5.000000\<close> on the pill. Only the commas are added to the digits.\<close>

lemma wallet_page_base_units:
  "filter (\<lambda>c. c \<noteq> CHR '','') (formatWei (Some (JStr (nat_str n)))) = nat_str n"
  by (simp add: formatWei_def to_locale_digits)

subsection \<open>The fees shown\<close>

lemma near_int: "0 < n \<Longrightarrow> n < 2 ^ 53 \<Longrightarrow> near 0 (fl (of_int n)) (of_int n)"
  using fl_int [of n] by (simp add: near_exact)

lemma near_discount: "near 3 (fl (1 - fl (1 / 5))) (4 / 5)"
proof -
  have "near 1 (1 - fl (1 / 5)) (4 / 5)" using fl_error [of "1 / 5"] by (simp add: near_def abs_minus_commute)
  from near_fl [OF this] show ?thesis by (simp add: numeral_3_eq_3)
qed

lemma near_insurance: "near 4 (fl (1 + (if insured then fl (1 / 50) else 0))) (if insured then 51 / 50 else 1)"
proof -
  have "near 2 (1 + (if insured then fl (1 / 50) else 0)) (if insured then 51 / 50 else 1)"
    using fl_error [of "1 / 50"] by (simp add: near_def)
  from near_fl [OF this] show ?thesis by simp
qed

lemma near_rate: "near 2 (fl (of_int p / 10 ^ k)) (of_int p / 10 ^ k)" if "0 < p"
  using near_fl [OF near_exact, of "of_int p / 10 ^ k"] that by (simp add: numeral_2_eq_2)

text \<open>The price in dollars, and in BLIND before it is printed\<close>

definition price_units :: "text_model_key \<Rightarrow> nat" where
  "price_units k = (case k of groq_llama_70b \<Rightarrow> 5 | gemini_flash \<Rightarrow> 3 | opt_125m \<Rightarrow> 1)"

lemma price_milli: "jobPriceCusdc (TEXT_MODEL_OPTIONS k) = 1000 * int (price_units k)" "0 < price_units k" "price_units k \<le> 5"
  by (cases k; simp add: jobPriceCusdc_def TEXT_MODEL_OPTIONS_def price_units_def)+

lemma price_shown:
  "jobPriceDisplay (TEXT_MODEL_OPTIONS k) ''cusdc'' = decimal 3 (price_units k)"
  "jobPriceDisplay (TEXT_MODEL_OPTIONS k) ''blind'' = decimal 2 (8 * price_units k)"
proof -
  let ?p = "price_units k" and ?usd = "fl (of_int (jobPriceCusdc (TEXT_MODEL_OPTIONS k)) / 10 ^ 6)"
  have usd: "near 2 ?usd (of_nat ?p / 1000)" using near_rate [of "1000 * int ?p" 6] price_milli [of k] by simp
  from near_units [OF this, of 3 ?p] price_milli [of k]
  show "jobPriceDisplay (TEXT_MODEL_OPTIONS k) ''cusdc'' = decimal 3 ?p" by (simp add: jobPriceDisplay_def)
  from near_fl [OF near_mult [OF usd near_discount]]
  have "near 9 (fl (?usd * fl (1 - fl (1 / 5)))) (of_nat ?p / 1000 * (4 / 5))" by simp
  from near_fl [OF near_div [OF this near_rate [of 1 2]]]
  have "near 24 (fl (fl (?usd * fl (1 - fl (1 / 5))) / fl (1 / 100))) (of_nat (8 * ?p) / 100)" by simp
  from near_units [OF this, of 2 "8 * ?p"] price_milli [of k]
  show "jobPriceDisplay (TEXT_MODEL_OPTIONS k) ''blind'' = decimal 2 (8 * ?p)" by (simp add: jobPriceDisplay_def Let_def)
qed

definition cents :: "nat \<Rightarrow> nat" where
  "cents n = (if n = 1 then 82 else if n = 3 then 245 else 408)"

lemma shown_numbers:
  "decimal_number (decimal 3 (price_units k)) = Some (fl (of_nat (price_units k) / 1000))"
  "decimal_number (decimal 2 (8 * price_units k)) = Some (fl (of_nat (8 * price_units k) / 100))"
proof -
  have texts: "decimal 3 1 = ''0.001''" "decimal 3 3 = ''0.003''" "decimal 3 5 = ''0.005''"
    "decimal 2 8 = ''0.08''" "decimal 2 24 = ''0.24''" "decimal 2 40 = ''0.40''" by code_simp+
  have pieces: "str_split ''.'' ''0.001'' = [''0'', ''001'']" "str_split ''.'' ''0.003'' = [''0'', ''003'']"
    "str_split ''.'' ''0.005'' = [''0'', ''005'']" "str_split ''.'' ''0.08'' = [''0'', ''08'']"
    "str_split ''.'' ''0.24'' = [''0'', ''24'']" "str_split ''.'' ''0.40'' = [''0'', ''40'']" by code_simp+
  have parsed: "parse_nat 10 ''0001'' = Some 1" "parse_nat 10 ''0003'' = Some 3" "parse_nat 10 ''0005'' = Some 5"
    "parse_nat 10 ''008'' = Some 8" "parse_nat 10 ''024'' = Some 24" "parse_nat 10 ''040'' = Some 40" by code_simp+
  show "decimal_number (decimal 3 (price_units k)) = Some (fl (of_nat (price_units k) / 1000))"
    by (cases k) (simp_all add: price_units_def texts texts(1) [unfolded One_nat_def] decimal_number_def pieces parsed)
  show "decimal_number (decimal 2 (8 * price_units k)) = Some (fl (of_nat (8 * price_units k) / 100))"
    by (cases k) (simp_all add: price_units_def texts decimal_number_def pieces parsed)
qed

text \<open>The product with the insurance factor, of \<open>n\<close> units of which \<open>u\<close> make one\<close>

lemma fee_product:
  assumes "0 < n"
  shows "near 10 (fl (fl (of_nat n / 10 ^ d) * fl (1 + (if insured then fl (1 / 50) else 0))))
    (of_nat n / 10 ^ d * (if insured then 51 / 50 else 1))"
  using near_fl [OF near_mult [OF near_rate [of "int n" d] near_insurance [of insured]]] assms
  by (simp split del: if_split)

text \<open>The fee shown for a chat. It is the price of the model, in BLIND a fifth less at a hundredth of
  a dollar, with two percent more for the insurance in BLIND; in cUSDC three places are too few for the two
  percent, so opting in to the insurance does not change the fee shown for any model.\<close>

lemma chat_fee_shown:
  shows "estimated_price (TEXT_MODEL_OPTIONS k) \<lparr>py_escrow = escrow, py_currency = (if blind then ''blind'' else ''cusdc''), py_insurance = insured\<rparr>
    = Some (if escrow \<or> \<not> blind then (case k of groq_llama_70b \<Rightarrow> ''0.005'' | gemini_flash \<Rightarrow> ''0.003'' | opt_125m \<Rightarrow> ''0.001'')
        else if insured then (case k of groq_llama_70b \<Rightarrow> ''0.408'' | gemini_flash \<Rightarrow> ''0.245'' | opt_125m \<Rightarrow> ''0.082'')
        else (case k of groq_llama_70b \<Rightarrow> ''0.400'' | gemini_flash \<Rightarrow> ''0.240'' | opt_125m \<Rightarrow> ''0.080''))"
proof -
  let ?p = "price_units k" and ?pay = "\<lparr>py_escrow = escrow, py_currency = (if blind then ''blind'' else ''cusdc''), py_insurance = insured\<rparr>"
  have fee: "estimated_price (TEXT_MODEL_OPTIONS k) ?pay = Some (decimal 3
      (if escrow \<or> \<not> blind then ?p else if insured then cents ?p else 80 * ?p))"
  proof (cases "escrow")
    case True
    from near_units [OF near_rate [of "1000 * int ?p" 6], of 3 ?p] price_milli [of k] True
    show ?thesis by (simp add: estimated_price_def)
  next
    case False
    show ?thesis
    proof (cases blind)
      case True
      have "to_fixed 3 (fl (fl (of_nat (8 * ?p) / 10 ^ 2) * fl (1 + (if insured then fl (1 / 50) else 0))))
          = decimal 3 (if insured then cents ?p else 80 * ?p)"
        by (rule near_units [OF fee_product]) (cases k; simp add: price_units_def cents_def)+
      with True False show ?thesis by (simp add: estimated_price_def price_shown shown_numbers)
    next
      case False
      have "to_fixed 3 (fl (fl (of_nat ?p / 10 ^ 3) * fl (1 + (if insured then fl (1 / 50) else 0)))) = decimal 3 ?p"
        by (rule near_units [OF fee_product]) (cases k; simp add: price_units_def)+
      with False \<open>\<not> escrow\<close> show ?thesis by (simp add: estimated_price_def price_shown shown_numbers)
    qed
  qed
  have texts: "decimal 3 1 = ''0.001''" "decimal 3 3 = ''0.003''" "decimal 3 5 = ''0.005''" "decimal 3 82 = ''0.082''"
    "decimal 3 245 = ''0.245''" "decimal 3 408 = ''0.408''" "decimal 3 80 = ''0.080''" "decimal 3 240 = ''0.240''"
    "decimal 3 400 = ''0.400''" by code_simp+
  show ?thesis unfolding fee by (cases k) (simp_all add: price_units_def cents_def texts texts(1) [unfolded One_nat_def])
qed

end
