(* ===== verification/Site_Nav.thy ===== *)
theory Site_Nav
  imports Node_Hooks Local_Pages Status_Display
begin

section \<open>Navigation\<close>

text \<open>
  \<open>frontend/src/App.tsx\<close> (the bar, the wallet button, the tour's page), \<open>pages/NodesPage.tsx\<close> and
  \<open>pages/docs/DocsLayout.tsx\<close>: the tree of documentation pages, the table of their files, the sidebar, the
  crumbs, the search and the loading of a page. Matching a path with a route is the router's; a search
  index (\<open>fuse\<close>) is a parameter.
\<close>

subsection \<open>The bar\<close>

definition landingPaths :: "string list" where
  "landingPaths = [''/'', ''/vision'', ''/architecture'', ''/whitepaper'']"

definition isLanding :: "string \<Rightarrow> bool" where
  "isLanding pathname = (pathname \<in> set landingPaths)"

definition isLandingPage :: "string \<Rightarrow> bool" where
  "isLandingPage pathname =
     (pathname = ''/'' \<or> pathname = ''/vision'' \<or> pathname = ''/architecture'' \<or> pathname = ''/whitepaper'')"

definition landingNavItems :: "(string \<times> string) list" where
  "landingNavItems = [(''/'', ''Home''), (''/vision'', ''Vision''), (''/architecture'', ''Architecture'')]"

definition appNavItems :: "(string \<times> string) list" where
  "appNavItems = [(''/app'', ''Inference''), (''/history'', ''History''), (''/wallet'', ''Wallet''),
     (''/buy-credits'', ''Credits''), (''/create-escrow'', ''Escrow''), (''/nodes'', ''Nodes''), (''/settings'', ''Settings'')]"

definition navItems :: "string \<Rightarrow> (string \<times> string) list" where
  "navItems pathname = (if isLanding pathname then landingNavItems else appNavItems)"

definition isActive :: "string \<Rightarrow> string \<Rightarrow> bool" where
  "isActive pathname path = (pathname = path \<or> (path \<noteq> ''/'' \<and> starts_with pathname (path @ ''/'')))"

definition tutorialPageId :: "string \<Rightarrow> string option" where
  "tutorialPageId pathname = (if pathname = ''/app'' then Some ''app'' else None)"

text \<open>The routes below \<open>/\<close>, with the page of each\<close>

definition routes :: "(string \<times> string) list" where
  "routes = [([], ''LandingPage''), (''vision'', ''VisionPage''), (''architecture'', ''ArchitecturePage''),
     (''whitepaper'', ''WhitepaperPage''), (''app'', ''InferenceNewPage''), (''inference/:requestId'', ''InferenceStatusPage''),
     (''history'', ''HistoryPage''), (''wallet'', ''WalletPage''), (''buy-credits'', ''BuyCreditsPage''),
     (''create-escrow'', ''CreateEscrowPage''), (''nodes'', ''NodesPage''), (''settings'', ''SettingsPage''),
     (''docs/*'', ''DocsLayout'')]"

text \<open>The wallet button: its text, and whether it can be pressed\<close>

definition WalletButton :: "bool \<Rightarrow> string option \<Rightarrow> bool \<Rightarrow> bool \<Rightarrow> string \<times> bool" where
  "WalletButton isConnected address has_connector isPending =
     (if isConnected \<and> truthy address then (truncateAddress (the address), True)
      else (if isPending then ''Connecting...'' else ''Connect Wallet'', \<not> (\<not> has_connector \<or> isPending)))"

datatype nodes_view = Connect_wallet | Checking_operator | Node_registration | Node_dashboard | Become_node

definition NodesPage :: "string option \<Rightarrow> json option fetch_state \<Rightarrow> nodes_view" where
  "NodesPage address s =
     (if \<not> truthy address then Connect_wallet else if ft_loading s then Checking_operator
      else if \<not> json_truthy (ft_value s) then Node_registration else Node_dashboard)"

definition NodeDashboardPage :: "string option \<Rightarrow> json option fetch_state \<Rightarrow> nodes_view" where
  "NodeDashboardPage address s =
     (if \<not> truthy address then Connect_wallet else if ft_loading s then Checking_operator
      else if \<not> json_truthy (ft_value s) then Become_node else Node_dashboard)"

subsection \<open>The documentation\<close>

record nav_item =
  nv_id :: string
  nv_label :: string
  nv_path :: string
  nv_description :: string

record nav_section =
  ns_id :: string
  ns_label :: string
  ns_path :: string
  ns_description :: string
  ns_children :: "nav_item list"

abbreviation docs_page :: "string \<Rightarrow> string \<Rightarrow> string \<Rightarrow> string \<Rightarrow> nav_item" where
  "docs_page ident label path description \<equiv> \<lparr>nv_id = ident, nv_label = label, nv_path = path, nv_description = description\<rparr>"

definition navTree :: "nav_section list" where
  "navTree =
   [\<lparr>ns_id = ''overview'', ns_label = ''Overview'', ns_path = ''/docs'', ns_description = ''Documentation home'', ns_children =
     [docs_page ''intro'' ''Introduction'' ''/docs/introduction'' ''Welcome to Blindference'',
      docs_page ''what-is'' ''What is Blindference?'' ''/docs/what-is-blindference'' ''The problem, solution, and why it matters'',
      docs_page ''architecture'' ''Architecture'' ''/docs/architecture'' ''System-level component view'',
      docs_page ''components'' ''Components'' ''/docs/components'' ''Available docs components'']\<rparr>,
    \<lparr>ns_id = ''compute'', ns_label = ''Compute'', ns_path = ''/docs/compute'', ns_description = ''Node operator guides'', ns_children =
     [docs_page ''c-intro'' ''Introduction'' ''/docs/compute/introduction'' ''Join the network as a compute provider'',
      docs_page ''c-quickstart'' ''Quickstart'' ''/docs/compute/quickstart'' ''Get running in 5 minutes'',
      docs_page ''c-install'' ''Installation'' ''/docs/compute/installation'' ''All install options'',
      docs_page ''c-config'' ''Configuration'' ''/docs/compute/configuration'' ''Environment and settings'',
      docs_page ''c-attest'' ''Attestation'' ''/docs/compute/attestation'' ''Prove your node identity'',
      docs_page ''c-models'' ''Models'' ''/docs/compute/models'' ''Supported inference models'',
      docs_page ''c-backends'' ''Backends'' ''/docs/compute/backends'' ''Pluggable backend system'',
      docs_page ''c-running'' ''Running'' ''/docs/compute/running'' ''Start the daemon'',
      docs_page ''c-monitor'' ''Monitoring'' ''/docs/compute/monitoring'' ''Track health and earnings'',
      docs_page ''c-trouble'' ''Troubleshooting'' ''/docs/compute/troubleshooting'' ''Common node issues'',
      docs_page ''c-rewards'' ''Rewards'' ''/docs/compute/rewards'' ''Earnings and slashing'']\<rparr>,
    \<lparr>ns_id = ''build'', ns_label = ''Build'', ns_path = ''/docs/build'', ns_description = ''Agent developer docs'', ns_children =
     [docs_page ''b-intro'' ''Introduction'' ''/docs/build/introduction'' ''Build on Blindference'',
      docs_page ''b-quickstart'' ''Quickstart'' ''/docs/build/quickstart'' ''Build your first agent'',
      docs_page ''b-arch'' ''Architecture'' ''/docs/build/architecture'' ''Builder architecture'',
      docs_page ''b-cofhe'' ''CoFHE Encryption'' ''/docs/build/cofhe-encryption'' ''How to encrypt data'',
      docs_page ''b-contracts'' ''Contracts'' ''/docs/build/contracts'' ''Smart contract reference'',
      docs_page ''b-deploy'' ''Deployment'' ''/docs/build/deployment'' ''Deploy your application'',
      docs_page ''b-risk'' ''Risk Scoring'' ''/docs/build/examples/risk-scoring'' ''Example: privacy-preserving risk evaluation'',
      docs_page ''b-text'' ''Text Inference'' ''/docs/build/examples/text-inference'' ''Example: confidential AI assistant'']\<rparr>,
    \<lparr>ns_id = ''api'', ns_label = ''API Reference'', ns_path = ''/docs/api-reference'', ns_description = ''REST API docs'', ns_children =
     [docs_page ''api-intro'' ''Introduction'' ''/docs/api-reference/introduction'' ''API overview'',
      docs_page ''api-icl'' ''ICL API'' ''/docs/api-reference/icl-api'' ''Full endpoint reference'']\<rparr>,
    \<lparr>ns_id = ''resources'', ns_label = ''Resources'', ns_path = ''/docs/resources'', ns_description = ''Changelog, addresses, support'', ns_children =
     [docs_page ''r-changelog'' ''Changelog'' ''/docs/resources/changelog'' ''Release history'',
      docs_page ''r-addresses'' ''Contract Addresses'' ''/docs/resources/contract-addresses'' ''Arbitrum Sepolia deployments'',
      docs_page ''r-faq'' ''FAQ'' ''/docs/resources/faq'' ''Frequently asked questions'',
      docs_page ''r-trouble'' ''Troubleshooting'' ''/docs/resources/troubleshooting'' ''Common issues'']\<rparr>]"

definition allPages :: "(string \<times> string \<times> string \<times> string) list" where
  "allPages = concat (map (\<lambda>s. map (\<lambda>p. (nv_label p, nv_path p, nv_description p, ns_label s)) (ns_children s)) navTree)"

text \<open>The files under \<open>content\<close> the bundler finds, and the table of the paths that load them\<close>

definition mdxFiles :: "string list" where
  "mdxFiles =
   [''./content/api-reference/icl-api.mdx'',
    ''./content/api-reference/introduction.mdx'',
    ''./content/architecture.mdx'',
    ''./content/build/architecture.mdx'',
    ''./content/build/cli-reference.mdx'',
    ''./content/build/cofhe-encryption.mdx'',
    ''./content/build/configuration.mdx'',
    ''./content/build/contracts.mdx'',
    ''./content/build/examples/risk-scoring.mdx'',
    ''./content/build/examples/text-inference.mdx'',
    ''./content/build/installation.mdx'',
    ''./content/build/introduction.mdx'',
    ''./content/build/python-interop.mdx'',
    ''./content/build/quickstart.mdx'',
    ''./content/build/rest-server.mdx'',
    ''./content/build/sdk-api.mdx'',
    ''./content/build/troubleshooting.mdx'',
    ''./content/components.mdx'',
    ''./content/compute/attestation.mdx'',
    ''./content/compute/backends.mdx'',
    ''./content/compute/configuration.mdx'',
    ''./content/compute/installation.mdx'',
    ''./content/compute/introduction.mdx'',
    ''./content/compute/models.mdx'',
    ''./content/compute/monitoring.mdx'',
    ''./content/compute/quickstart.mdx'',
    ''./content/compute/rewards.mdx'',
    ''./content/compute/running.mdx'',
    ''./content/compute/troubleshooting.mdx'',
    ''./content/introduction.mdx'',
    ''./content/resources/changelog.mdx'',
    ''./content/resources/contract-addresses.mdx'',
    ''./content/resources/deployment.mdx'',
    ''./content/resources/faq.mdx'',
    ''./content/resources/troubleshooting.mdx'',
    ''./content/what-is-blindference.mdx'']"

definition module_table :: "(string \<times> string) list" where
  "module_table =
   [(''/docs/introduction'', ''./content/introduction.mdx''),
    (''/docs/what-is-blindference'', ''./content/what-is-blindference.mdx''),
    (''/docs/architecture'', ''./content/architecture.mdx''),
    (''/docs/components'', ''./content/components.mdx''),
    (''/docs/compute/introduction'', ''./content/compute/introduction.mdx''),
    (''/docs/compute/quickstart'', ''./content/compute/quickstart.mdx''),
    (''/docs/compute/installation'', ''./content/compute/installation.mdx''),
    (''/docs/compute/configuration'', ''./content/compute/configuration.mdx''),
    (''/docs/compute/attestation'', ''./content/compute/attestation.mdx''),
    (''/docs/compute/models'', ''./content/compute/models.mdx''),
    (''/docs/compute/backends'', ''./content/compute/backends.mdx''),
    (''/docs/compute/running'', ''./content/compute/running.mdx''),
    (''/docs/compute/monitoring'', ''./content/compute/monitoring.mdx''),
    (''/docs/compute/troubleshooting'', ''./content/compute/troubleshooting.mdx''),
    (''/docs/compute/rewards'', ''./content/compute/rewards.mdx''),
    (''/docs/build/introduction'', ''./content/build/introduction.mdx''),
    (''/docs/build/quickstart'', ''./content/build/quickstart.mdx''),
    (''/docs/build/architecture'', ''./content/build/architecture.mdx''),
    (''/docs/build/cofhe-encryption'', ''./content/build/cofhe-encryption.mdx''),
    (''/docs/build/contracts'', ''./content/build/contracts.mdx''),
    (''/docs/build/deployment'', ''./content/build/deployment.mdx''),
    (''/docs/build/examples/risk-scoring'', ''./content/build/examples/risk-scoring.mdx''),
    (''/docs/build/examples/text-inference'', ''./content/build/examples/text-inference.mdx''),
    (''/docs/api-reference/introduction'', ''./content/api-reference/introduction.mdx''),
    (''/docs/api-reference/icl-api'', ''./content/api-reference/icl-api.mdx''),
    (''/docs/resources/changelog'', ''./content/resources/changelog.mdx''),
    (''/docs/resources/contract-addresses'', ''./content/resources/contract-addresses.mdx''),
    (''/docs/resources/faq'', ''./content/resources/faq.mdx''),
    (''/docs/resources/troubleshooting'', ''./content/resources/troubleshooting.mdx'')]"

definition mdxModules :: "string \<Rightarrow> string option" where
  "mdxModules path = (case map_of module_table path of
      Some file \<Rightarrow> if file \<in> set mdxFiles then Some file else None | None \<Rightarrow> None)"

subsection \<open>Sidebar and crumbs\<close>

text \<open>The sections open at first: the one of the current page, or the overview\<close>

definition expandedSections :: "string \<Rightarrow> string set" where
  "expandedSections pathname =
     (case find (\<lambda>s. list_ex (\<lambda>c. pathname = nv_path c \<or> starts_with pathname (nv_path c @ ''/'')) (ns_children s)) navTree of
        Some s \<Rightarrow> {ns_id s} | None \<Rightarrow> {''overview''})"

definition toggleSection :: "string \<Rightarrow> string set \<Rightarrow> string set" where
  "toggleSection ident prev = (if ident \<in> prev then prev - {ident} else insert ident prev)"

definition hasActiveChild :: "string \<Rightarrow> nav_section \<Rightarrow> bool" where
  "hasActiveChild pathname s = list_ex (\<lambda>c. pathname = nv_path c) (ns_children s)"

definition crumb_parts :: "string \<Rightarrow> string list" where
  "crumb_parts pathname = filter (\<lambda>part. part \<noteq> []) (str_split ''/'' (replace_first ''/docs'' [] pathname))"

definition crumb_path :: "string list \<Rightarrow> nat \<Rightarrow> string" where
  "crumb_path parts i = ''/docs/'' @ join ''/'' (js_slice 0 (i + 1) parts)"

text \<open>\<open>replace(/\b\w/g, toUpperCase)\<close> after the hyphens became blanks: \<open>inside\<close> is whether the character before is a word's\<close>

definition is_word_char :: "char \<Rightarrow> bool" where
  "is_word_char c = (let n = (of_char c :: nat) in
     (48 \<le> n \<and> n \<le> 57) \<or> (65 \<le> n \<and> n \<le> 90) \<or> n = 95 \<or> (97 \<le> n \<and> n \<le> 122))"

definition upper_char :: "char \<Rightarrow> char" where
  "upper_char c = (let n = (of_char c :: nat) in if 97 \<le> n \<and> n \<le> 122 then char_of (n - 32) else c)"

fun capitalise :: "bool \<Rightarrow> string \<Rightarrow> string" where
  "capitalise inside [] = []"
| "capitalise inside (c # s) =
     (if is_word_char c \<and> \<not> inside then upper_char c else c) # capitalise (is_word_char c) s"

definition crumb_label :: "string \<Rightarrow> string" where
  "crumb_label part = capitalise False (map (\<lambda>c. if c = CHR ''-'' then CHR '' '' else c) part)"

text \<open>The crumbs after \<open>Docs\<close>: a label, and where it leads unless it is the last\<close>

definition Breadcrumbs :: "string \<Rightarrow> (string \<times> string option) list" where
  "Breadcrumbs pathname = (let parts = crumb_parts pathname in
     map (\<lambda>i. (crumb_label (parts ! i), if i = length parts - 1 then None else Some (crumb_path parts i))) [0..<length parts])"

subsection \<open>Contents, search, overview\<close>

text \<open>The id given to a heading that has none (ASCII text)\<close>

fun blanks_to_dash :: "bool \<Rightarrow> string \<Rightarrow> string" where
  "blanks_to_dash after [] = []"
| "blanks_to_dash after (c # s) =
     (if is_space c then (if after then [] else ''-'') @ blanks_to_dash True s else c # blanks_to_dash False s)"

definition is_slug_char :: "char \<Rightarrow> bool" where
  "is_slug_char c = (let n = (of_char c :: nat) in (97 \<le> n \<and> n \<le> 122) \<or> (48 \<le> n \<and> n \<le> 57) \<or> n = 45)"

definition heading_id :: "string \<Rightarrow> string \<Rightarrow> string" where
  "heading_id given content =
     (if given \<noteq> [] then given else filter is_slug_char (blanks_to_dash False (to_lower content)))"

text \<open>Among headings with the tops \<open>rect.top\<close>, the active one is the last within the top 200 pixels.\<close>

fun active_heading :: "string \<Rightarrow> (string \<times> rat) list \<Rightarrow> string" where
  "active_heading current [] = current"
| "active_heading current ((ident, y) # hs) = active_heading (if y < 200 then ident else current) hs"

definition search_results :: "(string \<Rightarrow> (string \<times> string \<times> string \<times> string) list) \<Rightarrow> string \<Rightarrow> (string \<times> string \<times> string \<times> string) list" where
  "search_results fuse query = (if trim query \<noteq> [] then fuse query else [])"

definition overview_cards :: "(string \<times> string \<times> nat) list" where
  "overview_cards = map (\<lambda>s. (ns_label s, (case ns_children s of [] \<Rightarrow> ns_path s | c # cs \<Rightarrow> nv_path c), length (ns_children s)))
     (filter (\<lambda>s. ns_id s \<noteq> ''overview'') navTree)"

definition isOverview :: "string \<Rightarrow> bool" where
  "isOverview currentPath = (currentPath = ''/docs'' \<or> currentPath = ''/docs/'')"

subsection \<open>Loading a page\<close>

record mdx_page =
  mp_component :: "string option"
  mp_error :: bool
  mp_flying :: "string list"

definition mdx_init :: mdx_page where
  "mdx_init = \<lparr>mp_component = None, mp_error = False, mp_flying = []\<rparr>"

text \<open>The effect for a path, and the end of a load of a file\<close>

definition load_page :: "string \<Rightarrow> mdx_page \<Rightarrow> mdx_page" where
  "load_page path s = (case mdxModules path of
      None \<Rightarrow> s\<lparr>mp_error := True, mp_component := None\<rparr>
    | Some file \<Rightarrow> s\<lparr>mp_error := False, mp_component := None, mp_flying := mp_flying s @ [file]\<rparr>)"

definition page_loaded :: "string \<Rightarrow> bool \<Rightarrow> mdx_page \<Rightarrow> mdx_page" where
  "page_loaded file ok s =
     (let s' = s\<lparr>mp_flying := remove1 file (mp_flying s)\<rparr> in
      if ok then s'\<lparr>mp_component := Some file\<rparr> else s'\<lparr>mp_error := True\<rparr>)"

datatype mdx_view = Page_not_found | Page_loading | Page_content string

definition MdxPage :: "mdx_page \<Rightarrow> mdx_view" where
  "MdxPage s = (if mp_error s then Page_not_found else case mp_component s of None \<Rightarrow> Page_loading | Some file \<Rightarrow> Page_content file)"

text \<open>A load is not cancelled when the path changes: the page opened first, if its file comes later, takes
  the place of the one opened after it.\<close>

lemma late_load_shows_old_page:
  assumes "mdxModules p = Some f" "mdxModules q = Some g"
  shows "MdxPage (page_loaded f True (page_loaded g True (load_page q (load_page p s)))) = Page_content f"
  using assms by (simp add: MdxPage_def page_loaded_def load_page_def Let_def)

subsection \<open>One tab at most\<close>

lemma landing_agree: "isLanding pathname = isLandingPage pathname"
  by (auto simp: isLanding_def landingPaths_def isLandingPage_def)

text \<open>The first segment of a path\<close>

definition first_segment :: "string \<Rightarrow> string" where
  "first_segment pathname = takeWhile (\<lambda>c. c \<noteq> CHR ''/'') (tl pathname)"

lemma active_segment:
  assumes "isActive pathname (CHR ''/'' # name)" "CHR ''/'' \<notin> set name"
  shows "first_segment pathname = name"
proof -
  have whole: "takeWhile (\<lambda>c. c \<noteq> CHR ''/'') name = name" using assms(2) by (auto intro: takeWhile_eq_all_conv [THEN iffD2])
  from assms(1) consider "pathname = CHR ''/'' # name" | t where "pathname = (CHR ''/'' # name) @ ''/'' @ t"
    by (auto simp: isActive_def starts_with_iff)
  then show ?thesis by cases (use assms(2) whole in \<open>auto simp: first_segment_def takeWhile_append\<close>)
qed

text \<open>On every path at most one tab of the bar is marked.\<close>

lemma one_tab_active: "length (filter (\<lambda>(path, label). isActive pathname path) (navItems pathname)) \<le> 1"
proof (cases "isLanding pathname")
  case True
  then show ?thesis
    by (auto simp: isLanding_def landingPaths_def navItems_def landingNavItems_def isActive_def starts_with_def)
next
  case False
  have seg: "isActive pathname (CHR ''/'' # name) \<Longrightarrow> first_segment pathname = name"
    if "name \<in> {''app'', ''history'', ''wallet'', ''buy-credits'', ''create-escrow'', ''nodes'', ''settings''}" for name
    using that by (intro active_segment) auto
  let ?at = "\<lambda>name. isActive pathname (CHR ''/'' # name)"
  from seg [of "''app''"] seg [of "''history''"] seg [of "''wallet''"] seg [of "''buy-credits''"] seg [of "''create-escrow''"]
    seg [of "''nodes''"] seg [of "''settings''"]
  show ?thesis using False by (auto simp: navItems_def appNavItems_def)
qed

subsection \<open>Links of the documentation\<close>

lemma sidebar_opens_own:
  "list_all (\<lambda>s. list_all (\<lambda>c. expandedSections (nv_path c) = {ns_id s} \<and> hasActiveChild (nv_path c) s) (ns_children s)) navTree"
  by code_simp

lemma pages_distinct: "distinct (map (\<lambda>(t, p, d, s). p) allPages)"
  by code_simp

text \<open>Which links of the documentation lead nowhere. Of the pages of the tree (and so of the sidebar,
  the search and the overview) exactly one has no file, \<open>Deployment\<close>, whose entry of the table names a file that is
  not there; every crumb of every page but the last leads to a path without a page; and so does the link
  of the node registration card.\<close>

lemma docs_dead_links:
  shows "filter (\<lambda>(title, path, d, s). mdxModules path = None) allPages
      = [(''Deployment'', ''/docs/build/deployment'', ''Deploy your application'', ''Build'')]
    \<and> list_all (\<lambda>(title, path, d, s). list_all (\<lambda>(label, link). case link of None \<Rightarrow> True | Some q \<Rightarrow> mdxModules q = None)
        (Breadcrumbs path)) allPages
    \<and> mdxModules ''/docs/build/getting-started'' = None"
proof (intro conjI)
  show "filter (\<lambda>(title, path, d, s). mdxModules path = None) allPages
      = [(''Deployment'', ''/docs/build/deployment'', ''Deploy your application'', ''Build'')]" by code_simp
  show "list_all (\<lambda>(title, path, d, s). list_all (\<lambda>(label, link). case link of None \<Rightarrow> True | Some q \<Rightarrow> mdxModules q = None)
        (Breadcrumbs path)) allPages" by code_simp
  show "mdxModules ''/docs/build/getting-started'' = None" by code_simp
qed

text \<open>The crumbs of a path lead up it. For a path of named segments below \<open>/docs\<close> there is one crumb per
  segment, the link of each is the path up to it, and the last, which is not a link, stands for the path itself.\<close>

lemma crumbs_lead_up:
  assumes "list_all (\<lambda>part. part \<noteq> [] \<and> CHR ''/'' \<notin> set part) parts" "parts \<noteq> []"
  shows "map snd (Breadcrumbs (''/docs/'' @ join ''/'' parts))
      = map (\<lambda>i. Some (''/docs/'' @ join ''/'' (take (i + 1) parts))) [0..<length parts - 1] @ [None]
    \<and> crumb_path (crumb_parts (''/docs/'' @ join ''/'' parts)) (length parts - 1) = ''/docs/'' @ join ''/'' parts"
proof -
  have "str_split ''/'' (join ''/'' parts) = parts"
    using assms by (intro split_join) (auto simp: list_all_iff)
  then have "str_split ''/'' (''/'' @ join ''/'' parts) = [] # parts"
    unfolding str_split_def by (subst split_from_sep) simp_all
  moreover have "replace_first ''/docs'' [] (''/docs/'' @ join ''/'' parts) = ''/'' @ join ''/'' parts"
    by (simp add: starts_with_def)
  moreover have "filter (\<lambda>part. part \<noteq> []) parts = parts"
    using assms(1) by (auto simp: list_all_iff intro: filter_True)
  ultimately have parts: "crumb_parts (''/docs/'' @ join ''/'' parts) = parts" by (simp add: crumb_parts_def)
  obtain n where n: "length parts = Suc n" using assms(2) by (cases parts) auto
  then have "[0..<length parts] = [0..<n] @ [n]" by simp
  then have "map snd (Breadcrumbs (''/docs/'' @ join ''/'' parts))
      = map (\<lambda>i. Some (''/docs/'' @ join ''/'' (take (i + 1) parts))) [0..<n] @ [None]"
    unfolding Breadcrumbs_def parts Let_def using n by (simp add: crumb_path_def js_slice_def)
  moreover have "crumb_path parts n = ''/docs/'' @ join ''/'' parts" using n by (simp add: crumb_path_def js_slice_def)
  ultimately show ?thesis unfolding parts using n by simp
qed

end
