(* ===== verification/Tour_View.thy ===== *)
theory Tour_View
  imports Local_Pages
begin

section \<open>The tour on the screen\<close>

text \<open>
  The effect of \<open>components/tutorial/TutorialManager.tsx\<close> that marks the element of a step, as a machine over
  a changing page, and the placement and contents of \<open>TutorialTooltip.tsx\<close>. The page is a map from selectors to
  the rectangles of the elements they find; an element that comes back after it was removed is a new
  one, without the mark. Rectangles are exact: the values the browser reports are small dyadic fractions.
\<close>

record rect =
  rc_left :: rat
  rc_top :: rat
  rc_width :: rat
  rc_height :: rat

abbreviation rc_right :: "rect \<Rightarrow> rat" where "rc_right r \<equiv> rc_left r + rc_width r"

abbreviation rc_bottom :: "rect \<Rightarrow> rat" where "rc_bottom r \<equiv> rc_top r + rc_height r"

subsection \<open>The tooltip\<close>

definition fitsBelow :: "rat \<Rightarrow> rect \<Rightarrow> bool" where
  "fitsBelow vh r = (rc_bottom r + 80 + 260 \<le> vh - 16)"

definition fitsAbove :: "rect \<Rightarrow> bool" where
  "fitsAbove r = (rc_top r - 80 - 260 \<ge> 16)"

definition fitsRight :: "rat \<Rightarrow> rect \<Rightarrow> bool" where
  "fitsRight vw r = (rc_right r + 80 + 360 \<le> vw - 16)"

definition getPosition :: "rat \<Rightarrow> rat \<Rightarrow> rect \<Rightarrow> rat \<times> rat" where
  "getPosition vw vh r =
     (let inBottomHalf = rc_top r + rc_height r / 2 > vh / 2;
          left0 = rc_left r + rc_width r / 2 - 360 / 2;
          left1 = (if left0 < 16 then 16 else left0);
          left2 = (if left1 + 360 > vw - 16 then vw - 360 - 16 else left1);
          above = rc_top r - 80 - 260; below = rc_bottom r + 80;
          beside = max 16 (rc_top r + rc_height r / 2 - 260 / 2);
          (left, y) =
            (if inBottomHalf \<and> fitsAbove r then (left2, above)
             else if \<not> inBottomHalf \<and> fitsBelow vh r then (left2, below)
             else if fitsAbove r then (left2, above)
             else if fitsBelow vh r then (left2, below)
             else if fitsRight vw r then (rc_right r + 80, beside)
             else (max 16 (rc_left r - 80 - 360), beside));
          y1 = (if y < 16 then 16 else y) in
      (left, if y1 + 260 > vh - 16 then vh - 260 - 16 else y1))"

text \<open>The label, the dots, and whether there is a button back and what the other says\<close>

datatype progress_dot = Dot_now | Dot_past | Dot_next

definition TutorialTooltip :: "nat \<Rightarrow> nat \<Rightarrow> string \<times> progress_dot list \<times> bool \<times> string" where
  "TutorialTooltip currentStepIndex totalSteps =
     (''Step '' @ nat_str (currentStepIndex + 1) @ '' of '' @ nat_str totalSteps,
      map (\<lambda>i. if i = currentStepIndex then Dot_now else if i < currentStepIndex then Dot_past else Dot_next) [0..<totalSteps],
      currentStepIndex \<noteq> 0,
      if int currentStepIndex = int totalSteps - 1 then ''Finish'' else ''Next'')"

definition covers :: "rat \<times> rat \<Rightarrow> rect \<Rightarrow> bool" where
  "covers p r = (fst p < rc_right r \<and> rc_left r < fst p + 360 \<and> snd p < rc_bottom r \<and> rc_top r < snd p + 260)"

text \<open>On a screen with room for it, the tooltip for an element that is at least partly on it stays within the
  margins; and it does not cover the element if there is room on one of its four sides. Without such room it does.\<close>

lemma tooltip_within:
  assumes "392 \<le> vw" "292 \<le> vh" "0 \<le> rc_right r" "rc_left r \<le> vw"
  shows "16 \<le> fst (getPosition vw vh r) \<and> fst (getPosition vw vh r) + 360 \<le> vw - 16
    \<and> 16 \<le> snd (getPosition vw vh r) \<and> snd (getPosition vw vh r) + 260 \<le> vh - 16"
  using assms by (auto simp: getPosition_def fitsRight_def Let_def max_def)

lemma tooltip_clear:
  assumes "392 \<le> vw" "292 \<le> vh" "0 \<le> rc_width r" "0 \<le> rc_height r"
    "fitsAbove r \<or> fitsBelow vh r \<or> fitsRight vw r \<or> 16 \<le> rc_left r - 80 - 360"
  shows "\<not> covers (getPosition vw vh r) r"
  using assms by (auto simp: getPosition_def fitsRight_def fitsAbove_def fitsBelow_def covers_def Let_def max_def)

lemma tooltip_can_cover:
  "covers (getPosition 1280 600 \<lparr>rc_left = 320, rc_top = 300, rc_width = 640, rc_height = 200\<rparr>)
     \<lparr>rc_left = 320, rc_top = 300, rc_width = 640, rc_height = 200\<rparr>"
  by (simp add: getPosition_def fitsRight_def fitsAbove_def fitsBelow_def covers_def Let_def)

subsection \<open>Marking the element of a step\<close>

text \<open>\<open>hl_prev\<close> and \<open>hl_rect\<close> are \<open>prevSelectorRef\<close> and \<open>targetRect\<close>; \<open>hl_target\<close> is the selector of the effect that
  listens and retries, if one does; the elements of \<open>hl_marked\<close> have the class.\<close>

record highlight =
  hl_page :: "string \<Rightarrow> rect option"
  hl_marked :: "string set"
  hl_prev :: "string option"
  hl_rect :: "rect option"
  hl_target :: "string option"

definition highlight_init :: "(string \<Rightarrow> rect option) \<Rightarrow> highlight" where
  "highlight_init page = \<lparr>hl_page = page, hl_marked = {}, hl_prev = None, hl_rect = None, hl_target = None\<rparr>"

definition unmark_prev :: "highlight \<Rightarrow> highlight" where
  "unmark_prev s = (case hl_prev s of
      Some p \<Rightarrow> if hl_page s p \<noteq> None then s\<lparr>hl_marked := hl_marked s - {p}\<rparr> else s
    | None \<Rightarrow> s)"

definition updateHighlight :: "string \<Rightarrow> highlight \<Rightarrow> highlight" where
  "updateHighlight selector s = (case hl_page s selector of
      None \<Rightarrow> s
    | Some r \<Rightarrow> s\<lparr>hl_marked := insert selector (hl_marked s), hl_rect := Some r, hl_prev := Some selector\<rparr>)"

text \<open>The effect, for the selector of the step shown or for no step; the clean-up of the one before only
  stops its listeners\<close>

definition highlight_effect :: "string option \<Rightarrow> highlight \<Rightarrow> highlight" where
  "highlight_effect shown s = (case shown of
      None \<Rightarrow> (unmark_prev s)\<lparr>hl_prev := None, hl_rect := None, hl_target := None\<rparr>
    | Some selector \<Rightarrow>
        updateHighlight selector
          ((if hl_prev s \<noteq> None \<and> hl_prev s \<noteq> Some selector then unmark_prev s else s)\<lparr>hl_target := Some selector\<rparr>))"

definition shown_target :: "tour \<Rightarrow> string option" where
  "shown_target t = (if to_active t \<and> to_index t < length INFERENCE_TUTORIAL_STEPS
     then Some (tp_targetSelector (INFERENCE_TUTORIAL_STEPS ! to_index t)) else None)"

text \<open>The manager is rendered with its tooltip only for a step with a rectangle.\<close>

definition TutorialManager :: "tour \<Rightarrow> highlight \<Rightarrow> (rect \<times> nat) option" where
  "TutorialManager t s = (if shown_target t = None then None else map_option (\<lambda>r. (r, to_index t)) (hl_rect s))"

inductive highlight_step :: "highlight \<Rightarrow> highlight \<Rightarrow> bool" where
  effect_runs: "highlight_step s (highlight_effect shown s)"
| listener_fires: "hl_target s = Some selector \<Longrightarrow> highlight_step s (updateHighlight selector s)"
| page_changes: "marked \<subseteq> hl_marked s \<Longrightarrow> \<forall>p \<in> marked. page p \<noteq> None \<Longrightarrow>
    highlight_step s (s\<lparr>hl_page := page, hl_marked := marked\<rparr>)"
| leaves_page: "highlight_step s ((unmark_prev s)\<lparr>hl_target := None\<rparr>)"

inductive highlight_run :: "highlight \<Rightarrow> bool" where
  highlight_start: "highlight_run (highlight_init page)"
| highlight_more: "highlight_run s \<Longrightarrow> highlight_step s s' \<Longrightarrow> highlight_run s'"

text \<open>At most one element is marked: the one remembered, and while a step is shown the one of that step. A mark
  is only on an element of the page.\<close>

definition one_marked :: "highlight \<Rightarrow> bool" where
  "one_marked s = (hl_marked s \<subseteq> set_option (hl_prev s) \<and> (\<forall>p \<in> hl_marked s. hl_page s p \<noteq> None)
     \<and> (\<forall>selector. hl_target s = Some selector \<longrightarrow> hl_marked s \<subseteq> {selector}))"

lemma unmark_prev_marks:
  assumes "one_marked s" shows "hl_marked (unmark_prev s) = {}"
proof (cases "hl_prev s")
  case (Some p)
  have "q = p \<and> hl_page s p \<noteq> None" if "q \<in> hl_marked s" for q
    using that assms Some by (auto simp: one_marked_def)
  then show ?thesis using Some by (auto simp: unmark_prev_def split: if_splits)
qed (use assms in \<open>simp add: one_marked_def unmark_prev_def\<close>)

lemma unmark_prev_keeps [simp]:
  "hl_page (unmark_prev s) = hl_page s" "hl_prev (unmark_prev s) = hl_prev s" "hl_rect (unmark_prev s) = hl_rect s"
  by (auto simp: unmark_prev_def split: option.splits)

lemma updateHighlight_marked:
  "hl_target s = Some selector \<Longrightarrow> one_marked s \<Longrightarrow> one_marked (updateHighlight selector s)"
  by (cases "hl_page s selector") (auto simp: one_marked_def updateHighlight_def)

lemma highlight_step_marked: "highlight_step s s' \<Longrightarrow> one_marked s \<Longrightarrow> one_marked s'"
proof (induction rule: highlight_step.induct)
  case (effect_runs s shown)
  show ?case
  proof (cases shown)
    case None
    with unmark_prev_marks [OF effect_runs] show ?thesis by (simp add: highlight_effect_def one_marked_def)
  next
    case (Some selector)
    let ?s = "(if hl_prev s \<noteq> None \<and> hl_prev s \<noteq> Some selector then unmark_prev s else s)\<lparr>hl_target := Some selector\<rparr>"
    have "one_marked ?s" using effect_runs unmark_prev_marks [OF effect_runs] by (auto simp: one_marked_def)
    with Some show ?thesis by (simp add: highlight_effect_def updateHighlight_marked)
  qed
next
  case (page_changes s page marked)
  then show ?case unfolding one_marked_def by (simp, blast)
next
  case (leaves_page s)
  then show ?case using unmark_prev_marks [OF leaves_page] by (simp add: one_marked_def)
qed (rule updateHighlight_marked)

lemma one_highlight: "highlight_run s \<Longrightarrow> one_marked s"
  by (induction rule: highlight_run.induct) (simp add: one_marked_def highlight_init_def, rule highlight_step_marked)

text \<open>Nothing stays marked when the tour ends.\<close>

lemma tour_end_unmarks:
  "highlight_run s \<Longrightarrow> hl_marked (highlight_effect None s) = {}" "highlight_run s \<Longrightarrow> hl_marked (unmark_prev s) = {}"
  using unmark_prev_marks [OF one_highlight] by (simp_all add: highlight_effect_def)

text \<open>A step whose element is not on the page is shown where the step before it was: the toggles of the
  currency and of the insurance are only there when credits are chosen.\<close>

lemma missing_target_keeps_place:
  assumes "shown_target t = Some selector" "hl_page s selector = None" "hl_rect s = Some r"
  shows "TutorialManager t (highlight_effect (shown_target t) s) = Some (r, to_index t)"
  using assms by (simp add: TutorialManager_def highlight_effect_def updateHighlight_def)

end
