(* ===== verification/Dashboard_View.thy ===== *)
theory Dashboard_View
  imports Node_Hooks Credit_View
begin

section \<open>The numbers of the dashboards\<close>

text \<open>
  What \<open>frontend/src/pages/NodeDashboardPage.tsx\<close> and \<open>DeveloperDashboardPage.tsx\<close> compute of the statistics
  their hooks fetched, the badges of \<open>components/NodeJobHistory.tsx\<close> and
  \<open>components/QuorumVisualizer.tsx\<close>. The statistics count jobs; amounts are
  decimal strings, and doubles once they are divided.
\<close>

subsection \<open>\<open>NodeDashboardPage\<close>\<close>

record node_stats =
  ns_total_jobs :: nat
  ns_success :: nat
  ns_failed :: nat
  ns_slashed :: bool
  ns_slash_count :: nat
  ns_current_stake_blind :: string
  ns_total_earned_blind :: string

definition isSlashed :: "node_stats option \<Rightarrow> bool" where
  "isSlashed stats = (case stats of None \<Rightarrow> False | Some s \<Rightarrow> ns_slashed s \<or> ns_slash_count s \<ge> 2)"

text \<open>\<open>Math.round\<close> is the floor of the number and a half.\<close>

definition successRate :: "node_stats option \<Rightarrow> int" where
  "successRate stats = (case stats of
      Some s \<Rightarrow> if ns_total_jobs s > 0
        then \<lfloor>fl (fl (of_nat (ns_success s) / of_nat (ns_total_jobs s)) * 100) + 1 / 2\<rfloor> else 0
    | None \<Rightarrow> 0)"

definition jobStatusData :: "node_stats option \<Rightarrow> (string \<times> int) list" where
  "jobStatusData stats =
     (let get = (\<lambda>f. case stats of None \<Rightarrow> 0 | Some s \<Rightarrow> int (f s)) in
      [(''Completed'', get ns_success), (''Failed'', get ns_failed), (''Pending'', get ns_total_jobs - get ns_success - get ns_failed)])"

definition no_job_data :: "node_stats option \<Rightarrow> bool" where
  "no_job_data stats = list_all (\<lambda>(name, n). n = 0) (jobStatusData stats)"

definition stat_text :: "(node_stats \<Rightarrow> string) \<Rightarrow> node_stats option \<Rightarrow> string" where
  "stat_text f stats = weiToEth_node (Some (JStr (nullish (map_option f stats) ''0'')))"

text \<open>Days and earnings of the chart: four fixed points, and the earnings or \<open>5.2\<close>\<close>

definition earningsData :: "node_stats option \<Rightarrow> (string \<times> rat) list" where
  "earningsData stats =
     (let earned = decimal_number (stat_text ns_total_earned_blind stats) in
      [(''Day 1'', fl (5 / 10)), (''Day 2'', fl (12 / 10)), (''Day 3'', fl (21 / 10)), (''Day 4'', fl (35 / 10)),
       (''Day 5'', case earned of Some e \<Rightarrow> if e \<noteq> 0 then e else fl (52 / 10) | None \<Rightarrow> fl (52 / 10))])"

definition earnings_chart :: "node_stats option \<Rightarrow> (string \<times> rat) list option" where
  "earnings_chart stats =
     (if decimal_number (stat_text ns_total_earned_blind stats) = Some 0 then None else Some (earningsData stats))"

definition pending_rewards :: "node_stats option \<Rightarrow> string option" where
  "pending_rewards stats = (case stats of
      None \<Rightarrow> Some ''--''
    | Some s \<Rightarrow> if ns_total_earned_blind s = [] then Some ''--''
        else map_option (\<lambda>e. to_fixed 4 (fl (e * fl (1 / 10)))) (decimal_number (weiToEth_node (Some (JStr (ns_total_earned_blind s))))))"

text \<open>\<open>None\<close> where the stored amount is no decimal number\<close>

definition average_reward :: "node_stats option \<Rightarrow> string option" where
  "average_reward stats = (case stats of
      None \<Rightarrow> Some ''0''
    | Some s \<Rightarrow> if ns_total_jobs s = 0 then Some ''0''
        else map_option (\<lambda>e. to_fixed 4 (fl (fl (e / of_nat (ns_total_jobs s)) / 10 ^ 18))) (decimal_number (ns_total_earned_blind s)))"

definition uptime :: "node_stats option \<Rightarrow> string" where
  "uptime stats = (case stats of None \<Rightarrow> ''99.9%'' | Some s \<Rightarrow> int_str (max 0 (100 - int (ns_failed s) * 5)) @ ''%'')"

definition filteredJobs :: "string \<Rightarrow> (string \<times> 'j) list \<Rightarrow> (string \<times> 'j) list" where
  "filteredJobs role jobs = (if role = ''all'' then jobs else filter (\<lambda>(r, j). r = role) jobs)"

definition role_tabs :: "(string \<times> 'j) list \<Rightarrow> (string \<times> string \<times> nat) list" where
  "role_tabs jobs =
     [(''all'', ''All Jobs'', length jobs),
      (''leader'', ''As Leader'', length (filter (\<lambda>(r, j). r = ''leader'') jobs)),
      (''verifier'', ''As Verifier'', length (filter (\<lambda>(r, j). r = ''verifier'') jobs))]"

text \<open>The table below the tabs: the error of the statistics, a spinner, a link to register, or the jobs\<close>

datatype 'j jobs_table = Jobs_error string | Jobs_loading | Jobs_none | Jobs_rows "(string \<times> 'j) list"

definition jobs_table :: "string option \<Rightarrow> bool \<Rightarrow> string \<Rightarrow> (string \<times> 'j) list \<Rightarrow> 'j jobs_table" where
  "jobs_table statsError jobsLoading filterRole jobs =
     (if truthy statsError then Jobs_error (the statsError) else if jobsLoading then Jobs_loading
      else if filteredJobs filterRole jobs = [] then Jobs_none else Jobs_rows (filteredJobs filterRole jobs))"

lemma successRate_percent:
  assumes "ns_success s \<le> ns_total_jobs s"
  shows "0 \<le> successRate (Some s) \<and> successRate (Some s) \<le> 100"
proof (cases "ns_total_jobs s = 0")
  case False
  let ?q = "of_nat (ns_success s) / of_nat (ns_total_jobs s) :: rat"
  have q: "0 \<le> ?q" "?q \<le> 1" using assms False by (simp_all add: divide_le_eq)
  have "\<bar>fl ?q - ?q\<bar> \<le> ?q / 2 ^ 53" "\<bar>fl (fl ?q * 100) - fl ?q * 100\<bar> \<le> \<bar>fl ?q * 100\<bar> / 2 ^ 53"
    using fl_error [of ?q] fl_error [of "fl ?q * 100"] q by simp_all
  with q have "0 \<le> fl (fl ?q * 100) + 1 / 2" "fl (fl ?q * 100) + 1 / 2 < 101" by (auto simp: abs_le_iff abs_if split: if_splits)
  with False show ?thesis by (simp add: successRate_def floor_le_iff)
qed (simp add: successRate_def)

lemma jobStatusData_total: "sum_list (map snd (jobStatusData (Some s))) = int (ns_total_jobs s)"
  by (simp add: jobStatusData_def)

text \<open>The number on a tab is the number of rows it shows.\<close>

lemma tab_counts: "list_all (\<lambda>(role, label, n). n = length (filteredJobs role jobs)) (role_tabs jobs)"
  by (simp add: role_tabs_def filteredJobs_def)

text \<open>The chart is only drawn for a node that earned something, so its last point is what the node earned; the
  points before it are the same for every node.\<close>

lemma chart_last_point:
  assumes "earnings_chart stats = Some points" "decimal_number (stat_text ns_total_earned_blind stats) = Some e"
  shows "last points = (''Day 5'', e)" "butlast points = butlast (earningsData None)"
  using assms by (auto simp: earnings_chart_def earningsData_def Let_def split: if_splits)

subsection \<open>Badges\<close>

definition job_badge :: "string \<Rightarrow> string" where
  "job_badge status = nullish (map_of [(''COMPLETED'', ''Completed''), (''FAILED'', ''Failed''), (''REFUNDED'', ''Refunded''),
     (''RUNNING'', ''Running'')] status) status"

definition role_badge :: "string \<Rightarrow> string" where
  "role_badge role = (if role = ''leader'' then ''Leader'' else ''Verifier'')"

datatype rep_colour = Rep_high | Rep_middle | Rep_low

definition RepBadge :: "rat option \<Rightarrow> rep_colour option" where
  "RepBadge rep = map_option (\<lambda>r. if r > 80 then Rep_high else if r > 50 then Rep_middle else Rep_low) rep"

definition quorum_complete :: "string \<Rightarrow> bool" where
  "quorum_complete status = (status = ''COMPLETE'' \<or> status = ''EXECUTED'')"

subsection \<open>\<open>DeveloperDashboardPage\<close>\<close>

record developer_stats =
  ds_total_jobs :: nat
  ds_completed :: nat
  ds_failed :: nat
  ds_rejected :: nat
  ds_total_cusdc_spent :: rat
  ds_total_blind_spent :: rat

definition developer_cards :: "developer_stats option \<Rightarrow> (string \<times> string) list" where
  "developer_cards stats = (case stats of
      Some s \<Rightarrow> if ds_total_jobs s > 0
        then [(''Total Jobs'', nat_str (ds_total_jobs s)), (''Completed'', nat_str (ds_completed s)), (''Failed'', nat_str (ds_failed s)),
          (''cUSDC Spent'', to_fixed 2 (ds_total_cusdc_spent s))]
        else []
    | None \<Rightarrow> [])"

end
