(* ===== verification/Js_Json.thy ===== *)
theory Js_Json
  imports Js_World Js_Number
begin

section \<open>\<open>JSON.parse\<close>\<close>

text \<open>
  The grammar of JSON texts over the code units of the model (escapes of larger code units, which no string
  here can hold, are refused). Numbers are rounded to doubles; of equal keys of an object the last value is kept at the
  place of the first. \<open>None\<close> stands for the SyntaxError. Printing a value and parsing it gives the value back.
\<close>

subsection \<open>Strings and numbers\<close>

definition is_json_space :: "char \<Rightarrow> bool" where
  "is_json_space c = ((of_char c :: nat) \<in> {9, 10, 13, 32})"

definition skip_ws :: "string \<Rightarrow> string" where
  "skip_ws s = dropWhile is_json_space s"

definition unescape :: "char \<Rightarrow> char option" where
  "unescape c = map_of [(CHR 0x22, CHR 0x22), (CHR 0x5C, CHR 0x5C), (CHR ''/'', CHR ''/''), (CHR ''b'', char_of (8 :: nat)),
     (CHR ''f'', char_of (12 :: nat)), (CHR ''n'', char_of (10 :: nat)), (CHR ''r'', char_of (13 :: nat)), (CHR ''t'', char_of (9 :: nat))] c"

text \<open>The code unit at the head of a string's text, and what is left after it\<close>

definition unit_at :: "char \<Rightarrow> string \<Rightarrow> (char \<times> string) option" where
  "unit_at c s =
     (if c = CHR 0x5C then (case s of
          [] \<Rightarrow> None
        | e # t \<Rightarrow>
            if e = CHR ''u'' then (case parse_digits 16 0 (take 4 t) of
                None \<Rightarrow> None
              | Some n \<Rightarrow> if 4 \<le> length t \<and> n < 256 then Some (char_of n, drop 4 t) else None)
            else map_option (\<lambda>u. (u, t)) (unescape e))
      else if (of_char c :: nat) < 32 then None else Some (c, s))"

lemma unit_at_shorter: "unit_at c s = Some (u, r) \<Longrightarrow> length r \<le> length s"
  by (auto simp: unit_at_def split: if_splits list.splits option.splits)

function str_body :: "string \<Rightarrow> (string \<times> string) option" where
  "str_body [] = None"
| "str_body (c # s) = (if c = CHR 0x22 then Some ([], s)
     else case unit_at c s of None \<Rightarrow> None | Some (u, r) \<Rightarrow> map_option (map_prod (Cons u) id) (str_body r))"
  by pat_completeness auto
termination by (relation "measure length") (auto dest: unit_at_shorter)

definition is_digit :: "char \<Rightarrow> bool" where
  "is_digit c = (48 \<le> (of_char c :: nat) \<and> (of_char c :: nat) \<le> 57)"

definition digits_of :: "string \<Rightarrow> nat" where
  "digits_of s = (case parse_nat 10 s of None \<Rightarrow> 0 | Some n \<Rightarrow> n)"

text \<open>The three parts of a number: an integer without leading zeros, a fraction, an exponent\<close>

definition int_part :: "string \<Rightarrow> (nat \<times> string) option" where
  "int_part s = (case s of
      [] \<Rightarrow> None
    | c # t \<Rightarrow> if c = CHR ''0'' then Some (0, t)
        else if is_digit c then Some (digits_of (takeWhile is_digit s), dropWhile is_digit s) else None)"

definition fraction :: "string \<Rightarrow> (rat \<times> string) option" where
  "fraction s = (case s of
      c # t \<Rightarrow> if c \<noteq> CHR ''.'' then Some (0, s)
        else let ds = takeWhile is_digit t in
          if ds = [] then None else Some (of_nat (digits_of ds) / 10 ^ length ds, dropWhile is_digit t)
    | [] \<Rightarrow> Some (0, s))"

definition exponent :: "string \<Rightarrow> (rat \<times> string) option" where
  "exponent s = (case s of
      c # t \<Rightarrow> if c \<noteq> CHR ''e'' \<and> c \<noteq> CHR ''E'' then Some (1, s)
        else let neg = (take 1 t = ''-''); u = (if take 1 t = ''-'' \<or> take 1 t = ''+'' then tl t else t);
                 ds = takeWhile is_digit u in
          if ds = [] then None
          else Some (if neg then 1 / 10 ^ digits_of ds else 10 ^ digits_of ds, dropWhile is_digit u)
    | [] \<Rightarrow> Some (1, s))"

definition json_number :: "string \<Rightarrow> (json \<times> string) option" where
  "json_number s =
     (let neg = (take 1 s = ''-'') in
      case int_part (if neg then tl s else s) of None \<Rightarrow> None | Some (i, s1) \<Rightarrow>
      (case fraction s1 of None \<Rightarrow> None | Some (f, s2) \<Rightarrow>
      (case exponent s2 of None \<Rightarrow> None | Some (e, s3) \<Rightarrow>
         Some (JNum (fl ((if neg then - 1 else 1) * (of_nat i + f) * e)), s3))))"

subsection \<open>Values\<close>

text \<open>The object a list of members makes\<close>

definition obj_put :: "string \<Rightarrow> 'v \<Rightarrow> (string \<times> 'v) list \<Rightarrow> (string \<times> 'v) list" where
  "obj_put k v kvs = (if k \<in> fst ` set kvs then map (\<lambda>(k', v'). (k', if k' = k then v else v')) kvs else kvs @ [(k, v)])"

definition obj_of :: "(string \<times> 'v) list \<Rightarrow> (string \<times> 'v) list" where
  "obj_of kvs = fold (\<lambda>(k, v). obj_put k v) kvs []"

lemma skip_ws_less: "skip_ws s = c # t \<Longrightarrow> length t < length s"
  using length_dropWhile_le [of is_json_space s] by (simp add: skip_ws_def)

text \<open>The guards on lengths always hold (\<open>json_consumes\<close>)\<close>

function json_value :: "string \<Rightarrow> (json \<times> string) option"
  and json_elements :: "string \<Rightarrow> (json list \<times> string) option"
  and json_members :: "string \<Rightarrow> ((string \<times> json) list \<times> string) option" where
  "json_value s = (case skip_ws s of
      [] \<Rightarrow> None
    | c # t \<Rightarrow>
        if c = CHR 0x22 then map_option (map_prod JStr id) (str_body t)
        else if c = CHR ''['' then
          (if take 1 (skip_ws t) = '']'' then Some (JArr [], tl (skip_ws t))
           else map_option (map_prod JArr id) (json_elements t))
        else if c = CHR ''{'' then
          (if take 1 (skip_ws t) = ''}'' then Some (JObj [], tl (skip_ws t))
           else map_option (map_prod (\<lambda>kvs. JObj (obj_of kvs)) id) (json_members t))
        else if starts_with (c # t) ''null'' then Some (JNull, drop 3 t)
        else if starts_with (c # t) ''true'' then Some (JBool True, drop 3 t)
        else if starts_with (c # t) ''false'' then Some (JBool False, drop 4 t)
        else json_number (c # t))"
| "json_elements s = (case json_value s of
      None \<Rightarrow> None
    | Some (v, r) \<Rightarrow> (case skip_ws r of
          [] \<Rightarrow> None
        | c # t \<Rightarrow>
            if c = CHR '']'' then Some ([v], t)
            else if c = CHR '','' \<and> length t < length s then map_option (map_prod (Cons v) id) (json_elements t)
            else None))"
| "json_members s = (case skip_ws s of
      [] \<Rightarrow> None
    | c # t \<Rightarrow>
        if c \<noteq> CHR 0x22 then None
        else (case str_body t of
            None \<Rightarrow> None
          | Some (k, r) \<Rightarrow> (case skip_ws r of
                [] \<Rightarrow> None
              | d # u \<Rightarrow>
                  if d \<noteq> CHR '':'' \<or> \<not> length u < length s then None
                  else (case json_value u of
                      None \<Rightarrow> None
                    | Some (v, r') \<Rightarrow> (case skip_ws r' of
                          [] \<Rightarrow> None
                        | e # x \<Rightarrow>
                            if e = CHR ''}'' then Some ([(k, v)], x)
                            else if e = CHR '','' \<and> length x < length s
                            then map_option (map_prod (Cons (k, v)) id) (json_members x)
                            else None)))))"
  by pat_completeness auto
termination
  by (relation "measure (\<lambda>x. case x of Inl s \<Rightarrow> 2 * length s | Inr (Inl s) \<Rightarrow> 2 * length s + 1 | Inr (Inr s) \<Rightarrow> 2 * length s + 1)")
    (auto dest: skip_ws_less)

declare json_value.simps [simp del] json_elements.simps [simp del] json_members.simps [simp del]

definition json_parse :: "string \<Rightarrow> json option" where
  "json_parse s = (case json_value s of None \<Rightarrow> None | Some (j, r) \<Rightarrow> if skip_ws r = [] then Some j else None)"

subsection \<open>Every parser consumes\<close>

lemma skip_ws_le: "length (skip_ws s) \<le> length s"
  by (simp add: skip_ws_def length_dropWhile_le)

lemma str_body_shorter: "str_body s = Some (u, r) \<Longrightarrow> length r < length s"
proof (induction s arbitrary: u rule: str_body.induct)
  case (2 c s)
  then show ?case by (force simp: less_Suc_eq_le split: if_splits option.splits dest: unit_at_shorter)
qed simp

lemma int_part_shorter: "int_part s = Some (n, r) \<Longrightarrow> length r < length s"
  using length_dropWhile_le [of is_digit] by (fastforce simp: int_part_def less_Suc_eq_le split: list.splits if_splits)

lemma fraction_shorter: "fraction s = Some (n, r) \<Longrightarrow> length r \<le> length s"
  using length_dropWhile_le [of is_digit] by (force simp: fraction_def Let_def intro: le_SucI split: list.splits if_splits)

lemma exponent_shorter: "exponent s = Some (n, r) \<Longrightarrow> length r \<le> length s"
proof (cases s)
  case (Cons c t)
  assume e: "exponent s = Some (n, r)"
  let ?u = "if take 1 t = ''-'' \<or> take 1 t = ''+'' then tl t else t"
  from e Cons have "r = s \<or> r = dropWhile is_digit ?u" by (auto simp: exponent_def Let_def split: if_splits)
  moreover have "length (dropWhile is_digit ?u) \<le> length t" using length_dropWhile_le [of is_digit ?u] by (auto split: if_splits)
  ultimately show ?thesis using Cons by auto
qed (simp add: exponent_def)

lemma number_shorter: "json_number s = Some (j, r) \<Longrightarrow> length r < length s"
  using int_part_shorter fraction_shorter exponent_shorter
  by (fastforce simp: json_number_def Let_def split: option.splits if_splits)

lemma json_consumes:
  "json_value s = Some (v, r) \<Longrightarrow> length r < length s"
  "json_elements s = Some (vs, r) \<Longrightarrow> length r < length s"
  "json_members s = Some (kvs, r) \<Longrightarrow> length r < length s"
proof (induction s and s and s arbitrary: v r and vs r and kvs r rule: json_value_json_elements_json_members.induct)
  case (1 s)
  show ?case
  proof (cases "skip_ws s")
    case Nil
    with 1(3) show ?thesis by (subst (asm) json_value.simps) simp
  next
    case (Cons c t)
    note less = skip_ws_less [OF Cons] skip_ws_le [of t]
    have items: "length r < length t" if "c = CHR ''[''" "take 1 (skip_ws t) \<noteq> '']''" "json_elements t = Some (vs, r)" for vs r
      using 1(1) [OF Cons _ that(1,2,3)] that(1) by simp
    have members: "length r < length t" if "c = CHR ''{''" "take 1 (skip_ws t) \<noteq> ''}''" "json_members t = Some (kvs, r)" for kvs r
      using 1(2) [OF Cons _ _ that(1,2,3)] that(1) by simp
    show ?thesis using 1(3) less
      by (subst (asm) json_value.simps)
        (auto simp: Cons simp del: One_nat_def split: if_splits dest: str_body_shorter items members number_shorter)
  qed
next
  case (2 s)
  from 2(3) obtain v1 r1 c t where v1: "json_value s = Some (v1, r1)" and t: "skip_ws r1 = c # t"
    by (subst (asm) json_elements.simps) (auto split: option.splits list.splits)
  note less = 2(1) [OF v1] skip_ws_less [OF t]
  have more: "length r' < length t" if "c = CHR '',''" "length t < length s" "json_elements t = Some (vs', r')" for vs' r'
    using 2(2) [OF v1 refl t _ _ that(3)] that(1,2) by simp
  from 2(3) v1 t less more show ?case by (subst (asm) json_elements.simps) (force split: if_splits)
next
  case (3 s)
  from 3(3) obtain t k r1 u v1 r2 c x where t: "skip_ws s = CHR 0x22 # t" and k: "str_body t = Some (k, r1)"
    and u: "skip_ws r1 = CHR '':'' # u" "length u < length s" and v1: "json_value u = Some (v1, r2)" and x: "skip_ws r2 = c # x"
    by (subst (asm) json_members.simps) (auto split: option.splits list.splits if_splits)
  have less: "length r2 < length u" using 3(1) [OF t _ k refl u(1) _ v1] u(2) by simp
  have more: "length r' < length x" if "c = CHR '',''" "length x < length s" "json_members x = Some (kvs', r')" for kvs' r'
    using 3(2) [OF t _ k refl u(1) _ v1 refl x _ _ that(3)] u(2) that(1,2) by simp
  from 3(3) t k u v1 x less skip_ws_less [OF x] more show ?case by (subst (asm) json_members.simps) (force split: if_splits)
qed

subsection \<open>Printing and parsing\<close>

text \<open>Values that are printed exactly: integers a double holds, objects without a key twice\<close>

fun plain :: "json \<Rightarrow> bool" where
  "plain (JNum q) = (q = of_int \<lfloor>q\<rfloor> \<and> \<bar>\<lfloor>q\<rfloor>\<bar> < 2 ^ 53)"
| "plain (JArr xs) = list_all plain xs"
| "plain (JObj kvs) = (distinct (map fst kvs) \<and> list_all (\<lambda>kv. plain (snd kv)) kvs)"
| "plain j = True"

lemma escape_unit:
  "\<exists>d t. escape_char c = d # t \<and> d \<noteq> CHR 0x22 \<and> unit_at d (t @ r) = Some (c, r)"
proof -
  define n where "n = (of_char c :: nat)"
  have c: "c = char_of n" and n: "n < 256" by (simp_all add: n_def)
  show ?thesis
  proof (cases "n < 32 \<and> n \<noteq> 8 \<and> n \<noteq> 9 \<and> n \<noteq> 10 \<and> n \<noteq> 12 \<and> n \<noteq> 13")
    case True
    then have special: "c \<noteq> CHR 0x22" "c \<noteq> CHR 0x5C" by (auto simp: n_def)
    have four: "length (fixed_digits 16 4 n) = 4" by simp
    have "escape_char c = CHR 0x5C # CHR ''u'' # fixed_digits 16 4 n"
      using True special by (simp add: escape_char_def Let_def flip: n_def)
    moreover have "parse_digits 16 0 (fixed_digits 16 4 n) = Some n"
      using parse_fixed_digits [of 16 n 4 0] n by simp
    ultimately show ?thesis using n by (simp add: unit_at_def four c del: fixed_digits.simps)
  next
    case False
    have "n mod 256 = n" using n by simp
    with False show ?thesis
      by (auto simp: escape_char_def Let_def unit_at_def unescape_def n_def [symmetric] c)
  qed
qed

lemma str_body_quote: "str_body (concat (map escape_char s) @ CHR 0x22 # r) = Some (s, r)"
proof (induction s)
  case (Cons c s)
  obtain d t where dt: "escape_char c = d # t" "d \<noteq> CHR 0x22"
      "unit_at d (t @ concat (map escape_char s) @ CHR 0x22 # r) = Some (c, concat (map escape_char s) @ CHR 0x22 # r)"
    using escape_unit [of c "concat (map escape_char s) @ CHR 0x22 # r"] by auto
  with Cons show ?case by simp
qed simp

text \<open>What may follow a value inside a printed text\<close>

definition stops :: "string \<Rightarrow> bool" where
  "stops r = (case r of [] \<Rightarrow> True | c # _ \<Rightarrow> c \<in> set '',]}'')"

lemma nat_str_digits: "c \<in> set (nat_str n) \<Longrightarrow> is_digit c"
  using set_nat_to_string [of 10 n] decimal_char by (fastforce simp: nat_str_def is_digit_def)

lemma nat_str_zero: "nat_str 0 = ''0''"
  by code_simp

lemma nat_str_head: "0 < n \<Longrightarrow> hd (nat_str n) \<noteq> CHR ''0''"
  unfolding nat_str_def
proof (induction n rule: less_induct)
  case (less n)
  show ?case
  proof (cases "n < 10")
    case True
    with less.prems have "(of_char (digit_char n) :: nat) \<noteq> of_char (CHR ''0'')" by (simp add: of_digit_char)
    then have "digit_char n \<noteq> CHR ''0''" by metis
    with True show ?thesis by (simp add: nat_to_string_small)
  next
    case False
    then have "hd (nat_to_string 10 (n div 10)) \<noteq> CHR ''0''" using less.IH [of "n div 10"] by simp
    with False show ?thesis by (simp add: nat_to_string_step hd_append)
  qed
qed

lemma stops_digit: "stops r \<Longrightarrow> takeWhile is_digit r = [] \<and> dropWhile is_digit r = r"
  by (auto simp: stops_def is_digit_def split: list.splits)

lemma int_part_nat: "stops r \<Longrightarrow> int_part (nat_str n @ r) = Some (n, r)"
proof (cases "n = 0")
  case True
  then show ?thesis by (simp add: nat_str_zero int_part_def)
next
  case False
  assume r: "stops r"
  obtain c t where ct: "nat_str n = c # t" by (cases "nat_str n") (auto simp: nat_str_def)
  with False nat_str_head [of n] have "c \<noteq> CHR ''0''" by simp
  moreover have c: "is_digit c" using nat_str_digits [of c n] ct by simp
  moreover have "digits_of (nat_str n) = n" by (simp add: digits_of_def nat_str_def parse_nat_to_string)
  moreover have "takeWhile is_digit (nat_str n @ r) = nat_str n" "dropWhile is_digit (nat_str n @ r) = r"
    using nat_str_digits [of _ n] stops_digit [OF r] by (simp_all add: takeWhile_append2 dropWhile_append2)
  ultimately show ?thesis using ct by (simp add: int_part_def)
qed

lemma number_int:
  assumes "stops r" "\<bar>i\<bar> < 2 ^ 53"
  shows "json_number (number_str (of_int i) @ r) = Some (JNum (of_int i), r)"
proof -
  have tail: "fraction r = Some (0, r)" "exponent r = Some (1, r)"
    using assms(1) by (auto simp: fraction_def exponent_def stops_def split: list.splits)
  have digits: "take 1 (nat_str n @ r) \<noteq> ''-''" for n
  proof -
    obtain c t where "nat_str n = c # t" by (cases "nat_str n") (auto simp: nat_str_def)
    with nat_str_digits [of c n] show ?thesis by (auto simp: is_digit_def)
  qed
  show ?thesis
  proof (cases "i < 0")
    case True
    have "number_str (of_int i) = CHR ''-'' # nat_str (nat (- i))" using True by (simp add: number_str_def Let_def)
    then show ?thesis using True fl_int [OF assms(2)] int_part_nat [OF assms(1), of "nat (- i)"]
      by (simp add: json_number_def tail Let_def)
  next
    case False
    have "number_str (of_int i) = nat_str (nat i)" using False by (simp add: number_str_def Let_def)
    then show ?thesis using False fl_int [OF assms(2)] int_part_nat [OF assms(1), of "nat i"] digits [of "nat i"]
      by (simp add: json_number_def tail Let_def)
  qed
qed

lemma obj_of_distinct:
  assumes "distinct (map fst kvs)" shows "obj_of kvs = kvs"
proof -
  have "fold (\<lambda>(k, v). obj_put k v) kvs acc = acc @ kvs" if "distinct (map fst (acc @ kvs))" for acc
    using that by (induction kvs arbitrary: acc) (auto simp: obj_put_def)
  with assms show ?thesis by (simp add: obj_of_def)
qed

lemma skip_ws_start: "\<not> is_json_space c \<Longrightarrow> skip_ws (c # s) = c # s"
  by (simp add: skip_ws_def)

lemma number_start: "\<exists>c t. number_str (of_int i) = c # t \<and> (c = CHR ''-'' \<or> is_digit c)"
proof -
  obtain c t where ct: "nat_str (nat \<bar>i\<bar>) = c # t" by (cases "nat_str (nat \<bar>i\<bar>)") (auto simp: nat_str_def)
  with nat_str_digits [of c "nat \<bar>i\<bar>"] show ?thesis by (auto simp: number_str_def Let_def)
qed

lemma stringify_start:
  assumes "plain j"
  shows "\<exists>c t. json_stringify j = c # t \<and> \<not> is_json_space c \<and> c \<noteq> CHR '']'' \<and> c \<noteq> CHR ''}''"
proof (cases j)
  case (JNum q)
  then obtain i where q: "q = of_int i" using assms by auto
  from number_start [of i] show ?thesis using JNum q by (auto simp: is_digit_def is_json_space_def)
qed (auto simp: json_quote_def is_json_space_def)

definition parses :: "json \<Rightarrow> bool" where
  "parses j = (\<forall>r. stops r \<longrightarrow> json_value (json_stringify j @ r) = Some (j, r))"

lemma parsesD: "parses j \<Longrightarrow> stops r \<Longrightarrow> json_value (json_stringify j @ r) = Some (j, r)"
  by (simp add: parses_def)

lemma stops_simps [simp]: "stops (CHR '','' # s)" "stops (CHR '']'' # s)" "stops (CHR ''}'' # s)" "stops []"
  by (simp_all add: stops_def)

lemma skip_ws_simps [simp]: "skip_ws (CHR '','' # s) = CHR '','' # s" "skip_ws (CHR '']'' # s) = CHR '']'' # s"
  "skip_ws (CHR ''}'' # s) = CHR ''}'' # s" "skip_ws (CHR '':'' # s) = CHR '':'' # s" "skip_ws (CHR 0x22 # s) = CHR 0x22 # s"
  "skip_ws (CHR ''['' # s) = CHR ''['' # s" "skip_ws (CHR ''{'' # s) = CHR ''{'' # s" "skip_ws [] = []"
  by (simp_all add: skip_ws_def is_json_space_def)

lemma elements_print:
  "xs \<noteq> [] \<Longrightarrow> \<forall>x \<in> set xs. parses x \<Longrightarrow>
    json_elements (join '','' (map json_stringify xs) @ CHR '']'' # r) = Some (xs, r)"
proof (induction xs rule: induct_list012)
  case (2 x)
  then show ?case by (subst json_elements.simps) (simp add: parsesD)
next
  case (3 x y ys)
  then have "json_elements (join '','' (map json_stringify (y # ys)) @ CHR '']'' # r) = Some (y # ys, r)" by simp
  with 3(4) show ?case by (subst json_elements.simps) (simp add: parsesD)
qed simp

definition member_text :: "string \<times> json \<Rightarrow> string" where
  "member_text kv = json_quote (fst kv) @ '':'' @ json_stringify (snd kv)"

lemma members_print:
  "kvs \<noteq> [] \<Longrightarrow> \<forall>kv \<in> set kvs. parses (snd kv) \<Longrightarrow>
    json_members (join '','' (map member_text kvs) @ CHR ''}'' # r) = Some (kvs, r)"
proof (induction kvs rule: induct_list012)
  case (2 kv)
  then show ?case
    by (subst json_members.simps) (simp add: member_text_def json_quote_def str_body_quote parsesD)
next
  case (3 kv kv' kvs)
  then have "json_members (join '','' (map member_text (kv' # kvs)) @ CHR ''}'' # r) = Some (kv' # kvs, r)" by simp
  with 3(4) show ?case
    by (subst json_members.simps) (simp add: member_text_def [of kv] json_quote_def str_body_quote parsesD)
qed simp

lemma plain_parses: "plain j \<Longrightarrow> parses j"
proof (induction j)
  case JNull
  show ?case unfolding parses_def
    by (subst json_value.simps) (simp add: skip_ws_start is_json_space_def starts_with_def)
next
  case (JBool b)
  show ?case unfolding parses_def
    by (subst json_value.simps) (simp add: skip_ws_start is_json_space_def starts_with_def)
next
  case (JNum q)
  then obtain i where q: "q = of_int i" "\<bar>i\<bar> < 2 ^ 53" by auto
  obtain c t where ct: "number_str (of_int i) = c # t" "c = CHR ''-'' \<or> is_digit c" using number_start by blast
  then have c: "skip_ws (c # s) = c # s" "c \<noteq> CHR 0x22" "c \<noteq> CHR ''[''" "c \<noteq> CHR ''{''"
      "\<not> starts_with (c # s) ''null''" "\<not> starts_with (c # s) ''true''" "\<not> starts_with (c # s) ''false''" for s
    by (auto simp: skip_ws_def is_json_space_def is_digit_def starts_with_def)
  show ?case unfolding parses_def
  proof (intro allI impI)
    fix r assume "stops r"
    from number_int [OF this q(2)] show "json_value (json_stringify (JNum q) @ r) = Some (JNum q, r)"
      unfolding q(1) by (subst json_value.simps) (simp add: ct(1) c)
  qed
next
  case (JStr s)
  show ?case unfolding parses_def
    by (subst json_value.simps) (simp add: json_quote_def str_body_quote)
next
  case (JArr xs)
  show ?case
  proof (cases xs)
    case Nil
    then show ?thesis unfolding parses_def by (subst json_value.simps) simp
  next
    case (Cons x ys)
    have all: "\<forall>x \<in> set xs. parses x" using JArr by (auto simp: list_all_iff)
    obtain c t where ct: "json_stringify x = c # t" "\<not> is_json_space c" "c \<noteq> CHR '']''"
      using stringify_start [of x] JArr(2) Cons by auto
    obtain u where u: "join '','' (map json_stringify xs) = c # u" using Cons ct(1) by (cases ys) simp_all
    show ?thesis unfolding parses_def
    proof (intro allI impI)
      fix r :: string
      have "json_elements (c # u @ CHR '']'' # r) = Some (xs, r)" using elements_print [OF _ all, of r] Cons u by simp
      then show "json_value (json_stringify (JArr xs) @ r) = Some (JArr xs, r)"
        by (subst json_value.simps) (simp add: u skip_ws_start [OF ct(2)] ct(3))
    qed
  qed
next
  case (JObj kvs)
  show ?case
  proof (cases kvs)
    case Nil
    then show ?thesis unfolding parses_def by (subst json_value.simps) simp
  next
    case (Cons kv ys)
    have all: "\<forall>kv \<in> set kvs. parses (snd kv)" using JObj by (auto simp: list_all_iff snds.simps)
    have printed: "json_stringify (JObj kvs) = CHR ''{'' # join '','' (map member_text kvs) @ ''}''" by (simp add: member_text_def [abs_def])
    obtain u where u: "join '','' (map member_text kvs) = CHR 0x22 # u"
      using Cons by (cases ys) (simp_all add: member_text_def json_quote_def)
    show ?thesis unfolding parses_def
    proof (intro allI impI)
      fix r :: string
      have "json_members (CHR 0x22 # u @ CHR ''}'' # r) = Some (kvs, r)" using members_print [OF _ all, of r] Cons u by simp
      then show "json_value (json_stringify (JObj kvs) @ r) = Some (JObj kvs, r)"
        unfolding printed u using JObj(2) by (subst json_value.simps) (simp add: obj_of_distinct)
    qed
  qed
qed

text \<open>Parsing what was printed gives the value back.\<close>

lemma json_round_trip: "plain j \<Longrightarrow> json_parse (json_stringify j) = Some j"
  using parsesD [OF plain_parses, of j "[]"] by (simp add: json_parse_def)

text \<open>A printed text is one line\<close>

lemma set_join: "c \<in> set (join sep xs) \<Longrightarrow> c \<in> set sep \<or> (\<exists>x \<in> set xs. c \<in> set x)"
  by (induction sep xs rule: join.induct) auto

lemma quote_printable: "c \<in> set (json_quote s) \<Longrightarrow> 32 \<le> (of_char c :: nat)"
proof -
  have hex: "d \<in> set (fixed_digits 16 4 n) \<Longrightarrow> 32 \<le> (of_char d :: nat)" for d n
    using set_fixed_digits [of 16 4 n] by (force simp: of_digit_char)
  have "d \<in> set (escape_char e) \<Longrightarrow> 32 \<le> (of_char d :: nat)" for d e
    using hex [of d "of_char e"] by (auto simp: escape_char_def Let_def simp del: fixed_digits.simps split: if_splits)
  then show "c \<in> set (json_quote s) \<Longrightarrow> 32 \<le> (of_char c :: nat)" by (auto simp: json_quote_def)
qed

lemma decimals_printable: "r < d \<Longrightarrow> c \<in> set (decimals n r d) \<Longrightarrow> 32 \<le> (of_char c :: nat)"
proof (induction n r d rule: decimals.induct)
  case (2 n r d)
  then have "r * 10 div d < 10" "0 < d" by (simp_all add: less_mult_imp_div_less mult.commute)
  with 2 show ?case by (auto simp: of_digit_char split: if_splits)
qed simp

lemma number_printable: "c \<in> set (number_str q) \<Longrightarrow> 32 \<le> (of_char c :: nat)"
proof -
  obtain a b where ab: "quotient_of q = (a, b)" by (rule prod.exhaust)
  then have "0 < b" by (rule quotient_of_denom_pos)
  moreover assume "c \<in> set (number_str q)"
  moreover have "32 \<le> (of_char c :: nat)" if "c \<in> set (nat_str n)" for n
    using nat_str_digits [OF that] by (simp add: is_digit_def)
  ultimately show ?thesis using decimals_printable [of "nat \<bar>a\<bar> mod nat b" "nat b" c 20]
    by (auto simp: number_str_def ab Let_def split: if_splits)
qed

lemma stringify_printable: "c \<in> set (json_stringify j) \<Longrightarrow> 32 \<le> (of_char c :: nat)"
proof (induction j arbitrary: c)
  case (JArr xs)
  then show ?case by (auto dest!: set_join)
next
  case (JObj kvs)
  from JObj(2) consider "c \<in> set ''{},:''" | kv where "kv \<in> set kvs" "c \<in> set (json_quote (fst kv))"
    | kv where "kv \<in> set kvs" "c \<in> set (json_stringify (snd kv))"
    by (auto dest!: set_join)
  then show ?case using quote_printable JObj(1) by cases (auto simp: snds.simps)
qed (auto dest: quote_printable number_printable split: if_splits)

end
