(* ===== verification/Cofhe_Bridge.thy ===== *)
theory Cofhe_Bridge
  imports Text_Key Js_Json
begin

section \<open>The CoFHE bridge of a node\<close>

text \<open>
  \<open>node-reineira/scripts/cofhe_bridge.mjs\<close>: the process through which an inference node talks to CoFHE. It
  reads commands from standard input, one JSON text a line, and answers each with one line on standard
  output; a client is connected for the operator of a command and kept for the commands that follow. Calls to
  CoFHE and the chain are entries of a log of their own (\<open>bridge_call\<close>), each with the client it is made with; \<open>bridge_env\<close>
  answers them. \<open>be_account\<close> is \<open>privateKeyToAccount\<close>, \<open>be_number\<close> is \<open>Number\<close> on strings, \<open>be_syntax\<close> the message of
  a SyntaxError; other messages of the engine are V8's. Standard error is not modelled. A stored file that holds a JSON
  array is left out.
\<close>

subsection \<open>\<open>localStorage\<close> in a file\<close>

text \<open>The names every object inherits, with their \<open>String\<close>\<close>

definition object_prototype :: "string list" where
  "object_prototype = [''constructor'', ''__defineGetter__'', ''__defineSetter__'', ''hasOwnProperty'', ''__lookupGetter__'',
     ''__lookupSetter__'', ''isPrototypeOf'', ''propertyIsEnumerable'', ''toString'', ''valueOf'', ''__proto__'', ''toLocaleString'']"

definition inherited_str :: "string \<Rightarrow> string" where
  "inherited_str k =
     (if k = ''__proto__'' then ''[object Object]''
      else ''function '' @ (if k = ''constructor'' then ''Object'' else k) @ ''() { [native code] }'')"

text \<open>The file's text, if it exists\<close>

definition readStore :: "string option \<Rightarrow> json" where
  "readStore file = (case file of None \<Rightarrow> JObj [] | Some txt \<Rightarrow> (case json_parse txt of None \<Rightarrow> JObj [] | Some j \<Rightarrow> j))"

text \<open>\<open>fs\<close> is the error of \<open>mkdirSync\<close> or \<open>writeFileSync\<close>, if one throws\<close>

definition writeStore :: "js_err option \<Rightarrow> json \<Rightarrow> js_err + string option" where
  "writeStore fs data = (case fs of Some e \<Rightarrow> Inl e | None \<Rightarrow> Inr (Some (json_stringify data)))"

definition getItem :: "string \<Rightarrow> string option \<Rightarrow> js_err + string option" where
  "getItem key file = (case readStore file of
      JObj kvs \<Rightarrow> Inr (case map_of kvs key of
          Some v \<Rightarrow> Some (json_display v)
        | None \<Rightarrow> if key \<in> set object_prototype then Some (inherited_str key) else None)
    | _ \<Rightarrow> Inl (ErrorObj (''Cannot use 'in' operator to search for '' @ [CHR 0x27] @ key @ [CHR 0x27] @ '' in '' @ json_display (readStore file))))"

definition setItem :: "js_err option \<Rightarrow> string \<Rightarrow> string \<Rightarrow> string option \<Rightarrow> js_err + string option" where
  "setItem fs key val file = (case readStore file of
      JObj kvs \<Rightarrow> writeStore fs (JObj (if key = ''__proto__'' \<and> map_of kvs key = None then kvs else obj_put key (JStr val) kvs))
    | JNull \<Rightarrow> Inl (ErrorObj ''Cannot set properties of null'')
    | j \<Rightarrow> Inl (ErrorObj (''Cannot create property on '' @ json_display j)))"

definition removeItem :: "js_err option \<Rightarrow> string \<Rightarrow> string option \<Rightarrow> js_err + string option" where
  "removeItem fs key file = (case readStore file of
      JObj kvs \<Rightarrow> writeStore fs (JObj (filter (\<lambda>(k, v). k \<noteq> key) kvs))
    | JNull \<Rightarrow> Inl (ErrorObj ''Cannot convert undefined or null to object'')
    | j \<Rightarrow> writeStore fs j)"

definition clear :: "js_err option \<Rightarrow> js_err + string option" where
  "clear fs = writeStore fs (JObj [])"

subsection \<open>Clients and their calls\<close>

datatype bridge_chain = Hardhat | ArbSepolia

text \<open>\<open>client\<close>, \<open>publicClient\<close>, \<open>walletClient\<close> and \<open>account\<close>: the chain, the RPC, the key and its address\<close>

record bridge_client =
  bc_chain :: bridge_chain
  bc_rpc :: "json option"
  bc_key :: string
  bc_address :: string

datatype fhe_type = FheBool | FheUint8 | FheUint16 | FheUint32 | FheUint64 | FheUint128 | FheUint160 | FheNumber rat | FheInherited string

datatype unsealed = UBig int | UBool bool | UStr string

record contract_input =
  ci_hash :: int
  ci_zone :: "rat option"
  ci_utype :: "rat option"
  ci_signature :: "json option"

record store_key_tx =
  sk_address :: "json option"
  sk_task :: "json option"
  sk_high :: contract_input
  sk_low :: contract_input
  sk_nodes :: "json option"
  sk_fees :: fee_params

datatype bridge_call =
    Connect bridge_client
  | ImportShared bridge_client json
  | SelfPermit bridge_client json
  | SharingPermit bridge_client json "json option" json
  | DecryptForView bridge_client string int fhe_type
  | EncryptInputs bridge_client "int list"
  | LatestBlock bridge_client
  | PriorityFee bridge_client
  | ChainGasPrice bridge_client
  | StoreKey bridge_client store_key_tx
  | Receipt bridge_client string

record bridge_env =
  be_account :: "string \<Rightarrow> js_err + string"
  be_number :: "string \<Rightarrow> rat option"
  be_syntax :: "string \<Rightarrow> string"
  be_done :: "bridge_call list \<Rightarrow> bridge_call \<Rightarrow> js_err + unit"
  be_string :: "bridge_call list \<Rightarrow> bridge_call \<Rightarrow> js_err + string"
  be_unseal :: "bridge_call list \<Rightarrow> bridge_call \<Rightarrow> js_err + unsealed"
  be_encrypt :: "bridge_call list \<Rightarrow> bridge_call \<Rightarrow> js_err + encrypted_input list"
  be_fee :: "bridge_call list \<Rightarrow> bridge_call \<Rightarrow> js_err + int"
  be_base_fee :: "bridge_call list \<Rightarrow> bridge_call \<Rightarrow> js_err + int option"

record bridge =
  br_client :: "bridge_client option"
  br_key :: "string option"
  br_out :: "string list"

definition bridge_init :: bridge where
  "bridge_init = \<lparr>br_client = None, br_key = None, br_out = []\<rparr>"

type_synonym 'a bridge_io = "(bridge_call, bridge, 'a) io"

text \<open>A call, answered by the field \<open>f\<close> of the environment\<close>

definition ask :: "(bridge_call list \<Rightarrow> bridge_call \<Rightarrow> js_err + 'a) \<Rightarrow> bridge_call \<Rightarrow> 'a bridge_io" where
  "ask f c = call (\<lambda>lg. f lg c) c"

text \<open>\<open>`${v}`\<close>, \<open>v || d\<close>, \<open>Number(v)\<close> (\<open>None\<close> for NaN) and \<open>BigInt(v)\<close> of a JSON value or \<open>undefined\<close>\<close>

definition display :: "json option \<Rightarrow> string" where
  "display v = (case v of None \<Rightarrow> ''undefined'' | Some j \<Rightarrow> json_display j)"

definition json_or :: "json option \<Rightarrow> json \<Rightarrow> json" where
  "json_or v d = (if json_truthy v then the v else d)"

definition js_number :: "bridge_env \<Rightarrow> json option \<Rightarrow> rat option" where
  "js_number w v = (case v of
      None \<Rightarrow> None
    | Some j \<Rightarrow> (case j of
          JNull \<Rightarrow> Some 0
        | JBool b \<Rightarrow> Some (if b then 1 else 0)
        | JNum q \<Rightarrow> Some q
        | JStr s \<Rightarrow> be_number w s
        | JArr xs \<Rightarrow> be_number w (json_display j)
        | JObj kvs \<Rightarrow> None))"

definition json_BigInt :: "json option \<Rightarrow> js_err + int" where
  "json_BigInt v = (case v of
      None \<Rightarrow> Inl (ErrorObj ''Cannot convert undefined to a BigInt'')
    | Some j \<Rightarrow> (case j of
          JNull \<Rightarrow> Inl (ErrorObj ''Cannot convert null to a BigInt'')
        | JBool b \<Rightarrow> Inr (if b then 1 else 0)
        | JNum q \<Rightarrow> BigInt_num q
        | _ \<Rightarrow> js_BigInt (json_display j)))"

subsection \<open>The operator's client\<close>

definition resolveChains :: "bridge_env \<Rightarrow> json option \<Rightarrow> bridge_chain" where
  "resolveChains w chainId = (if js_number w chainId = Some 31337 then Hardhat else ArbSepolia)"

text \<open>\<open>in\<close> also finds the names the table inherits\<close>

definition resolveFheType :: "json option \<Rightarrow> js_err + fhe_type" where
  "resolveFheType ty = (case ty of
      Some (JNum q) \<Rightarrow> Inr (FheNumber q)
    | _ \<Rightarrow>
        let normalized = to_lower (display ty);
            mapping = [(''bool'', FheBool), (''uint8'', FheUint8), (''uint16'', FheUint16), (''uint32'', FheUint32),
              (''uint64'', FheUint64), (''uint128'', FheUint128), (''uint160'', FheUint160), (''address'', FheUint160)] in
        (case map_of mapping normalized of
            Some t \<Rightarrow> Inr t
          | None \<Rightarrow> if normalized \<in> set object_prototype then Inr (FheInherited normalized)
              else Inl (ErrorObj (''Unsupported FHE type: '' @ display ty))))"

definition is_quote :: "char \<Rightarrow> bool" where
  "is_quote c = (c = CHR 0x27 \<or> c = CHR 0x22)"

text \<open>\<open>s.replace(/^['"]|['"]$/g, '')\<close>\<close>

definition strip_quotes :: "string \<Rightarrow> string" where
  "strip_quotes s =
     (let t = (if s \<noteq> [] \<and> is_quote (hd s) then tl s else s) in
      if t \<noteq> [] \<and> is_quote (last t) then butlast t else t)"

definition normalizePrivateKey :: "json option \<Rightarrow> js_err + string" where
  "normalizePrivateKey privateKey =
     (let s = strip_quotes (trim (if json_nullish privateKey then [] else display privateKey));
          normalized = (if starts_with s ''0x'' \<or> starts_with s ''0X'' then drop 2 s else s) in
      if length normalized \<noteq> 64 \<or> \<not> list_all (\<lambda>c. digit_val 16 c \<noteq> None) normalized
      then Inl (ErrorObj (''Invalid operator private key format: expected 64 hex chars, got '' @ nat_str (length normalized)))
      else Inr (''0x'' @ to_lower normalized))"

definition cache_key :: "json \<Rightarrow> string" where
  "cache_key p = display (obj_get ''rpcUrl'' p) @ '':'' @ display (obj_get ''chainId'' p) @ '':''
     @ display (obj_get ''privateKey'' p)"

text \<open>The client a payload asks for\<close>

definition client_of :: "bridge_env \<Rightarrow> json \<Rightarrow> js_err + bridge_client" where
  "client_of w p = (case normalizePrivateKey (obj_get ''privateKey'' p) of
      Inl e \<Rightarrow> Inl e
    | Inr k \<Rightarrow> (case be_account w k of
          Inl e \<Rightarrow> Inl e
        | Inr address \<Rightarrow> Inr \<lparr>bc_chain = resolveChains w (obj_get ''chainId'' p), bc_rpc = obj_get ''rpcUrl'' p,
            bc_key = k, bc_address = address\<rparr>))"

definition getOrCreateClient :: "bridge_env \<Rightarrow> json \<Rightarrow> bridge_client bridge_io" where
  "getOrCreateClient w p =
     bindE (getting id) (\<lambda>s.
     case (br_client s, br_key s = Some (cache_key p)) of
       (Some cached, True) \<Rightarrow> ret cached
     | _ \<Rightarrow>
         bindE (lift (client_of w p)) (\<lambda>client.
         bindE (ask (be_done w) (Connect client)) (\<lambda>_.
         thenE (update (\<lambda>s. s\<lparr>br_client := Some client, br_key := Some (cache_key p)\<rparr>)) (ret client))))"

subsection \<open>The commands\<close>

type_synonym fields = "(string \<times> json) list"

text \<open>\<open>for (const feature of payload.features ?? [])\<close>\<close>

definition iterable :: "json option \<Rightarrow> js_err + json list" where
  "iterable v = (if json_nullish v then Inr [] else case v of
      Some (JArr xs) \<Rightarrow> Inr xs
    | Some (JStr s) \<Rightarrow> Inr (map (\<lambda>c. JStr [c]) s)
    | _ \<Rightarrow> Inl (ErrorObj ''payload.features is not iterable''))"

definition unsealed_str :: "unsealed \<Rightarrow> string" where
  "unsealed_str v = (case v of UBig i \<Rightarrow> int_str i | UBool b \<Rightarrow> (if b then ''true'' else ''false'') | UStr s \<Rightarrow> s)"

definition unseal :: "bridge_env \<Rightarrow> bridge_client \<Rightarrow> string \<Rightarrow> int \<Rightarrow> fhe_type \<Rightarrow> unsealed bridge_io" where
  "unseal w client permit handle ty = ask (be_unseal w) (DecryptForView client permit handle ty)"

fun view_features :: "bridge_env \<Rightarrow> bridge_client \<Rightarrow> string \<Rightarrow> json list \<Rightarrow> string list bridge_io" where
  "view_features w client permit [] = ret []"
| "view_features w client permit (feature # rest) =
     bindE (lift (json_prop ''ctHash'' feature)) (\<lambda>ct.
     bindE (lift (json_BigInt ct)) (\<lambda>handle.
     bindE (lift (resolveFheType (obj_get ''utype'' feature))) (\<lambda>ty.
     bindE (unseal w client permit handle ty) (\<lambda>v.
     bindE (view_features w client permit rest) (\<lambda>vs. ret (unsealed_str v # vs))))))"

definition forbidden_message :: string where
  "forbidden_message = ''Threshold network rejected decryptForView with HTTP 403. '' @
     ''The sharing permit imported correctly, but the ciphertext still does not appear to '' @
     ''have issuer ACL access on-chain. This request likely skipped BlindferenceInputVault, '' @
     ''or the request was submitted before the vault transaction was mined.''"

definition decryptForView :: "bridge_env \<Rightarrow> json \<Rightarrow> fields bridge_io" where
  "decryptForView w p =
     bindE (getOrCreateClient w p) (\<lambda>client.
     if \<not> json_truthy (obj_get ''permit'' p) then throw (ErrorObj ''Missing shared permit for decryption'')
     else bindE (ask (be_string w) (ImportShared client (the (obj_get ''permit'' p)))) (\<lambda>permit.
     bindE (catchE
         (bindE (lift (iterable (obj_get ''features'' p))) (view_features w client permit))
         (\<lambda>e. if str_includes (error_message_or e (string_of_err e)) ''403'' then throw (ErrorObj forbidden_message) else throw e))
       (\<lambda>vs. ret [(''values'', JArr (map JStr vs))])))"

definition decryptPromptKey :: "bridge_env \<Rightarrow> json \<Rightarrow> fields bridge_io" where
  "decryptPromptKey w p =
     bindE (getOrCreateClient w p) (\<lambda>client.
     bindE (ask (be_string w) (SelfPermit client
       (json_or (obj_get ''permitName'' p) (JStr ''Blindference Prompt Key Permit'')))) (\<lambda>permit.
     bindE (lift (json_BigInt (obj_get ''highHandle'' p))) (\<lambda>h.
     bindE (unseal w client permit h FheUint128) (\<lambda>high.
     bindE (lift (json_BigInt (obj_get ''lowHandle'' p))) (\<lambda>l.
     bindE (unseal w client permit l FheUint128) (\<lambda>low.
     ret [(''high'', JStr (unsealed_str high)), (''low'', JStr (unsealed_str low)), (''permitHash'', JStr permit)]))))))"

fun bigints :: "json list \<Rightarrow> js_err + int list" where
  "bigints [] = Inr []"
| "bigints (x # xs) = (case json_BigInt (Some x) of
      Inl e \<Rightarrow> Inl e
    | Inr i \<Rightarrow> (case bigints xs of Inl e \<Rightarrow> Inl e | Inr is \<Rightarrow> Inr (i # is)))"

definition encryptUint128 :: "bridge_env \<Rightarrow> json \<Rightarrow> fields bridge_io" where
  "encryptUint128 w p =
     bindE (getOrCreateClient w p) (\<lambda>client.
     let vs = (case obj_get ''values'' p of Some (JArr xs) \<Rightarrow> xs | _ \<Rightarrow> []) in
     bindE (lift (bigints vs)) (\<lambda>is.
     bindE (ask (be_encrypt w) (EncryptInputs client is)) (\<lambda>encrypted.
     ret [(''results'', JArr (map (\<lambda>item.
       JObj ([(''ctHash'', JStr (int_str (ctHash item)))]
         @ opt_field ''securityZone'' (map_option (\<lambda>z. JNum (of_int z)) (securityZone item))
         @ [(''utype'', JNum (of_int (utype item))), (''signature'', JStr (signature item))])) encrypted))])))"

definition createSharingPermit :: "bridge_env \<Rightarrow> json \<Rightarrow> fields bridge_io" where
  "createSharingPermit w p =
     bindE (getOrCreateClient w p) (\<lambda>client.
     bindE (ask (be_string w) (SharingPermit client (json_or (obj_get ''issuer'' p) (JStr (bc_address client)))
       (obj_get ''recipient'' p) (json_or (obj_get ''name'' p) (JStr ''Blindference Shared Permit'')))) (\<lambda>permit.
     ret [(''permit'', JStr permit)]))"

text \<open>\<open>toContractInput\<close> of the script; \<open>Number(undefined)\<close> is NaN\<close>

definition bridge_contractInput :: "bridge_env \<Rightarrow> json option \<Rightarrow> js_err + contract_input" where
  "bridge_contractInput w input = (case input of
      None \<Rightarrow> Inl (ErrorObj (''Cannot read properties of undefined (reading '' @ [CHR 0x27] @ ''ctHash'' @ [CHR 0x27] @ '')''))
    | Some j \<Rightarrow> (case json_prop ''ctHash'' j of
          Inl e \<Rightarrow> Inl e
        | Inr ct \<Rightarrow> (case json_BigInt ct of
              Inl e \<Rightarrow> Inl e
            | Inr i \<Rightarrow> Inr \<lparr>ci_hash = i,
                ci_zone = (if json_nullish (obj_get ''securityZone'' j) then Some 0 else js_number w (obj_get ''securityZone'' j)),
                ci_utype = js_number w (obj_get ''utype'' j), ci_signature = obj_get ''signature'' j\<rparr>)))"

definition bridge_fees :: "bridge_env \<Rightarrow> bridge_client \<Rightarrow> fee_params bridge_io" where
  "bridge_fees w client =
     bindE (ask (be_base_fee w) (LatestBlock client)) (\<lambda>baseFeePerGas.
     bindE (catchE (ask (be_fee w) (PriorityFee client)) (\<lambda>_. ret 2000000)) (\<lambda>maxPriorityFeePerGas.
     let priorityFeePerGas = priority_fee maxPriorityFeePerGas in
     case baseFeePerGas of
       Some base \<Rightarrow> ret (Eip1559 priorityFeePerGas (base * 2 + priorityFeePerGas + 1000000))
     | None \<Rightarrow> bindE (ask (be_fee w) (ChainGasPrice client)) (\<lambda>p. ret (GasPrice p))))"

definition storePromptKey_bridge :: "bridge_env \<Rightarrow> json \<Rightarrow> fields bridge_io" where
  "storePromptKey_bridge w p =
     bindE (getOrCreateClient w p) (\<lambda>client.
     bindE (bridge_fees w client) (\<lambda>feeParams.
     bindE (lift (bridge_contractInput w (obj_get ''encryptedHighInput'' p))) (\<lambda>high.
     bindE (lift (bridge_contractInput w (obj_get ''encryptedLowInput'' p))) (\<lambda>low.
     bindE (ask (be_string w) (StoreKey client \<lparr>sk_address = obj_get ''promptKeyStoreAddress'' p,
       sk_task = obj_get ''taskId'' p, sk_high = high, sk_low = low, sk_nodes = obj_get ''allowedNodes'' p,
       sk_fees = feeParams\<rparr>)) (\<lambda>txHash.
     bindE (ask (be_string w) (Receipt client txHash)) (\<lambda>status.
     if status \<noteq> ''success''
     then throw (ErrorObj (''PromptKeyStore transaction failed for task '' @ display (obj_get ''taskId'' p)))
     else ret [(''txHash'', JStr txHash)]))))))"

definition processCommand :: "bridge_env \<Rightarrow> json \<Rightarrow> fields bridge_io" where
  "processCommand w p =
     bindE (lift (json_prop ''action'' p)) (\<lambda>action.
     if action = Some (JStr ''decrypt_for_view'') then decryptForView w p
     else if action = Some (JStr ''create_sharing_permit'') then createSharingPermit w p
     else if action = Some (JStr ''decrypt_prompt_key'') then decryptPromptKey w p
     else if action = Some (JStr ''encrypt_uint128'') then encryptUint128 w p
     else if action = Some (JStr ''store_prompt_key'') then storePromptKey_bridge w p
     else throw (ErrorObj (''Unsupported action: '' @ display action)))"

subsection \<open>The loop\<close>

text \<open>A response is one line\<close>

definition reply_line :: "fields \<Rightarrow> unit bridge_io" where
  "reply_line response = update (\<lambda>s. s\<lparr>br_out := br_out s @ [json_stringify (JObj response)]\<rparr>)"

definition with_id :: "json option \<Rightarrow> fields \<Rightarrow> fields" where
  "with_id requestId response = (if json_truthy requestId then response @ [(''_requestId'', the requestId)] else response)"

definition answer_line :: "bridge_env \<Rightarrow> string \<Rightarrow> unit bridge_io" where
  "answer_line w line =
     (let trimmed = trim line in
      if trimmed = [] then ret ()
      else case json_parse trimmed of
          None \<Rightarrow> reply_line [(''ok'', JBool False), (''error'', JStr (''Invalid JSON: '' @ be_syntax w trimmed))]
        | Some p \<Rightarrow>
            catchE
              (bindE (processCommand w p) (\<lambda>result.
               bindE (lift (json_prop ''_requestId'' p)) (\<lambda>requestId.
               reply_line (with_id requestId ((''ok'', JBool True) # result)))))
              (\<lambda>e. bindE (lift (json_prop ''_requestId'' p)) (\<lambda>requestId.
               reply_line (with_id requestId [(''ok'', JBool False), (''error'', JStr (error_message_or e (string_of_err e)))]))))"

text \<open>\<open>main\<close> on the lines of standard input; a value thrown out of it ends the process\<close>

fun bridge_main :: "bridge_env \<Rightarrow> string list \<Rightarrow> unit bridge_io" where
  "bridge_main w [] = ret ()"
| "bridge_main w (line # rest) = thenE (answer_line w line) (bridge_main w rest)"

subsection \<open>One answer a line\<close>

text \<open>\<open>silent m\<close>: \<open>m\<close> writes nothing\<close>

named_theorems silent_rules

definition silent :: "'a bridge_io \<Rightarrow> bool" where
  "silent m = (\<forall>lg s. br_out (snd (snd (m (lg, s)))) = br_out s)"

lemma silentD: "silent m \<Longrightarrow> m (lg, s) = (r, (lg', s')) \<Longrightarrow> br_out s' = br_out s"
  unfolding silent_def by (metis snd_conv)

lemma silentI: "(\<And>lg s r lg' s'. m (lg, s) = (r, (lg', s')) \<Longrightarrow> br_out s' = br_out s) \<Longrightarrow> silent m"
  unfolding silent_def by (metis prod.collapse)

lemma silent_base [silent_rules]: "silent (ret v)" "silent (throw e)" "silent (lift r)" "silent (getting g)" "silent (ask f c)"
  by (simp_all add: silent_def ask_def)

lemma silent_cache [silent_rules]: "silent (update (\<lambda>s. s\<lparr>br_client := c, br_key := k\<rparr>))"
  by (simp add: silent_def)

lemma silent_bind [silent_rules]: "silent m \<Longrightarrow> (\<And>v. silent (k v)) \<Longrightarrow> silent (bindE m k)"
  by (rule silentI) (auto simp: bindE_def split: prod.splits sum.splits, (metis silentD)+)

lemma silent_then [silent_rules]: "silent m \<Longrightarrow> silent k \<Longrightarrow> silent (thenE m k)"
  by (simp add: thenE_def silent_bind)

lemma silent_catch [silent_rules]: "silent m \<Longrightarrow> (\<And>e. silent (h e)) \<Longrightarrow> silent (catchE m h)"
  by (rule silentI) (auto simp: catchE_def split: prod.splits sum.splits, (metis silentD)+)

lemma silent_cases [silent_rules]:
  "silent m \<Longrightarrow> silent m' \<Longrightarrow> silent (if b then m else m')"
  "silent m \<Longrightarrow> (\<And>v. silent (k v)) \<Longrightarrow> silent (case opt of None \<Rightarrow> m | Some v \<Rightarrow> k v)"
  by (auto split: option.splits)

lemma client_silent [silent_rules]: "silent (getOrCreateClient w p)"
  unfolding getOrCreateClient_def by (auto intro!: silent_rules split: option.splits bool.splits)

lemma view_silent [silent_rules]: "silent (view_features w client permit fs)"
  by (induction fs) (unfold view_features.simps unseal_def, intro silent_rules, (assumption | intro silent_rules)+)

lemma fees_silent [silent_rules]: "silent (bridge_fees w client)"
  unfolding bridge_fees_def Let_def by (intro silent_rules)

lemma commands_silent: "silent (processCommand w p)"
  unfolding processCommand_def decryptForView_def createSharingPermit_def decryptPromptKey_def encryptUint128_def
    storePromptKey_bridge_def unseal_def Let_def
  by (intro silent_rules)

definition asks :: "string \<Rightarrow> bool" where
  "asks line = (trim line \<noteq> [])"

definition fatal :: "string \<Rightarrow> bool" where
  "fatal line = (json_parse (trim line) = Some JNull)"

definition answers :: "bridge_env \<Rightarrow> string \<Rightarrow> string \<Rightarrow> bool" where
  "answers w line out = (CHR 0x0A \<notin> set out \<and> (case json_parse (trim line) of
      None \<Rightarrow> out = json_stringify (JObj [(''ok'', JBool False), (''error'', JStr (''Invalid JSON: '' @ be_syntax w (trim line)))])
    | Some p \<Rightarrow> (\<exists>ok body. out = json_stringify (JObj (with_id (obj_get ''_requestId'' p) ((''ok'', JBool ok) # body)))
        \<and> (ok \<or> (\<exists>msg. body = [(''error'', JStr msg)])))))"

lemma stringify_one_line [simp]: "CHR 0x0A \<notin> set (json_stringify j)"
  using stringify_printable [of "CHR 0x0A" j] by auto

lemma quote_one_line [simp]: "CHR 0x0A \<notin> set (json_quote s)"
  using quote_printable [of "CHR 0x0A" s] by auto

lemma reply_apply [simp]: "reply_line f (lg, s) = (Inr (), (lg, s\<lparr>br_out := br_out s @ [json_stringify (JObj f)]\<rparr>))"
  by (simp add: reply_line_def)

text \<open>One line: no answer to a blank one, none and an end to \<open>null\<close>, else one\<close>

lemma answer_line_answers:
  "case answer_line w line (lg, s) of (r, (lg', s')) \<Rightarrow>
     if \<not> asks line then r = Inr () \<and> br_out s' = br_out s
     else if fatal line then (\<exists>e. r = Inl e) \<and> br_out s' = br_out s
     else r = Inr () \<and> (\<exists>out. br_out s' = br_out s @ [out] \<and> answers w line out)"
proof (cases "trim line = []")
  case True
  then show ?thesis by (simp add: answer_line_def asks_def)
next
  case False
  show ?thesis
  proof (cases "json_parse (trim line)")
    case None
    with False show ?thesis by (simp add: answer_line_def asks_def fatal_def answers_def Let_def)
  next
    case (Some p)
    obtain r lg' s' where run: "processCommand w p (lg, s) = (r, (lg', s'))" by (metis prod.exhaust)
    have out: "br_out s' = br_out s" using commands_silent run by (rule silentD)
    have null: "\<exists>e. r = Inl e" if "p = JNull" using run that by (auto simp: processCommand_def json_prop_def)
    show ?thesis
    proof (cases r)
      case (Inl e)
      with False Some run out null show ?thesis
        by (cases "p = JNull") (auto simp: answer_line_def asks_def fatal_def answers_def json_prop_def bindE_def catchE_def Let_def simp del: json_stringify.simps)
    next
      case (Inr result)
      with False Some run out null show ?thesis
        by (cases "p = JNull") (auto simp: answer_line_def asks_def fatal_def answers_def json_prop_def bindE_def catchE_def Let_def simp del: json_stringify.simps)
    qed
  qed
qed

text \<open>C15: the bridge answers every command. On any lines of input and whatever CoFHE and the chain answer, each line that is
  not blank gets one line of output, in order: the error of a text that is not JSON, or, with the id of the
  command, success or an error with its message. Nothing a command does ends the loop, with one
  exception: the line \<open>null\<close> throws out of the handler itself, and ends the process with the commands after it
  unanswered.\<close>

theorem bridge_answers_every_line:
  "case bridge_main w lines (lg, s) of (r, (lg', s')) \<Rightarrow>
     (\<exists>outs. br_out s' = br_out s @ outs \<and> list_all2 (answers w) (takeWhile (\<lambda>l. \<not> fatal l) (filter asks lines)) outs)
     \<and> (r = Inr ()) = list_all (\<lambda>l. \<not> fatal l) lines"
proof (induction lines arbitrary: lg s)
  case (Cons line rest)
  obtain r lg' s' where run: "answer_line w line (lg, s) = (r, (lg', s'))" by (metis prod.exhaust)
  note line = answer_line_answers [where w = w and line = line and lg = lg and s = s, unfolded run prod.case]
  have asks: "fatal line \<Longrightarrow> asks line" by (auto simp: fatal_def asks_def json_parse_def json_value.simps)
  show ?case
  proof (cases "fatal line")
    case True
    with line asks obtain e where "r = Inl e" "br_out s' = br_out s" by auto
    with True asks run show ?thesis by (simp add: thenE_def bindE_def)
  next
    case False
    with line have "r = Inr ()" by (auto split: if_splits)
    with run have main: "bridge_main w (line # rest) (lg, s) = bridge_main w rest (lg', s')" by (simp add: thenE_def bindE_def)
    define front where "front = filter asks [line]"
    have split: "takeWhile (\<lambda>l. \<not> fatal l) (filter asks (line # rest)) = front @ takeWhile (\<lambda>l. \<not> fatal l) (filter asks rest)"
      using False by (simp add: front_def)
    from line False obtain o1 where "br_out s' = br_out s @ o1" "list_all2 (answers w) front o1"
      by (cases "asks line") (auto simp: front_def)
    with Cons.IH [where lg = lg' and s = s'] False show ?thesis unfolding main split
      by (auto split: prod.splits intro: list_all2_appendI)
  qed
qed simp

subsection \<open>Whose client a command uses\<close>

fun caller :: "bridge_call \<Rightarrow> bridge_client" where
  "caller (Connect c) = c"
| "caller (ImportShared c permit) = c"
| "caller (SelfPermit c name) = c"
| "caller (SharingPermit c issuer recipient name) = c"
| "caller (DecryptForView c permit h ty) = c"
| "caller (EncryptInputs c is) = c"
| "caller (LatestBlock c) = c"
| "caller (PriorityFee c) = c"
| "caller (ChainGasPrice c) = c"
| "caller (StoreKey c tx) = c"
| "caller (Receipt c h) = c"

text \<open>What the node's Python client sends: a chain id that is a number, an RPC URL, and a key without a colon\<close>

definition from_node :: "json \<Rightarrow> bool" where
  "from_node p = (case (obj_get ''rpcUrl'' p, obj_get ''chainId'' p, obj_get ''privateKey'' p) of
      (Some (JStr url), Some (JNum q), Some (JStr k)) \<Rightarrow> plain (JNum q) \<and> CHR '':'' \<notin> set k
    | _ \<Rightarrow> False)"

definition node_line :: "string \<Rightarrow> bool" where
  "node_line line = (case json_parse (trim line) of None \<Rightarrow> True | Some p \<Rightarrow> from_node p)"

lemma last_piece:
  assumes "a @ c # b = a' @ c # b'" "c \<notin> set b" "c \<notin> set b'" shows "a = a' \<and> b = b'"
proof -
  have "takeWhile (\<lambda>x. x \<noteq> c) (rev (a @ c # b)) = rev b" "takeWhile (\<lambda>x. x \<noteq> c) (rev (a' @ c # b')) = rev b'"
    using assms(2,3) by (auto simp: takeWhile_tail intro!: takeWhile_append2 [THEN trans])
  with assms(1) have "b = b'" by (metis rev_rev_ident)
  with assms(1) show ?thesis by simp
qed

lemma number_str_inj: "plain (JNum q) \<Longrightarrow> plain (JNum q') \<Longrightarrow> number_str q = number_str q' \<Longrightarrow> q = q'"
  using json_round_trip [of "JNum q"] json_round_trip [of "JNum q'"] by simp

lemma number_str_colon: "plain (JNum q) \<Longrightarrow> CHR '':'' \<notin> set (number_str q)"
proof -
  assume "plain (JNum q)"
  then obtain i where "q = of_int i" by auto
  with nat_str_digits [of "CHR '':''" "nat \<bar>i\<bar>"] show ?thesis by (auto simp: number_str_def Let_def is_digit_def)
qed

text \<open>The key of the cache determines the client.\<close>

lemma from_nodeE:
  assumes "from_node p"
  obtains u q k where "obj_get ''rpcUrl'' p = Some (JStr u)" "obj_get ''chainId'' p = Some (JNum q)"
    "obj_get ''privateKey'' p = Some (JStr k)" "plain (JNum q)" "CHR '':'' \<notin> set k"
proof -
  obtain u where u: "obj_get ''rpcUrl'' p = Some (JStr u)" using assms unfolding from_node_def by (simp split: option.split_asm json.split_asm)
  obtain q where q: "obj_get ''chainId'' p = Some (JNum q)" using assms unfolding from_node_def u by (simp split: option.split_asm json.split_asm)
  obtain k where k: "obj_get ''privateKey'' p = Some (JStr k)" using assms unfolding from_node_def u q by (simp split: option.split_asm json.split_asm)
  from assms have "plain (JNum q) \<and> CHR '':'' \<notin> set k" unfolding from_node_def u q k option.case json.case prod.case .
  then show thesis using that [OF u q k] by blast
qed

lemma cache_key_client:
  assumes "from_node p" "from_node p'" "cache_key p = cache_key p'" shows "client_of w p = client_of w p'"
proof -
  obtain u q k where p: "obj_get ''rpcUrl'' p = Some (JStr u)" "obj_get ''chainId'' p = Some (JNum q)"
      "obj_get ''privateKey'' p = Some (JStr k)" "plain (JNum q)" "CHR '':'' \<notin> set k"
    using assms(1) by (rule from_nodeE)
  obtain u' q' k' where p': "obj_get ''rpcUrl'' p' = Some (JStr u')" "obj_get ''chainId'' p' = Some (JNum q')"
      "obj_get ''privateKey'' p' = Some (JStr k')" "plain (JNum q')" "CHR '':'' \<notin> set k'"
    using assms(2) by (rule from_nodeE)
  from assms(3) have "(u @ '':'' @ number_str q) @ CHR '':'' # k = (u' @ '':'' @ number_str q') @ CHR '':'' # k'"
    by (simp add: cache_key_def display_def p(1-3) p'(1-3))
  then have k: "u @ '':'' @ number_str q = u' @ '':'' @ number_str q' \<and> k = k'" by (rule last_piece) fact+
  then have "u @ CHR '':'' # number_str q = u' @ CHR '':'' # number_str q'" by simp
  then have "u = u' \<and> number_str q = number_str q'"
    by (rule last_piece [OF _ number_str_colon [OF p(4)] number_str_colon [OF p'(4)]])
  moreover from this have "q = q'" using number_str_inj [OF p(4) p'(4)] by blast
  ultimately have same: "u = u'" "q = q'" "k = k'" using k by simp_all
  show ?thesis unfolding client_of_def p(1-3) p'(1-3) same ..
qed

text \<open>The cached client is that of a payload with the cached key\<close>

definition cache_ok :: "bridge_env \<Rightarrow> bridge \<Rightarrow> bool" where
  "cache_ok w s = (\<forall>c. br_client s = Some c \<longrightarrow>
     (\<exists>p. from_node p \<and> br_key s = Some (cache_key p) \<and> client_of w p = Inr c))"

definition by_client :: "bridge_env \<Rightarrow> json \<Rightarrow> bridge_call list \<Rightarrow> bool" where
  "by_client w p new = list_all (\<lambda>c. client_of w p = Inr (caller c)) new"

lemma get_client:
  assumes "cache_ok w s" "from_node p" "getOrCreateClient w p (lg, s) = (r, (lg', s'))"
  shows "cache_ok w s' \<and> (\<exists>new. lg' = lg @ new \<and> by_client w p new)
    \<and> (case r of Inl e \<Rightarrow> True | Inr c \<Rightarrow> client_of w p = Inr c)"
proof (cases "br_client s \<noteq> None \<and> br_key s = Some (cache_key p)")
  case True
  then obtain c where c: "br_client s = Some c" "br_key s = Some (cache_key p)" by auto
  then obtain p0 where "from_node p0" "cache_key p0 = cache_key p" "client_of w p0 = Inr c"
    using assms(1) by (auto simp: cache_ok_def)
  then have "client_of w p = Inr c" using cache_key_client [OF assms(2)] by metis
  moreover have "r = Inr c" "lg' = lg" "s' = s" using assms(3) c by (simp_all add: getOrCreateClient_def)
  ultimately show ?thesis using assms(1) by (simp add: by_client_def)
next
  case False
  then have run: "getOrCreateClient w p (lg, s) = bindE (lift (client_of w p)) (\<lambda>client.
         bindE (ask (be_done w) (Connect client)) (\<lambda>_.
         thenE (update (\<lambda>s. s\<lparr>br_client := Some client, br_key := Some (cache_key p)\<rparr>)) (ret client))) (lg, s)"
    by (auto simp: getOrCreateClient_def split: option.splits bool.splits)
  show ?thesis
  proof (cases "client_of w p")
    case (Inl e)
    then have "r = Inl e" "lg' = lg" "s' = s" using assms(3) run by simp_all
    with assms(1) show ?thesis by (simp add: by_client_def)
  next
    case (Inr c)
    with assms run show ?thesis
      by (auto simp: ask_def bindE_call by_client_def cache_ok_def split: sum.splits)
  qed
qed

text \<open>After its client a command neither changes the cache nor calls with another\<close>

abbreviation steady :: "bridge_client \<Rightarrow> 'a bridge_io \<Rightarrow> bool" where
  "steady c m \<equiv> keeps m \<and> adds (\<lambda>x. caller x = c) m"

lemma ask_rules [keeps_rules, adds_rules]: "keeps (ask f x)" "P x \<Longrightarrow> adds P (ask f x)"
  unfolding ask_def by (auto intro: keeps_rules adds_rules)

lemma view_steady: "steady c (view_features w c permit fs)"
proof (induction fs)
  case Nil
  show ?case unfolding view_features.simps by (intro conjI keeps_rules adds_rules)
next
  case (Cons f fs)
  then show ?case unfolding view_features.simps unseal_def by (intro conjI; (intro keeps_rules adds_rules)?; simp)
qed

lemma fees_steady: "steady c (bridge_fees w c)"
  unfolding bridge_fees_def Let_def by (intro conjI; (intro keeps_rules adds_rules)?; simp)

lemma client_then:
  assumes "cache_ok w s" "from_node p" "\<And>c. client_of w p = Inr c \<Longrightarrow> steady c (k c)"
    "bindE (getOrCreateClient w p) k (lg, s) = (r, (lg', s'))"
  shows "cache_ok w s' \<and> (\<exists>new. lg' = lg @ new \<and> by_client w p new)"
proof -
  obtain r1 lg1 s1 where first: "getOrCreateClient w p (lg, s) = (r1, (lg1, s1))" by (metis prod.exhaust)
  from get_client [OF assms(1,2) first] obtain new where new: "cache_ok w s1" "lg1 = lg @ new" "by_client w p new" by blast
  show ?thesis
  proof (cases r1)
    case (Inl e)
    with first assms(4) new show ?thesis by (auto simp: bindE_def)
  next
    case (Inr c)
    with get_client [OF assms(1,2) first] have c: "client_of w p = Inr c" by simp
    from Inr first assms(4) have rest: "k c (lg1, s1) = (r, (lg', s'))" by (simp add: bindE_def)
    have "keeps (k c)" "adds (\<lambda>x. caller x = c) (k c)" using assms(3) [OF c] by auto
    with rest have "s' = s1" "\<exists>more. lg' = lg1 @ more \<and> list_all (\<lambda>x. caller x = c) more"
      using keepsD [of "k c" lg1 s1] addsE [of _ "k c" lg1 s1] by blast+
    with new c show ?thesis by (auto simp: by_client_def list_all_iff)
  qed
qed

lemma command_client:
  assumes "cache_ok w s" "from_node p" "processCommand w p (lg, s) = (r, (lg', s'))"
  shows "cache_ok w s' \<and> (\<exists>new. lg' = lg @ new \<and> by_client w p new)"
proof -
  have none: ?thesis if "lg' = lg" "s' = s" using that assms(1) by (simp add: by_client_def)
  have "p \<noteq> JNull" using assms(2) by (auto simp: from_node_def obj_get_def)
  then have action: "json_prop ''action'' p = Inr (obj_get ''action'' p)" by (simp add: json_prop_def)
  note commands = client_then [OF assms(1,2)]
  have view: "decryptForView w p (lg, s) = (r, (lg', s')) \<Longrightarrow> ?thesis"
    unfolding decryptForView_def
    by (rule commands) (auto intro!: keeps_rules adds_rules view_steady [THEN conjunct1] view_steady [THEN conjunct2])
  have share: "createSharingPermit w p (lg, s) = (r, (lg', s')) \<Longrightarrow> ?thesis"
    unfolding createSharingPermit_def by (rule commands) (auto intro!: keeps_rules adds_rules)
  have prompt: "decryptPromptKey w p (lg, s) = (r, (lg', s')) \<Longrightarrow> ?thesis"
    unfolding decryptPromptKey_def unseal_def by (rule commands) (auto intro!: keeps_rules adds_rules)
  have enc: "encryptUint128 w p (lg, s) = (r, (lg', s')) \<Longrightarrow> ?thesis"
    unfolding encryptUint128_def Let_def by (rule commands) (auto intro!: keeps_rules adds_rules)
  have store: "storePromptKey_bridge w p (lg, s) = (r, (lg', s')) \<Longrightarrow> ?thesis"
    unfolding storePromptKey_bridge_def
    by (rule commands) (auto intro!: keeps_rules adds_rules fees_steady [THEN conjunct1] fees_steady [THEN conjunct2])
  from assms(3) consider "decryptForView w p (lg, s) = (r, (lg', s'))" | "createSharingPermit w p (lg, s) = (r, (lg', s'))"
    | "decryptPromptKey w p (lg, s) = (r, (lg', s'))" | "encryptUint128 w p (lg, s) = (r, (lg', s'))"
    | "storePromptKey_bridge w p (lg, s) = (r, (lg', s'))" | "lg' = lg" "s' = s"
    unfolding processCommand_def action by (auto split: if_splits)
  then show ?thesis by cases (erule view share prompt enc store | rule none)+
qed

lemma line_client:
  assumes "cache_ok w s" "node_line line" "answer_line w line (lg, s) = (r, (lg', s'))"
  shows "r = Inr () \<and> cache_ok w s' \<and> (case json_parse (trim line) of None \<Rightarrow> lg' = lg
    | Some p \<Rightarrow> \<exists>new. lg' = lg @ new \<and> by_client w p new)"
proof (cases "trim line = [] \<or> json_parse (trim line) = None")
  case True
  have "json_parse [] = None" by (simp add: json_parse_def json_value.simps)
  with True have "json_parse (trim line) = None" by auto
  with assms(1,3) show ?thesis by (auto simp: answer_line_def cache_ok_def Let_def split: if_splits)
next
  case False
  then obtain p where p: "trim line \<noteq> []" "json_parse (trim line) = Some p" by auto
  with assms(2) have node: "from_node p" by (simp add: node_line_def)
  then have "p \<noteq> JNull" by (auto simp: from_node_def obj_get_def)
  moreover obtain r1 lg1 s1 where run: "processCommand w p (lg, s) = (r1, (lg1, s1))" by (metis prod.exhaust)
  ultimately show ?thesis using assms(3) p command_client [OF assms(1) node run]
    by (cases r1) (auto simp: answer_line_def json_prop_def bindE_def catchE_def cache_ok_def Let_def)
qed

lemma main_client:
  "cache_ok w s \<Longrightarrow> list_all node_line lines \<Longrightarrow> bridge_main w lines (lg, s) = (r, (lg', s')) \<Longrightarrow> cache_ok w s'"
proof (induction lines arbitrary: lg s)
  case (Cons line rest)
  obtain r1 lg1 s1 where run: "answer_line w line (lg, s) = (r1, (lg1, s1))" by (metis prod.exhaust)
  have "r1 = Inr ()" "cache_ok w s1" using line_client [OF Cons.prems(1) _ run] Cons.prems(2) by auto
  with Cons run show ?case by (simp add: thenE_def bindE_def)
qed simp

text \<open>C29: the cached client is never used for another operator. In a session of commands as the node's client writes them,
  every call to CoFHE or the chain made for a command is made with the client its own RPC, chain and
  private key ask for, connected for it or kept from an earlier command: the key of the cache, a
  concatenation, determines all three.\<close>

theorem bridge_serves_its_operator:
  assumes "list_all node_line before" "json_parse (trim line) = Some p" "from_node p"
  shows "\<exists>new. fst (snd (answer_line w line (snd (bridge_main w before ([], bridge_init)))))
      = fst (snd (bridge_main w before ([], bridge_init))) @ new \<and> by_client w p new"
proof -
  obtain r lg s where run: "bridge_main w before ([], bridge_init) = (r, (lg, s))" by (metis prod.exhaust)
  obtain r' lg' s' where line: "answer_line w line (lg, s) = (r', (lg', s'))" by (metis prod.exhaust)
  have "cache_ok w s" by (rule main_client [OF _ assms(1) run]) (simp add: cache_ok_def bridge_init_def)
  from line_client [OF this _ line] assms(2,3) show ?thesis by (auto simp: run line node_line_def)
qed

subsection \<open>A node reads the key of a prompt\<close>

lemma line_of_object: "plain (JObj kvs) \<Longrightarrow> json_parse (trim (json_stringify (JObj kvs))) = Some (JObj kvs)"
proof -
  assume "plain (JObj kvs)"
  note round = json_round_trip [OF this]
  have "trim (''{'' @ t @ ''}'') = ''{'' @ t @ ''}''" for t by (simp add: trim_def is_space_def)
  with round show ?thesis by (simp add: json_stringify.simps)
qed

lemma get_client_ok:
  assumes "cache_ok w s" "from_node p" "client_of w p = Inr c" "\<And>lg. be_done w lg (Connect c) = Inr ()"
  obtains lg' s' where "getOrCreateClient w p (lg, s) = (Inr c, (lg', s'))"
proof -
  obtain r lg' s' where run: "getOrCreateClient w p (lg, s) = (r, (lg', s'))" by (metis prod.exhaust)
  have "\<exists>c. r = Inr c" using run assms(4) unfolding getOrCreateClient_def assms(3)
    by (auto simp: ask_def bindE_call split: option.splits bool.splits)
  with get_client [OF assms(1,2) run] assms(3) that run show thesis by auto
qed

text \<open>The key a response holds, joined as the node joins it\<close>

definition joined_key :: "json \<Rightarrow> byte list option" where
  "joined_key response = (case (obj_get ''high'' response, obj_get ''low'' response) of
      (Some (JStr h), Some (JStr l)) \<Rightarrow>
        (case (js_BigInt h, js_BigInt l) of (Inr a, Inr b) \<Rightarrow> Some (combineKeyHalves_browser a b) | _ \<Rightarrow> None)
    | _ \<Rightarrow> None)"

text \<open>C7: a node reads the key the browser sealed a prompt with. When the browser has encrypted the halves of a key, and the
  network decrypts for the node's operator what it decrypts for the browser, the bridge answers the node's
  command for the two handles of that job, whatever commands it served before, with one line that
  parses as a success, bears the command's id, and holds two decimal numbers that join to the key.\<close>

theorem node_reads_prompt_key:
  assumes browser: "cofhe_ok w" "encryptPromptKeyForTextRequest (real_client w) key (lg, x) = (Inr q, (lg', x'))"
    and command: "list_all node_line before" "json_parse (trim line) = Some p" "from_node p"
      "obj_get ''action'' p = Some (JStr ''decrypt_prompt_key'')" "obj_get ''highHandle'' p = Some (JStr (pk_high q))"
      "obj_get ''lowHandle'' p = Some (JStr (pk_low q))" "obj_get ''_requestId'' p = Some (JNum n)" "plain (JNum n)" "n \<noteq> 0"
    and network: "client_of env p = Inr c" "\<And>blg. be_done env blg (Connect c) = Inr ()"
      "\<And>blg name. \<exists>permit. be_string env blg (SelfPermit c name) = Inr permit"
      "\<And>blg permit h v. on_cofhe_decrypt w lg' h = Inr v \<Longrightarrow> be_unseal env blg (DecryptForView c permit h FheUint128) = Inr (UBig v)"
  shows "\<exists>out response. br_out (snd (snd (answer_line env line (snd (bridge_main env before ([], bridge_init))))))
      = br_out (snd (snd (bridge_main env before ([], bridge_init)))) @ [out]
    \<and> json_parse out = Some response \<and> obj_get ''ok'' response = Some (JBool True)
    \<and> obj_get ''_requestId'' response = Some (JNum n) \<and> joined_key response = Some key"
proof -
  obtain h l where key: "combineKeyHalves_browser h l = key"
    "\<And>rest. on_cofhe_decrypt w (lg' @ rest) (ctHash (pk_highInput q)) = Inr h"
    "\<And>rest. on_cofhe_decrypt w (lg' @ rest) (ctHash (pk_lowInput q)) = Inr l"
    "js_BigInt (pk_high q) = Inr (ctHash (pk_highInput q))" "js_BigInt (pk_low q) = Inr (ctHash (pk_lowInput q))" "0 \<le> h" "0 \<le> l"
    using encrypted_halves [OF browser] by metis
  have unseal: "be_unseal env blg (DecryptForView c permit (ctHash (pk_highInput q)) FheUint128) = Inr (UBig h)"
    "be_unseal env blg (DecryptForView c permit (ctHash (pk_lowInput q)) FheUint128) = Inr (UBig l)" for blg permit
    using key(2,3) [of "[]"] by (simp_all add: network(4))
  obtain r0 lg0 s0 where run: "bridge_main env before ([], bridge_init) = (r0, (lg0, s0))" by (metis prod.exhaust)
  have "cache_ok env s0" by (rule main_client [OF _ command(1) run]) (simp add: cache_ok_def bridge_init_def)
  then obtain lg1 s1 where client: "getOrCreateClient env p (lg0, s0) = (Inr c, (lg1, s1))"
    using get_client_ok [OF _ command(3) network(1,2)] by blast
  have out: "br_out s1 = br_out s0" using client_silent client by (rule silentD)
  obtain permit where permit: "be_string env lg1 (SelfPermit c
      (json_or (obj_get ''permitName'' p) (JStr ''Blindference Prompt Key Permit''))) = Inr permit" using network(3) by blast
  let ?result = "[(''high'', JStr (int_str h)), (''low'', JStr (int_str l)), (''permitHash'', JStr permit)]"
  let ?response = "((''ok'', JBool True) # ?result) @ [(''_requestId'', JNum n)]"
  have p: "p \<noteq> JNull" using command(3) by (auto simp: from_node_def obj_get_def)
  have "\<exists>lg2. processCommand env p (lg0, s0) = (Inr ?result, (lg2, s1))"
    using p by (simp add: processCommand_def json_prop_def command(4) decryptPromptKey_def client ask_def bindE_call permit
        command(5,6) json_BigInt_def key(4,5) unseal_def unseal unsealed_str_def)
  then obtain lg2 where "processCommand env p (lg0, s0) = (Inr ?result, (lg2, s1))" ..
  moreover have "trim line \<noteq> []" using command(2) by (auto simp: json_parse_def json_value.simps)
  ultimately have "answer_line env line (lg0, s0)
      = (Inr (), (lg2, s1\<lparr>br_out := br_out s0 @ [json_stringify (JObj ?response)]\<rparr>))"
    using p command(2,7,9) by (simp add: answer_line_def json_prop_def catchE_def with_id_def json_truthy_def out Let_def del: json_stringify.simps)
  moreover have "json_parse (json_stringify (JObj ?response)) = Some (JObj ?response)"
    using command(8) by (intro json_round_trip) simp
  moreover have "joined_key (JObj ?response) = Some key"
    using key(1,6,7) by (simp add: joined_key_def obj_get_def bigint_of_int_str)
  ultimately show ?thesis unfolding run by (intro exI [of _ "json_stringify (JObj ?response)"] exI [of _ "JObj ?response"])
      (simp add: obj_get_def del: json_stringify.simps)
qed

definition toy_bridge :: bridge_env where
  "toy_bridge = \<lparr>be_account = (\<lambda>k. Inr ''0xop''), be_number = (\<lambda>_. None), be_syntax = (\<lambda>_. []), be_done = (\<lambda>_ _. Inr ()),
     be_string = (\<lambda>_ _. Inr ''success''), be_unseal = (\<lambda>_ c. case c of DecryptForView _ _ h _ \<Rightarrow> Inr (UBig h) | _ \<Rightarrow> Inl unreachable),
     be_encrypt = (\<lambda>_ _. Inr []), be_fee = (\<lambda>_ _. Inr 5), be_base_fee = (\<lambda>_ _. Inr None)\<rparr>"

definition toy_key :: string where
  "toy_key = replicate 64 (CHR ''a'')"

definition toy_command :: "string \<Rightarrow> fields \<Rightarrow> json" where
  "toy_command action more_fields = JObj ([(''action'', JStr action), (''rpcUrl'', JStr ''http://localhost:8545''), (''chainId'', JNum 421614),
     (''privateKey'', JStr toy_key), (''_requestId'', JNum 1)] @ more_fields)"

abbreviation toy_client :: bridge_client where
  "toy_client \<equiv> \<lparr>bc_chain = ArbSepolia, bc_rpc = Some (JStr ''http://localhost:8545''), bc_key = ''0x'' @ toy_key, bc_address = ''0xop''\<rparr>"

lemma toy_fields: "obj_get ''action'' (toy_command a fs) = Some (JStr a)"
  "obj_get ''rpcUrl'' (toy_command a fs) = Some (JStr ''http://localhost:8545'')" "obj_get ''chainId'' (toy_command a fs) = Some (JNum 421614)"
  "obj_get ''privateKey'' (toy_command a fs) = Some (JStr toy_key)" "obj_get ''_requestId'' (toy_command a fs) = Some (JNum 1)"
  by (simp_all add: toy_command_def obj_get_def)

lemma toy_numbers: "plain (JNum 421614)" "plain (JNum 1)"
  by simp_all

lemma toy_from_node: "from_node (toy_command a fs)"
  unfolding from_node_def toy_fields using toy_numbers(1) by (simp add: toy_key_def)

lemma toy_normal: "normalizePrivateKey (Some (JStr toy_key)) = Inr (''0x'' @ toy_key)"
  by code_simp

lemma toy_client_of: "client_of toy_bridge (toy_command a fs) = Inr toy_client"
  unfolding client_of_def toy_fields toy_normal by (simp add: toy_bridge_def resolveChains_def js_number_def)

lemma toy_line: "plain (toy_command a fs) \<Longrightarrow> json_parse (trim (json_stringify (toy_command a fs))) = Some (toy_command a fs)"
  unfolding toy_command_def by (rule line_of_object)

theorem bridge_serves_its_operator_witness:
  "let line = json_stringify (toy_command ''encrypt_uint128'' []);
       st = snd (bridge_main toy_bridge [line] ([], bridge_init)) in
   \<exists>new. fst (snd (answer_line toy_bridge line st)) = fst st @ new \<and> by_client toy_bridge (toy_command ''encrypt_uint128'' []) new"
proof -
  let ?p = "toy_command ''encrypt_uint128'' []"
  have parse: "json_parse (trim (json_stringify ?p)) = Some ?p" by (rule toy_line) (simp add: toy_command_def)
  have "list_all node_line [json_stringify ?p]" by (simp add: node_line_def parse toy_from_node)
  from bridge_serves_its_operator [OF this parse toy_from_node] show ?thesis by (simp add: Let_def)
qed

theorem node_reads_prompt_key_witness:
  "\<exists>q lg' out response. encryptPromptKeyForTextRequest (real_client toy_cofhe) (replicate 32 7) ([], ()) = (Inr q, (lg', ()))
     \<and> br_out (snd (snd (answer_line toy_bridge (json_stringify (toy_command ''decrypt_prompt_key''
          [(''highHandle'', JStr (pk_high q)), (''lowHandle'', JStr (pk_low q))])) ([], bridge_init)))) = [out]
     \<and> json_parse out = Some response \<and> joined_key response = Some (replicate 32 7)"
proof -
  obtain h l where hl: "prompt_key_halves (replicate 32 7) = Inr (h, l)" "0 \<le> h" "0 \<le> l"
    using browser_codec.split_combine [of "replicate 32 7"] by auto
  obtain q where run: "encryptPromptKeyForTextRequest (real_client toy_cofhe) (replicate 32 7) ([], ())
      = (Inr q, ([CofheEncrypt [Uint128 h, Uint128 l]], ()))"
    using hl by (simp add: encryptPromptKeyForTextRequest_def real_client_def cofhe_encrypt_def bindE_def catchE_def
        toy_cofhe_def item_value_def)
  let ?fs = "[(''highHandle'', JStr (pk_high q)), (''lowHandle'', JStr (pk_low q))]"
  let ?p = "toy_command ''decrypt_prompt_key'' ?fs"
  have parse: "json_parse (trim (json_stringify ?p)) = Some ?p" by (rule toy_line) (simp add: toy_command_def)
  have "\<exists>out response. br_out (snd (snd (answer_line toy_bridge (json_stringify ?p) (snd (bridge_main toy_bridge [] ([], bridge_init))))))
      = br_out (snd (snd (bridge_main toy_bridge [] ([], bridge_init)))) @ [out]
    \<and> json_parse out = Some response \<and> obj_get ''ok'' response = Some (JBool True)
    \<and> obj_get ''_requestId'' response = Some (JNum 1) \<and> joined_key response = Some (replicate 32 7)"
    by (rule node_reads_prompt_key [OF toy_cofhe_ok(1) run _ parse toy_from_node toy_fields(1) _ _ toy_fields(5) toy_numbers(2) _ toy_client_of])
      (simp_all add: toy_command_def obj_get_def toy_bridge_def toy_cofhe_def)
  with run show ?thesis by (auto simp: bridge_init_def)
qed

subsection \<open>What the file keeps\<close>

text \<open>The files the four operations can leave, starting without one\<close>

inductive stored_file :: "string option \<Rightarrow> bool" where
  no_file: "stored_file None"
| item_set: "stored_file f \<Longrightarrow> setItem fs key val f = Inr f' \<Longrightarrow> stored_file f'"
| item_removed: "stored_file f \<Longrightarrow> removeItem fs key f = Inr f' \<Longrightarrow> stored_file f'"
| cleared: "clear fs = Inr f' \<Longrightarrow> stored_file f'"

definition is_str :: "json \<Rightarrow> bool" where
  "is_str v = (case v of JStr s \<Rightarrow> True | _ \<Rightarrow> False)"

definition items_ok :: "fields \<Rightarrow> bool" where
  "items_ok kvs = (distinct (map fst kvs) \<and> list_all (\<lambda>kv. is_str (snd kv)) kvs)"

lemma str_plain: "is_str v \<Longrightarrow> plain v"
  by (cases v) (simp_all add: is_str_def)

lemma items_plain: "items_ok kvs \<Longrightarrow> plain (JObj kvs)"
  using str_plain by (auto simp: items_ok_def list_all_iff)

lemma written: "items_ok kvs \<Longrightarrow> writeStore fs (JObj kvs) = Inr f' \<Longrightarrow> readStore f' = JObj kvs"
  using json_round_trip [OF items_plain, of kvs] by (auto simp: writeStore_def readStore_def simp del: json_stringify.simps split: option.splits)

lemma obj_put_keys: "map fst (obj_put k v kvs) = (if k \<in> fst ` set kvs then map fst kvs else map fst kvs @ [k])"
  by (auto simp: obj_put_def)

lemma obj_put_get: "map_of (obj_put k v kvs) k' = (if k' = k then Some v else map_of kvs k')"
proof -
  let ?put = "\<lambda>(a, b). (a, if a = k then v else b)"
  have same: "map_of (map ?put kvs) k = Some v" if "k \<in> fst ` set kvs" using that by (induction kvs) auto
  have others: "map_of (map ?put kvs) k' = map_of kvs k'" if "k' \<noteq> k" using that by (induction kvs) auto
  have new: "map_of kvs k = None" if "k \<notin> fst ` set kvs" using that by (simp add: map_of_eq_None_iff)
  show ?thesis by (cases "k' = k"; cases "k \<in> fst ` set kvs") (simp_all add: obj_put_def same others new map_add_def split: option.split)
qed

lemma items_put: "items_ok kvs \<Longrightarrow> items_ok (obj_put k (JStr v) kvs)"
  by (auto simp: items_ok_def obj_put_keys) (auto simp: obj_put_def list_all_iff is_str_def)

lemma items_remove: "items_ok kvs \<Longrightarrow> items_ok (filter (\<lambda>(k, v). k \<noteq> key) kvs)"
  by (auto simp: items_ok_def list_all_iff distinct_map_filter)

lemma stored_items: "stored_file f \<Longrightarrow> \<exists>kvs. readStore f = JObj kvs \<and> items_ok kvs"
proof (induction rule: stored_file.induct)
  case no_file
  show ?case by (simp add: readStore_def items_ok_def)
next
  case (item_set f fs key val f')
  then obtain kvs where kvs: "readStore f = JObj kvs" "items_ok kvs" by blast
  have "items_ok (if key = ''__proto__'' \<and> map_of kvs key = None then kvs else obj_put key (JStr val) kvs)"
    using kvs(2) items_put by simp
  with written item_set(2) kvs(1) show ?case by (auto simp: setItem_def)
next
  case (item_removed f fs key f')
  then obtain kvs where kvs: "readStore f = JObj kvs" "items_ok kvs" by blast
  with written [OF items_remove [OF kvs(2)]] item_removed(2) show ?case
    using items_remove [OF kvs(2)] by (auto simp: removeItem_def)
next
  case (cleared fs f')
  with written [of "[]"] show ?case by (auto simp: clear_def items_ok_def)
qed

lemma no_proto: "stored_file f \<Longrightarrow> readStore f = JObj kvs \<Longrightarrow> map_of kvs ''__proto__'' = None"
proof (induction arbitrary: kvs rule: stored_file.induct)
  case no_file
  then show ?case by (simp add: readStore_def)
next
  case (item_set f fs key val f')
  then obtain kvs0 where kvs: "readStore f = JObj kvs0" "items_ok kvs0" using stored_items by blast
  let ?new = "if key = ''__proto__'' \<and> map_of kvs0 key = None then kvs0 else obj_put key (JStr val) kvs0"
  have "items_ok ?new" using kvs(2) items_put by simp
  with written item_set(2,4) kvs(1) have "kvs = ?new" by (auto simp: setItem_def)
  with item_set(3) kvs(1) show ?case by (simp add: obj_put_get)
next
  case (item_removed f fs key f')
  then obtain kvs0 where kvs: "readStore f = JObj kvs0" "items_ok kvs0" using stored_items by blast
  with written [OF items_remove [OF kvs(2)]] item_removed(2,4) have new: "kvs = filter (\<lambda>(k, v). k \<noteq> key) kvs0"
    by (simp add: removeItem_def)
  show ?case using item_removed(3) kvs(1) unfolding new map_of_eq_None_iff by auto
next
  case (cleared fs f')
  with written [of "[]"] show ?case by (auto simp: clear_def items_ok_def)
qed

text \<open>The file behaves as \<open>localStorage\<close> up to the names every object inherits. After \<open>setItem\<close> the item is its value
  and every other item is what it was; after \<open>removeItem\<close> it is null and the others are what they were. But an item never stored
  under the name of a method of \<open>Object.prototype\<close>, such as \<open>constructor\<close>, is not null but the method's text, and
  what is stored under \<open>__proto__\<close> is lost.\<close>

lemma local_storage_items:
  assumes "stored_file f"
  shows "(\<exists>f'. setItem None key val f = Inr f'
      \<and> getItem key f' = Inr (Some (if key = ''__proto__'' then ''[object Object]'' else val))
      \<and> (\<forall>other. if other = key then True else getItem other f' = getItem other f))
    \<and> (\<exists>f'. removeItem None key f = Inr f'
      \<and> getItem key f' = Inr (if key \<in> set object_prototype then Some (inherited_str key) else None)
      \<and> (\<forall>other. if other = key then True else getItem other f' = getItem other f))"
proof -
  obtain kvs where kvs: "readStore f = JObj kvs" "items_ok kvs" using stored_items [OF assms] by blast
  let ?new = "if key = ''__proto__'' \<and> map_of kvs key = None then kvs else obj_put key (JStr val) kvs"
  have "items_ok ?new" using kvs(2) items_put by simp
  then have set: "readStore (Some (json_stringify (JObj ?new))) = JObj ?new" by (rule written [where fs = None]) (simp add: writeStore_def)
  have del: "readStore (Some (json_stringify (JObj (filter (\<lambda>(k, v). k \<noteq> key) kvs)))) = JObj (filter (\<lambda>(k, v). k \<noteq> key) kvs)"
    by (rule written [OF items_remove [OF kvs(2)], where fs = None]) (simp add: writeStore_def)
  have gone: "map_of (filter (\<lambda>(k, v). k \<noteq> key) kvs) other = (if other = key then None else map_of kvs other)" for other
    by (induction kvs) auto
  have proto: "map_of kvs ''__proto__'' = None" using no_proto [OF assms kvs(1)] .
  show ?thesis
  proof (intro conjI exI)
    show "setItem None key val f = Inr (Some (json_stringify (JObj ?new)))"
      by (simp add: setItem_def kvs(1) writeStore_def del: json_stringify.simps)
    show "getItem key (Some (json_stringify (JObj ?new))) = Inr (Some (if key = ''__proto__'' then ''[object Object]'' else val))"
      unfolding getItem_def set using proto by (auto simp: obj_put_get object_prototype_def inherited_str_def)
    show "\<forall>other. if other = key then True else getItem other (Some (json_stringify (JObj ?new))) = getItem other f"
      unfolding getItem_def set kvs(1) by (simp add: obj_put_get)
    show "removeItem None key f = Inr (Some (json_stringify (JObj (filter (\<lambda>(k, v). k \<noteq> key) kvs))))"
      by (simp add: removeItem_def kvs(1) writeStore_def del: json_stringify.simps)
    show "getItem key (Some (json_stringify (JObj (filter (\<lambda>(k, v). k \<noteq> key) kvs))))
        = Inr (if key \<in> set object_prototype then Some (inherited_str key) else None)"
      unfolding getItem_def del by (simp add: gone)
    show "\<forall>other. if other = key then True else getItem other (Some (json_stringify (JObj (filter (\<lambda>(k, v). k \<noteq> key) kvs)))) = getItem other f"
      unfolding getItem_def del kvs(1) by (simp add: gone)
  qed
qed

end
