(* ===== verification/Smoke_Flow.thy ===== *)
theory Smoke_Flow
  imports Cofhe_Bridge Js_Text
begin

section \<open>The end-to-end flows from the command line\<close>

text \<open>
  The three scripts that take a prompt through the whole system: \<open>node-reineira/scripts/smoke_text_flow.mjs\<close>
  and \<open>scripts/demo/smoke-text-flow.mjs\<close>, which post a job to the coordination layer, and
  \<open>scripts/demo/smoke-gateway-flow.mjs\<close>, which goes through the payment service. The state of a run is
  what it printed (\<open>console.log\<close>); an error thrown at the top level ends the process. \<open>account_of\<close> is
  \<open>privateKeyToAccount\<close>, \<open>href\<close> what \<open>new URL\<close> makes of a string, \<open>keccak\<close> viem's hash; the random bytes are
  arguments. The halves of a key are split and joined by the code the browser has (\<open>Key_Codec\<close>), fees
  are those of \<open>Chain_Tx\<close>.

  A wait polls until a deadline; it is given fuel and answers \<open>None\<close> when that runs out, which
  \<open>smoke_waits_end\<close> shows it does not with 61 (or 101) rounds if the clock counts the time slept.
\<close>

subsection \<open>Configuration\<close>

datatype smoke_line = Step json | Decrypted utext

text \<open>The configuration: \<open>sm_jwt\<close> and \<open>sm_store\<close> where the script has them\<close>

record smoke =
  sm_prompt :: utext
  sm_key :: string
  sm_icl :: string
  sm_payment :: string
  sm_gateway :: string
  sm_model :: string
  sm_jwt :: string
  sm_store :: string

definition smoke_prompt :: "utext list \<Rightarrow> utext" where
  "smoke_prompt args =
     (let prompt = text_trim (concat (case args of [] \<Rightarrow> [] | a # as \<Rightarrow> a # map (\<lambda>b. 32 # b) as)) in
      if prompt = [] then text_of_string ''What are the key benefits of FHE?'' else prompt)"

definition normalizePrivateKey_smoke :: "string \<Rightarrow> js_err + string" where
  "normalizePrivateKey_smoke val =
     (let normalized = strip_quotes (trim val) in
      if normalized = [] then Inl (ErrorObj ''Missing private key for smoke test'')
      else Inr (if starts_with normalized ''0x'' then normalized else ''0x'' @ normalized))"

definition missing :: "string \<Rightarrow> js_err + 'a" where
  "missing what = Inl (ErrorObj (''Missing '' @ what))"

definition smoke_common :: "(string \<Rightarrow> string option) \<Rightarrow> utext list \<Rightarrow> string \<Rightarrow> smoke" where
  "smoke_common env args privateKey =
     \<lparr>sm_prompt = smoke_prompt args, sm_key = privateKey,
      sm_icl = js_or (env ''ICL_BASE_URL'') ''http://127.0.0.1:8000'',
      sm_payment = js_or (env ''PAYMENT_BASE_URL'') ''http://127.0.0.1:8001'',
      sm_gateway = strip_slash (js_or (env ''PINATA_GATEWAY_URL'') ''https://gateway.pinata.cloud/ipfs''),
      sm_model = js_or (env ''TEXT_MODEL_ID'') ''groq:llama-3.3-70b-versatile'',
      sm_jwt = js_or (env ''PINATA_JWT'') [], sm_store = js_or (env ''PROMPT_KEY_STORE_ADDRESS'') []\<rparr>"

definition has_rpc :: "(string \<Rightarrow> string option) \<Rightarrow> bool" where
  "has_rpc env = (truthy (env ''COFHE_RPC_URL'') \<or> truthy (env ''ARBITRUM_SEPOLIA_RPC''))"

definition node_config :: "(string \<Rightarrow> string option) \<Rightarrow> utext list \<Rightarrow> js_err + smoke" where
  "node_config env args =
     (case normalizePrivateKey_smoke (js_or (env ''ICL_PRIVATE_KEY'') (js_or (env ''PRIVATE_KEY'') [])) of
        Inl e \<Rightarrow> Inl e
      | Inr privateKey \<Rightarrow>
          if \<not> has_rpc env then missing ''COFHE_RPC_URL or ARBITRUM_SEPOLIA_RPC''
          else if \<not> truthy (env ''PROMPT_KEY_STORE_ADDRESS'') then missing ''PROMPT_KEY_STORE_ADDRESS''
          else Inr (smoke_common env args privateKey))"

definition demo_config :: "(string \<Rightarrow> string option) \<Rightarrow> utext list \<Rightarrow> js_err + smoke" where
  "demo_config env args =
     (case normalizePrivateKey_smoke (js_or (env ''ICL_PRIVATE_KEY'') (js_or (env ''PRIVATE_KEY'') [])) of
        Inl e \<Rightarrow> Inl e
      | Inr privateKey \<Rightarrow>
          if \<not> has_rpc env then missing ''COFHE_RPC_URL or ARBITRUM_SEPOLIA_RPC''
          else if \<not> truthy (env ''PINATA_JWT'') then missing ''PINATA_JWT''
          else Inr (smoke_common env args privateKey))"

definition gateway_config :: "(string \<Rightarrow> string option) \<Rightarrow> utext list \<Rightarrow> js_err + smoke" where
  "gateway_config env args =
     (case normalizePrivateKey_smoke (js_or (env ''USER_PRIVATE_KEY'') (js_or (env ''PRIVATE_KEY'') (js_or (env ''ICL_PRIVATE_KEY'') []))) of
        Inl e \<Rightarrow> Inl e
      | Inr privateKey \<Rightarrow>
          if \<not> has_rpc env then missing ''COFHE_RPC_URL or ARBITRUM_SEPOLIA_RPC''
          else if \<not> truthy (env ''PINATA_JWT'') then missing ''PINATA_JWT''
          else Inr ((smoke_common env args privateKey)
            \<lparr>sm_store := js_or (env ''PROMPT_KEY_STORE_ADDRESS'') ''0x7120fAbdAD2FC5B05CD814A59457eB5fCd9Cfa7E''\<rparr>))"

subsection \<open>URLs\<close>

definition hex_upper :: "nat \<Rightarrow> char" where
  "hex_upper d = (if d < 10 then char_of (48 + d) else char_of (55 + d))"

definition alnum :: "nat \<Rightarrow> bool" where
  "alnum n = ((48 \<le> n \<and> n \<le> 57) \<or> (65 \<le> n \<and> n \<le> 90) \<or> (97 \<le> n \<and> n \<le> 122))"

definition percent_byte :: "string \<Rightarrow> byte \<Rightarrow> string" where
  "percent_byte safe b =
     (let n = unat b in
      if alnum n \<or> char_of n \<in> set safe then [char_of n]
      else [CHR ''%'', hex_upper (n div 16), hex_upper (n mod 16)])"

definition encodeURIComponent :: "string \<Rightarrow> string" where
  "encodeURIComponent s = concat (map (percent_byte (''-_.!~*()'' @ [CHR 0x27])) (utf8_encode (text_of_string s)))"

text \<open>A value in \<open>url.searchParams\<close>\<close>

definition form_encode :: "string \<Rightarrow> string" where
  "form_encode s = concat (map (\<lambda>b. if b = 32 then ''+'' else percent_byte ''*-._'' b) (utf8_encode (text_of_string s)))"

subsection \<open>The prompt\<close>

definition smoke_encryptText :: "gcm \<Rightarrow> byte list \<Rightarrow> utext \<Rightarrow> byte list \<Rightarrow> js_err + aes_payload" where
  "smoke_encryptText g i txt key =
     (case gcm_seal g key i (utf8_encode txt) of
        Inl e \<Rightarrow> Inl e
      | Inr (ct, tag) \<Rightarrow> Inr (payload i tag ct))"

definition smoke_packPayload :: "aes_payload \<Rightarrow> byte list" where
  "smoke_packPayload p = iv p @ authTag p @ ciphertext p"

text \<open>\<open>throw new Error(`${what}: ${response.status} ${await response.text()}`)\<close>\<close>

definition refused :: "string \<Rightarrow> byte fetch_response \<Rightarrow> (ext, 'x, 'a) io" where
  "refused what response =
     bindE (lift (body_text response)) (\<lambda>txt.
       throw (ErrorObj (what @ '': '' @ nat_str (status_code response) @ '' '' @ txt)))"

definition uploadPromptToIcl :: "world \<Rightarrow> byte list \<Rightarrow> string \<Rightarrow> (ext, 'x, json) io" where
  "uploadPromptToIcl w bytes baseUrl =
     bindE (fetch (on_fetch w) (Post (baseUrl @ ''/v1/inference/upload-prompt'') []
         [(''file'', FileField bytes ''blindference-text-prompt.bin'')])) (\<lambda>response.
     if \<not> resp_ok response then refused ''Encrypted prompt upload failed'' response
     else bindE (lift (body_json response)) (\<lambda>pay.
       if \<not> json_truthy (opt_prop ''cid'' (Some pay))
       then throw (ErrorObj (''Unexpected ICL upload response: '' @ json_stringify pay))
       else ret (the (obj_get ''cid'' pay))))"

definition uploadToIpfs_smoke :: "world \<Rightarrow> byte list \<Rightarrow> string \<Rightarrow> (ext, 'x, json) io" where
  "uploadToIpfs_smoke w bytes jwt =
     bindE (fetch (on_fetch w) (Post ''https://uploads.pinata.cloud/v3/files'' [(''Authorization'', ''Bearer '' @ jwt)]
         [(''file'', FileField bytes ''blindference-text-prompt.bin''), (''network'', TextField ''public''),
          (''name'', TextField ''blindference-text-prompt.bin'')])) (\<lambda>response.
     if \<not> resp_ok response then refused ''IPFS upload failed'' response
     else bindE (lift (body_json response)) (\<lambda>pay.
       let cid = opt_prop ''cid'' (opt_prop ''data'' (Some pay)) in
       if \<not> json_truthy cid then throw (ErrorObj (''Unexpected Pinata response: '' @ json_stringify pay))
       else ret (the cid)))"

text \<open>The two halves encrypted, and one of the inputs that came back\<close>

definition encrypt_halves :: "world \<Rightarrow> byte list \<Rightarrow> (ext, 'x, encrypted_input list) io" where
  "encrypt_halves w promptKey =
     cofhe_encrypt w [Uint128 (bigintFromBytes (js_slice 0 16 promptKey)), Uint128 (bigintFromBytes (js_slice 16 32 promptKey))]"

definition input_at :: "encrypted_input list \<Rightarrow> nat \<Rightarrow> js_err + encrypted_input" where
  "input_at inputs i =
     (if i < length inputs then Inr (inputs ! i)
      else Inl (ErrorObj (''Cannot read properties of undefined (reading '' @ [CHR 0x27] @ ''ctHash'' @ [CHR 0x27] @ '')'')))"

subsection \<open>The quorum\<close>

text \<open>\<open>[leader, ...verifiers]\<close>, in which the leader can be missing\<close>

definition node_list :: "json option \<Rightarrow> json option \<Rightarrow> js_err + json option list" where
  "node_list leader verifiers = (case verifiers of
      Some (JArr xs) \<Rightarrow> Inr (leader # map Some xs)
    | Some (JStr s) \<Rightarrow> Inr (leader # map (\<lambda>c. Some (JStr [c])) s)
    | _ \<Rightarrow> Inl (ErrorObj ''verifiers is not iterable''))"

text \<open>viem encodes an \<open>address[]\<close> of strings only\<close>

fun abi_addresses :: "json option list \<Rightarrow> js_err + abi_value list" where
  "abi_addresses [] = Inr []"
| "abi_addresses (Some (JStr a) # xs) = (case abi_addresses xs of Inl e \<Rightarrow> Inl e | Inr as \<Rightarrow> Inr (AStr a # as))"
| "abi_addresses (x # xs) = Inl (ErrorObj (''Address '' @ display x @ '' is invalid.''))"

text \<open>\<open>a ?? b\<close> on fields of a JSON object\<close>

definition json_nullish_or :: "json option \<Rightarrow> json option \<Rightarrow> json option" where
  "json_nullish_or a b = (if json_nullish a then b else a)"

definition getQuorumPreview ::
  "world \<Rightarrow> (string \<Rightarrow> js_err + string) \<Rightarrow> string \<Rightarrow> string \<Rightarrow> (ext, 'x, json option \<times> json option) io" where
  "getQuorumPreview w href baseUrl modelId =
     bindE (lift (href (baseUrl @ ''/v1/inference/quorum-preview''))) (\<lambda>url.
     bindE (fetch (on_fetch w) (Get (url @ ''?model_id='' @ form_encode modelId
         @ ''&min_tier=1&verifier_count=2&zdr_required=false''))) (\<lambda>response.
     if \<not> resp_ok response then refused ''Quorum preview failed'' response
     else bindE (lift (body_json response)) (\<lambda>pay.
       bindE (lift (json_prop ''data'' pay)) (\<lambda>data.
       let pick = (\<lambda>k k'. json_nullish_or (opt_prop k data) (json_nullish_or (obj_get k' pay) (obj_get k pay))) in
       ret (pick ''leader'' ''leader_address'', pick ''verifiers'' ''verifier_addresses'')))))"

subsection \<open>The store\<close>

definition storePromptKey_smoke ::
  "world \<Rightarrow> string \<Rightarrow> string \<Rightarrow> string \<Rightarrow> string \<Rightarrow> encrypted_input list \<Rightarrow> json option list \<Rightarrow> (ext, 'x, string) io" where
  "storePromptKey_smoke w failure account taskId store inputs allowedNodes =
     bindE (chain_fee_params w) (\<lambda>feeParams.
     bindE (lift (input_at inputs 0)) (\<lambda>highInput.
     bindE (lift (input_at inputs 1)) (\<lambda>lowInput.
     bindE (lift (abi_addresses allowedNodes)) (\<lambda>nodes.
     bindE (write_contract w \<lparr>tx_account = account, tx_address = store, tx_function = ''storeKey'',
         tx_args = [AStr taskId, toContractInput highInput, toContractInput lowInput, AList nodes],
         tx_fees = feeParams\<rparr>) (\<lambda>txHash.
     bindE (wait_receipt w txHash) (\<lambda>status.
     if status \<noteq> ''success'' then throw (ErrorObj (failure @ taskId)) else ret txHash))))))"

subsection \<open>The wait\<close>

definition accepted_verdict :: "json \<Rightarrow> json \<Rightarrow> js_err + json option" where
  "accepted_verdict jobId pay =
     (case json_prop ''status'' pay of
        Inl e \<Rightarrow> Inl e
      | Inr status \<Rightarrow>
          if status = Some (JStr ''ACCEPTED'') then Inr (Some pay)
          else if status \<in> {Some (JStr ''REJECTED''), Some (JStr ''TIMEDOUT''), Some (JStr ''DISPUTED'')}
          then Inl (ErrorObj (''Job '' @ json_display jobId @ '' ended in status '' @ display status @ '': '' @ json_stringify pay))
          else Inr None)"

definition finished_verdict :: "json \<Rightarrow> js_err + json option" where
  "finished_verdict pay =
     (case json_prop ''status'' pay of
        Inl e \<Rightarrow> Inl e
      | Inr status \<Rightarrow>
          if status \<in> {Some (JStr ''COMPLETED''), Some (JStr ''FAILED''), Some (JStr ''REFUNDED'')} then Inr (Some pay)
          else Inr None)"

fun wait_loop ::
  "world \<Rightarrow> nat \<Rightarrow> string \<Rightarrow> string \<Rightarrow> (json \<Rightarrow> js_err + json option) \<Rightarrow> js_err \<Rightarrow> nat \<Rightarrow> (ext, 'x, json option) io" where
  "wait_loop w deadline url failure verdict timeout 0 = ret None"
| "wait_loop w deadline url failure verdict timeout (Suc n) =
     bindE (clock w) (\<lambda>now.
     if now < deadline then
       bindE (fetch (on_fetch w) (Get url)) (\<lambda>response.
       if \<not> resp_ok response then refused failure response
       else bindE (lift (body_json response)) (\<lambda>pay.
       bindE (lift (verdict pay)) (\<lambda>v. case v of
           Some p \<Rightarrow> ret (Some p)
         | None \<Rightarrow> thenE (sleep 3000) (wait_loop w deadline url failure verdict timeout n))))
     else throw timeout)"

definition waitForAccepted :: "world \<Rightarrow> nat \<Rightarrow> json \<Rightarrow> string \<Rightarrow> (ext, 'x, json option) io" where
  "waitForAccepted w fuel jobId baseUrl =
     bindE (clock w) (\<lambda>now.
       wait_loop w (now + 180000) (baseUrl @ ''/v1/inference/'' @ json_display jobId) ''ICL status failed'' (accepted_verdict jobId)
         (ErrorObj (''Timed out waiting for job '' @ json_display jobId @ '' to reach ACCEPTED'')) fuel)"

definition waitForJobCompletion :: "world \<Rightarrow> nat \<Rightarrow> json \<Rightarrow> string \<Rightarrow> (ext, 'x, json option) io" where
  "waitForJobCompletion w fuel jobId baseUrl =
     bindE (clock w) (\<lambda>now.
       wait_loop w (now + 300000) (baseUrl @ ''/v1/jobs/'' @ json_display jobId) ''Payment Service status failed'' finished_verdict
         (ErrorObj (''Timed out waiting for job '' @ json_display jobId @ '' to complete'')) fuel)"

subsection \<open>The output\<close>

text \<open>The three scripts open the blob differently: at 16 bytes of IV, the same through a joined buffer whose last
  16 bytes are cut off again, and so at 12 bytes of IV for a blob that is long enough\<close>

definition open_node :: "gcm \<Rightarrow> byte list \<Rightarrow> byte list \<Rightarrow> js_err + byte list" where
  "open_node g key packed = gcm_open g key (js_slice 0 16 packed) (js_slice 16 32 packed) (drop 32 packed)"

definition without_tag :: "byte list \<Rightarrow> byte list \<Rightarrow> byte list" where
  "without_tag ct tag = (let combined = ct @ tag in js_slice 0 (tag_start combined) combined)"

definition open_demo :: "gcm \<Rightarrow> byte list \<Rightarrow> byte list \<Rightarrow> js_err + byte list" where
  "open_demo g key packed =
     (let authTag = js_slice 16 32 packed in
      gcm_open g key (js_slice 0 16 packed) authTag (without_tag (drop 32 packed) authTag))"

definition open_gateway :: "gcm \<Rightarrow> byte list \<Rightarrow> byte list \<Rightarrow> js_err + byte list" where
  "open_gateway g key packed =
     (if length packed < 28 then Inl (ErrorObj ''Encrypted output payload is too short'')
      else let authTag = js_slice 12 28 packed in
        gcm_open g key (js_slice 0 12 packed) authTag (without_tag (drop 28 packed) authTag))"

definition downloadAndDecrypt ::
  "world \<Rightarrow> (byte list \<Rightarrow> byte list \<Rightarrow> js_err + byte list) \<Rightarrow> string \<Rightarrow> json option \<Rightarrow> byte list \<Rightarrow> (ext, 'x, utext) io" where
  "downloadAndDecrypt w decipher gateway cid key =
     bindE (fetch (on_fetch w) (Get (gateway @ ''/'' @ display cid))) (\<lambda>response.
     if \<not> resp_ok response then throw (ErrorObj (''IPFS download failed: '' @ status_line response))
     else bindE (lift (body_bytes response)) (\<lambda>packed.
       bindE (lift (decipher key packed)) (\<lambda>plaintext. ret (utf8_decode plaintext))))"

definition smoke_output_key :: "world \<Rightarrow> json \<Rightarrow> (ext, 'x, byte list) io" where
  "smoke_output_key w status =
     bindE (get_permit w) (\<lambda>permit.
     bindE (lift (json_BigInt (obj_get ''encrypted_output_key_high'' status))) (\<lambda>h.
     bindE (cofhe_decrypt w h) (\<lambda>decryptedHigh.
     bindE (lift (json_BigInt (obj_get ''encrypted_output_key_low'' status))) (\<lambda>l.
     bindE (cofhe_decrypt w l) (\<lambda>decryptedLow.
     ret (combineKeyHalves_browser decryptedHigh decryptedLow))))))"

definition say :: "(string \<times> json) list \<Rightarrow> (ext, smoke_line list, unit) io" where
  "say kvs = update (\<lambda>out. out @ [Step (JObj kvs)])"

text \<open>From the accepted status to the text printed\<close>

definition smoke_read ::
  "world \<Rightarrow> (byte list \<Rightarrow> byte list \<Rightarrow> js_err + byte list) \<Rightarrow> string \<Rightarrow> json \<Rightarrow> (ext, smoke_line list, utext) io" where
  "smoke_read w decipher gateway status =
     thenE (say [(''step'', JStr ''accepted''), (''status'', status)])
    (bindE (smoke_output_key w status) (\<lambda>outputKey.
     bindE (downloadAndDecrypt w decipher gateway (obj_get ''output_cid'' status) outputKey) (\<lambda>outputText.
     thenE (update (\<lambda>out. out @ [Decrypted outputText])) (ret outputText))))"

subsection \<open>\<open>smoke_text_flow.mjs\<close>\<close>

definition node_body ::
  "smoke \<Rightarrow> string \<Rightarrow> string \<Rightarrow> json \<Rightarrow> encrypted_input \<Rightarrow> encrypted_input \<Rightarrow> json option \<Rightarrow> json option \<Rightarrow> string \<Rightarrow> json" where
  "node_body c account taskId promptCid highInput lowInput leader verifiers storeTx =
     JObj ([(''developer_address'', JStr account), (''task_id'', JStr taskId), (''mode'', JStr ''text''),
         (''model_id'', JStr (sm_model c))]
       @ opt_field ''leader_address'' leader @ opt_field ''verifier_addresses'' verifiers
       @ [(''text_request'', JObj [(''prompt_cid'', promptCid),
             (''encrypted_prompt_key'', JObj [(''high'', JStr (int_str (ctHash highInput))), (''low'', JStr (int_str (ctHash lowInput)))]),
             (''model_id'', JStr (sm_model c)), (''coverage_enabled'', JBool False)]),
          (''min_tier'', JNum 1), (''zdr_required'', JBool False), (''verifier_count'', JNum 2),
          (''metadata'', JObj [(''cofhe_prompt_key_inputs'', JObj [(''high'', serializeEncryptedInput_browser highInput),
                (''low'', serializeEncryptedInput_browser lowInput)]),
             (''prompt_length'', js_num (text_length (sm_prompt c))), (''vertical'', JStr ''blindference-text-demo''),
             (''prompt_key_store_tx'', JStr storeTx), (''prompt_key_store_status'', JStr ''stored_by_user''),
             (''prompt_key_store_address'', JStr (sm_store c))])])"

text \<open>The job posted, and its id\<close>

definition create_job :: "world \<Rightarrow> smoke \<Rightarrow> string \<Rightarrow> json \<Rightarrow> json \<Rightarrow> (ext, smoke_line list, json) io" where
  "create_job w c account promptCid body =
     bindE (fetch (on_fetch w) (PostJson (sm_icl c @ ''/v1/inference/requests'') body)) (\<lambda>createResponse.
     if \<not> resp_ok createResponse then refused ''ICL create failed'' createResponse
     else bindE (lift (body_json createResponse)) (\<lambda>created.
       bindE (lift (json_prop ''job_id'' created)) (\<lambda>job.
       let jobId = (if json_truthy job then job else obj_get ''request_id'' created) in
       if \<not> json_truthy jobId then throw (ErrorObj (''ICL did not return a job id: '' @ json_stringify created))
       else thenE (say [(''step'', JStr ''submitted''), (''jobId'', the jobId), (''promptCid'', promptCid), (''developer'', JStr account)])
         (ret (the jobId)))))"

definition node_submit ::
  "world \<Rightarrow> gcm \<Rightarrow> (string \<Rightarrow> js_err + string) \<Rightarrow> smoke \<Rightarrow> string \<Rightarrow> byte list \<Rightarrow> byte list \<Rightarrow> byte list
   \<Rightarrow> (ext, smoke_line list, json) io" where
  "node_submit w g href c account promptKey ivBytes taskBytes =
     bindE (lift (smoke_encryptText g ivBytes (sm_prompt c) promptKey)) (\<lambda>encryptedPrompt.
     bindE (uploadPromptToIcl w (smoke_packPayload encryptedPrompt) (sm_icl c)) (\<lambda>promptCid.
     bindE (encrypt_halves w promptKey) (\<lambda>inputs.
     let taskId = ''0x'' @ hex_of_bytes taskBytes in
     bindE (getQuorumPreview w href (sm_icl c) (sm_model c)) (\<lambda>(leader, verifiers).
     bindE (lift (node_list leader verifiers)) (\<lambda>allowedNodes.
     bindE (storePromptKey_smoke w ''PromptKeyStore tx failed for task '' account taskId (sm_store c) inputs allowedNodes) (\<lambda>storeTx.
     bindE (lift (input_at inputs 0)) (\<lambda>highInput.
     bindE (lift (input_at inputs 1)) (\<lambda>lowInput.
     create_job w c account promptCid
       (node_body c account taskId promptCid highInput lowInput leader verifiers storeTx)))))))))"

definition smoke_node ::
  "world \<Rightarrow> gcm \<Rightarrow> (string \<Rightarrow> js_err + string) \<Rightarrow> (string \<Rightarrow> js_err + string) \<Rightarrow> (string \<Rightarrow> string option) \<Rightarrow> utext list
   \<Rightarrow> byte list \<Rightarrow> byte list \<Rightarrow> byte list \<Rightarrow> nat \<Rightarrow> (ext, smoke_line list, utext option) io" where
  "smoke_node w g href account_of env args promptKey ivBytes taskBytes fuel =
     bindE (lift (node_config env args)) (\<lambda>c.
     bindE (lift (account_of (sm_key c))) (\<lambda>account.
     thenE (cofhe_connect w)
    (bindE (node_submit w g href c account promptKey ivBytes taskBytes) (\<lambda>jobId.
     bindE (waitForAccepted w fuel jobId (sm_icl c)) (\<lambda>st. case st of
         None \<Rightarrow> ret None
       | Some status \<Rightarrow> bindE (smoke_read w (open_node g) (sm_gateway c) status) (\<lambda>t. ret (Some t)))))))"

subsection \<open>\<open>smoke-text-flow.mjs\<close>\<close>

definition demo_body :: "smoke \<Rightarrow> string \<Rightarrow> json \<Rightarrow> encrypted_input \<Rightarrow> encrypted_input \<Rightarrow> json" where
  "demo_body c account promptCid highInput lowInput =
     JObj [(''developer_address'', JStr account), (''mode'', JStr ''text''), (''model_id'', JStr (sm_model c)),
       (''text_request'', JObj [(''prompt_cid'', promptCid),
          (''encrypted_prompt_key'', JObj [(''high'', JStr (int_str (ctHash highInput))), (''low'', JStr (int_str (ctHash lowInput)))]),
          (''model_id'', JStr (sm_model c)), (''coverage_enabled'', JBool False)]),
       (''min_tier'', JNum 1), (''zdr_required'', JBool False), (''verifier_count'', JNum 2),
       (''metadata'', JObj [(''cofhe_prompt_key_inputs'', JObj [(''high'', serializeEncryptedInput_browser highInput),
             (''low'', serializeEncryptedInput_browser lowInput)]),
          (''prompt_length'', js_num (text_length (sm_prompt c))), (''vertical'', JStr ''blindference-text-demo'')])]"

definition demo_submit ::
  "world \<Rightarrow> gcm \<Rightarrow> smoke \<Rightarrow> string \<Rightarrow> byte list \<Rightarrow> byte list \<Rightarrow> (ext, smoke_line list, json) io" where
  "demo_submit w g c account promptKey ivBytes =
     bindE (lift (smoke_encryptText g ivBytes (sm_prompt c) promptKey)) (\<lambda>encryptedPrompt.
     bindE (uploadToIpfs_smoke w (smoke_packPayload encryptedPrompt) (sm_jwt c)) (\<lambda>promptCid.
     bindE (encrypt_halves w promptKey) (\<lambda>inputs.
     bindE (lift (input_at inputs 0)) (\<lambda>highInput.
     bindE (lift (input_at inputs 1)) (\<lambda>lowInput.
     create_job w c account promptCid (demo_body c account promptCid highInput lowInput))))))"

definition smoke_demo ::
  "world \<Rightarrow> gcm \<Rightarrow> (string \<Rightarrow> js_err + string) \<Rightarrow> (string \<Rightarrow> string option) \<Rightarrow> utext list
   \<Rightarrow> byte list \<Rightarrow> byte list \<Rightarrow> nat \<Rightarrow> (ext, smoke_line list, utext option) io" where
  "smoke_demo w g account_of env args promptKey ivBytes fuel =
     bindE (lift (demo_config env args)) (\<lambda>c.
     bindE (lift (account_of (sm_key c))) (\<lambda>account.
     thenE (cofhe_connect w)
    (bindE (demo_submit w g c account promptKey ivBytes) (\<lambda>jobId.
     bindE (waitForAccepted w fuel jobId (sm_icl c)) (\<lambda>st. case st of
         None \<Rightarrow> ret None
       | Some status \<Rightarrow> bindE (smoke_read w (open_demo g) (sm_gateway c) status) (\<lambda>t. ret (Some t)))))))"

subsection \<open>\<open>smoke-gateway-flow.mjs\<close>\<close>

text \<open>The nodes of the preview, or none when it fails in any way; then the own address\<close>

definition gateway_nodes :: "world \<Rightarrow> smoke \<Rightarrow> string \<Rightarrow> (ext, smoke_line list, json option list) io" where
  "gateway_nodes w c account =
     bindE (catchE
       (bindE (fetch (on_fetch w) (Get (sm_icl c @ ''/v1/inference/quorum-preview?model_id='' @ encodeURIComponent (sm_model c)
            @ ''&min_tier=0&verifier_count=2''))) (\<lambda>previewResponse.
        if resp_ok previewResponse then
          bindE (lift (body_json previewResponse)) (\<lambda>preview.
          bindE (lift (json_prop ''leader'' preview)) (\<lambda>leader.
          bindE (lift (node_list leader (obj_get ''verifiers'' preview))) (\<lambda>nodes.
          thenE (say [(''step'', JStr ''quorum_preview''), (''allowedNodes'', JArr (map (\<lambda>n. nullish n JNull) nodes))])
            (ret nodes))))
        else ret []))
       (\<lambda>err. ret [])) (\<lambda>allowedNodes.
     ret (if allowedNodes = [] then [Some (JStr account)] else allowedNodes))"

definition gateway_body :: "smoke \<Rightarrow> string \<Rightarrow> string \<Rightarrow> json \<Rightarrow> encrypted_input \<Rightarrow> encrypted_input \<Rightarrow> json" where
  "gateway_body c account taskId promptCid highInput lowInput =
     JObj [(''user_address'', JStr account), (''prompt_cid'', promptCid), (''model_id'', JStr (sm_model c)),
       (''encrypted_prompt_key_high'', JStr (int_str (ctHash highInput))),
       (''encrypted_prompt_key_low'', JStr (int_str (ctHash lowInput))),
       (''payment_mode'', JStr ''credits''), (''payment_currency'', JStr ''blind''), (''insurance_opt_in'', JBool False),
       (''task_id'', JStr taskId)]"

definition gateway_post :: "world \<Rightarrow> smoke \<Rightarrow> json \<Rightarrow> (ext, smoke_line list, json) io" where
  "gateway_post w c body =
     bindE (fetch (on_fetch w) (PostJson (sm_payment c @ ''/v1/jobs/submit'') body)) (\<lambda>submitResponse.
     if \<not> resp_ok submitResponse then
       bindE (lift (body_text submitResponse)) (\<lambda>txt.
         throw (ErrorObj (if status_code submitResponse = 402
           then ''Payment Service returned 402 (Insufficient credits). '' @
             ''Deposit cUSDC or BLIND credits first. Response: '' @ txt
           else ''Payment Service submit failed: '' @ nat_str (status_code submitResponse) @ '' '' @ txt)))
     else bindE (lift (body_json submitResponse)) (\<lambda>submitted.
       bindE (lift (json_prop ''job_id'' submitted)) (\<lambda>jobId.
       if \<not> json_truthy jobId then throw (ErrorObj (''Payment Service did not return a job id: '' @ json_stringify submitted))
       else thenE (say ([(''step'', JStr ''submitted''), (''jobId'', the jobId)] @ opt_field ''paymentStatus'' (obj_get ''status'' submitted)))
         (ret (the jobId)))))"

definition gateway_submit ::
  "world \<Rightarrow> gcm \<Rightarrow> smoke \<Rightarrow> string \<Rightarrow> string \<Rightarrow> byte list \<Rightarrow> byte list \<Rightarrow> (ext, smoke_line list, json) io" where
  "gateway_submit w g c account taskId promptKey ivBytes =
     thenE (say [(''step'', JStr ''init''), (''taskId'', JStr taskId), (''developer'', JStr account)])
    (bindE (lift (smoke_encryptText g ivBytes (sm_prompt c) promptKey)) (\<lambda>encryptedPrompt.
     bindE (uploadToIpfs_smoke w (smoke_packPayload encryptedPrompt) (sm_jwt c)) (\<lambda>promptCid.
     thenE (say [(''step'', JStr ''encrypted''), (''promptCid'', promptCid)])
    (bindE (encrypt_halves w promptKey) (\<lambda>inputs.
     bindE (gateway_nodes w c account) (\<lambda>allowedNodes.
     bindE (storePromptKey_smoke w ''PromptKeyStore transaction failed for task '' account taskId (sm_store c) inputs allowedNodes)
       (\<lambda>storeTx.
     thenE (say [(''step'', JStr ''store_key''), (''txHash'', JStr storeTx)])
    (bindE (lift (input_at inputs 0)) (\<lambda>highInput.
     bindE (lift (input_at inputs 1)) (\<lambda>lowInput.
     gateway_post w c (gateway_body c account taskId promptCid highInput lowInput)))))))))))"

text \<open>From the final status to the text printed; the handles come from the coordination layer\<close>

definition gateway_handles :: "world \<Rightarrow> smoke \<Rightarrow> json \<Rightarrow> json \<Rightarrow> (ext, smoke_line list, json) io" where
  "gateway_handles w c jobId jobStatus =
     thenE (say [(''step'', JStr ''finalized''), (''jobStatus'', jobStatus)])
    (if obj_get ''status'' jobStatus \<noteq> Some (JStr ''COMPLETED'') then
       throw (ErrorObj (''Job '' @ json_display jobId @ '' ended with status '' @ display (obj_get ''status'' jobStatus) @ '': ''
         @ json_display (json_or (obj_get ''error_reason'' jobStatus) (JStr ''no error reason''))))
     else
       bindE (fetch (on_fetch w) (Get (sm_icl c @ ''/v1/inference/task/'' @ json_display jobId))) (\<lambda>iclTaskResponse.
       if \<not> resp_ok iclTaskResponse then refused ''ICL task lookup failed'' iclTaskResponse
       else bindE (lift (body_json iclTaskResponse)) (\<lambda>iclTask.
         bindE (lift (json_prop ''encrypted_output_key_high'' iclTask)) (\<lambda>high.
         if \<not> json_truthy high \<or> \<not> json_truthy (obj_get ''encrypted_output_key_low'' iclTask)
         then throw (ErrorObj (''ICL task missing output keys: '' @ json_stringify iclTask))
         else thenE (say ([(''step'', JStr ''output_keys''), (''encrypted_output_key_high'', the high),
             (''encrypted_output_key_low'', the (obj_get ''encrypted_output_key_low'' iclTask))]
             @ opt_field ''output_cid'' (obj_get ''output_cid'' iclTask))) (ret iclTask)))))"

definition gateway_read ::
  "world \<Rightarrow> gcm \<Rightarrow> smoke \<Rightarrow> json \<Rightarrow> json \<Rightarrow> (ext, smoke_line list, utext) io" where
  "gateway_read w g c jobId jobStatus =
     bindE (gateway_handles w c jobId jobStatus) (\<lambda>iclTask.
     bindE (smoke_output_key w iclTask) (\<lambda>outputKey.
     thenE (say [(''step'', JStr ''decrypted_key''), (''outputKeyHex'', JStr (hex_of_bytes outputKey))])
    (bindE (downloadAndDecrypt w (open_gateway g) (sm_gateway c) (obj_get ''output_cid'' iclTask) outputKey) (\<lambda>outputText.
     thenE (update (\<lambda>out. out @ [Decrypted outputText])) (ret outputText)))))"

definition smoke_gateway ::
  "world \<Rightarrow> gcm \<Rightarrow> (byte list \<Rightarrow> string) \<Rightarrow> (string \<Rightarrow> js_err + string) \<Rightarrow> (string \<Rightarrow> string option) \<Rightarrow> utext list
   \<Rightarrow> byte list \<Rightarrow> byte list \<Rightarrow> byte list \<Rightarrow> nat \<Rightarrow> (ext, smoke_line list, utext option) io" where
  "smoke_gateway w g keccak account_of env args promptKey ivBytes taskBytes fuel =
     bindE (lift (gateway_config env args)) (\<lambda>c.
     bindE (lift (account_of (sm_key c))) (\<lambda>account.
     thenE (cofhe_connect w)
    (bindE (gateway_submit w g c account (keccak taskBytes) promptKey ivBytes) (\<lambda>jobId.
     bindE (waitForJobCompletion w fuel jobId (sm_payment c)) (\<lambda>st. case st of
         None \<Rightarrow> ret None
       | Some jobStatus \<Rightarrow> bindE (gateway_read w g c jobId jobStatus) (\<lambda>t. ret (Some t)))))))"

end
