(* ===== verification/Smoke_Runs.thy ===== *)
theory Smoke_Runs
  imports Smoke_Flow
begin

section \<open>What the end-to-end flows promise\<close>

text \<open>
  The waits of \<open>Smoke_Flow\<close> end, a job is posted only for a stored key, and the text printed is the text sealed.
  \<open>wait_settled\<close>, \<open>posting\<close> and \<open>backs\<close> are closed under the operators of a flow; a claim on a flow is
  these rules applied along its definition.
\<close>

subsection \<open>The waits end\<close>

text \<open>A wait has settled at some fuel: more makes no difference, and it did not run out\<close>

definition wait_settled :: "(nat \<Rightarrow> ('c, 'x, 'a option) io) \<Rightarrow> nat \<Rightarrow> bool" where
  "wait_settled m k = (\<forall>s n. m (k + n) s = m k s \<and> fst (m k s) \<noteq> Inr None)"

lemma wait_settled_bind: "(\<And>v. wait_settled (f v) k) \<Longrightarrow> wait_settled (\<lambda>fuel. bindE m (\<lambda>v. f v fuel)) k"
  by (auto simp: wait_settled_def bindE_def split: prod.splits sum.splits)

lemma wait_settled_then: "wait_settled f k \<Longrightarrow> wait_settled (\<lambda>fuel. thenE m (f fuel)) k"
  unfolding thenE_def by (rule wait_settled_bind)

lemma wait_settled_wait:
  assumes "wait_settled m k"
  shows "wait_settled (\<lambda>fuel. bindE (m fuel) (\<lambda>st. case st of None \<Rightarrow> ret None | Some p \<Rightarrow> bindE (r p) (\<lambda>t. ret (Some t)))) k"
  unfolding wait_settled_def
proof (intro allI)
  fix s n
  from assms have m: "m (k + n) s = m k s" "fst (m k s) \<noteq> Inr None" unfolding wait_settled_def by blast+
  obtain v s' where run: "m k s = (v, s')" by (cases "m k s")
  with m have "v \<noteq> Inr None" by simp
  then consider (error) e where "v = Inl e" | (found) p where "v = Inr (Some p)"
    by (cases v) auto
  then show "bindE (m (k + n)) (\<lambda>st. case st of None \<Rightarrow> ret None | Some p \<Rightarrow> bindE (r p) (\<lambda>t. ret (Some t))) s
      = bindE (m k) (\<lambda>st. case st of None \<Rightarrow> ret None | Some p \<Rightarrow> bindE (r p) (\<lambda>t. ret (Some t))) s
    \<and> fst (bindE (m k) (\<lambda>st. case st of None \<Rightarrow> ret None | Some p \<Rightarrow> bindE (r p) (\<lambda>t. ret (Some t))) s) \<noteq> Inr None"
    by cases (use m(1) run in \<open>auto simp: bindE_def split: prod.splits sum.splits\<close>)
qed

text \<open>What is asked of the clock: it advances by at least the time slept\<close>

definition slept :: "ext list \<Rightarrow> nat" where
  "slept lg = sum_list (map (\<lambda>c. case c of Sleep ms \<Rightarrow> ms | _ \<Rightarrow> 0) lg)"

definition clock_ok :: "world \<Rightarrow> bool" where
  "clock_ok w = (\<forall>lg new. on_clock w lg + slept new \<le> on_clock w (lg @ new))"

lemma clock_okD: "clock_ok w \<Longrightarrow> on_clock w lg + slept new \<le> on_clock w (lg @ new)"
  by (simp add: clock_ok_def)

lemma wait_loop_enough:
  assumes "clock_ok w" "deadline \<le> on_clock w lg + 3000 * n"
  shows "wait_loop w deadline url failure verdict timeout (Suc n + k) (lg, x) = wait_loop w deadline url failure verdict timeout (Suc n) (lg, x)
    \<and> fst (wait_loop w deadline url failure verdict timeout (Suc n) (lg, x)) \<noteq> Inr None"
  using assms(2)
proof (induction n arbitrary: lg)
  case 0
  then show ?case by (simp add: clock_def bindE_call)
next
  case (Suc n)
  let ?lg = "lg @ [Clock, Fetch (Get url), Sleep 3000]"
  have "on_clock w lg + 3000 \<le> on_clock w ?lg"
    using clock_okD [OF assms(1), of lg "[Clock, Fetch (Get url), Sleep 3000]"] by (simp add: slept_def)
  with Suc.prems have "deadline \<le> on_clock w ?lg + 3000 * n" by simp
  note IH = Suc.IH [OF this]
  show ?case
    using IH by (auto simp: clock_def sleep_def fetch_def refused_def bindE_call thenE_call split: sum.splits option.splits)
qed

lemma wait_settled_deadline:
  assumes "clock_ok w" "ms \<le> 3000 * n"
  shows "wait_settled (\<lambda>fuel. bindE (clock w) (\<lambda>now. wait_loop w (now + ms) url failure verdict timeout fuel)) (Suc n)"
  unfolding wait_settled_def
proof (intro allI)
  fix s :: "ext list \<times> 'x" and k
  obtain lg x where s: "s = (lg, x)" by (cases s)
  have "on_clock w lg \<le> on_clock w (lg @ [Clock])" using clock_okD [OF assms(1), of lg "[Clock]"] by (simp add: slept_def)
  with assms(2) have "on_clock w lg + ms \<le> on_clock w (lg @ [Clock]) + 3000 * n" by simp
  from wait_loop_enough [OF assms(1) this]
  show "bindE (clock w) (\<lambda>now. wait_loop w (now + ms) url failure verdict timeout (Suc n + k)) s
      = bindE (clock w) (\<lambda>now. wait_loop w (now + ms) url failure verdict timeout (Suc n)) s
    \<and> fst (bindE (clock w) (\<lambda>now. wait_loop w (now + ms) url failure verdict timeout (Suc n)) s) \<noteq> Inr None"
    unfolding s by (simp add: clock_def bindE_call del: wait_loop.simps)
qed

lemma wait_settled_accepted: "clock_ok w \<Longrightarrow> wait_settled (\<lambda>fuel. waitForAccepted w fuel jobId baseUrl) 61"
  using wait_settled_deadline [of w 180000 60] unfolding waitForAccepted_def by simp

lemma wait_settled_completion: "clock_ok w \<Longrightarrow> wait_settled (\<lambda>fuel. waitForJobCompletion w fuel jobId baseUrl) 101"
  using wait_settled_deadline [of w 300000 100] unfolding waitForJobCompletion_def by simp

lemma wait_settled_flows:
  assumes "clock_ok w"
  shows "wait_settled (smoke_node w g href account_of env args promptKey ivBytes taskBytes) 61"
    and "wait_settled (smoke_demo w g account_of env args promptKey ivBytes) 61"
    and "wait_settled (smoke_gateway w g keccak account_of env args promptKey ivBytes taskBytes) 101"
proof -
  have "wait_settled (\<lambda>fuel. smoke_node w g href account_of env args promptKey ivBytes taskBytes fuel) 61"
    unfolding smoke_node_def by (intro wait_settled_bind wait_settled_then wait_settled_wait wait_settled_accepted assms)
  then show "wait_settled (smoke_node w g href account_of env args promptKey ivBytes taskBytes) 61" .
  have "wait_settled (\<lambda>fuel. smoke_demo w g account_of env args promptKey ivBytes fuel) 61"
    unfolding smoke_demo_def by (intro wait_settled_bind wait_settled_then wait_settled_wait wait_settled_accepted assms)
  then show "wait_settled (smoke_demo w g account_of env args promptKey ivBytes) 61" .
  have "wait_settled (\<lambda>fuel. smoke_gateway w g keccak account_of env args promptKey ivBytes taskBytes fuel) 101"
    unfolding smoke_gateway_def by (intro wait_settled_bind wait_settled_then wait_settled_wait wait_settled_completion assms)
  then show "wait_settled (smoke_gateway w g keccak account_of env args promptKey ivBytes taskBytes) 101" .
qed

text \<open>C20: The three flows end. If the clock counts at least the time slept, the wait of a text flow is over after at most 61 rounds
  and that of the gateway flow after at most 101: with this fuel no run runs out of it, and more fuel changes nothing,
  whatever is answered.\<close>

theorem smoke_waits_end:
  assumes "clock_ok w"
  shows "wait_settled (smoke_node w g href account_of env args promptKey ivBytes taskBytes) 61
    \<and> wait_settled (smoke_demo w g account_of env args promptKey ivBytes) 61
    \<and> wait_settled (smoke_gateway w g keccak account_of env args promptKey ivBytes taskBytes) 101"
  by (intro conjI wait_settled_flows assms)

definition slept_world :: world where
  "slept_world = offline\<lparr>on_clock := slept\<rparr>"

theorem smoke_waits_end_witness:
  "fst (smoke_node slept_world toy_gcm Inr Inr (\<lambda>_. None) [] [] [] [] 61 ([], [])) \<noteq> Inr None
   \<and> smoke_gateway slept_world toy_gcm (\<lambda>_. []) Inr (\<lambda>_. Some ''x'') [] [] [] [] (101 + 5) ([], [])
       = smoke_gateway slept_world toy_gcm (\<lambda>_. []) Inr (\<lambda>_. Some ''x'') [] [] [] [] 101 ([], [])"
proof -
  have "clock_ok slept_world" by (simp add: clock_ok_def slept_world_def slept_def)
  from smoke_waits_end [OF this] show ?thesis unfolding wait_settled_def by blast
qed

subsection \<open>One job, and its key is stored\<close>

definition is_post :: "ext \<Rightarrow> bool" where
  "is_post c = (case c of Fetch (PostJson _ _) \<Rightarrow> True | _ \<Rightarrow> False)"

abbreviation silent :: "ext \<Rightarrow> bool" where
  "silent c \<equiv> \<not> is_post c"

lemma silent_refused: "adds silent (refused what response)"
  unfolding refused_def by (intro adds_rules)

lemma silent_prompt:
  "adds silent (uploadPromptToIcl w bytes baseUrl)" "adds silent (uploadToIpfs_smoke w bytes jwt)" "adds silent (encrypt_halves w key)"
  unfolding uploadPromptToIcl_def uploadToIpfs_smoke_def encrypt_halves_def fetch_def cofhe_encrypt_def Let_def
  by (intro adds_rules silent_refused; simp add: is_post_def)+

lemma silent_quorum: "adds silent (getQuorumPreview w href baseUrl modelId)" "adds silent (gateway_nodes w c account)"
  unfolding getQuorumPreview_def gateway_nodes_def fetch_def say_def Let_def
  by (intro adds_rules silent_refused; simp add: is_post_def)+

lemma silent_fees: "adds silent (chain_fee_params w)"
  unfolding chain_fee_params_def call_defs by (intro adds_rules; simp add: is_post_def)

lemma silent_store: "adds silent (storePromptKey_smoke w failure account taskId store inputs nodes)"
  unfolding storePromptKey_smoke_def write_contract_def wait_receipt_def
  by (intro adds_rules silent_fees; simp add: is_post_def)

lemma silent_wait: "adds silent (wait_loop w deadline url failure verdict timeout fuel)"
proof (induction fuel)
  case (Suc fuel)
  show ?case unfolding wait_loop.simps clock_def fetch_def sleep_def
    by (intro adds_rules silent_refused Suc; simp add: is_post_def)
next
  case 0
  show ?case unfolding wait_loop.simps by (rule adds_base)
qed

lemma silent_read:
  "adds silent (waitForAccepted w fuel jobId baseUrl)" "adds silent (waitForJobCompletion w fuel jobId baseUrl)"
  "adds silent (smoke_output_key w status)" "adds silent (downloadAndDecrypt w decipher gateway cid key)"
  unfolding waitForAccepted_def waitForJobCompletion_def smoke_output_key_def downloadAndDecrypt_def clock_def get_permit_def
    cofhe_decrypt_def fetch_def
  by (intro adds_rules silent_wait; simp add: is_post_def)+

lemma silent_flows: "adds silent (smoke_read w decipher gateway status)" "adds silent (gateway_read w g c jobId jobStatus)"
  unfolding smoke_read_def gateway_read_def gateway_handles_def say_def fetch_def
  by (intro adds_rules silent_read silent_refused; simp add: is_post_def)+

text \<open>A store that returns was confirmed, for the two inputs that came back from CoFHE\<close>

definition smoke_tx :: "string \<Rightarrow> string \<Rightarrow> string \<Rightarrow> encrypted_input \<Rightarrow> encrypted_input \<Rightarrow> abi_value list \<Rightarrow> fee_params \<Rightarrow> contract_tx" where
  "smoke_tx account store taskId high low nodes fees =
     \<lparr>tx_account = account, tx_address = store, tx_function = ''storeKey'',
      tx_args = [AStr taskId, toContractInput high, toContractInput low, AList nodes], tx_fees = fees\<rparr>"

lemma smoke_store_confirmed:
  assumes "storePromptKey_smoke w failure account taskId store inputs allowedNodes (lg, x) = (Inr h, (lg', x'))"
  shows "\<exists>high low nodes. input_at inputs 0 = Inr high \<and> input_at inputs 1 = Inr low \<and> abi_addresses allowedNodes = Inr nodes
    \<and> confirmed w (smoke_tx account store taskId high low nodes) lg h lg' \<and> x' = x"
proof -
  obtain r s where fee: "chain_fee_params w (lg, x) = (r, s)" by (cases "chain_fee_params w (lg, x)")
  with assms obtain f where r: "r = Inr f" by (cases r) (auto simp: storePromptKey_smoke_def)
  from assms fee r obtain high low nodes where
    parts: "input_at inputs 0 = Inr high" "input_at inputs 1 = Inr low" "abi_addresses allowedNodes = Inr nodes"
    by (auto simp: storePromptKey_smoke_def split: sum.splits)
  have "bindE (chain_fee_params w) (\<lambda>f. bindE (write_contract w (smoke_tx account store taskId high low nodes f)) (\<lambda>hash.
      bindE (wait_receipt w hash) (\<lambda>status. if status \<noteq> ''success'' then throw (ErrorObj (failure @ taskId)) else ret hash))) (lg, x)
      = (Inr h, (lg', x'))"
    using assms fee r parts by (simp add: storePromptKey_smoke_def smoke_tx_def)
  from send_confirmed [OF this] parts show ?thesis by blast
qed

text \<open>\<open>posting P m\<close>: \<open>m\<close> posting at most one job, which satisfies \<open>P\<close>. \<open>backs\<close>: and only after the confirmed
  transaction that stores the key the job names\<close>

definition one_post :: "(ext \<Rightarrow> bool) \<Rightarrow> ext list \<Rightarrow> bool" where
  "one_post P new = (list_all silent new \<or> (\<exists>pre post after. new = pre @ post # after \<and> list_all silent pre \<and> P post \<and> list_all silent after))"

lemma one_postI: "list_all silent pre \<Longrightarrow> P post \<Longrightarrow> list_all silent after \<Longrightarrow> one_post P (pre @ post # after)"
  unfolding one_post_def by blast

lemma one_postE:
  assumes "one_post P new"
  obtains "list_all silent new" | pre post after where "new = pre @ post # after" "list_all silent pre" "P post" "list_all silent after"
  using assms unfolding one_post_def by blast

lemma one_post_before: "list_all silent q \<Longrightarrow> one_post P new \<Longrightarrow> one_post P (q @ new)"
  by (erule one_postE) (simp add: one_post_def, use one_postI [of "q @ _"] in simp)

lemma one_post_after: "one_post P new \<Longrightarrow> list_all silent q \<Longrightarrow> one_post P (new @ q)"
  by (erule one_postE) (simp add: one_post_def, use one_postI [of _ P _ "_ @ q"] in simp)

definition posting :: "(ext \<Rightarrow> bool) \<Rightarrow> (ext, 'x, 'a) io \<Rightarrow> bool" where
  "posting P m = (\<forall>lg x. \<exists>new. fst (snd (m (lg, x))) = lg @ new \<and> one_post P new)"

lemma posting_quiet: "adds silent m \<Longrightarrow> posting P m"
  unfolding posting_def adds_def one_post_def by blast

lemma posting_post: "P c \<Longrightarrow> (\<And>v. adds silent (k v)) \<Longrightarrow> posting P (bindE (call answer c) k)"
  unfolding posting_def
proof (intro allI)
  fix lg x
  assume P: "P c" and k: "\<And>v. adds silent (k v)"
  show "\<exists>new. fst (snd (bindE (call answer c) k (lg, x))) = lg @ new \<and> one_post P new"
  proof (cases "answer lg")
    case (Inl e)
    with P show ?thesis by (auto simp: bindE_call one_post_def intro!: exI [of _ "[]"])
  next
    case (Inr v)
    from addsD [OF k [of v], of "lg @ [c]" x] obtain new where
      "fst (snd (k v (lg @ [c], x))) = (lg @ [c]) @ new" "list_all silent new" by blast
    with P Inr show ?thesis unfolding one_post_def
      by (auto simp: bindE_call intro!: exI [of _ "c # new"] exI [of _ "[]"])
  qed
qed

lemma posting_bind: "adds silent m \<Longrightarrow> (\<And>v. posting P (k v)) \<Longrightarrow> posting P (bindE m k)"
  unfolding posting_def
proof (intro allI)
  fix lg x
  assume m: "adds silent m" and k: "\<And>v. \<forall>lg x. \<exists>new. fst (snd (k v (lg, x))) = lg @ new \<and> one_post P new"
  obtain r lg' x' where run: "m (lg, x) = (r, (lg', x'))" by (metis surj_pair)
  from addsE [OF m run] obtain q where q: "lg' = lg @ q" "list_all silent q" .
  show "\<exists>new. fst (snd (bindE m k (lg, x))) = lg @ new \<and> one_post P new"
  proof (cases r)
    case (Inl e)
    with run q show ?thesis by (simp add: one_post_def)
  next
    case (Inr v)
    with k obtain new where new: "fst (snd (k v (lg', x'))) = lg' @ new" "one_post P new" by blast
    with one_post_before [OF q(2)] q(1) run Inr show ?thesis by auto
  qed
qed

lemma posting_then_quiet: "posting P m \<Longrightarrow> (\<And>v. adds silent (k v)) \<Longrightarrow> posting P (bindE m k)"
  unfolding posting_def
proof (intro allI)
  fix lg x
  assume m: "\<forall>lg x. \<exists>new. fst (snd (m (lg, x))) = lg @ new \<and> one_post P new" and k: "\<And>v. adds silent (k v)"
  obtain r lg' x' where run: "m (lg, x) = (r, (lg', x'))" by (metis surj_pair)
  with m obtain new where new: "lg' = lg @ new" "one_post P new" by (metis fst_conv snd_conv)
  show "\<exists>new. fst (snd (bindE m k (lg, x))) = lg @ new \<and> one_post P new"
  proof (cases r)
    case (Inl e)
    with run new show ?thesis by simp
  next
    case (Inr v)
    from addsD [OF k [of v], of lg' x'] obtain q where q: "fst (snd (k v (lg', x'))) = lg' @ q" "list_all silent q" by blast
    with one_post_after [OF new(2)] new(1) run Inr show ?thesis by auto
  qed
qed

type_synonym job = "encrypted_input \<Rightarrow> encrypted_input \<Rightarrow> string \<Rightarrow> ext \<Rightarrow> bool"

definition key_backed :: "world \<Rightarrow> string \<Rightarrow> string \<Rightarrow> string \<Rightarrow> job \<Rightarrow> ext list \<Rightarrow> ext list \<Rightarrow> bool" where
  "key_backed w account store taskId job lg new =
     (list_all silent new \<or>
      (\<exists>before stored rest high low nodes h.
         confirmed w (smoke_tx account store taskId high low nodes) (lg @ before) h (lg @ stored)
         \<and> new = stored @ rest \<and> list_all silent stored \<and> one_post (job high low h) rest))"

lemma key_backed_before:
  assumes "list_all silent q" "key_backed w account store taskId job (lg @ q) new"
  shows "key_backed w account store taskId job lg (q @ new)"
proof (cases "list_all silent new")
  case False
  with assms(2) obtain before stored rest high low nodes h where
    "confirmed w (smoke_tx account store taskId high low nodes) ((lg @ q) @ before) h ((lg @ q) @ stored)"
    "new = stored @ rest" "list_all silent stored" "one_post (job high low h) rest"
    unfolding key_backed_def by blast
  with assms(1) show ?thesis unfolding key_backed_def
    by (intro disjI2 exI [of _ "q @ before"] exI [of _ "q @ stored"] exI [of _ rest]
        exI [of _ high] exI [of _ low] exI [of _ nodes] exI [of _ h]) simp
qed (use assms(1) in \<open>simp add: key_backed_def\<close>)

lemma key_backed_after:
  assumes "key_backed w account store taskId job lg new" "list_all silent q"
  shows "key_backed w account store taskId job lg (new @ q)"
proof (cases "list_all silent new")
  case False
  with assms(1) obtain before stored rest high low nodes h where
    "confirmed w (smoke_tx account store taskId high low nodes) (lg @ before) h (lg @ stored)"
    "new = stored @ rest" "list_all silent stored" "one_post (job high low h) rest"
    unfolding key_backed_def by blast
  with one_post_after [OF this(4) assms(2)] show ?thesis unfolding key_backed_def
    by (intro disjI2 exI [of _ before] exI [of _ stored] exI [of _ "rest @ q"]
        exI [of _ high] exI [of _ low] exI [of _ nodes] exI [of _ h]) simp
qed (use assms(2) in \<open>simp add: key_backed_def\<close>)

definition backs :: "world \<Rightarrow> string \<Rightarrow> string \<Rightarrow> string \<Rightarrow> job \<Rightarrow> (ext, 'x, 'a) io \<Rightarrow> bool" where
  "backs w account store taskId job m =
     (\<forall>lg x. \<exists>new. fst (snd (m (lg, x))) = lg @ new \<and> key_backed w account store taskId job lg new)"

lemma backs_quiet: "adds silent m \<Longrightarrow> backs w account store taskId job m"
  unfolding backs_def adds_def key_backed_def by blast

lemma backs_bind:
  fixes m :: "(ext, 'x, 'a) io"
  assumes m: "adds silent m" and k: "\<And>v. backs w account store taskId job (k v)"
  shows "backs w account store taskId job (bindE m k)"
  unfolding backs_def
proof (intro allI)
  fix lg and x :: 'x
  obtain r lg' x' where run: "m (lg, x) = (r, (lg', x'))" by (metis surj_pair)
  from addsE [OF m run] obtain q where q: "lg' = lg @ q" "list_all silent q" .
  show "\<exists>new. fst (snd (bindE m k (lg, x))) = lg @ new \<and> key_backed w account store taskId job lg new"
  proof (cases r)
    case (Inl e)
    with run q show ?thesis by (simp add: key_backed_def)
  next
    case (Inr v)
    from k [of v] obtain new where "fst (snd (k v (lg', x'))) = lg' @ new" "key_backed w account store taskId job lg' new"
      unfolding backs_def by blast
    with key_backed_before [OF q(2)] q(1) run Inr show ?thesis by auto
  qed
qed

lemma backs_then: "adds silent m \<Longrightarrow> backs w account store taskId job k \<Longrightarrow> backs w account store taskId job (thenE m k)"
  unfolding thenE_def by (rule backs_bind)

lemma backs_then_quiet:
  fixes m :: "(ext, 'x, 'a) io"
  assumes m: "backs w account store taskId job m" and k: "\<And>v. adds silent (k v)"
  shows "backs w account store taskId job (bindE m k)"
  unfolding backs_def
proof (intro allI)
  fix lg and x :: 'x
  obtain r lg' x' where run: "m (lg, x) = (r, (lg', x'))" by (metis surj_pair)
  with m obtain new where new: "lg' = lg @ new" "key_backed w account store taskId job lg new"
    unfolding backs_def by (metis fst_conv snd_conv)
  show "\<exists>new. fst (snd (bindE m k (lg, x))) = lg @ new \<and> key_backed w account store taskId job lg new"
  proof (cases r)
    case (Inl e)
    with run new show ?thesis by simp
  next
    case (Inr v)
    from addsD [OF k [of v], of lg' x'] obtain q where q: "fst (snd (k v (lg', x'))) = lg' @ q" "list_all silent q" by blast
    with key_backed_after [OF new(2)] new(1) run Inr show ?thesis by auto
  qed
qed

lemma backs_store:
  fixes k :: "string \<Rightarrow> (ext, 'x, 'a) io"
  assumes "\<And>h high low. input_at inputs 0 = Inr high \<Longrightarrow> input_at inputs 1 = Inr low \<Longrightarrow> posting (job high low h) (k h)"
  shows "backs w account store taskId job (bindE (storePromptKey_smoke w failure account taskId store inputs allowedNodes) k)"
  unfolding backs_def
proof (intro allI)
  fix lg and x :: 'x
  let ?m = "storePromptKey_smoke w failure account taskId store inputs allowedNodes"
  obtain r lg' x' where run: "?m (lg, x) = (r, (lg', x'))" by (metis surj_pair)
  from addsE [OF silent_store run] obtain q where q: "lg' = lg @ q" "list_all silent q" .
  show "\<exists>new. fst (snd (bindE ?m k (lg, x))) = lg @ new \<and> key_backed w account store taskId job lg new"
  proof (cases r)
    case (Inl e)
    with run q show ?thesis by (simp add: key_backed_def)
  next
    case (Inr h)
    from smoke_store_confirmed [OF run [unfolded Inr]] obtain high low nodes where
      inp: "input_at inputs 0 = Inr high" "input_at inputs 1 = Inr low"
      and conf: "confirmed w (smoke_tx account store taskId high low nodes) (lg @ []) h (lg @ q)"
      using q(1) by auto
    from assms [OF inp, of h] obtain new where new: "fst (snd (k h (lg', x'))) = lg' @ new" "one_post (job high low h) new"
      unfolding posting_def by blast
    with conf q have "key_backed w account store taskId job lg (q @ new)" unfolding key_backed_def by blast
    with run new(1) q(1) Inr show ?thesis by auto
  qed
qed

lemma backs_case_prod: "(\<And>a b. backs w account store taskId job (k a b)) \<Longrightarrow> backs w account store taskId job (case p of (a, b) \<Rightarrow> k a b)"
  by (cases p) simp

definition node_job :: "smoke \<Rightarrow> string \<Rightarrow> string \<Rightarrow> job" where
  "node_job c account taskId high low h post =
     (\<exists>promptCid leader verifiers. post = Fetch (PostJson (sm_icl c @ ''/v1/inference/requests'')
        (node_body c account taskId promptCid high low leader verifiers h)))"

definition gateway_job :: "smoke \<Rightarrow> string \<Rightarrow> string \<Rightarrow> job" where
  "gateway_job c account taskId high low h post =
     (\<exists>promptCid. post = Fetch (PostJson (sm_payment c @ ''/v1/jobs/submit'') (gateway_body c account taskId promptCid high low)))"

lemma posting_create: "P (Fetch (PostJson (sm_icl c @ ''/v1/inference/requests'') body)) \<Longrightarrow> posting P (create_job w c account cid body)"
  unfolding create_job_def fetch_def say_def Let_def
  by (rule posting_post) (assumption, intro adds_rules silent_refused)

lemma posting_gateway: "P (Fetch (PostJson (sm_payment c @ ''/v1/jobs/submit'') body)) \<Longrightarrow> posting P (gateway_post w c body)"
  unfolding gateway_post_def fetch_def say_def
  by (rule posting_post) (assumption, intro adds_rules)

lemma silent_say: "adds silent (say kvs)"
  unfolding say_def by (intro adds_rules)

lemma backs_node_submit:
  "backs w account (sm_store c) (''0x'' @ hex_of_bytes taskBytes) (node_job c account (''0x'' @ hex_of_bytes taskBytes))
     (node_submit w g href c account promptKey ivBytes taskBytes)"
proof -
  have tail: "posting (node_job c account taskId high low h) (bindE (lift (input_at inputs 0)) (\<lambda>hi. bindE (lift (input_at inputs 1)) (\<lambda>lo.
     create_job w c account promptCid (node_body c account taskId promptCid hi lo leader verifiers h))))"
    if "input_at inputs 0 = Inr high" "input_at inputs 1 = Inr low" for inputs high low taskId promptCid leader verifiers h
  proof -
    have "posting (node_job c account taskId high low h) (create_job w c account promptCid (node_body c account taskId promptCid high low leader verifiers h))"
      by (rule posting_create) (auto simp: node_job_def)
    with that show ?thesis by (simp add: posting_def)
  qed
  show ?thesis
    unfolding node_submit_def Let_def
    by (intro backs_bind backs_store tail adds_rules silent_prompt silent_quorum backs_case_prod)
qed

lemma backs_gateway_submit:
  "backs w account (sm_store c) taskId (gateway_job c account taskId) (gateway_submit w g c account taskId promptKey ivBytes)"
proof -
  have tail: "posting (gateway_job c account taskId high low h) (thenE (say kvs) (bindE (lift (input_at inputs 0)) (\<lambda>hi. bindE (lift (input_at inputs 1)) (\<lambda>lo.
     gateway_post w c (gateway_body c account taskId promptCid hi lo)))))"
    if "input_at inputs 0 = Inr high" "input_at inputs 1 = Inr low" for inputs high low promptCid h kvs
  proof -
    have "posting (gateway_job c account taskId high low h) (gateway_post w c (gateway_body c account taskId promptCid high low))"
      by (rule posting_gateway) (auto simp: gateway_job_def)
    then have "posting (gateway_job c account taskId high low h) (bindE (lift (input_at inputs 0)) (\<lambda>hi. bindE (lift (input_at inputs 1)) (\<lambda>lo.
     gateway_post w c (gateway_body c account taskId promptCid hi lo))))" using that by (simp add: posting_def)
    then show ?thesis unfolding thenE_def by (rule posting_bind [OF silent_say])
  qed
  show ?thesis
    unfolding gateway_submit_def
    by (intro backs_then backs_bind backs_store tail adds_rules silent_prompt silent_quorum silent_say)
qed

lemma silent_rest:
  "adds silent (bindE (waitForAccepted w fuel jobId base) (\<lambda>st. case st of None \<Rightarrow> ret None
     | Some status \<Rightarrow> bindE (smoke_read w decipher gateway status) (\<lambda>t. ret (Some t))))"
  "adds silent (bindE (waitForJobCompletion w fuel jobId base) (\<lambda>st. case st of None \<Rightarrow> ret None
     | Some status \<Rightarrow> bindE (gateway_read w g c jobId status) (\<lambda>t. ret (Some t))))"
  by (intro adds_rules silent_read silent_flows)+

lemma silent_connect: "adds silent (cofhe_connect w)"
  unfolding cofhe_connect_def by (intro adds_rules) (simp add: is_post_def)

text \<open>A run with this configuration: without one, or without an account, it calls nothing\<close>

definition flow_backed ::
  "world \<Rightarrow> (string \<Rightarrow> js_err + string) \<Rightarrow> string \<Rightarrow> (smoke \<Rightarrow> string \<Rightarrow> string \<Rightarrow> job) \<Rightarrow> js_err + smoke
   \<Rightarrow> (ext, smoke_line list, utext option) io \<Rightarrow> bool" where
  "flow_backed w account_of taskId job config run =
     (case config of
        Inl e \<Rightarrow> run = throw e
      | Inr c \<Rightarrow> (case account_of (sm_key c) of
          Inl e \<Rightarrow> run = throw e
        | Inr account \<Rightarrow> backs w account (sm_store c) taskId (job c account taskId) run))"

lemma flow_backedI:
  assumes "run = bindE (lift config) (\<lambda>c. bindE (lift (account_of (sm_key c))) (\<lambda>account. thenE (cofhe_connect w) (bindE (submit c account) (rest c))))"
    and "\<And>c account. backs w account (sm_store c) taskId (job c account taskId) (submit c account)"
    and "\<And>c jobId. adds silent (rest c jobId)"
  shows "flow_backed w account_of taskId job config run"
proof (cases config)
  case (Inl e)
  with assms(1) show ?thesis by (simp add: flow_backed_def fun_eq_iff)
next
  case (Inr c)
  show ?thesis
  proof (cases "account_of (sm_key c)")
    case (Inl e)
    with Inr assms(1) show ?thesis by (simp add: flow_backed_def fun_eq_iff)
  next
    case acc: (Inr account)
    have "run = thenE (cofhe_connect w) (bindE (submit c account) (rest c))"
      using assms(1) Inr acc by (simp add: fun_eq_iff)
    with Inr acc show ?thesis
      by (simp add: flow_backed_def backs_then [OF silent_connect] backs_then_quiet [OF assms(2,3)])
  qed
qed

text \<open>C19: In the two flows that store a prompt's key, whatever is answered, at most one job is posted, and only
  after the confirmed transaction that stores, for the task the job names, the two encrypted inputs whose handles the
  job names. Without a configuration or an account nothing is called at all.\<close>

theorem smoke_job_backed:
  "flow_backed w account_of (''0x'' @ hex_of_bytes taskBytes) node_job (node_config env args)
      (smoke_node w g href account_of env args promptKey ivBytes taskBytes fuel)
   \<and> flow_backed w account_of (keccak taskBytes) gateway_job (gateway_config env args)
      (smoke_gateway w g keccak account_of env args promptKey ivBytes taskBytes fuel)"
  by (intro conjI; rule flow_backedI;
      (rule smoke_node_def smoke_gateway_def backs_node_submit backs_gateway_submit silent_rest)+)

subsection \<open>The answer printed\<close>

lemma without_tag_append [simp]: "length tag = 16 \<Longrightarrow> without_tag ct tag = ct"
  by (simp add: without_tag_def tag_start_def js_slice_def)

text \<open>A blob of the nodes opens in both text flows, one of the agent SDK in the gateway flow\<close>

lemma blobs_open:
  assumes "gcm_ok g" "rng_ok rng" "length key = 32" "encryptText_shared g rng t key = Inr q" "encryptAesGcm g rng t key = Inr p"
  shows "open_node g key (packPayload_wizard q) = Inr (utf8_encode t)" "open_demo g key (packPayload_wizard q) = Inr (utf8_encode t)"
    "open_gateway g key (packAesPayload (iv p) (authTag p) (ciphertext p)) = Inr (utf8_encode t)"
proof -
  from assms(2) have ne: "rng 16 \<noteq> []" "rng 12 \<noteq> []" by (rule rng_nonempty; simp)+
  note len = rng_length [OF assms(2)]
  from gcm_okD [OF assms(1,3) ne(1), of "utf8_encode t"] obtain ct tag where
    seal: "gcm_seal g key (rng 16) (utf8_encode t) = Inr (ct, tag)" "length tag = 16"
      "gcm_open g key (rng 16) tag ct = Inr (utf8_encode t)" .
  with assms(3,4) have q: "q = payload (rng 16) tag ct" by (simp add: encryptText_shared_def)
  show "open_node g key (packPayload_wizard q) = Inr (utf8_encode t)" "open_demo g key (packPayload_wizard q) = Inr (utf8_encode t)"
    using seal(2,3) by (simp_all add: q open_node_def open_demo_def packPayload_wizard_append js_slice_def len)
  from gcm_okD [OF assms(1,3) ne(2), of "utf8_encode t"] obtain ct tag where
    seal: "gcm_seal g key (rng 12) (utf8_encode t) = Inr (ct, tag)" "length tag = 16"
      "gcm_open g key (rng 12) tag ct = Inr (utf8_encode t)" .
  with assms(5) have p: "p = payload (rng 12) tag ct" by (simp add: encryptAesGcm_def)
  show "open_gateway g key (packAesPayload (iv p) (authTag p) (ciphertext p)) = Inr (utf8_encode t)"
    using seal(2,3) by (simp add: p open_gateway_def packAesPayload_def js_slice_def len Let_def)
qed

lemma download_served:
  assumes "\<And>lg. served (on_fetch w) lg (gateway @ ''/'' @ cid) = Some blob" "decipher key blob = Inr (utf8_encode t)" "well_formed t"
  shows "downloadAndDecrypt w decipher gateway (Some (JStr cid)) key (lg, x) = (Inr t, (lg @ [Fetch (Get (gateway @ ''/'' @ cid))], x))"
  using assms(1) [of lg] assms(2,3)
  by (auto simp: downloadAndDecrypt_def fetch_def bindE_call served_def display_def utf8_roundtrip split: sum.splits if_splits)

lemma output_key_joined:
  assumes "\<And>lg. \<exists>e. on_permit w lg = Inr e" "\<And>lg. on_cofhe_decrypt w lg hh = Inr high" "\<And>lg. on_cofhe_decrypt w lg ll = Inr low"
    and "0 \<le> hh" "0 \<le> ll" "prompt_key_halves key = Inr (high, low)"
    and "obj_get ''encrypted_output_key_high'' st = Some (JStr (int_str hh))"
    and "obj_get ''encrypted_output_key_low'' st = Some (JStr (int_str ll))"
  obtains new where "smoke_output_key w st (lg, x) = (Inr key, (lg @ new, x))"
proof -
  obtain e where e: "on_permit w lg = Inr e" using assms(1) by blast
  have "length key = 32" using assms(6) by (simp add: prompt_key_halves_def split: if_splits)
  from browser_codec.split_combine [OF this] assms(6) have "combineKeyHalves_browser high low = key" by auto
  with assms e have "smoke_output_key w st (lg, x) = (Inr key, (lg @ [CofhePermit, CofheDecrypt hh, CofheDecrypt ll], x))"
    by (simp add: smoke_output_key_def get_permit_def cofhe_decrypt_def bindE_call json_BigInt_def bigint_of_int_str)
  then show thesis by (rule that)
qed

lemma int_str_nonempty: "int_str i \<noteq> []"
  by (simp add: int_str_def int_to_string_def nat_to_string.simps)

text \<open>C21: From the accepted status to the answer. When the handles of the status decrypt to the halves of the key that
  sealed the output, and a gateway serves the blob, both text flows print exactly the text sealed in the format of the nodes
  (16 bytes of IV), and the gateway flow, for a completed job, the text sealed in the format of the agent SDK and the
  chat page (12 bytes).\<close>

theorem smoke_prints_answer:
  assumes cipher: "gcm_ok g" "rng_ok rng" "well_formed t" "prompt_key_halves key = Inr (high, low)"
      "encryptText_shared g rng t key = Inr q" "encryptAesGcm g rng t key = Inr p"
    and cofhe: "\<And>lg. \<exists>e. on_permit w lg = Inr e" "\<And>lg. on_cofhe_decrypt w lg hh = Inr high" "\<And>lg. on_cofhe_decrypt w lg ll = Inr low"
      "0 \<le> hh" "0 \<le> ll"
    and handles: "\<And>st. st \<in> {status, task} \<Longrightarrow> obj_get ''encrypted_output_key_high'' st = Some (JStr (int_str hh))
        \<and> obj_get ''encrypted_output_key_low'' st = Some (JStr (int_str ll))"
    and cids: "obj_get ''output_cid'' status = Some (JStr cid)" "obj_get ''output_cid'' task = Some (JStr cid')"
    and gateway: "\<And>lg. served (on_fetch w) lg (sm_gateway c @ ''/'' @ cid) = Some (packPayload_wizard q)"
      "\<And>lg. served (on_fetch w) lg (sm_gateway c @ ''/'' @ cid') = Some (packAesPayload (iv p) (authTag p) (ciphertext p))"
    and job: "obj_get ''status'' jobStatus = Some (JStr ''COMPLETED'')" "resp_ok resp" "body_json resp = Inr task"
      "\<And>lg. on_fetch w lg (Get (sm_icl c @ ''/v1/inference/task/'' @ json_display jobId)) = Inr resp"
  shows "(\<exists>lg'. smoke_read w (open_node g) (sm_gateway c) status (lg, out)
        = (Inr t, (lg', out @ [Step (JObj [(''step'', JStr ''accepted''), (''status'', status)]), Decrypted t])))
    \<and> (\<exists>lg'. smoke_read w (open_demo g) (sm_gateway c) status (lg, out)
        = (Inr t, (lg', out @ [Step (JObj [(''step'', JStr ''accepted''), (''status'', status)]), Decrypted t])))
    \<and> (\<exists>lg' steps. gateway_read w g c jobId jobStatus (lg, out) = (Inr t, (lg', out @ steps @ [Decrypted t])))"
proof -
  from cipher(4) have len: "length key = 32" by (simp add: prompt_key_halves_def split: if_splits)
  note opened = blobs_open [OF cipher(1,2) len cipher(5,6)]
  have key: "\<exists>new. smoke_output_key w st (lg, x) = (Inr key, (lg @ new, x))" if "st \<in> {status, task}" for st lg and x :: "smoke_line list"
    using output_key_joined [OF cofhe cipher(4), of st lg x] handles [OF that] by blast
  have read: "\<exists>lg'. smoke_read w decipher (sm_gateway c) status (lg, out)
        = (Inr t, (lg', out @ [Step (JObj [(''step'', JStr ''accepted''), (''status'', status)]), Decrypted t]))"
    if "decipher key (packPayload_wizard q) = Inr (utf8_encode t)" for decipher
  proof -
    obtain new where "smoke_output_key w status (lg, out @ [Step (JObj [(''step'', JStr ''accepted''), (''status'', status)])])
        = (Inr key, (lg @ new, out @ [Step (JObj [(''step'', JStr ''accepted''), (''status'', status)])]))"
      using key [of status] by blast
    moreover have "downloadAndDecrypt w decipher (sm_gateway c) (Some (JStr cid)) key (lg', x)
        = (Inr t, (lg' @ [Fetch (Get (sm_gateway c @ ''/'' @ cid))], x))" for lg' and x :: "smoke_line list"
      by (rule download_served) (rule gateway(1), rule that, rule cipher(3))
    ultimately show ?thesis using cids(1) by (simp add: smoke_read_def say_def)
  qed
  have "task \<noteq> JNull" using cids(2) by (auto simp: obj_get_def)
  moreover have "int_str hh \<noteq> []" "int_str ll \<noteq> []" by (simp_all add: int_str_nonempty)
  ultimately have "\<exists>steps lg1. gateway_handles w c jobId jobStatus (lg, out) = (Inr task, (lg1, out @ steps))"
    using handles [of task] job by (auto simp: gateway_handles_def say_def fetch_def bindE_call json_prop_def json_truthy_def)
  then obtain steps lg1 where got: "gateway_handles w c jobId jobStatus (lg, out) = (Inr task, (lg1, out @ steps))" by blast
  from key [of task lg1 "out @ steps"] obtain new where "smoke_output_key w task (lg1, out @ steps) = (Inr key, (lg1 @ new, out @ steps))" by blast
  moreover have "downloadAndDecrypt w (open_gateway g) (sm_gateway c) (Some (JStr cid')) key (lg', x)
      = (Inr t, (lg' @ [Fetch (Get (sm_gateway c @ ''/'' @ cid'))], x))" for lg' and x :: "smoke_line list"
    by (rule download_served) (rule gateway(2), rule opened(3), rule cipher(3))
  ultimately have "\<exists>lg' steps. gateway_read w g c jobId jobStatus (lg, out) = (Inr t, (lg', out @ steps @ [Decrypted t]))"
    using got cids(2) by (simp add: gateway_read_def say_def)
  with read [of "open_node g"] read [of "open_demo g"] opened(1,2) show ?thesis by blast
qed

definition bytes_answer :: "byte list \<Rightarrow> json \<Rightarrow> byte fetch_response" where
  "bytes_answer bs j = \<lparr>status_code = 200, status_text = ''OK'', body_json = Inr j, body_text = Inr [], body_bytes = Inr bs\<rparr>"

definition printed_status :: "int \<Rightarrow> int \<Rightarrow> string \<Rightarrow> json" where
  "printed_status high low cid = JObj [(''encrypted_output_key_high'', JStr (int_str high)), (''encrypted_output_key_low'', JStr (int_str low)),
     (''output_cid'', JStr cid)]"

definition demo_blob :: "nat \<Rightarrow> aes_payload" where
  "demo_blob n = payload (toy_rng n) (replicate 16 7) [111, 107]"

definition printing_world :: "int \<Rightarrow> int \<Rightarrow> world" where
  "printing_world high low = toy_cofhe\<lparr>on_fetch := (\<lambda>_ r. Inr (
     if r = Get ''g/a'' then bytes_answer (packPayload_wizard (demo_blob 16)) JNull
     else if r = Get ''g/b'' then bytes_answer (packAesPayload (iv (demo_blob 12)) (authTag (demo_blob 12)) (ciphertext (demo_blob 12))) JNull
     else bytes_answer [] (printed_status high low ''b'')))\<rparr>"

theorem smoke_prints_answer_witness:
  "\<exists>high low lg' lg'' steps.
     smoke_read (printing_world high low) (open_node toy_gcm) ''g'' (printed_status high low ''a'') ([], [])
       = (Inr [111, 107], (lg', [Step (JObj [(''step'', JStr ''accepted''), (''status'', printed_status high low ''a'')]), Decrypted [111, 107]]))
   \<and> gateway_read (printing_world high low) toy_gcm ((smoke_common (\<lambda>_. None) [] [])\<lparr>sm_gateway := ''g''\<rparr>) (JStr ''j'')
        (JObj [(''status'', JStr ''COMPLETED'')]) ([], []) = (Inr [111, 107], (lg'', steps @ [Decrypted [111, 107]]))"
proof -
  obtain high low where hl: "prompt_key_halves (replicate 32 7) = Inr (high, low)" "0 \<le> high" "0 \<le> low"
    using browser_codec.split_combine [of "replicate 32 7"] by auto
  have enc: "utf8_encode [111, 107] = [111, 107 :: byte]" "well_formed [111, 107]"
    by (simp_all add: utf8_encode_def utf8_point_def well_formed_def scalar_def)
  let ?c = "(smoke_common (\<lambda>_. None) [] [])\<lparr>sm_gateway := ''g''\<rparr>"
  have "(\<exists>lg'. smoke_read (printing_world high low) (open_node toy_gcm) (sm_gateway ?c) (printed_status high low ''a'') ([], [])
        = (Inr [111, 107], (lg', [] @ [Step (JObj [(''step'', JStr ''accepted''), (''status'', printed_status high low ''a'')]), Decrypted [111, 107]])))
    \<and> (\<exists>lg'. smoke_read (printing_world high low) (open_demo toy_gcm) (sm_gateway ?c) (printed_status high low ''a'') ([], [])
        = (Inr [111, 107], (lg', [] @ [Step (JObj [(''step'', JStr ''accepted''), (''status'', printed_status high low ''a'')]), Decrypted [111, 107]])))
    \<and> (\<exists>lg' steps. gateway_read (printing_world high low) toy_gcm ?c (JStr ''j'') (JObj [(''status'', JStr ''COMPLETED'')]) ([], [])
        = (Inr [111, 107], (lg', [] @ steps @ [Decrypted [111, 107]])))"
  proof (rule smoke_prints_answer [OF toy_ok(1,3) enc(2) hl(1), where q = "demo_blob 16" and p = "demo_blob 12" and cid = "''a''" and cid' = "''b''"
        and hh = high and ll = low and task = "printed_status high low ''b''" and resp = "bytes_answer [] (printed_status high low ''b'')"])
    show "encryptText_shared toy_gcm toy_rng [111, 107] (replicate 32 7) = Inr (demo_blob 16)"
      by (simp add: encryptText_shared_def toy_gcm_def enc(1) demo_blob_def Let_def)
    show "encryptAesGcm toy_gcm toy_rng [111, 107] (replicate 32 7) = Inr (demo_blob 12)"
      by (simp add: encryptAesGcm_def toy_gcm_def enc(1) demo_blob_def Let_def)
  qed (auto simp: hl printing_world_def toy_cofhe_def offline_def printed_status_def obj_get_def served_def resp_ok_def bytes_answer_def
      smoke_common_def js_or_def)
  then show ?thesis by (simp add: smoke_common_def) blast
qed

end
