(* ===== verification/Spec2Isabelle.thy ===== *)
theory Spec2Isabelle
  imports Agent_Server Status_Poll Trading_Signal Chat_Outcome Risk_Submit Cofhe_Hook Bounds Status_Page Scripts Node_Hooks Local_Pages
    Chat_View Chat_Turns Chat_Spec Credit_View Site_Nav Tour_View Dashboard_View Cofhe_Bridge Smoke_Runs
begin

text \<open>
  A model of the TypeScript of Blindference, and the theorems that make it correct. Paths are below \<open>src/network/packages\<close>
  unless they start with \<open>protocol\<close> or \<open>scripts\<close>.

  \<^bold>\<open>The program.\<close> A user's prompt is sealed with a fresh AES key; the blob goes to IPFS; the key, in two halves of
  128 bits encrypted under CoFHE, goes to an on-chain store that lets a quorum of nodes decrypt it; a job that names
  blob, key and store transaction is posted to the payment service; the nodes seal an output in the same way, and whoever
  asked polls until the job is accepted, decrypts the two halves of the output key under a fresh permit, joins them,
  downloads the blob and opens it. Three programs do this: the agent SDK (\<open>agent-sdk\<close>), the chat page and
  the text wizard of the web front end (\<open>frontend\<close>), with helpers in \<open>shared\<close>. The front end has a second kind
  of request, a risk score over encrypted features kept in an on-chain vault, and pages for credits, escrows, insurance,
  history, nodes, developers and documentation. Beside them are command line scripts (\<open>payment/scripts\<close>,
  \<open>icl/scripts\<close>, \<open>scripts\<close>) and the client of a trading signal contract (\<open>protocol/packages/examples-trading-signal-sdk\<close>).

  \<^bold>\<open>How it is modelled.\<close>
  \<^item> The language: \<open>Js_Prelude\<close> (JSON, thrown values, nullish and truthy, strings), \<open>Js_BigInt\<close>, \<open>Js_Number\<close> (doubles
    and their decimals), \<open>Js_Text\<close>, \<open>Utf8\<close>. A Promise is a computation over the log of the calls made so far and a state
    (\<open>Js_World\<close>: \<open>bindE\<close>, \<open>catchE\<close>, and a calculus \<open>wp\<close> with one rule per combinator).
  \<^item> The world (\<open>External\<close>): each call to code outside (HTTP, wallet, RPC, CoFHE, the Reineira SDK, the clock) is an entry of
    the log; its answer is an arbitrary function of the log and the call, so every theorem holds for every behaviour
    of the services and chains. Ciphers, \<open>abi_encode\<close>, \<open>keccak\<close>, \<open>Date.parse\<close>, \<open>fuse\<close>, the environment variables and random bytes are
    parameters; \<open>gcm_ok\<close>, \<open>web_ok\<close>, \<open>rng_ok\<close> and \<open>permits_ok\<close> state what is documented of them.
  \<^item> React: a hook or page is a record of its states and refs; its effects, clean-ups, timers and answers in flight are the
    steps of a relation, and what is shown is a function of the record.

  \<^bold>\<open>Keys and blobs.\<close> \<open>Key_Codec\<close>: the three ways to split and join a key are interpretations of one locale (\<open>key_codec\<close>) and agree.
  \<open>Aes_Payload\<close>: four formats as interpretations of \<open>payload_codec\<close>; what the SDK or the chat seals, the SDK opens.
  \<open>Ipfs\<close>: uploads and the download with its gateways in order. \<open>Text_Key\<close>: \<open>utils/textPromptKey.ts\<close>; the key encrypted for a
  request is the key decrypted from its handles. \<open>Chain_Tx\<close>: fees, \<open>storeKey\<close>, the vault: a hash is returned only of a confirmed transaction.

  \<^bold>\<open>The agent SDK.\<close> \<open>Agent_Client\<close> and \<open>Agent\<close> are the classes, \<open>Polling\<close> the interface of both polls (\<open>poller\<close>, interpreted for
  each; 60 attempts are the code's bound), \<open>Agent_Flow\<close> the theorems on \<open>infer\<close> (no job before the stored key, the
  prompt leaves only sealed, and the output of a completed job is never opened: \<open>Key_Store\<close> is the contract that \<open>infer\<close> asks for
  the output key, whose answer does not have the type \<open>agent.ts\<close> declares), \<open>Agent_Server\<close> the routes and commands.

  \<^bold>\<open>Submissions of the front end.\<close> \<open>Key_Gate\<close> is the interface of chat and wizard (quorum, \<open>storeKey\<close>, then the job), interpreted in
  \<open>Chat_Submit\<close> and \<open>Wizard\<close>; \<open>Chat_Outcome\<close> says how a chat submission ends; \<open>Risk_Submit\<close> is the risk form; \<open>Bounds\<close> bounds the
  calls of each (the loops of the code have fixed bounds: two encryptions, five notifications, 60 polls), so each returns.
  \<open>Escrow\<close> and \<open>Credits\<close> are the hooks that move money, \<open>Frontend_Api\<close> the HTTP clients.

  \<^bold>\<open>States and what is shown.\<close> \<open>Inference_Status\<close> maps the backend's answers; \<open>Status_Poll\<close> polls them (how long the status
  of an earlier id is shown); \<open>Chat\<close> is \<open>hooks/useChat.ts\<close>, \<open>Chat_View\<close> its bubbles, panels and controls, \<open>Trace\<close> the trace; \<open>Chat_Turns\<close> runs
  the chat's effects on the status of their render, and shows that the second question of a session is given the
  first one's output; \<open>Chat_Spec\<close> is an abstract specification of a conversation and the refinement proof that the page, with its
  submissions, statuses, commits and decryptions in any order, implements it; \<open>Status_Page\<close> and \<open>Status_Display\<close> are the page of a request, \<open>Cofhe_Hook\<close> the CoFHE client of a page,
  \<open>Node_Hooks\<close> the hooks of the dashboards (three of them interpretations of \<open>fetch_hook\<close>) and the dispute forms, \<open>Dashboard_View\<close>
  and \<open>Credit_View\<close> the numbers shown, \<open>Local_Pages\<close>, \<open>History\<close> and \<open>Tour_View\<close> what the browser keeps and the tour, \<open>Site_Nav\<close> navigation and documentation.

  \<^bold>\<open>The node.\<close> \<open>Cofhe_Bridge\<close>: the process through which a node talks to CoFHE (\<open>node-reineira/scripts/cofhe_bridge.mjs\<close>), from
  the lines it reads to the lines it writes; its calls are a log of their own. Its JSON texts are parsed by \<open>Js_Json\<close> (\<open>JSON.parse\<close>, the inverse of
  printing), so what the node reads back is stated of the line itself: the key the browser sealed a prompt with.

  \<^bold>\<open>From the command line.\<close> \<open>Smoke_Flow\<close>: the three scripts that take a prompt through the whole system (\<open>node-reineira/scripts/smoke_text_flow.mjs\<close>,
  \<open>scripts/demo/smoke-text-flow.mjs\<close>, \<open>scripts/demo/smoke-gateway-flow.mjs\<close>). Their waits poll until a deadline and are given fuel; \<open>Smoke_Runs\<close> shows 61
  rounds (3 minutes of 3 seconds) and 101 (5 minutes) to be enough for every clock that counts the time slept, that a job is posted only for a stored
  key, and that the text printed is the text sealed. The two text flows use the format of the nodes, the gateway flow that of the chat page, and
  \<open>Aes_Payload\<close> shows that these do not mix (\<open>formats_misread\<close>).

  \<^bold>\<open>The rest.\<close> \<open>Scripts\<close>: the command line scripts; \<open>Trading_Signal\<close>: the client, refined against the loss computation of the contract.

  \<^bold>\<open>This theory\<close> composes the parts: a turn of the chat from the prompt to the text in the bubble (\<open>chat_turn_shown\<close>).

  \<^bold>\<open>Partial correctness is not enough here:\<close> operations are total functions, polls recurse on the attempts left, and the theorems
  on outcomes state the result of every branch, thrown values included.

  \<^bold>\<open>Not modelled.\<close> Markup, styling, animation and charts; the static pages (landing, vision, architecture, white paper) and the
  interface elements, which have no state but open menus; contract ABIs and bundler configuration; logging. The Python services, the Python of the nodes
  and the Solidity contracts (but the loss underwriter and the reading side of the key store) are other programs: only their answers occur. Dates and other
  locales are not formatted. Risk sharing permits are made one after another in node order, where the code starts them together. Doubles overflow
  nowhere in the amounts formatted here, so infinities are left out.
\<close>

section \<open>A turn of the chat, from the prompt to the answer\<close>

lemma find_last_own: "P m \<Longrightarrow> (\<And>x. x \<in> set xs \<Longrightarrow> \<not> P x) \<Longrightarrow> find P (xs @ [m]) = Some m"
  by (induction xs) auto

text \<open>What an accepted submission leaves: the answer's message is the last one, under way for the job the page waits for\<close>

lemma turn_accepted:
  assumes "turn_ended aid p page'" "sp_error page' = None" "ch_active (sp_chat page') = rid" "rid \<noteq> []"
    "sp_chat p = pushUserMessage fits u aid now prompt model c" "aid \<notin> ce_id ` set (ch_messages c)" "aid \<noteq> u"
  shows "\<exists>xs m. ch_messages (sp_chat page') = xs @ [m] \<and> ce_id m = aid \<and> \<not> ce_user m \<and> waiting rid m \<and> aid \<notin> ce_id ` set xs"
proof -
  let ?ms = "ch_messages (sp_chat page')" and ?f = "\<lambda>m. (ce_id m, ce_user m)"
  from assms(1,2,3) have all: "list_all (accepted aid rid) ?ms" and same: "map ?f ?ms = map ?f (ch_messages (sp_chat p))"
    by (simp_all add: turn_ended_def same_but_def)
  have "ch_messages (sp_chat p) = ch_messages c @ [new_entry u True prompt model S_done now, new_entry aid False [] model S_encrypting now]"
    by (simp add: assms(5) pushUserMessage_def Let_def)
  with same have map_ms: "map ?f ?ms = (map ?f (ch_messages c) @ [(u, True)]) @ [(aid, False)]"
    by (simp add: new_entry_def)
  then have ne: "?ms \<noteq> []" by auto
  then have ms: "?ms = butlast ?ms @ [last ?ms]" by simp
  have m: "ce_id (last ?ms) = aid" "\<not> ce_user (last ?ms)"
    using last_map [OF ne, of ?f] unfolding map_ms by simp_all
  have "map ?f (butlast ?ms) = map ?f (ch_messages c) @ [(u, True)]"
    unfolding map_butlast map_ms by (rule butlast_snoc)
  then have "fst ` set (map ?f (butlast ?ms)) = fst ` set (map ?f (ch_messages c) @ [(u, True)])" by (simp only:)
  then have "ce_id ` set (butlast ?ms) = insert u (ce_id ` set (ch_messages c))" by (simp add: image_image)
  with assms(6,7) have "aid \<notin> ce_id ` set (butlast ?ms)" by simp
  moreover have "waiting rid (last ?ms)"
    using all ne m assms(4) by (simp add: list_all_iff accepted_def waiting_def settled_def)
  ultimately show ?thesis using ms m by blast
qed

text \<open>The accepted status makes it ready, and the end of its decryption shows the text\<close>

lemma accepted_ready:
  assumes "ch_messages c = xs @ [m]" "ce_id m = aid" "\<not> ce_user m" "waiting (ch_active c) m" "aid \<notin> ce_id ` set xs"
    "accepted_output st = Some (hi, lo, cid)"
  shows "\<exists>ys. ch_messages (effect_accept fits False st c) = ys @ [m\<lparr>ce_outputCID := Some cid, ce_keyHigh := Some hi, ce_keyLow := Some lo,
      ce_preview := preview_of st, ce_status := Some S_ready\<rparr>] \<and> aid \<notin> ce_id ` set ys"
  using assms by (auto simp: effect_accept_def Let_def image_image)

lemma finish_shows:
  assumes "ch_messages c = ys @ [m]" "ce_id m = aid" "\<not> ce_user m"
  shows "bubble_of (last (ch_messages (manual_finish fits aid (Inr t) c))) = Text_card t (shown_preview m)"
  using assms by (simp add: manual_finish_def show_result_def bubble_of_def in_flight_def shown_preview_def)

lemma last_own:
  assumes "turn_ended aid p x"
    "sp_chat p = pushUserMessage fits u aid now prompt model c"
  shows "ch_messages (sp_chat x) \<noteq> []" "ce_id (last (ch_messages (sp_chat x))) = aid" "\<not> ce_user (last (ch_messages (sp_chat x)))"
proof -
  let ?ms = "ch_messages (sp_chat x)" and ?f = "\<lambda>m. (ce_id m, ce_user m)"
  have "map ?f ?ms = map ?f (ch_messages (sp_chat p))" using assms(1) by (simp add: turn_ended_def same_but_def)
  then have "map ?f ?ms = map ?f (ch_messages c) @ [(u, True), (aid, False)]"
    by (simp add: assms(2) pushUserMessage_def Let_def new_entry_def)
  moreover from this show ne: "?ms \<noteq> []" by auto
  ultimately show "ce_id (last ?ms) = aid" "\<not> ce_user (last ?ms)" using last_map [OF ne, of ?f] by simp_all
qed

text \<open>The first status of a request, when it is the accepted one\<close>

lemma first_status_accepted:
  assumes "hs_status h = None" "accepted_output st = Some out"
  shows "tu_chat (fst (turn_step fits (Status_arrives False st) \<lparr>tu_hook = h, tu_chat = c\<rparr>)) = effect_accept fits False st c"
  using assms accepted_stage [OF assms(2)]
  by (simp add: turn_step_def chat_effects_def progress_deps_def accept_deps_def reject_deps_def Let_def auto_start_def
      final_progress effect_reject_def split: option.splits)

text \<open>C2: a turn of the chat, from the prompt to the answer. When a prompt is submitted that no guard refuses, paid with credits,
  and the services, the wallet and the chain do their part (\<open>services_answer\<close>), then the submission returns with no error shown, the
  page waits for the job \<open>rid\<close> it was given and the last bubble shows that the answer is under way. If the hook that polls holds no status yet, as
  it does at the first request of a session, and its first status is the accepted one with the job's output, then
  the decrypt button of that bubble, at any later time, replaces it by the text
  sealed for it in the format of the page, for handles that decrypt to the halves of the sealing key and the default
  gateway serving the sealed output under the reported CID. (With the accepted status of an earlier request still held, the answer is
  made ready with that one's output: \<open>Chat_Turns\<close>. The nodes seal in another format: \<open>formats_misread\<close>. How a submission that
  is not answered ends is \<open>chat_submit_ends\<close>.)\<close>

theorem chat_turn_shown:
  assumes submit: "chat_refusal penv cn isReady (text_trim (sp_prompt page)) = None"
      "rb_assistant rnd \<notin> ce_id ` set (ch_messages (sp_chat page))" "rb_assistant rnd \<noteq> rb_user rnd"
      "cn_wallet cn = Some (Some me)" "\<not> py_escrow py" "services_answer w penv rid" "rid \<noteq> []"
      "rng_ok (rb_iv rnd)" "rng_ok (rb_key rnd)"
    and status: "hs_status h = None" "accepted_output st = Some (hi, lo, cid)"
    and crypto: "gcm_ok g" "web_ok g web" "rng_ok rng" "length key = 32" "well_formed t" "t = [] \<or> hd t \<noteq> 65279"
      "encryptAesGcm g rng t key = Inr p"
    and cofhe: "permits_ok w" "prompt_key_halves key = Inr (vh, vl)" "js_BigInt hi = Inr hh" "js_BigInt lo = Inr ll"
      "\<And>lg. on_cofhe_decrypt w lg hh = Inr vh" "\<And>lg. on_cofhe_decrypt w lg ll = Inr vl"
    and net: "penv ''VITE_IPFS_GATEWAY_URL'' = None"
      "\<And>lg. on_fetch w lg (Get (''https://ipfs.io/ipfs/'' @ cid)) = Inr answer" "status_code answer = 200"
      "body_bytes answer = Inr (packAesPayload (iv p) (authTag p) (ciphertext p))"
  shows "\<exists>lg' page'. handleChatSubmit w web penv fits rnd cn (real_client w) isReady m py (lg, page) = (Inr (), (lg', page'))
    \<and> sp_error page' = None \<and> ch_active (sp_chat page') = rid \<and> bubble_of (last (ch_messages (sp_chat page'))) = Typing
    \<and> (\<forall>later. \<exists>new c' preview. decryptMessage w web penv fits (Some (real_client w)) True (rb_assistant rnd)
            (later, tu_chat (fst (turn_step fits (Status_arrives False st) \<lparr>tu_hook = h, tu_chat = sp_chat page'\<rparr>)))
              = (Inr (), (later @ new, c'))
          \<and> bubble_of (last (ch_messages c')) = Text_card t preview)"
proof -
  let ?aid = "rb_assistant rnd"
  let ?c = "pushUserMessage fits (rb_user rnd) ?aid (rb_now rnd) (text_trim (sp_prompt page)) (tm_label m) (sp_chat page)"
  let ?p = "page\<lparr>sp_chat := ?c, sp_prompt := [], sp_error := None\<rparr>"
  obtain r lg' page' where run: "handleChatSubmit w web penv fits rnd cn (real_client w) isReady m py (lg, page) = (r, (lg', page'))"
    by (metis prod.exhaust)
  have "wp (handleChatSubmit w web penv fits rnd cn (real_client w) isReady m py)
      (\<lambda>v lg x. sp_stage x = C_idle \<and> turn_ended ?aid ?p x) (\<lambda>e lg x. False) lg page"
    by (rule submit_wp [OF submit(1)]) simp
  with run have ended: "turn_ended ?aid ?p page'" by (auto simp: wp_def split: sum.splits)
  have accepted: "r = Inr ()" "sp_error page' = None" "ch_active (sp_chat page') = rid"
    using submit_accepted [OF submit(1,4-7) crypto(1,2) submit(8,9), of fits m lg] run by (auto simp: wp_def split: sum.splits)
  have chat: "sp_chat ?p = ?c" by simp
  note own = last_own [OF ended chat]
  from ended own accepted have "accepted ?aid rid (last (ch_messages (sp_chat page')))" by (simp add: turn_ended_def list_all_iff)
  with own have typing: "bubble_of (last (ch_messages (sp_chat page'))) = Typing"
    by (simp add: accepted_def bubble_of_def in_flight_def)
  from turn_accepted [OF ended accepted(2,3) submit(7) chat submit(2,3)] obtain xs m1 where m1: "ch_messages (sp_chat page') = xs @ [m1]"
    "ce_id m1 = ?aid" "\<not> ce_user m1" "waiting (ch_active (sp_chat page')) m1" "?aid \<notin> ce_id ` set xs" unfolding accepted(3) by blast
  let ?ready = "m1\<lparr>ce_outputCID := Some cid, ce_keyHigh := Some hi, ce_keyLow := Some lo, ce_preview := preview_of st, ce_status := Some S_ready\<rparr>"
  let ?chat = "effect_accept fits False st (sp_chat page')"
  from accepted_ready [OF m1 status(2), of fits] obtain ys where ready: "ch_messages ?chat = ys @ [?ready]" "?aid \<notin> ce_id ` set ys" by blast
  have found: "find (\<lambda>m. ce_id m = ?aid \<and> \<not> ce_user m) (ch_messages ?chat) = Some ?ready"
    unfolding ready(1) using m1(2,3) ready(2) by (intro find_last_own) (auto intro: rev_image_eqI)
  from accepted_outputE [OF status(2)] have own_output: "decryptable ?ready" "ce_keyHigh ?ready = Some hi" "ce_keyLow ?ready = Some lo"
    "ce_outputCID ?ready = Some cid" by (simp_all add: decryptable_def)
  have shown: "\<exists>new c' preview. decryptMessage w web penv fits (Some (real_client w)) True ?aid (later, ?chat) = (Inr (), (later @ new, c'))
      \<and> bubble_of (last (ch_messages c')) = Text_card t preview" for later
  proof -
    have "\<exists>new. decryptMessage w web penv fits (Some (real_client w)) True ?aid (later, ?chat)
        = (Inr (), (later @ new, manual_finish fits ?aid (Inr t) ?chat))"
      by (rule decrypt_shows_sealed_output [where g = g and rng = rng and key = key and p = p and vh = vh and vl = vl and hi = hi
            and lo = lo and hh = hh and ll = ll and cid = cid and r = answer and m = "?ready"])
        (fact crypto cofhe net found own_output)+
    with finish_shows [OF ready(1), of ?aid fits t] m1(2,3) show ?thesis by auto
  qed
  have "tu_chat (fst (turn_step fits (Status_arrives False st) \<lparr>tu_hook = h, tu_chat = sp_chat page'\<rparr>)) = ?chat"
    by (rule first_status_accepted [OF status])
  with run accepted typing shown show ?thesis by auto
qed

definition turn_rnd :: random_bytes where
  "turn_rnd = \<lparr>rb_key = (\<lambda>n. replicate n 5), rb_iv = (\<lambda>n. replicate n 1), rb_task = (\<lambda>n. replicate n 2), rb_user = ''u'',
     rb_assistant = ''a'', rb_now = 5\<rparr>"

definition turn_wallet :: connection where
  "turn_wallet = \<lparr>cn_address = Some ''0xU'', cn_wallet = Some (Some ''0xU''), cn_public = True, cn_cofhe = True\<rparr>"

definition turn_env :: "string \<Rightarrow> string option" where
  "turn_env k = (if k = ''VITE_PROMPT_KEY_STORE_ADDRESS'' then Some ''0xS'' else None)"

definition turn_page :: submit_page where
  "turn_page = \<lparr>sp_chat = chat_init Absent, sp_escrow = \<lparr>eh_cachedSdk = None, eh_loading = False, eh_error = None, eh_result = None\<rparr>,
     sp_prompt = [104], sp_error = None, sp_stage = C_idle\<rparr>"

text \<open>A world that does its part: every call of the submission is answered, and of the decryption too\<close>

definition turn_world :: "byte list \<Rightarrow> int \<Rightarrow> int \<Rightarrow> world" where
  "turn_world b vh vl = (serving_world b vh vl)\<lparr>
     on_axios := (\<lambda>_ c. Inr (case c of Axios verb base path body \<Rightarrow>
         if path = ''/v1/inference/quorum-preview'' then JObj [(''leader'', JStr ''0xL''), (''verifiers'', JArr [JStr ''0xV'', JStr ''0xW''])]
         else if path = ''/v1/jobs/submit'' then JObj [(''job_id'', JStr ''job'')] else JObj [(''cid'', JStr ''Qp'')]
       | _ \<Rightarrow> JNull)),
     on_block := (\<lambda>_. Inr (Some 10)), on_write := (\<lambda>_ _. Inr ''0xh''), on_receipt := (\<lambda>_ _. Inr ''success''),
     on_cofhe_encrypt := (\<lambda>_ _. Inr [toy_input, toy_input])\<rparr>"

lemma turn_world_answers: "services_answer (turn_world b vh vl) penv ''job''"
  by (simp add: services_answer_def turn_world_def obj_get_def) (simp add: serving_world_def toy_cofhe_def offline_def)

theorem chat_turn_shown_witness:
  "\<exists>b vh vl lg' page'. let w = turn_world b vh vl in
    handleChatSubmit w toy_web turn_env (\<lambda>_. True) turn_rnd turn_wallet (real_client w) True (TEXT_MODEL_OPTIONS opt_125m)
      \<lparr>py_escrow = False, py_currency = ''cusdc'', py_insurance = False\<rparr> ([], turn_page) = (Inr (), (lg', page'))
    \<and> sp_error page' = None \<and> ch_active (sp_chat page') = ''job'' \<and> bubble_of (last (ch_messages (sp_chat page'))) = Typing
    \<and> (\<exists>new c' preview. decryptMessage w toy_web turn_env (\<lambda>_. True) (Some (real_client w)) True ''a''
          (lg', tu_chat (fst (turn_step (\<lambda>_. True) (Status_arrives False (mapJobToDemoStatus done_job))
            \<lparr>tu_hook = change_id ''job'' hook_init, tu_chat = sp_chat page'\<rparr>))) = (Inr (), (lg' @ new, c'))
        \<and> bubble_of (last (ch_messages c')) = Text_card [111, 107] preview)"
proof -
  let ?key = "replicate 32 5 :: byte list"
  obtain p where p: "encryptAesGcm toy_gcm toy_rng [111, 107] ?key = Inr p"
    using encryptAesGcm_ok [OF toy_ok(1,3), of ?key] by (metis length_replicate)
  obtain vh vl where v: "prompt_key_halves ?key = Inr (vh, vl)"
    using browser_codec.split_combine [of ?key] by auto
  let ?b = "packAesPayload (iv p) (authTag p) (ciphertext p)"
  have refusal: "chat_refusal turn_env turn_wallet True (text_trim (sp_prompt turn_page)) = None"
    by (simp add: chat_refusal_def text_trim_def is_text_space_def truthy_def turn_env_def turn_wallet_def turn_page_def)
  have handles: "js_BigInt ''7'' = Inr 7" "js_BigInt ''8'' = Inr 8" by code_simp+
  have permits: "permits_ok (turn_world ?b vh vl)" by (simp add: permits_ok_def turn_world_def serving_world_def toy_cofhe_def)
  have ids: "rb_assistant turn_rnd = ''a''" "rb_user turn_rnd = ''u''" by (simp_all add: turn_rnd_def)
  have random: "rng_ok (rb_iv turn_rnd)" "rng_ok (rb_key turn_rnd)" by (simp_all add: rng_ok_def turn_rnd_def)
  have wallet: "cn_wallet turn_wallet = Some (Some ''0xU'')" by (simp add: turn_wallet_def)
  have fresh: "hs_status (change_id ''job'' hook_init) = None" by (simp add: change_id_status)
  let ?py = "\<lparr>py_escrow = False, py_currency = ''cusdc'', py_insurance = False\<rparr>"
  let ?m = "TEXT_MODEL_OPTIONS opt_125m"
  have "\<exists>lg' page'. handleChatSubmit (turn_world ?b vh vl) toy_web turn_env (\<lambda>_. True) turn_rnd turn_wallet (real_client (turn_world ?b vh vl)) True ?m
        ?py ([], turn_page) = (Inr (), (lg', page'))
    \<and> sp_error page' = None \<and> ch_active (sp_chat page') = ''job'' \<and> bubble_of (last (ch_messages (sp_chat page'))) = Typing
    \<and> (\<forall>later. \<exists>new c' preview. decryptMessage (turn_world ?b vh vl) toy_web turn_env (\<lambda>_. True) (Some (real_client (turn_world ?b vh vl))) True ''a''
          (later, tu_chat (fst (turn_step (\<lambda>_. True) (Status_arrives False (mapJobToDemoStatus done_job))
            \<lparr>tu_hook = change_id ''job'' hook_init, tu_chat = sp_chat page'\<rparr>))) = (Inr (), (later @ new, c'))
        \<and> bubble_of (last (ch_messages c')) = Text_card [111, 107] preview)"
    by (rule chat_turn_shown [where rnd = turn_rnd, unfolded ids, OF refusal _ _ wallet _ turn_world_answers _ random fresh done_job_output
          toy_ok, where key = ?key and p = p and vh = vh and vl = vl and hh = 7 and ll = 8])
      (use p v handles permits in \<open>auto simp: well_formed_def scalar_def turn_world_def serving_world_def toy_net_def chat_init_def turn_env_def turn_page_def\<close>)
  then show ?thesis unfolding Let_def by blast
qed

end
